(* ===== verification/Py_Base.thy ===== *)
theory Py_Base
  imports Complex_Main
begin

text \<open>
  Prelude: the Python notions every component uses.  Exceptions are values of the datatype
  \<open>exc\<close>; a statement that reads and writes process state is a function of type
  \<open>('s, 'a) M\<close>, which returns either an exception or a result, together with the state
  reached so far (a Python exception does not undo the writes made before it).  The section on
  frames gives the rules by which the component theories show what a handler leaves alone.
\<close>

section \<open>Collections of facts shared by the component theories\<close>

named_theorems monad_defs \<open>the definitions of the state and exception combinators\<close>
named_theorems frame_rules \<open>rules that show an operation leaves a part of the state unchanged\<close>
named_theorems keeps_rules \<open>rules that show an operation preserves an invariant\<close>

section \<open>Exceptions\<close>

text \<open>
  The exception classes that the source raises or catches by name.  \<open>HTTPException n\<close> is
  FastAPI's exception with status code \<open>n\<close>; \<open>ApiError\<close> stands for any other exception a
  third-party package raises.
\<close>

datatype exc =
    TypeError | ValueError | NameError | AttributeError | KeyError | IndexError
  | OverflowError | ZeroDivisionError | RuntimeErr | ConnectionErr | ConfigError
  | JSONDecodeError | OSErr | DbError | DetachedInstanceError | TimeoutExpired
  | FileNotFoundErr | HTTPException nat | ApiError

text \<open>The classes that \<open>except ValueError\<close> catches (\<open>json.JSONDecodeError\<close> is a subclass).\<close>

definition is_value_error :: "exc \<Rightarrow> bool" where
  "is_value_error e \<longleftrightarrow> e = ValueError \<or> e = JSONDecodeError"

definition is_value_or_type_error :: "exc \<Rightarrow> bool" where
  "is_value_or_type_error e \<longleftrightarrow> is_value_error e \<or> e = TypeError"

text \<open>\<open>except Exception\<close>: every exception of the model.\<close>

definition any_exception :: "exc \<Rightarrow> bool" where
  "any_exception e = True"

lemma any_exception_iff [simp]: "any_exception e"
  by (simp add: any_exception_def)

type_synonym 'a res = "exc + 'a"

fun res_bind :: "'a res \<Rightarrow> ('a \<Rightarrow> 'b res) \<Rightarrow> 'b res" where
  "res_bind (Inl e) f = Inl e"
| "res_bind (Inr x) f = f x"

lemma res_bind_Inr_iff: "res_bind m f = Inr y \<longleftrightarrow> (\<exists>x. m = Inr x \<and> f x = Inr y)"
  by (cases m) auto

lemma res_bind_Inl_iff: "res_bind m f = Inl e \<longleftrightarrow> m = Inl e \<or> (\<exists>x. m = Inr x \<and> f x = Inl e)"
  by (cases m) auto

text \<open>The results of a list of computations, or the first exception.\<close>

fun those_res :: "'a res list \<Rightarrow> 'a list res" where
  "those_res [] = Inr []"
| "those_res (r # rs) = res_bind r (\<lambda>x. res_bind (those_res rs) (\<lambda>xs. Inr (x # xs)))"

section \<open>State and exceptions\<close>

type_synonym ('s, 'a) M = "'s \<Rightarrow> 'a res \<times> 's"

definition ret :: "'a \<Rightarrow> ('s, 'a) M" where
  [monad_defs]: "ret x = (\<lambda>s. (Inr x, s))"

definition raise :: "exc \<Rightarrow> ('s, 'a) M" where
  [monad_defs]: "raise e = (\<lambda>s. (Inl e, s))"

definition bindM :: "('s, 'a) M \<Rightarrow> ('a \<Rightarrow> ('s, 'b) M) \<Rightarrow> ('s, 'b) M" where
  [monad_defs]: "bindM m f = (\<lambda>s. case m s of (Inl e, t) \<Rightarrow> (Inl e, t) | (Inr x, t) \<Rightarrow> f x t)"

definition thenM :: "('s, 'a) M \<Rightarrow> ('s, 'b) M \<Rightarrow> ('s, 'b) M" where
  [monad_defs]: "thenM m k = bindM m (\<lambda>_. k)"

definition gets :: "('s \<Rightarrow> 'a) \<Rightarrow> ('s, 'a) M" where
  [monad_defs]: "gets f = (\<lambda>s. (Inr (f s), s))"

definition modifyM :: "('s \<Rightarrow> 's) \<Rightarrow> ('s, unit) M" where
  [monad_defs]: "modifyM f = (\<lambda>s. (Inr (), f s))"

definition liftR :: "'a res \<Rightarrow> ('s, 'a) M" where
  [monad_defs]: "liftR r = (\<lambda>s. (r, s))"

text \<open>\<open>try: m except P: h\<close>: the handler runs in the state the body had reached.\<close>

definition try_except :: "('s, 'a) M \<Rightarrow> (exc \<Rightarrow> bool) \<Rightarrow> (exc \<Rightarrow> ('s, 'a) M) \<Rightarrow> ('s, 'a) M" where
  [monad_defs]: "try_except m P h = (\<lambda>s. case m s of
      (Inl e, t) \<Rightarrow> if P e then h e t else (Inl e, t)
    | (Inr x, t) \<Rightarrow> (Inr x, t))"

text \<open>\<open>try: m finally: k\<close>: the clean-up runs on both exits; its own exception wins.\<close>

definition try_finally :: "('s, 'a) M \<Rightarrow> ('s, unit) M \<Rightarrow> ('s, 'a) M" where
  [monad_defs]: "try_finally m k = (\<lambda>s. case m s of (r, t) \<Rightarrow>
     (case k t of (Inl e, u) \<Rightarrow> (Inl e, u) | (Inr _, u) \<Rightarrow> (r, u)))"

text \<open>A \<open>for\<close> loop over a list, whose body may raise.\<close>

fun for_each :: "'a list \<Rightarrow> ('a \<Rightarrow> ('s, unit) M) \<Rightarrow> ('s, unit) M" where
  "for_each [] f = ret ()"
| "for_each (x # xs) f = thenM (f x) (for_each xs f)"

lemma bindM_ret [simp]: "bindM (ret x) f = f x"
  by (simp add: bindM_def ret_def)

lemma bindM_raise [simp]: "bindM (raise e) f = raise e"
  by (simp add: bindM_def raise_def)

lemma bindM_assoc: "bindM (bindM m f) g = bindM m (\<lambda>x. bindM (f x) g)"
  by (auto simp: bindM_def fun_eq_iff split: prod.splits sum.splits)

lemma thenM_ret [simp]: "thenM (ret x) k = k"
  by (simp add: thenM_def)

lemma thenM_raise [simp]: "thenM (raise e) k = raise e"
  by (simp add: thenM_def)

lemma ret_apply: "ret x s = (Inr x, s)"
  by (simp add: ret_def)

lemma raise_apply: "raise e s = (Inl e, s)"
  by (simp add: raise_def)

lemma bindM_apply_Inr: "m s = (Inr x, t) \<Longrightarrow> bindM m f s = f x t"
  by (simp add: bindM_def)

lemma bindM_apply_Inl: "m s = (Inl e, t) \<Longrightarrow> bindM m f s = (Inl e, t)"
  by (simp add: bindM_def)

lemma thenM_apply_Inr: "m s = (Inr x, t) \<Longrightarrow> thenM m k s = k t"
  by (simp add: thenM_def bindM_def)

lemma thenM_apply_Inl: "m s = (Inl e, t) \<Longrightarrow> thenM m k s = (Inl e, t)"
  by (simp add: thenM_def bindM_def)

lemma try_except_apply_Inr: "m s = (Inr x, t) \<Longrightarrow> try_except m P h s = (Inr x, t)"
  by (simp add: try_except_def)

lemma try_except_apply_Inl: "m s = (Inl e, t) \<Longrightarrow> P e \<Longrightarrow> try_except m P h s = h e t"
  by (simp add: try_except_def)

lemma bindM_InrE:
  assumes "bindM m f s = (Inr y, u)"
  obtains x t where "m s = (Inr x, t)" and "f x t = (Inr y, u)"
  using assms by (auto simp: bindM_def split: prod.splits sum.splits)

lemma thenM_InrE:
  assumes "thenM m k s = (Inr y, u)"
  obtains x t where "m s = (Inr x, t)" and "k t = (Inr y, u)"
  using assms by (auto simp: thenM_def elim: bindM_InrE)

section \<open>Frames and invariants\<close>

text \<open>
  \<open>frame f m\<close>: running \<open>m\<close> does not change the observation \<open>f\<close> of the state, whether it
  returns or raises.  \<open>keeps P m\<close>: \<open>m\<close> preserves the invariant \<open>P\<close>.
\<close>

definition frame :: "('s \<Rightarrow> 'b) \<Rightarrow> ('s, 'a) M \<Rightarrow> bool" where
  "frame f m \<longleftrightarrow> (\<forall>s. f (snd (m s)) = f s)"

definition keeps :: "('s \<Rightarrow> bool) \<Rightarrow> ('s, 'a) M \<Rightarrow> bool" where
  "keeps P m \<longleftrightarrow> (\<forall>s. P s \<longrightarrow> P (snd (m s)))"

lemma frameD: "frame f m \<Longrightarrow> m s = (r, t) \<Longrightarrow> f t = f s"
  by (metis frame_def snd_conv)

lemma frameI: "(\<And>s r t. m s = (r, t) \<Longrightarrow> f t = f s) \<Longrightarrow> frame f m"
  by (auto simp: frame_def) (metis prod.collapse)

lemma keepsD: "keeps P m \<Longrightarrow> m s = (r, t) \<Longrightarrow> P s \<Longrightarrow> P t"
  by (metis keeps_def snd_conv)

lemma keepsI: "(\<And>s r t. m s = (r, t) \<Longrightarrow> P s \<Longrightarrow> P t) \<Longrightarrow> keeps P m"
  by (auto simp: keeps_def) (metis prod.collapse)

lemma keeps_ret [keeps_rules]: "keeps P (ret x)"
  by (simp add: keeps_def ret_def)

lemma keeps_raise [keeps_rules]: "keeps P (raise e)"
  by (simp add: keeps_def raise_def)

lemma keeps_gets [keeps_rules]: "keeps P (gets g)"
  by (simp add: keeps_def gets_def)

lemma keeps_liftR [keeps_rules]: "keeps P (liftR r)"
  by (simp add: keeps_def liftR_def)

lemma keeps_bindM [keeps_rules]: "keeps P m \<Longrightarrow> (\<And>x. keeps P (f x)) \<Longrightarrow> keeps P (bindM m f)"
  by (fastforce simp: keeps_def bindM_def split: prod.splits sum.splits)

lemma keeps_thenM [keeps_rules]: "keeps P m \<Longrightarrow> keeps P k \<Longrightarrow> keeps P (thenM m k)"
  by (simp add: thenM_def keeps_bindM)

lemma keeps_try_except [keeps_rules]:
  "keeps P m \<Longrightarrow> (\<And>e. keeps P (h e)) \<Longrightarrow> keeps P (try_except m Q h)"
  by (fastforce simp: keeps_def try_except_def split: prod.splits sum.splits)

lemma keeps_try_finally [keeps_rules]: "keeps P m \<Longrightarrow> keeps P k \<Longrightarrow> keeps P (try_finally m k)"
  by (fastforce simp: keeps_def try_finally_def split: prod.splits sum.splits)

lemma keeps_if [keeps_rules]: "keeps P m \<Longrightarrow> keeps P k \<Longrightarrow> keeps P (if b then m else k)"
  by simp

lemma keeps_case_option [keeps_rules]:
  "keeps P m \<Longrightarrow> (\<And>x. keeps P (f x)) \<Longrightarrow> keeps P (case y of None \<Rightarrow> m | Some x \<Rightarrow> f x)"
  by (cases y) auto

lemma keeps_case_prod [keeps_rules]:
  "(\<And>x y. keeps P (f x y)) \<Longrightarrow> keeps P (case z of (x, y) \<Rightarrow> f x y)"
  by (cases z) auto

lemma keeps_let [keeps_rules]: "(\<And>x. keeps P (f x)) \<Longrightarrow> keeps P (let x = v in f x)"
  by simp

lemma keeps_for_each [keeps_rules]: "(\<And>x. keeps P (f x)) \<Longrightarrow> keeps P (for_each xs f)"
  by (induction xs) (auto intro: keeps_rules)

lemma keeps_modifyM: "(\<And>s. P s \<Longrightarrow> P (g s)) \<Longrightarrow> keeps P (modifyM g)"
  by (simp add: keeps_def modifyM_def)

text \<open>A frame is the preservation of every value of the observation.\<close>

lemma frame_iff_keeps: "frame f m \<longleftrightarrow> (\<forall>v. keeps (\<lambda>s. f s = v) m)"
  by (auto simp: frame_def keeps_def)

lemma frame_ret [frame_rules]: "frame f (ret x)"
  by (simp add: frame_def ret_def)

lemma frame_raise [frame_rules]: "frame f (raise e)"
  by (simp add: frame_def raise_def)

lemma frame_gets [frame_rules]: "frame f (gets g)"
  by (simp add: frame_def gets_def)

lemma frame_liftR [frame_rules]: "frame f (liftR r)"
  by (simp add: frame_def liftR_def)

lemma frame_bindM [frame_rules]: "frame f m \<Longrightarrow> (\<And>x. frame f (g x)) \<Longrightarrow> frame f (bindM m g)"
  by (simp add: frame_iff_keeps keeps_bindM)

lemma frame_thenM [frame_rules]: "frame f m \<Longrightarrow> frame f k \<Longrightarrow> frame f (thenM m k)"
  by (simp add: frame_iff_keeps keeps_thenM)

lemma frame_try_except [frame_rules]:
  "frame f m \<Longrightarrow> (\<And>e. frame f (h e)) \<Longrightarrow> frame f (try_except m Q h)"
  by (simp add: frame_iff_keeps keeps_try_except)

lemma frame_try_finally [frame_rules]: "frame f m \<Longrightarrow> frame f k \<Longrightarrow> frame f (try_finally m k)"
  by (simp add: frame_iff_keeps keeps_try_finally)

lemma frame_if [frame_rules]: "frame f m \<Longrightarrow> frame f k \<Longrightarrow> frame f (if b then m else k)"
  by simp

lemma frame_case_option [frame_rules]:
  "frame f m \<Longrightarrow> (\<And>x. frame f (g x)) \<Longrightarrow> frame f (case y of None \<Rightarrow> m | Some x \<Rightarrow> g x)"
  by (cases y) auto

lemma frame_case_prod [frame_rules]:
  "(\<And>x y. frame f (g x y)) \<Longrightarrow> frame f (case z of (x, y) \<Rightarrow> g x y)"
  by (cases z) auto

lemma frame_let [frame_rules]: "(\<And>x. frame f (g x)) \<Longrightarrow> frame f (let x = v in g x)"
  by simp

lemma frame_for_each [frame_rules]: "(\<And>x. frame f (g x)) \<Longrightarrow> frame f (for_each xs g)"
  by (simp add: frame_iff_keeps keeps_for_each)

lemma frame_modifyM: "(\<And>s. f (g s) = f s) \<Longrightarrow> frame f (modifyM g)"
  by (simp add: frame_def modifyM_def)

section \<open>Bounded growth of a measure\<close>

text \<open>\<open>cost f m d\<close>: running \<open>m\<close> adds at most \<open>d\<close> to the measure \<open>f\<close> of the state.\<close>

definition cost :: "('s \<Rightarrow> int) \<Rightarrow> ('s, 'a) M \<Rightarrow> int \<Rightarrow> bool" where
  "cost f m d \<longleftrightarrow> (\<forall>s. f (snd (m s)) \<le> f s + d)"

lemma costD: "cost f m d \<Longrightarrow> m s = (r, t) \<Longrightarrow> f t \<le> f s + d"
  by (metis snd_conv cost_def)

lemma cost_ret: "0 \<le> d \<Longrightarrow> cost f (ret x) d"
  by (simp add: cost_def ret_def)

lemma cost_raise: "0 \<le> d \<Longrightarrow> cost f (raise e) d"
  by (simp add: cost_def raise_def)

lemma cost_gets: "0 \<le> d \<Longrightarrow> cost f (gets g) d"
  by (simp add: cost_def gets_def)

lemma cost_bindM:
  assumes "cost f m a" and "\<And>x. cost f (g x) b" and "0 \<le> b"
  shows "cost f (bindM m g) (a + b)"
  unfolding cost_def
proof
  fix w
  obtain r u where m: "m w = (r, u)" by force
  show "f (snd (bindM m g w)) \<le> f w + (a + b)"
    using costD [OF assms(1) m] assms(2,3)
    by (cases r) (auto simp: bindM_def m cost_def intro: order_trans [of _ "f u + b"])
qed

lemma cost_thenM: "cost f m a \<Longrightarrow> cost f k b \<Longrightarrow> 0 \<le> b \<Longrightarrow> cost f (thenM m k) (a + b)"
  by (simp add: thenM_def cost_bindM)

lemma cost_try_except:
  assumes "cost f m a" and "\<And>e. cost f (h e) b" and "0 \<le> b"
  shows "cost f (try_except m P h) (a + b)"
  unfolding cost_def
proof
  fix w
  obtain r u where m: "m w = (r, u)" by force
  show "f (snd (try_except m P h w)) \<le> f w + (a + b)"
    using costD [OF assms(1) m] assms(2,3)
    by (cases r) (auto simp: try_except_def m cost_def intro: order_trans [of _ "f u + b"])
qed

lemma cost_mono: "cost f m a \<Longrightarrow> a \<le> b \<Longrightarrow> cost f m b"
  unfolding cost_def by (meson add_left_mono order_trans)

lemma cost_frame: "frame f m \<Longrightarrow> cost f m 0"
  by (simp add: cost_def frame_def)

lemma cost_if: "cost f m d \<Longrightarrow> cost f k d \<Longrightarrow> cost f (if b then m else k) d"
  by simp

section \<open>Operations that return\<close>

definition never_raises :: "('s, 'a) M \<Rightarrow> bool" where
  "never_raises m \<longleftrightarrow> (\<forall>s. \<exists>x t. m s = (Inr x, t))"

named_theorems returns_rules \<open>rules that show an operation does not raise\<close>

lemma never_raisesE:
  assumes "never_raises m"
  obtains x t where "m s = (Inr x, t)"
  using assms unfolding never_raises_def by blast

lemma never_raises_ret [returns_rules]: "never_raises (ret x)"
  by (simp add: never_raises_def ret_def)

lemma never_raises_gets [returns_rules]: "never_raises (gets f)"
  by (simp add: never_raises_def gets_def)

lemma never_raises_modifyM [returns_rules]: "never_raises (modifyM f)"
  by (simp add: never_raises_def modifyM_def)

lemma never_raises_bindM [returns_rules]:
  assumes "never_raises m" and "\<And>x. never_raises (f x)"
  shows "never_raises (bindM m f)"
  unfolding never_raises_def
proof
  fix s
  obtain x t where "m s = (Inr x, t)" using assms(1) by (rule never_raisesE)
  moreover obtain y u where "f x t = (Inr y, u)" using assms(2) by (rule never_raisesE)
  ultimately show "\<exists>z v. bindM m f s = (Inr z, v)" by (simp add: bindM_def)
qed

lemma never_raises_thenM [returns_rules]:
  "never_raises m \<Longrightarrow> never_raises k \<Longrightarrow> never_raises (thenM m k)"
  by (simp add: thenM_def never_raises_bindM)

lemma never_raises_try [returns_rules]:
  "(\<And>e. never_raises (h e)) \<Longrightarrow> never_raises (try_except m any_exception h)"
  unfolding never_raises_def try_except_def by (fastforce split: prod.split sum.split)

lemma never_raises_if [returns_rules]:
  "never_raises m \<Longrightarrow> never_raises k \<Longrightarrow> never_raises (if b then m else k)"
  by simp

lemma never_raises_case_option [returns_rules]:
  "never_raises m \<Longrightarrow> (\<And>x. never_raises (f x)) \<Longrightarrow> never_raises (case y of None \<Rightarrow> m | Some x \<Rightarrow> f x)"
  by (cases y) auto

lemma never_raises_case_prod [returns_rules]:
  "(\<And>x y. never_raises (f x y)) \<Longrightarrow> never_raises (case z of (x, y) \<Rightarrow> f x y)"
  by (cases z) auto

lemma never_raises_for_each [returns_rules]:
  "(\<And>x. never_raises (f x)) \<Longrightarrow> never_raises (for_each xs f)"
  by (induction xs) (auto intro: returns_rules)

section \<open>Lists\<close>

text \<open>\<open>s[:n]\<close> with a non-negative bound is \<open>take\<close>; \<open>s.tail(n)\<close> keeps the last \<open>n\<close> items.\<close>

definition tail_n :: "nat \<Rightarrow> 'a list \<Rightarrow> 'a list" where
  "tail_n n xs = drop (length xs - n) xs"

lemma length_tail_n [simp]: "length (tail_n n xs) = min n (length xs)"
  by (simp add: tail_n_def)

lemma set_tail_n_subset: "set (tail_n n xs) \<subseteq> set xs"
  by (simp add: tail_n_def set_drop_subset)

text \<open>Updating the fields of every row that satisfies a condition (a SQL \<open>UPDATE .. WHERE\<close>).\<close>

definition update_where :: "('a \<Rightarrow> bool) \<Rightarrow> ('a \<Rightarrow> 'a) \<Rightarrow> 'a list \<Rightarrow> 'a list" where
  "update_where P f xs = map (\<lambda>x. if P x then f x else x) xs"

lemma length_update_where [simp]: "length (update_where P f xs) = length xs"
  by (simp add: update_where_def)

lemma in_update_where: "y \<in> set (update_where P f xs) \<longleftrightarrow>
    (\<exists>x \<in> set xs. (P x \<and> y = f x) \<or> (\<not> P x \<and> y = x))"
  by (auto simp: update_where_def)

lemma map_update_where: "(\<And>x. g (f x) = g x) \<Longrightarrow> map g (update_where P f xs) = map g xs"
  by (simp add: update_where_def)

text \<open>The first row in a list that satisfies a condition, as \<open>.limit(1)\<close> returns it.\<close>

lemma find_Some_in: "List.find P xs = Some x \<Longrightarrow> x \<in> set xs \<and> P x"
  by (induction xs) (auto split: if_splits)

lemma find_None_iff': "List.find P xs = None \<longleftrightarrow> (\<forall>x \<in> set xs. \<not> P x)"
  by (induction xs) auto

end
