(* ===== verification/Py_Float.thy ===== *)
theory Py_Float
  imports Py_Base
begin

text \<open>
  Python floats.  A value is a finite number, one of the infinities or NaN.  Comparisons,
  \<open>min\<close>, \<open>max\<close>, conversions and the special values follow Python; finite arithmetic is
  exact, so the rounding and the overflow of IEEE doubles are not modelled.  Python's \<open>/\<close>
  raises \<open>ZeroDivisionError\<close>, which \<open>fdiv\<close> returns; numpy's elementwise division instead
  gives an infinity or NaN and is \<open>np_div\<close>.
\<close>

datatype pyfloat = Fin real | PInf | NInf | NaN

fun is_nan :: "pyfloat \<Rightarrow> bool" where
  "is_nan NaN = True"
| "is_nan _ = False"

fun is_fin :: "pyfloat \<Rightarrow> bool" where
  "is_fin (Fin _) = True"
| "is_fin _ = False"

lemma is_fin_iff: "is_fin x \<longleftrightarrow> (\<exists>r. x = Fin r)"
  by (cases x) auto

section \<open>Arithmetic\<close>

instantiation pyfloat :: "{zero, one, plus, uminus, minus, times}"
begin

definition zero_pyfloat :: pyfloat where
  "0 = Fin 0"

definition one_pyfloat :: pyfloat where
  "1 = Fin 1"

fun plus_pyfloat :: "pyfloat \<Rightarrow> pyfloat \<Rightarrow> pyfloat" where
  "Fin a + Fin b = Fin (a + b)"
| "NaN + y = NaN"
| "x + NaN = NaN"
| "PInf + NInf = NaN"
| "NInf + PInf = NaN"
| "PInf + y = PInf"
| "NInf + y = NInf"
| "x + PInf = PInf"
| "x + NInf = NInf"

fun uminus_pyfloat :: "pyfloat \<Rightarrow> pyfloat" where
  "- Fin a = Fin (- a)"
| "- PInf = NInf"
| "- NInf = PInf"
| "- NaN = NaN"

definition minus_pyfloat :: "pyfloat \<Rightarrow> pyfloat \<Rightarrow> pyfloat" where
  "x - y = x + (- (y :: pyfloat))"

text \<open>An infinity times a number has the sign of the product; times zero it is NaN.\<close>

fun inf_times :: "real \<Rightarrow> bool \<Rightarrow> pyfloat" where
  "inf_times a pos = (if a = 0 then NaN else if (a > 0) = pos then PInf else NInf)"

fun times_pyfloat :: "pyfloat \<Rightarrow> pyfloat \<Rightarrow> pyfloat" where
  "Fin a * Fin b = Fin (a * b)"
| "NaN * y = NaN"
| "x * NaN = NaN"
| "PInf * Fin b = inf_times b True"
| "NInf * Fin b = inf_times b False"
| "Fin a * PInf = inf_times a True"
| "Fin a * NInf = inf_times a False"
| "PInf * PInf = PInf"
| "NInf * NInf = PInf"
| "PInf * NInf = NInf"
| "NInf * PInf = NInf"

instance ..

end

text \<open>Python's \<open>sum\<close> is a left fold from zero; addition is associative, so \<open>sum_list\<close> is it.\<close>

instance pyfloat :: comm_monoid_add
proof
  fix a b c :: pyfloat
  show "a + b + c = a + (b + c)"
    by (cases a; cases b; cases c; simp)
  show "a + b = b + a"
    by (cases a; cases b; simp add: add.commute)
  show "0 + a = a"
    by (cases a; simp add: zero_pyfloat_def)
qed

lemma Fin_minus [simp]: "Fin a - Fin b = Fin (a - b)"
  by (simp add: minus_pyfloat_def)

lemma NaN_minus [simp]: "NaN - x = NaN" "x - NaN = NaN"
  by (simp_all add: minus_pyfloat_def) (cases x; simp)

lemma plus_NaN [simp]: "x + NaN = NaN"
  by (cases x) simp_all

lemma times_NaN [simp]: "x * NaN = NaN"
  by (cases x) simp_all

lemma sum_list_Fin [simp]: "sum_list (map Fin xs) = Fin (sum_list xs)"
  by (induction xs) (simp_all add: zero_pyfloat_def)

lemma sum_list_Fin_fun: "sum_list (map (\<lambda>x. Fin (g x)) xs) = Fin (\<Sum>x\<leftarrow>xs. g x)"
  using sum_list_Fin [of "map g xs"] by (simp add: comp_def)

section \<open>Comparison\<close>

instantiation pyfloat :: ord
begin

fun less_pyfloat :: "pyfloat \<Rightarrow> pyfloat \<Rightarrow> bool" where
  "Fin a < Fin b \<longleftrightarrow> a < b"
| "NaN < y \<longleftrightarrow> False"
| "x < NaN \<longleftrightarrow> False"
| "NInf < NInf \<longleftrightarrow> False"
| "NInf < y \<longleftrightarrow> True"
| "x < NInf \<longleftrightarrow> False"
| "PInf < y \<longleftrightarrow> False"
| "x < PInf \<longleftrightarrow> True"

text \<open>\<open>a <= b\<close>; false as soon as one side is NaN.\<close>

definition less_eq_pyfloat :: "pyfloat \<Rightarrow> pyfloat \<Rightarrow> bool" where
  "x \<le> y \<longleftrightarrow> x < y \<or> ((x :: pyfloat) = y \<and> \<not> is_nan x)"

instance ..

end

lemma Fin_le [simp]: "Fin a \<le> Fin b \<longleftrightarrow> a \<le> b"
  by (auto simp: less_eq_pyfloat_def)

lemma not_less_NaN [simp]: "\<not> x < NaN"
  by (cases x) simp_all

lemma not_le_NaN [simp]: "\<not> x \<le> NaN" "\<not> NaN \<le> x"
  by (auto simp: less_eq_pyfloat_def)

lemma Fin_le_infinities [simp]:
  "Fin a \<le> PInf" "\<not> PInf \<le> Fin a" "NInf \<le> Fin a" "\<not> Fin a \<le> NInf"
  by (simp_all add: less_eq_pyfloat_def)

text \<open>\<open>==\<close> on floats: NaN is different from everything.\<close>

definition feq :: "pyfloat \<Rightarrow> pyfloat \<Rightarrow> bool" where
  "feq x y \<longleftrightarrow> x = y \<and> \<not> is_nan x"

lemma feq_Fin [simp]: "feq (Fin a) (Fin b) \<longleftrightarrow> a = b"
  by (simp add: feq_def)

lemma feq_Fin_right [simp]: "feq x (Fin a) \<longleftrightarrow> x = Fin a"
  by (auto simp: feq_def)

text \<open>Truth value of a float: everything but zero (NaN included).\<close>

definition ftrue :: "pyfloat \<Rightarrow> bool" where
  "ftrue x \<longleftrightarrow> x \<noteq> Fin 0"

text \<open>\<open>min(a, b)\<close> keeps its first argument unless the second is smaller; \<open>max\<close> likewise.\<close>

definition py_min :: "pyfloat \<Rightarrow> pyfloat \<Rightarrow> pyfloat" where
  "py_min a b = (if b < a then b else a)"

definition py_max :: "pyfloat \<Rightarrow> pyfloat \<Rightarrow> pyfloat" where
  "py_max a b = (if a < b then b else a)"

lemma py_min_Fin [simp]: "py_min (Fin a) (Fin b) = Fin (min a b)"
  by (simp add: py_min_def min_def)

lemma py_max_Fin [simp]: "py_max (Fin a) (Fin b) = Fin (max a b)"
  by (simp add: py_max_def max_def)

text \<open>Clamping to a finite interval yields a finite value of it, NaN included.\<close>

lemma clamp_unit_interval:
  assumes "lo \<le> hi"
  shows "\<exists>r. py_max (Fin lo) (py_min (Fin hi) x) = Fin r \<and> lo \<le> r \<and> r \<le> hi"
  using assms by (cases x) (auto simp: py_min_def py_max_def)

fun fabs :: "pyfloat \<Rightarrow> pyfloat" where
  "fabs (Fin a) = Fin \<bar>a\<bar>"
| "fabs PInf = PInf"
| "fabs NInf = PInf"
| "fabs NaN = NaN"

section \<open>Division and conversions\<close>

text \<open>Division by a non-zero number; shared by Python's and numpy's division.\<close>

fun fdiv_nz :: "pyfloat \<Rightarrow> pyfloat \<Rightarrow> pyfloat" where
  "fdiv_nz (Fin a) (Fin b) = Fin (a / b)"
| "fdiv_nz NaN y = NaN"
| "fdiv_nz x NaN = NaN"
| "fdiv_nz PInf (Fin b) = (if b < 0 then NInf else PInf)"
| "fdiv_nz NInf (Fin b) = (if b < 0 then PInf else NInf)"
| "fdiv_nz (Fin a) y = Fin 0"
| "fdiv_nz x y = NaN"

definition fdiv :: "pyfloat \<Rightarrow> pyfloat \<Rightarrow> pyfloat res" where
  "fdiv x y = (if y = Fin 0 then Inl ZeroDivisionError else Inr (fdiv_nz x y))"

definition np_div :: "pyfloat \<Rightarrow> pyfloat \<Rightarrow> pyfloat" where
  "np_div x y = (if y = Fin 0
     then (if 0 < x then PInf else if x < 0 then NInf else NaN)
     else fdiv_nz x y)"

lemma fdiv_Fin [simp]: "b \<noteq> 0 \<Longrightarrow> fdiv (Fin a) (Fin b) = Inr (Fin (a / b))"
  by (simp add: fdiv_def)

lemma np_div_Fin [simp]: "b \<noteq> 0 \<Longrightarrow> np_div (Fin a) (Fin b) = Fin (a / b)"
  by (simp add: np_div_def)

text \<open>\<open>x / 100.0\<close> and other divisions by a literal cannot raise.\<close>

definition fdiv_lit :: "pyfloat \<Rightarrow> real \<Rightarrow> pyfloat" where
  "fdiv_lit x b = fdiv_nz x (Fin b)"

lemma fdiv_lit_Fin [simp]: "fdiv_lit (Fin a) b = Fin (a / b)"
  by (simp add: fdiv_lit_def)

text \<open>\<open>int(x)\<close>: truncation towards zero.\<close>

definition trunc_real :: "real \<Rightarrow> int" where
  "trunc_real a = (if 0 \<le> a then \<lfloor>a\<rfloor> else \<lceil>a\<rceil>)"

fun py_int :: "pyfloat \<Rightarrow> int res" where
  "py_int (Fin a) = Inr (trunc_real a)"
| "py_int NaN = Inl ValueError"
| "py_int _ = Inl OverflowError"

lemma trunc_real_nonneg: "0 \<le> a \<Longrightarrow> 0 \<le> trunc_real a \<and> of_int (trunc_real a) \<le> a"
  by (simp add: trunc_real_def)

lemma trunc_real_pos: "0 < trunc_real a \<Longrightarrow> 0 < a \<and> of_int (trunc_real a) \<le> a"
  by (auto simp: trunc_real_def split: if_splits)

text \<open>\<open>round(x, n)\<close>: to the nearest multiple of \<open>10 ^ -n\<close>, ties to the even one.\<close>

definition round_half_even :: "real \<Rightarrow> int" where
  "round_half_even a = (let n = \<lfloor>a\<rfloor>; f = a - of_int n in
     if f < 1/2 then n else if f > 1/2 then n + 1 else if even n then n else n + 1)"

definition round_real :: "nat \<Rightarrow> real \<Rightarrow> real" where
  "round_real n a = of_int (round_half_even (a * 10 ^ n)) / 10 ^ n"

fun fround :: "nat \<Rightarrow> pyfloat \<Rightarrow> pyfloat" where
  "fround n (Fin a) = Fin (round_real n a)"
| "fround n x = x"

lemma round_half_even_error: "\<bar>of_int (round_half_even a) - a\<bar> \<le> (1/2 :: real)"
proof -
  define n where "n = \<lfloor>a\<rfloor>"
  have "of_int n \<le> a" "a < of_int n + 1" unfolding n_def by linarith+
  then show ?thesis
    unfolding round_half_even_def Let_def abs_le_iff n_def [symmetric] by auto
qed

lemma round_half_even_mono:
  assumes "a \<le> b"
  shows "round_half_even a \<le> round_half_even b"
proof (cases "\<lfloor>a\<rfloor> = \<lfloor>b\<rfloor>")
  case True
  with assms show ?thesis by (auto simp: round_half_even_def Let_def)
next
  case False
  with assms have "\<lfloor>a\<rfloor> + 1 \<le> \<lfloor>b\<rfloor>" by (metis add1_zle_eq floor_mono order_le_less)
  moreover have "round_half_even a \<le> \<lfloor>a\<rfloor> + 1" "\<lfloor>b\<rfloor> \<le> round_half_even b"
    by (auto simp: round_half_even_def Let_def)
  ultimately show ?thesis by linarith
qed

lemma round_real_mono: "a \<le> b \<Longrightarrow> round_real n a \<le> round_real n b"
  by (simp add: round_real_def divide_right_mono round_half_even_mono)

lemma round_half_even_of_int [simp]: "round_half_even (of_int k) = k"
  by (simp add: round_half_even_def)

lemma round_real_error: "\<bar>round_real n a - a\<bar> \<le> 1 / (2 * 10 ^ n)"
proof -
  have "round_real n a - a = (of_int (round_half_even (a * 10 ^ n)) - a * 10 ^ n) / 10 ^ n"
    by (simp add: round_real_def field_simps)
  then have "\<bar>round_real n a - a\<bar> = \<bar>of_int (round_half_even (a * 10 ^ n)) - a * 10 ^ n\<bar> / 10 ^ n"
    by (simp add: abs_divide)
  also have "\<dots> \<le> (1/2) / 10 ^ n"
    using round_half_even_error by (rule divide_right_mono) simp
  finally show ?thesis by simp
qed

end
