(* ===== verification/Py_Str.thy ===== *)
theory Py_Str
  imports Py_Float
begin

text \<open>
  Python strings and their conversions, as far as the source uses them.  A string is a list of
  characters; the case mappings and the white space are those of ASCII.  \<open>int(s)\<close> and
  \<open>float(s)\<close> are the parsers \<open>parse_int\<close> and \<open>parse_float\<close>, \<open>str(n)\<close> of an integer is
  \<open>show_int\<close>, and \<open>f"{x:.2f}"\<close> is \<open>show_fixed 2\<close>.
\<close>

section \<open>Case, white space, splitting\<close>

abbreviation code :: "char \<Rightarrow> nat" where
  "code c \<equiv> of_char c"

definition lower_char :: "char \<Rightarrow> char" where
  "lower_char c = (if 65 \<le> code c \<and> code c \<le> 90 then char_of (code c + 32) else c)"

definition upper_char :: "char \<Rightarrow> char" where
  "upper_char c = (if 97 \<le> code c \<and> code c \<le> 122 then char_of (code c - 32) else c)"

definition py_lower :: "string \<Rightarrow> string" where
  "py_lower s = map lower_char s"

definition py_upper :: "string \<Rightarrow> string" where
  "py_upper s = map upper_char s"

definition is_space :: "char \<Rightarrow> bool" where
  "is_space c \<longleftrightarrow> (9 \<le> code c \<and> code c \<le> 13) \<or> (28 \<le> code c \<and> code c \<le> 32)"

definition strip :: "string \<Rightarrow> string" where
  "strip s = rev (dropWhile is_space (rev (dropWhile is_space s)))"

text \<open>\<open>s.split(c)\<close> for a one-character separator; the result is never empty.\<close>

fun split_on :: "char \<Rightarrow> string \<Rightarrow> string list" where
  "split_on c [] = [[]]"
| "split_on c (x # xs) =
     (if x = c then [] # split_on c xs
      else case split_on c xs of [] \<Rightarrow> [[x]] | w # ws \<Rightarrow> (x # w) # ws)"

definition starts_with :: "string \<Rightarrow> string \<Rightarrow> bool" where
  "starts_with p s \<longleftrightarrow> take (length p) s = p"

text \<open>\<open>p in s\<close> on strings.\<close>

fun contains :: "string \<Rightarrow> string \<Rightarrow> bool" where
  "contains p [] \<longleftrightarrow> p = []"
| "contains p (x # xs) \<longleftrightarrow> starts_with p (x # xs) \<or> contains p xs"

lemma split_on_not_Nil [simp]: "split_on c s \<noteq> []"
  by (induction s) (auto split: list.splits)

lemma split_on_no_sep: "w \<in> set (split_on c s) \<Longrightarrow> c \<notin> set w"
proof (induction s arbitrary: w)
  case Nil
  then show ?case by simp
next
  case (Cons x xs)
  then show ?case by (cases "split_on c xs") (auto split: if_splits)
qed

lemma upper_char_upper_char [simp]: "upper_char (upper_char c) = upper_char c"
  by (auto simp: upper_char_def)

lemma py_upper_idem [simp]: "py_upper (py_upper s) = py_upper s"
  by (simp add: py_upper_def comp_def)

section \<open>Integers\<close>

definition digit_char :: "nat \<Rightarrow> char" where
  "digit_char d = char_of (48 + d)"

fun show_nat :: "nat \<Rightarrow> string" where
  "show_nat n = (if n < 10 then [digit_char n] else show_nat (n div 10) @ [digit_char (n mod 10)])"

declare show_nat.simps [simp del]

definition show_int :: "int \<Rightarrow> string" where
  "show_int n = (if n < 0 then CHR ''-'' # show_nat (nat (- n)) else show_nat (nat n))"

definition is_digit :: "char \<Rightarrow> bool" where
  "is_digit c \<longleftrightarrow> 48 \<le> code c \<and> code c \<le> 57"

definition digit_val :: "char \<Rightarrow> nat" where
  "digit_val c = code c - 48"

text \<open>
  A run of digits, in which Python allows single underscores between digits.  The accumulator
  holds the value and the number of digits read; the result also holds the rest of the input.
\<close>

fun digits :: "nat \<Rightarrow> nat \<Rightarrow> string \<Rightarrow> nat \<times> nat \<times> string" where
  "digits v k [] = (v, k, [])"
| "digits v k (c # cs) =
     (if is_digit c then digits (10 * v + digit_val c) (Suc k) cs
      else if c = CHR ''_'' \<and> 0 < k \<and> cs \<noteq> [] \<and> is_digit (hd cs) then digits v k cs
      else (v, k, c # cs))"

definition sign_of :: "string \<Rightarrow> int \<times> string" where
  "sign_of s = (case s of
      c # cs \<Rightarrow> if c = CHR ''-'' then (-1, cs) else if c = CHR ''+'' then (1, cs) else (1, s)
    | [] \<Rightarrow> (1, s))"

definition parse_int :: "string \<Rightarrow> int option" where
  "parse_int raw = (case sign_of (strip raw) of (sg, body) \<Rightarrow>
     (case digits 0 0 body of (v, k, rest) \<Rightarrow>
        if k = 0 \<or> rest \<noteq> [] then None else Some (sg * int v)))"

lemma code_digit_char: "d < 10 \<Longrightarrow> code (digit_char d) = 48 + d"
  by (simp add: digit_char_def)

lemma is_digit_digit_char: "d < 10 \<Longrightarrow> is_digit (digit_char d)"
  by (simp add: is_digit_def code_digit_char)

lemma digit_val_digit_char: "d < 10 \<Longrightarrow> digit_val (digit_char d) = d"
  by (simp add: digit_val_def code_digit_char)

lemma digits_snoc:
  "digits v k (ds @ rest) = digits (10 ^ length ds * v + foldl (\<lambda>a c. 10 * a + digit_val c) 0 ds)
     (k + length ds) rest" if "\<forall>c \<in> set ds. is_digit c"
proof -
  have foldl_lin: "foldl (\<lambda>a c. 10 * a + digit_val c) x es =
      10 ^ length es * x + foldl (\<lambda>a c. 10 * a + digit_val c) 0 es" for x es
  proof (induction es arbitrary: x)
    case Nil
    then show ?case by simp
  next
    case (Cons e es)
    show ?case
      using Cons [of "10 * x + digit_val e"] Cons [of "digit_val e"]
      by (simp add: algebra_simps)
  qed
  show ?thesis
    using that
  proof (induction ds arbitrary: v k)
    case Nil
    then show ?case by simp
  next
    case (Cons c ds)
    have "digits v k ((c # ds) @ rest) = digits (10 * v + digit_val c) (Suc k) (ds @ rest)"
      using Cons.prems by simp
    also have "\<dots> = digits (10 ^ length ds * (10 * v + digit_val c)
        + foldl (\<lambda>a c. 10 * a + digit_val c) 0 ds) (Suc k + length ds) rest"
      using Cons.prems by (intro Cons.IH) simp
    also have "10 ^ length ds * (10 * v + digit_val c) + foldl (\<lambda>a c. 10 * a + digit_val c) 0 ds
        = 10 ^ length (c # ds) * v + foldl (\<lambda>a c. 10 * a + digit_val c) 0 (c # ds)"
      using foldl_lin [of "digit_val c" ds] by (simp add: algebra_simps)
    finally show ?case by simp
  qed
qed

lemma show_nat_digits:
  "(\<forall>c \<in> set (show_nat n). is_digit c) \<and> show_nat n \<noteq> []
   \<and> foldl (\<lambda>a c. 10 * a + digit_val c) 0 (show_nat n) = n"
proof (induction n rule: show_nat.induct)
  case (1 n)
  show ?case
  proof (cases "n < 10")
    case True
    then show ?thesis
      by (simp add: show_nat.simps [of n] is_digit_digit_char digit_val_digit_char)
  next
    case False
    with 1 show ?thesis
      by (simp add: show_nat.simps [of n] is_digit_digit_char digit_val_digit_char)
  qed
qed

lemma digits_show_nat: "digits 0 0 (show_nat n) = (n, length (show_nat n), [])"
  using digits_snoc [of "show_nat n" 0 0 "[]"] show_nat_digits [of n] by simp

section \<open>Floats\<close>

text \<open>\<open>float(s)\<close>: a decimal literal with an optional exponent, or an infinity or NaN.\<close>

definition parse_exponent :: "string \<Rightarrow> int option" where
  "parse_exponent s = (case s of
      [] \<Rightarrow> Some 0
    | c # cs \<Rightarrow> if c = CHR ''e'' then (case sign_of cs of (sg, body) \<Rightarrow>
          (case digits 0 0 body of (v, k, rest) \<Rightarrow>
            if k = 0 \<or> rest \<noteq> [] then None else Some (sg * int v)))
        else None)"

definition pow10 :: "int \<Rightarrow> real" where
  "pow10 e = (if 0 \<le> e then 10 ^ nat e else 1 / 10 ^ nat (- e))"

definition parse_decimal :: "int \<Rightarrow> string \<Rightarrow> pyfloat option" where
  "parse_decimal sg body = (case digits 0 0 body of (v, k, rest) \<Rightarrow>
     (case (case rest of c # cs \<Rightarrow> if c = CHR ''.'' then digits v 0 cs else (v, 0, rest)
             | [] \<Rightarrow> (v, 0, [])) of (m, j, more) \<Rightarrow>
        if k = 0 \<and> j = 0 then None
        else map_option (\<lambda>e. Fin (of_int sg * of_nat m * pow10 (e - int j))) (parse_exponent more)))"

definition parse_float :: "string \<Rightarrow> pyfloat option" where
  "parse_float raw = (case sign_of (py_lower (strip raw)) of (sg, body) \<Rightarrow>
     if body = ''inf'' \<or> body = ''infinity'' then Some (if sg < 0 then NInf else PInf)
     else if body = ''nan'' then Some NaN
     else parse_decimal sg body)"

section \<open>Formatting\<close>

text \<open>\<open>f"{x:.nf}"\<close>: a fixed number of decimals, ties to even.\<close>

definition pad_left :: "nat \<Rightarrow> char \<Rightarrow> string \<Rightarrow> string" where
  "pad_left n c s = replicate (n - length s) c @ s"

definition show_decimals :: "nat \<Rightarrow> nat \<Rightarrow> string" where
  "show_decimals n k = show_nat (k div 10 ^ n) @ CHR ''.'' # pad_left n (CHR ''0'') (show_nat (k mod 10 ^ n))"

fun show_fixed :: "nat \<Rightarrow> pyfloat \<Rightarrow> string" where
  "show_fixed n (Fin a) = (if a < 0 then [CHR ''-''] else [])
     @ show_decimals n (nat (round_half_even (\<bar>a\<bar> * 10 ^ n)))"
| "show_fixed n PInf = ''inf''"
| "show_fixed n NInf = ''-inf''"
| "show_fixed n NaN = ''nan''"

section \<open>Dynamic values\<close>

text \<open>The values that pass through untyped interfaces: call arguments, settings, alert payloads.\<close>

datatype pyval = VStr string | VInt int | VFloat pyfloat | VBool bool | VNone

text \<open>\<open>f"{v:.2f}"\<close> on a dynamic value: numbers format, \<open>None\<close> and strings raise.\<close>

fun format_2f :: "pyval \<Rightarrow> string res" where
  "format_2f (VFloat x) = Inr (show_fixed 2 x)"
| "format_2f (VInt n) = Inr (show_fixed 2 (Fin (of_int n)))"
| "format_2f (VBool b) = Inr (show_fixed 2 (Fin (if b then 1 else 0)))"
| "format_2f (VStr s) = Inl ValueError"
| "format_2f VNone = Inl TypeError"

end
