(* ===== verification/Json.thy ===== *)
theory Json
  imports Py_Str
begin

text \<open>
  JSON values and \<open>json.loads\<close> of Python's standard library, as the source uses it on the answers
  of Claude and on metadata files.  A character outside Latin-1 that is written as an escape is
  read as a question mark.
\<close>

datatype json =
    JNull | JBool bool | JInt int | JNum pyfloat | JStr string | JArr "json list" | JObj "(string \<times> json) list"

text \<open>The value of a key; of a repeated key the last one counts.\<close>

definition obj_get :: "string \<Rightarrow> (string \<times> json) list \<Rightarrow> json option" where
  "obj_get k kvs = map_of (rev kvs) k"

section \<open>Strings and numbers\<close>

definition json_space :: "char \<Rightarrow> bool" where
  "json_space c \<longleftrightarrow> code c \<in> {9, 10, 13, 32}"

definition skip_ws :: "string \<Rightarrow> string" where
  "skip_ws s = dropWhile json_space s"

definition hex_val :: "char \<Rightarrow> nat option" where
  "hex_val c = (if is_digit c then Some (digit_val c)
     else if 97 \<le> code c \<and> code c \<le> 102 then Some (code c - 87)
     else if 65 \<le> code c \<and> code c \<le> 70 then Some (code c - 55) else None)"

definition escape_char :: "char \<Rightarrow> char option" where
  "escape_char c = map_of [(CHR 0x22, CHR 0x22), (CHR 0x5C, CHR 0x5C), (CHR ''/'', CHR ''/''),
     (CHR ''b'', CHR 0x08), (CHR ''f'', CHR 0x0C), (CHR ''n'', CHR 0x0A), (CHR ''r'', CHR 0x0D),
     (CHR ''t'', CHR 0x09)] c"

definition unicode_char :: "char \<Rightarrow> char \<Rightarrow> char \<Rightarrow> char \<Rightarrow> char option" where
  "unicode_char a b c d = (case (hex_val a, hex_val b, hex_val c, hex_val d) of
      (Some w, Some x, Some y, Some z) \<Rightarrow>
        (let n = 4096 * w + 256 * x + 16 * y + z in Some (if n < 256 then char_of n else CHR ''?''))
    | _ \<Rightarrow> None)"

text \<open>The rest of a string literal, after its opening quote.\<close>

fun string_body :: "string \<Rightarrow> (string \<times> string) option" where
  "string_body [] = None"
| "string_body (c # cs) =
     (if c = CHR 0x22 then Some ([], cs)
      else if c = CHR 0x5C then (case cs of
          CHR ''u'' # w # x # y # z # rest \<Rightarrow> (case unicode_char w x y z of
              Some ch \<Rightarrow> map_option (\<lambda>(t, r). (ch # t, r)) (string_body rest) | None \<Rightarrow> None)
        | e # rest \<Rightarrow> (case escape_char e of
              Some ch \<Rightarrow> map_option (\<lambda>(t, r). (ch # t, r)) (string_body rest) | None \<Rightarrow> None)
        | [] \<Rightarrow> None)
      else if code c < 32 then None
      else map_option (\<lambda>(t, r). (c # t, r)) (string_body cs))"

definition digit_run :: "string \<Rightarrow> string \<times> string" where
  "digit_run s = (takeWhile is_digit s, dropWhile is_digit s)"

definition digits_val :: "string \<Rightarrow> nat" where
  "digits_val ds = foldl (\<lambda>a c. 10 * a + digit_val c) 0 ds"

text \<open>\<open>-?(0|[1-9][0-9]*)(.[0-9]+)?([eE][+-]?[0-9]+)?\<close>.\<close>

definition int_part :: "string \<Rightarrow> (string \<times> string) option" where
  "int_part s = (case s of
      [] \<Rightarrow> None
    | c # cs \<Rightarrow> if c = CHR ''0'' then Some ([c], cs)
               else if is_digit c then Some (digit_run s) else None)"

definition frac_part :: "string \<Rightarrow> string \<times> string" where
  "frac_part s = (case s of
      c # cs \<Rightarrow> if c = CHR ''.'' \<and> fst (digit_run cs) \<noteq> [] then digit_run cs else ([], s)
    | [] \<Rightarrow> ([], s))"

definition exp_part :: "string \<Rightarrow> int option \<times> string" where
  "exp_part s = (case s of
      c # cs \<Rightarrow> if c = CHR ''e'' \<or> c = CHR ''E''
        then (case sign_of cs of (sg, body) \<Rightarrow> (case digit_run body of (ds, rest) \<Rightarrow>
               if ds = [] then (None, s) else (Some (sg * int (digits_val ds)), rest)))
        else (None, s)
    | [] \<Rightarrow> (None, s))"

definition json_number :: "string \<Rightarrow> (json \<times> string) option" where
  "json_number s = (let (sg, body) = (case s of
        c # cs \<Rightarrow> if c = CHR ''-'' then (-1, cs) else (1 :: int, s) | [] \<Rightarrow> (1, s)) in
     case int_part body of
       None \<Rightarrow> None
     | Some (ip, r1) \<Rightarrow> (case frac_part r1 of (fp, r2) \<Rightarrow> (case exp_part r2 of (ex, r3) \<Rightarrow>
         if fp = [] \<and> ex = None then Some (JInt (sg * int (digits_val ip)), r3)
         else Some (JNum (Fin (of_int sg * of_nat (digits_val (ip @ fp))
                * pow10 ((case ex of Some e \<Rightarrow> e | None \<Rightarrow> 0) - int (length fp)))), r3))))"

definition literals :: "(string \<times> json) list" where
  "literals = [(''null'', JNull), (''true'', JBool True), (''false'', JBool False), (''NaN'', JNum NaN),
     (''Infinity'', JNum PInf), (''-Infinity'', JNum NInf)]"

definition json_atom :: "string \<Rightarrow> (json \<times> string) option" where
  "json_atom s = (case List.find (\<lambda>(w, _). starts_with w s) literals of
      Some (w, v) \<Rightarrow> Some (v, drop (length w) s)
    | None \<Rightarrow> json_number s)"

section \<open>Values\<close>

text \<open>
  The test that a value leaves a shorter input is always true (a value has at least one
  character) and makes the recursion a measure.
\<close>

function (sequential) jvalue :: "string \<Rightarrow> (json \<times> string) option"
  and jelems :: "string \<Rightarrow> (json list \<times> string) option"
  and jmembers :: "string \<Rightarrow> ((string \<times> json) list \<times> string) option" where
  "jvalue [] = None"
| "jvalue (c # cs) =
     (if c = CHR 0x22 then map_option (\<lambda>(t, r). (JStr t, r)) (string_body cs)
      else if c = CHR ''['' then
        (case skip_ws cs of
           d # ds \<Rightarrow> if d = CHR '']'' then Some (JArr [], ds)
             else if length (d # ds) \<le> length cs then map_option (\<lambda>(xs, r). (JArr xs, r)) (jelems (d # ds)) else None
         | [] \<Rightarrow> None)
      else if c = CHR ''{'' then
        (case skip_ws cs of
           d # ds \<Rightarrow> if d = CHR ''}'' then Some (JObj [], ds)
             else if length (d # ds) \<le> length cs then map_option (\<lambda>(xs, r). (JObj xs, r)) (jmembers (d # ds)) else None
         | [] \<Rightarrow> None)
      else json_atom (c # cs))"
| "jelems s = (case jvalue s of
      None \<Rightarrow> None
    | Some (v, r) \<Rightarrow> (case skip_ws r of
        d # ds \<Rightarrow> if d = CHR '']'' then Some ([v], ds)
          else if d = CHR '','' \<and> length (skip_ws ds) < length s
          then map_option (\<lambda>(vs, r'). (v # vs, r')) (jelems (skip_ws ds)) else None
      | [] \<Rightarrow> None))"
| "jmembers s = (case s of
      q # qs \<Rightarrow> if q \<noteq> CHR 0x22 then None else (case string_body qs of
        None \<Rightarrow> None
      | Some (k, r) \<Rightarrow> (case skip_ws r of
          d # ds \<Rightarrow> if d = CHR '':'' \<and> length (skip_ws ds) < length s then (case jvalue (skip_ws ds) of
              None \<Rightarrow> None
            | Some (v, r2) \<Rightarrow> (case skip_ws r2 of
                e # es \<Rightarrow> if e = CHR ''}'' then Some ([(k, v)], es)
                  else if e = CHR '','' \<and> length (skip_ws es) < length s
                  then map_option (\<lambda>(ms, r3). ((k, v) # ms, r3)) (jmembers (skip_ws es)) else None
              | [] \<Rightarrow> None)) else None
        | [] \<Rightarrow> None))
    | [] \<Rightarrow> None)"
  by pat_completeness auto
termination
  by (relation "measure (\<lambda>x. case x of Inl s \<Rightarrow> 2 * length s
        | Inr (Inl s) \<Rightarrow> 2 * length s + 1 | Inr (Inr s) \<Rightarrow> 2 * length s + 1)") auto

definition loads :: "string \<Rightarrow> json res" where
  "loads s = (case jvalue (skip_ws s) of
      Some (v, rest) \<Rightarrow> if skip_ws rest = [] then Inr v else Inl JSONDecodeError
    | None \<Rightarrow> Inl JSONDecodeError)"

lemma loads_object:
  "loads (''{'' @ [CHR 0x22] @ ''a'' @ [CHR 0x22] @ '': [1, true, {}]}'')
     = Inr (JObj [(''a'', JArr [JInt 1, JBool True, JObj []])])"
  by code_simp

section \<open>Python's operations on the values\<close>

text \<open>\<open>data.get(k, d)\<close> and \<open>for x in v\<close>: other kinds of values raise.\<close>

fun json_get :: "json \<Rightarrow> string \<Rightarrow> json \<Rightarrow> json res" where
  "json_get (JObj kvs) k d = Inr (case obj_get k kvs of Some v \<Rightarrow> v | None \<Rightarrow> d)"
| "json_get _ k d = Inl AttributeError"

text \<open>The keys of a dict in the order of their first insertion.\<close>

definition dict_keys :: "(string \<times> json) list \<Rightarrow> string list" where
  "dict_keys kvs = rev (remdups (rev (map fst kvs)))"

fun json_iter :: "json \<Rightarrow> json list res" where
  "json_iter (JArr vs) = Inr vs"
| "json_iter (JObj kvs) = Inr (map JStr (dict_keys kvs))"
| "json_iter (JStr s) = Inr (map (\<lambda>c. JStr [c]) s)"
| "json_iter _ = Inl TypeError"

fun json_items :: "json \<Rightarrow> (string \<times> json) list res" where
  "json_items (JObj kvs) = Inr (map (\<lambda>k. (k, the (obj_get k kvs))) (dict_keys kvs))"
| "json_items _ = Inl AttributeError"

text \<open>\<open>float(v)\<close>.\<close>

fun json_float :: "json \<Rightarrow> pyfloat res" where
  "json_float (JInt n) = Inr (Fin (of_int n))"
| "json_float (JNum x) = Inr x"
| "json_float (JBool b) = Inr (Fin (if b then 1 else 0))"
| "json_float (JStr s) = (case parse_float s of Some x \<Rightarrow> Inr x | None \<Rightarrow> Inl ValueError)"
| "json_float _ = Inl TypeError"

text \<open>\<open>str(v)\<close>; the text of anything but a string is given by \<open>repr\<close>.\<close>

fun json_str :: "(json \<Rightarrow> string) \<Rightarrow> json \<Rightarrow> string" where
  "json_str repr (JStr s) = s"
| "json_str repr v = repr v"

end
