(* ===== verification/Backtest_Metrics.thy ===== *)
theory Backtest_Metrics
  imports Json
begin

text \<open>
  The results and the performance metrics of a backtest, \<open>bot/backtesting/results.py\<close> and
  \<open>bot/backtesting/metrics.py\<close>.  The metrics are pure; the only exception is the division by
  the initial capital.  \<open>peak_drawdown\<close> and \<open>drawdown_spec\<close> are the reference for the streaming
  loop of \<open>_max_drawdown\<close>.
\<close>

section \<open>Results\<close>

record backtest_trade =
  bt_bar_index :: nat
  bt_entry_time :: string
  bt_exit_time :: "string option"
  bt_action :: string
  bt_entry :: pyfloat
  bt_exit :: "pyfloat option"
  bt_shares :: int
  bt_pnl :: "pyfloat option"
  bt_reason :: string
  bt_ml_label :: string
  bt_ml_prob :: pyfloat

record metrics =
  total_return_pct :: pyfloat
  total_pnl :: pyfloat
  trade_count :: nat
  win_count :: nat
  loss_count :: nat
  win_rate :: pyfloat
  avg_win :: pyfloat
  avg_loss :: pyfloat
  profit_factor :: pyfloat
  max_drawdown_pct :: pyfloat
  sharpe_ratio :: pyfloat
  avg_trade_pnl :: pyfloat
  largest_win :: pyfloat
  largest_loss :: pyfloat

record backtest_result =
  br_symbol :: string
  br_initial :: pyfloat
  br_final :: pyfloat
  br_trades :: "backtest_trade list"
  br_curve :: "pyfloat list"
  br_metrics :: metrics
  br_params :: "(string \<times> json) list"

text \<open>The items of the dictionary of metrics, in the order \<open>compute_metrics\<close> writes them.\<close>

definition metric_items :: "metrics \<Rightarrow> (string \<times> json) list" where
  "metric_items m =
    [(''total_return_pct'', JNum (total_return_pct m)), (''total_pnl'', JNum (total_pnl m)),
     (''trade_count'', JInt (int (trade_count m))), (''win_count'', JInt (int (win_count m))),
     (''loss_count'', JInt (int (loss_count m))), (''win_rate'', JNum (win_rate m)),
     (''avg_win'', JNum (avg_win m)), (''avg_loss'', JNum (avg_loss m)),
     (''profit_factor'', JNum (profit_factor m)), (''max_drawdown_pct'', JNum (max_drawdown_pct m)),
     (''sharpe_ratio'', JNum (sharpe_ratio m)), (''avg_trade_pnl'', JNum (avg_trade_pnl m)),
     (''largest_win'', JNum (largest_win m)), (''largest_loss'', JNum (largest_loss m))]"

text \<open>\<open>round(v, n)\<close> of an item: an integer is itself.\<close>

fun round_item :: "nat \<Rightarrow> json \<Rightarrow> json" where
  "round_item n (JNum x) = JNum (fround n x)"
| "round_item n v = v"

text \<open>
  \<open>round(t.exit_price, 4) if t.exit_price else None\<close>: an exit price of 0 is falsy.
\<close>

definition trade_dict :: "backtest_trade \<Rightarrow> json" where
  "trade_dict t = JObj
    [(''entry_time'', JStr (bt_entry_time t)),
     (''exit_time'', case bt_exit_time t of Some s \<Rightarrow> JStr s | None \<Rightarrow> JNull),
     (''action'', JStr (bt_action t)),
     (''entry_price'', JNum (fround 4 (bt_entry t))),
     (''exit_price'', case bt_exit t of
        Some x \<Rightarrow> if x = Fin 0 then JNull else JNum (fround 4 x) | None \<Rightarrow> JNull),
     (''shares'', JInt (bt_shares t)),
     (''pnl'', case bt_pnl t of Some x \<Rightarrow> JNum (fround 2 x) | None \<Rightarrow> JNull),
     (''exit_reason'', JStr (bt_reason t))]"

definition to_dict :: "backtest_result \<Rightarrow> (string \<times> json) list" where
  "to_dict r =
    [(''symbol'', JStr (br_symbol r)),
     (''initial_capital'', JNum (br_initial r)),
     (''final_equity'', JNum (fround 2 (br_final r))),
     (''trade_count'', JInt (int (length (br_trades r)))),
     (''metrics'', JObj (map (\<lambda>(k, v). (k, round_item 4 v)) (metric_items (br_metrics r)))),
     (''parameters'', JObj (br_params r)),
     (''trades'', JArr (map trade_dict (br_trades r))),
     (''equity_curve'', JArr (map (\<lambda>e. JNum (fround 2 e)) (br_curve r)))]"

section \<open>Metrics\<close>

definition empty_metrics :: metrics where
  "empty_metrics = \<lparr>total_return_pct = Fin 0, total_pnl = Fin 0, trade_count = 0, win_count = 0,
     loss_count = 0, win_rate = Fin 0, avg_win = Fin 0, avg_loss = Fin 0, profit_factor = Fin 0,
     max_drawdown_pct = Fin 0, sharpe_ratio = Fin 0, avg_trade_pnl = Fin 0, largest_win = Fin 0,
     largest_loss = Fin 0\<rparr>"

text \<open>
  The loop of \<open>_max_drawdown\<close>, from the peak and the drawdown so far.  The division is guarded
  by a positive peak.
\<close>

definition drawdown_from :: "pyfloat \<Rightarrow> pyfloat \<Rightarrow> pyfloat" where
  "drawdown_from peak equity = (if peak > Fin 0 then fdiv_nz (peak - equity) peak * Fin 100 else Fin 0)"

fun drawdown_loop :: "pyfloat \<Rightarrow> pyfloat \<Rightarrow> pyfloat list \<Rightarrow> pyfloat" where
  "drawdown_loop peak max_dd [] = max_dd"
| "drawdown_loop peak max_dd (equity # rest) =
     (let peak' = (if equity > peak then equity else peak);
          dd = drawdown_from peak' equity
      in drawdown_loop peak' (if dd > max_dd then dd else max_dd) rest)"

definition max_drawdown :: "pyfloat list \<Rightarrow> pyfloat" where
  "max_drawdown curve = (if length curve < 2 then Fin 0 else drawdown_loop (hd curve) (Fin 0) curve)"

text \<open>\<open>math.sqrt\<close> of a sum of squares, which is never negative.\<close>

fun fsqrt :: "pyfloat \<Rightarrow> pyfloat" where
  "fsqrt (Fin a) = Fin (sqrt a)"
| "fsqrt x = x"

fun curve_returns :: "pyfloat list \<Rightarrow> pyfloat list" where
  "curve_returns (prev # e # rest) =
     (if prev > Fin 0 then [fdiv_nz (e - prev) prev] else []) @ curve_returns (e # rest)"
| "curve_returns _ = []"

text \<open>\<open>sum(xs) / len(xs)\<close> of a list that is not empty.\<close>

definition mean_of :: "pyfloat list \<Rightarrow> pyfloat" where
  "mean_of xs = fdiv_nz (sum_list xs) (Fin (of_nat (length xs)))"

definition sharpe :: "pyfloat list \<Rightarrow> pyfloat" where
  "sharpe curve =
    (if length curve < 3 then Fin 0
     else let returns = curve_returns curve in
       if returns = [] then Fin 0
       else let mean_ret = mean_of returns;
                variance = mean_of (map (\<lambda>r. (r - mean_ret) * (r - mean_ret)) returns);
                std_ret = fsqrt variance
            in if std_ret = Fin 0 then Fin 0
               else fdiv_nz mean_ret std_ret * Fin (sqrt 252))"

text \<open>\<open>max(xs)\<close> and \<open>min(xs)\<close> of a list that is not empty, 0 otherwise.\<close>

definition max_or_0 :: "pyfloat list \<Rightarrow> pyfloat" where
  "max_or_0 xs = (case xs of [] \<Rightarrow> Fin 0 | y # ys \<Rightarrow> foldl py_max y ys)"

definition min_or_0 :: "pyfloat list \<Rightarrow> pyfloat" where
  "min_or_0 xs = (case xs of [] \<Rightarrow> Fin 0 | y # ys \<Rightarrow> foldl py_min y ys)"

definition compute_metrics :: "backtest_trade list \<Rightarrow> pyfloat list \<Rightarrow> pyfloat \<Rightarrow> metrics res" where
  "compute_metrics trades curve initial =
    (let pnls = List.map_filter bt_pnl trades;
         wins = filter (\<lambda>p. p > Fin 0) pnls;
         losses = filter (\<lambda>p. p \<le> Fin 0) pnls;
         gross_profit = sum_list wins;
         gross_loss = fabs (sum_list losses);
         final_equity = (if curve = [] then initial else last curve);
         count = (\<lambda>xs. Fin (of_nat (length xs)))
     in if pnls = [] then Inr empty_metrics
        else res_bind (fdiv (final_equity - initial) initial) (\<lambda>ratio.
          Inr \<lparr>total_return_pct = ratio * Fin 100, total_pnl = sum_list pnls,
            trade_count = length pnls, win_count = length wins, loss_count = length losses,
            win_rate = fdiv_nz (count wins) (count pnls) * Fin 100,
            avg_win = (if wins = [] then Fin 0 else fdiv_nz gross_profit (count wins)),
            avg_loss = (if losses = [] then Fin 0 else fdiv_nz (- gross_loss) (count losses)),
            profit_factor = (if gross_loss > Fin 0 then fdiv_nz gross_profit gross_loss else PInf),
            max_drawdown_pct = max_drawdown curve, sharpe_ratio = sharpe curve,
            avg_trade_pnl = fdiv_nz (sum_list pnls) (count pnls),
            largest_win = max_or_0 wins, largest_loss = min_or_0 losses\<rparr>))"

section \<open>The reference drawdown\<close>

text \<open>The running peak up to bar \<open>j\<close>, and the fall from it at bar \<open>j\<close>, in percent.\<close>

definition peak_upto :: "real list \<Rightarrow> nat \<Rightarrow> real" where
  "peak_upto es j = Max (set (take (Suc j) es))"

definition fall :: "real \<Rightarrow> real \<Rightarrow> real" where
  "fall p e = (if 0 < p then (p - e) / p * 100 else 0)"

definition drawdown_at :: "real list \<Rightarrow> nat \<Rightarrow> real" where
  "drawdown_at es j = fall (peak_upto es j) (es ! j)"

definition drawdown_spec :: "real list \<Rightarrow> real" where
  "drawdown_spec es = (if es = [] then 0 else Max (drawdown_at es ` {..<length es}))"

lemma drawdown_from_Fin: "drawdown_from (Fin p) (Fin e) = Fin (fall p e)"
  by (simp add: drawdown_from_def fall_def)

lemma drawdown_loop_Cons_Fin: "drawdown_loop (Fin p) (Fin m) (map Fin (e # es)) =
    drawdown_loop (Fin (max p e)) (Fin (max m (fall (max p e) e))) (map Fin es)"
proof -
  have "(if Fin p < Fin e then Fin e else Fin p) = Fin (max p e)"
    and "(if Fin m < Fin d then Fin d else Fin m) = Fin (max m d)" for d
    by (simp_all add: max_def)
  then show ?thesis by (simp only: list.map drawdown_loop.simps Let_def drawdown_from_Fin)
qed

lemma drawdown_loop_spec:
  assumes "done \<noteq> []"
  shows "drawdown_loop (Fin (Max (set done))) (Fin m) (map Fin es)
    = Fin (Max (insert m (drawdown_at (done @ es) ` {length done..<length done + length es})))"
  using assms
proof (induction es arbitrary: "done" m)
  case (Cons e es)
  let ?n = "length done" and ?xs = "done @ e # es"
  define p where "p = max (Max (set done)) e"
  have p: "Max (set (done @ [e])) = p" and pk: "peak_upto ?xs ?n = p"
    using Cons.prems by (simp_all add: p_def peak_upto_def max.commute)
  have dd: "fall p e = drawdown_at ?xs ?n"
    by (simp add: drawdown_at_def pk)
  have "drawdown_loop (Fin (Max (set done))) (Fin m) (map Fin (e # es))
      = drawdown_loop (Fin p) (Fin (max m (drawdown_at ?xs ?n))) (map Fin es)"
    unfolding drawdown_loop_Cons_Fin p_def [symmetric] dd ..
  also have "\<dots> = Fin (Max (insert (max m (drawdown_at ?xs ?n)) (drawdown_at ?xs ` {Suc ?n..<Suc ?n + length es})))"
    using Cons.IH [of "done @ [e]"] unfolding p by simp
  also have "Max (insert (max m (drawdown_at ?xs ?n)) (drawdown_at ?xs ` {Suc ?n..<Suc ?n + length es}))
      = Max (insert m (insert (drawdown_at ?xs ?n) (drawdown_at ?xs ` {Suc ?n..<Suc ?n + length es})))"
    by (cases "length es = 0") (simp_all add: max.assoc)
  also have "insert (drawdown_at ?xs ?n) (drawdown_at ?xs ` {Suc ?n..<Suc ?n + length es})
      = drawdown_at ?xs ` {?n..<?n + length (e # es)}"
    proof -
    have "{?n..<?n + length (e # es)} = insert ?n {Suc ?n..<Suc ?n + length es}" by auto
    then show ?thesis by simp
  qed
  finally show ?case .
qed simp

text \<open>C36: the one-pass loop of \<open>_max_drawdown\<close> computes the reference: the largest fall, over all bars, from
  the highest equity up to that bar, as a percentage of that peak.\<close>

theorem max_drawdown_spec: "max_drawdown (map Fin es) = Fin (drawdown_spec es)"
proof (cases es)
  case Nil
  then show ?thesis by (simp add: max_drawdown_def drawdown_spec_def)
next
  case (Cons e rest)
  have start: "drawdown_at es 0 = 0" by (simp add: Cons drawdown_at_def peak_upto_def fall_def)
  have "{..<length es} = insert 0 {1..<length es}" using Cons by auto
  then have spec: "drawdown_spec es = Max (insert 0 (drawdown_at es ` {1..<length es}))"
    using start by (simp add: drawdown_spec_def Cons)
  show ?thesis
  proof (cases "rest = []")
    case True
    with spec Cons show ?thesis by (simp add: max_drawdown_def)
  next
    case False
    have "drawdown_loop (Fin e) (Fin 0) (map Fin (e # rest)) = drawdown_loop (Fin e) (Fin 0) (map Fin rest)"
      by (simp only: drawdown_loop_Cons_Fin) (simp add: fall_def)
    then show ?thesis
      using False drawdown_loop_spec [of "[e]" 0 rest]
      by (simp add: max_drawdown_def Cons spec [unfolded Cons])
  qed
qed

lemma peak_upto_ge: "j < length es \<Longrightarrow> es ! j \<le> peak_upto es j"
  by (auto simp: peak_upto_def take_Suc_conv_app_nth)

lemma drawdown_spec_bounds:
  "0 \<le> drawdown_spec es \<and> (list_all (\<lambda>e. 0 \<le> e) es \<longrightarrow> drawdown_spec es \<le> 100)"
proof (cases "es = []")
  case False
  have "0 \<le> drawdown_at es j" if "j < length es" for j
    using peak_upto_ge [OF that] by (simp add: drawdown_at_def fall_def)
  moreover have "drawdown_at es j \<le> 100" if "j < length es" "list_all (\<lambda>e. 0 \<le> e) es" for j
    using that by (auto simp: drawdown_at_def fall_def list_all_length divide_le_eq)
  moreover obtain j where "j < length es" "drawdown_spec es = drawdown_at es j"
    using Max_in [of "drawdown_at es ` {..<length es}"] False
    by (fastforce simp: drawdown_spec_def)
  ultimately show ?thesis by simp
qed (simp add: drawdown_spec_def)

section \<open>The trade statistics\<close>

lemma filter_Fin_pos: "filter (\<lambda>p. p > Fin 0) (map Fin ps) = map Fin (filter (\<lambda>p. 0 < p) ps)"
  by (simp add: filter_map comp_def)

lemma filter_Fin_neg: "filter (\<lambda>p. p \<le> Fin 0) (map Fin ps) = map Fin (filter (\<lambda>p. p \<le> 0) ps)"
  by (simp add: filter_map comp_def)

lemma sum_list_split_sign:
  "sum_list (filter (\<lambda>p. 0 < p) ps) + sum_list (filter (\<lambda>p. p \<le> 0) ps) = sum_list (ps :: real list)"
  by (induction ps) auto

lemma length_split_sign:
  "length (filter (\<lambda>p. 0 < p) ps) + length (filter (\<lambda>p. p \<le> 0) ps) = length (ps :: real list)"
  by (induction ps) auto

lemma sum_list_pos_nonneg: "0 \<le> sum_list (filter (\<lambda>p. 0 < p) (ps :: real list))"
  by (auto intro: sum_list_nonneg)

lemma sum_list_neg_nonpos: "sum_list (filter (\<lambda>p. p \<le> 0) (ps :: real list)) \<le> 0"
  by (auto intro: sum_list_nonpos)

lemma sum_list_neg_strict: "p \<in> set ps \<Longrightarrow> p < 0 \<Longrightarrow> sum_list (filter (\<lambda>p. p \<le> 0) (ps :: real list)) < 0"
proof (induction ps)
  case (Cons q ps)
  then show ?case using sum_list_neg_nonpos [of ps] by (cases "p = q") auto
qed simp

text \<open>For closed trades with finite results, every trade is a win or a loss, the averages weighted by their
  counts add up to the total, the win rate is a percentage, and the profit factor exceeds 1 exactly
  when the total is a profit, as soon as one trade lost money.\<close>

theorem metrics_consistent:
  assumes closed: "List.map_filter bt_pnl trades = map Fin ps" "ps \<noteq> []" and c: "c \<noteq> 0"
  shows "\<exists>m w l r. compute_metrics trades (map Fin es) (Fin c) = Inr m
    \<and> trade_count m = length ps \<and> win_count m + loss_count m = trade_count m
    \<and> total_pnl m = Fin (sum_list ps) \<and> avg_win m = Fin w \<and> avg_loss m = Fin l \<and> win_rate m = Fin r
    \<and> 0 \<le> w \<and> l \<le> 0 \<and> 0 \<le> r \<and> r \<le> 100
    \<and> of_nat (win_count m) * w + of_nat (loss_count m) * l = sum_list ps
    \<and> ((\<exists>p \<in> set ps. p < 0) \<longrightarrow> (profit_factor m > Fin 1 \<longleftrightarrow> 0 < sum_list ps))"
proof -
  let ?ws = "filter (\<lambda>p. 0 < p) ps" and ?ls = "filter (\<lambda>p. p \<le> 0) ps"
  define g where "g = sum_list ?ws"
  define b where "b = sum_list ?ls"
  have gb: "g + b = sum_list ps" and g: "0 \<le> g" and b: "b \<le> 0"
    unfolding g_def b_def by (rule sum_list_split_sign sum_list_pos_nonneg sum_list_neg_nonpos)+
  define m where "m = projr (compute_metrics trades (map Fin es) (Fin c))"
  have run: "compute_metrics trades (map Fin es) (Fin c) = Inr m"
    using closed c by (simp add: m_def compute_metrics_def Let_def last_map)
  have fields: "trade_count m = length ps" "win_count m = length ?ws" "loss_count m = length ?ls"
    "total_pnl m = Fin (sum_list ps)"
    "avg_win m = Fin (if ?ws = [] then 0 else g / length ?ws)"
    "avg_loss m = Fin (if ?ls = [] then 0 else b / length ?ls)"
    "win_rate m = Fin (length ?ws / length ps * 100)"
    "profit_factor m = (if b < 0 then Fin (g / - b) else PInf)"
    using closed c b
    by (simp_all add: m_def compute_metrics_def Let_def last_map filter_Fin_pos filter_Fin_neg g_def b_def abs_if
        del: filter_map)
  have rate: "length ?ws \<le> length ps" by (rule length_filter_le)
  have weights: "length ?ws * (if ?ws = [] then 0 else g / length ?ws) = g"
    "length ?ls * (if ?ls = [] then 0 else b / length ?ls) = b"
    unfolding g_def b_def by auto
  have ratio: "b < 0 \<Longrightarrow> g / b < - 1 \<longleftrightarrow> 0 < g + b" by (subst divide_less_eq) auto
  have pf: "profit_factor m > Fin 1 \<longleftrightarrow> 0 < sum_list ps" if "p \<in> set ps" "p < 0" for p
  proof -
    have "b < 0" using sum_list_neg_strict [OF that] by (simp add: b_def)
    with ratio show ?thesis by (simp add: fields flip: gb)
  qed
  show ?thesis
    using run fields rate weights gb g b pf length_split_sign [of ps] closed(2)
    by (intro exI [of _ m] exI [of _ "if ?ws = [] then 0 else g / length ?ws"]
        exI [of _ "if ?ls = [] then 0 else b / length ?ls"] exI [of _ "length ?ws / length ps * 100"])
       (auto simp: divide_nonpos_nonneg divide_le_eq)
qed

definition demo_closed :: "real \<Rightarrow> backtest_trade" where
  "demo_closed p = \<lparr>bt_bar_index = 60, bt_entry_time = ''a'', bt_exit_time = Some ''b'', bt_action = ''long'',
     bt_entry = Fin 10, bt_exit = Some (Fin (10 + p)), bt_shares = 1, bt_pnl = Some (Fin p),
     bt_reason = ''target'', bt_ml_label = ''long'', bt_ml_prob = Fin 1\<rparr>"

lemma metrics_consistent_witness:
  "\<exists>m w l. compute_metrics [demo_closed 5, demo_closed (- 2)] (map Fin [1005, 1003]) (Fin 1000) = Inr m
     \<and> avg_win m = Fin w \<and> avg_loss m = Fin l \<and> of_nat (win_count m) * w + of_nat (loss_count m) * l = 3
     \<and> profit_factor m > Fin 1"
  using metrics_consistent [of "[demo_closed 5, demo_closed (- 2)]" "[5, - 2]" 1000 "[1005, 1003]"]
  by (auto simp: demo_closed_def map_filter_def)

end
