(* ===== verification/Tables.thy ===== *)
theory Tables
  imports Py_Str
begin

text \<open>
  Database tables with an auto-increment integer key.  A table is its rows in insertion order
  and the next key.  The locale \<open>row_table\<close> states what the components rely on: a new row gets
  a key no row has, a lookup by key returns the row last written under it, and an update by key
  leaves the other rows alone.  Each table of \<open>db/models.py\<close> is an interpretation of it in the
  theory that declares the row type.  The locale \<open>lifecycle\<close> is the contract of a status
  column: a terminal status is never left.
\<close>

record 'r table =
  rows :: "'r list"
  next_id :: int

definition empty_table :: "'r table" where
  "empty_table = \<lparr>rows = [], next_id = 1\<rparr>"

definition insert_row :: "(int \<Rightarrow> 'r \<Rightarrow> 'r) \<Rightarrow> 'r \<Rightarrow> 'r table \<Rightarrow> int \<times> 'r table" where
  "insert_row put r t =
     (next_id t, t\<lparr>rows := rows t @ [put (next_id t) r], next_id := next_id t + 1\<rparr>)"

definition lookup_row :: "('r \<Rightarrow> int) \<Rightarrow> int \<Rightarrow> 'r table \<Rightarrow> 'r option" where
  "lookup_row get i t = List.find (\<lambda>r. get r = i) (rows t)"

definition update_row :: "('r \<Rightarrow> int) \<Rightarrow> int \<Rightarrow> ('r \<Rightarrow> 'r) \<Rightarrow> 'r table \<Rightarrow> 'r table" where
  "update_row get i f t = t\<lparr>rows := update_where (\<lambda>r. get r = i) f (rows t)\<rparr>"

definition table_ok :: "('r \<Rightarrow> int) \<Rightarrow> 'r table \<Rightarrow> bool" where
  "table_ok get t \<longleftrightarrow> distinct (map get (rows t)) \<and> (\<forall>r \<in> set (rows t). get r < next_id t)"

lemma table_ok_empty: "table_ok get empty_table"
  by (simp add: table_ok_def empty_table_def)

lemma rows_update_row: "rows (update_row get i f t) = update_where (\<lambda>r. get r = i) f (rows t)"
  by (simp add: update_row_def)

lemma find_update_where_key:
  assumes "\<And>r. get (f r) = get r"
  shows "List.find (\<lambda>r. get r = i) (update_where (\<lambda>r. get r = j) f rs) =
    map_option (\<lambda>r. if i = j then f r else r) (List.find (\<lambda>r. get r = i) rs)"
  using assms by (induction rs) (auto simp: update_where_def)

locale row_table =
  fixes get :: "'r \<Rightarrow> int" and put :: "int \<Rightarrow> 'r \<Rightarrow> 'r"
  assumes get_put: "get (put i r) = i"
begin

lemma insert_ok: "table_ok get t \<Longrightarrow> insert_row put r t = (i, t') \<Longrightarrow> table_ok get t'"
  by (fastforce simp: table_ok_def insert_row_def get_put)

lemma insert_fresh: "table_ok get t \<Longrightarrow> insert_row put r t = (i, t') \<Longrightarrow> lookup_row get i t = None"
  by (auto simp: table_ok_def insert_row_def lookup_row_def find_None_iff)

lemma lookup_insert:
  assumes "table_ok get t" and "insert_row put r t = (i, t')"
  shows "lookup_row get i t' = Some (put i r)"
proof -
  have "List.find (\<lambda>r. get r = i) (rows t) = None"
    using insert_fresh [OF assms] by (simp add: lookup_row_def)
  moreover have "List.find P (xs @ [x]) = (case List.find P xs of None \<Rightarrow> if P x then Some x else None | Some y \<Rightarrow> Some y)"
    for P xs and x :: 'r
    by (induction xs) auto
  ultimately show ?thesis
    using assms(2) by (auto simp: insert_row_def lookup_row_def get_put)
qed

lemma lookup_insert_other:
  assumes "insert_row put r t = (i, t')" and "j \<noteq> i"
  shows "lookup_row get j t' = lookup_row get j t"
proof -
  have "List.find P (xs @ [x]) = List.find P xs" if "\<not> P x" for P xs and x :: 'r
    using that by (induction xs) auto
  with assms show ?thesis by (auto simp: insert_row_def lookup_row_def get_put)
qed

lemma update_ok:
  assumes "table_ok get t" and "\<And>r. get (f r) = get r"
  shows "table_ok get (update_row get i f t)"
  using assms by (auto simp: table_ok_def update_row_def map_update_where in_update_where)

lemma lookup_update:
  assumes "\<And>r. get (f r) = get r"
  shows "lookup_row get i (update_row get j f t) =
    map_option (\<lambda>r. if i = j then f r else r) (lookup_row get i t)"
  using find_update_where_key [of get f i j "rows t"] assms
  by (simp add: lookup_row_def rows_update_row)

lemma lookup_get: "lookup_row get i t = Some r \<Longrightarrow> get r = i \<and> r \<in> set (rows t)"
  by (auto simp: lookup_row_def dest: find_Some_in)

lemma lookup_iff_member:
  "table_ok get t \<Longrightarrow> lookup_row get i t = Some r \<longleftrightarrow> r \<in> set (rows t) \<and> get r = i"
proof
  assume ok: "table_ok get t" and mem: "r \<in> set (rows t) \<and> get r = i"
  then obtain r' where r': "lookup_row get i t = Some r'"
    by (cases "lookup_row get i t") (auto simp: lookup_row_def find_None_iff)
  with ok mem lookup_get [OF r'] have "r' = r"
    by (auto simp: table_ok_def distinct_map inj_on_def)
  with r' show "lookup_row get i t = Some r" by simp
qed (simp add: lookup_get)

end

section \<open>Status columns\<close>

locale lifecycle =
  fixes step :: "'st \<Rightarrow> 'st \<Rightarrow> bool" and final :: "'st \<Rightarrow> bool"
  assumes final_stays: "final a \<Longrightarrow> step a b \<Longrightarrow> b = a"
begin

lemma final_forever: "step\<^sup>*\<^sup>* a b \<Longrightarrow> final a \<Longrightarrow> b = a"
  by (induction rule: rtranclp_induct) (auto dest: final_stays)

end

end
