(* ===== verification/World.thy ===== *)
theory World
  imports Tables Json
begin

text \<open>
  The data model of \<open>db/models.py\<close>, the sessions of \<open>db/session.py\<close>, and the state of a
  process of the system: the database, the settings cache, the clocks, the environment
  variables, the alerts sent and the state of the IBKR client library.

  Times are integers, in milliseconds: a moment is the number of milliseconds since the epoch
  (UTC), and the monotonic clock, of which the code only uses differences, is the same number.
  A date is a day number.  Whether the \<open>k\<close>-th database session can be committed is the
  environment's choice (\<open>db_up\<close>), so a failure can strike between any two database accesses.
  The calls of the loggers are left out of the components: no operation depends on them, and the logger has a
  theory of its own.
\<close>

section \<open>Rows\<close>

record trade =
  t_id :: int
  t_symbol :: string
  t_action :: string
  t_mode :: string
  t_status :: string
  t_shares :: int
  t_entry :: pyfloat
  t_target :: pyfloat
  t_stop :: pyfloat
  t_fill :: "pyfloat option"
  t_exit :: "pyfloat option"
  t_pnl :: "pyfloat option"
  t_order_id :: "int option"
  t_ml_label :: string
  t_ml_prob :: pyfloat
  t_confirmed :: bool
  t_explanation :: "string option"
  t_created :: int
  t_filled_at :: "int option"
  t_closed_at :: "int option"

record setting =
  s_key :: string
  s_value :: string
  s_description :: "string option"
  s_updated :: int

record ml_job =
  j_id :: int
  j_type :: string
  j_status :: string
  j_started :: int
  j_finished :: "int option"
  j_version :: "string option"
  j_metrics :: "(string \<times> json) list option"
  j_error :: "string option"
  j_params :: "(string \<times> json) list option"
  j_requested_by :: "string option"

record selection =
  u_id :: int
  u_date :: int
  u_candidates :: "json list"
  u_selected :: "string option"
  u_status :: string
  u_reasoning :: "string option"
  u_created :: int
  u_decided_at :: "int option"
  u_decided_by :: "string option"

record log_entry =
  l_id :: int
  l_timestamp :: int
  l_level :: string
  l_category :: string
  l_module :: string
  l_func :: string
  l_line :: int
  l_message :: string
  l_extra :: "json option"

record db =
  trades :: "trade table"
  settings :: "setting list"
  jobs :: "ml_job table"
  selections :: "selection table"
  log_entries :: "log_entry table"

definition empty_db :: db where
  "empty_db = \<lparr>trades = empty_table, settings = [], jobs = empty_table,
     selections = empty_table, log_entries = empty_table\<rparr>"

interpretation trade_tab: row_table t_id "\<lambda>i r. r\<lparr>t_id := i\<rparr>"
  by unfold_locales simp

interpretation job_tab: row_table j_id "\<lambda>i r. r\<lparr>j_id := i\<rparr>"
  by unfold_locales simp

interpretation selection_tab: row_table u_id "\<lambda>i r. r\<lparr>u_id := i\<rparr>"
  by unfold_locales simp

interpretation log_tab: row_table l_id "\<lambda>i r. r\<lparr>l_id := i\<rparr>"
  by unfold_locales simp

section \<open>The process state\<close>

text \<open>The model manifest \<open>version.json\<close>, and the handle of the model the process has loaded.\<close>

datatype manifest_file = Missing | Unreadable | Doc json

datatype alert = Email string string | Webhook string string string "(string \<times> pyval) list"

text \<open>
  \<open>stop_at\<close> is the moment the process receives SIGTERM or SIGINT, when it does: the handler of
  \<open>bot/core/__main__.py\<close> then sets both \<open>_shutdown_event\<close> and \<open>poll_interrupt\<close>.
\<close>

record 'ib world =
  db :: db
  db_up :: "nat \<Rightarrow> bool"
  db_calls :: nat
  clock :: int
  tz_offset :: int
  stop_at :: "int option"
  cfg_cache :: "string \<Rightarrow> string option"
  cfg_loaded :: "int option"
  cfg_ttl :: int
  environ :: "string \<Rightarrow> string option"
  outbox :: "alert list"
  contracts :: "string \<Rightarrow> int option"
  manifest :: manifest_file
  model_files :: "string list"
  booster :: "int option"
  ib :: 'ib

text \<open>A process that has just been started on an empty database that always answers.\<close>

definition boot_world :: "'ib \<Rightarrow> 'ib world" where
  "boot_world s = \<lparr>db = empty_db, db_up = (\<lambda>_. True), db_calls = 0, clock = 0, tz_offset = 0,
     stop_at = None, cfg_cache = Map.empty, cfg_loaded = None, cfg_ttl = 60, environ = Map.empty,
     outbox = [], contracts = Map.empty, manifest = Missing, model_files = [],
     booster = None, ib = s\<rparr>"

definition ms_per_day :: int where
  "ms_per_day = 86400000"

definition day_of :: "int \<Rightarrow> int" where
  "day_of t = t div ms_per_day"

text \<open>\<open>datetime.now(tz=timezone.utc).date()\<close> and \<open>date.today()\<close>, which is in local time.\<close>

definition utc_today :: "'ib world \<Rightarrow> int" where
  "utc_today w = day_of (clock w)"

definition local_today :: "'ib world \<Rightarrow> int" where
  "local_today w = day_of (clock w + tz_offset w)"

text \<open>\<open>datetime(today.year, today.month, today.day, tzinfo=timezone.utc)\<close>.\<close>

definition day_start :: "int \<Rightarrow> int" where
  "day_start d = d * ms_per_day"

text \<open>\<open>Event.wait(timeout)\<close> on the shutdown events: True at once when the event is set.\<close>

definition wait_stop :: "int \<Rightarrow> ('ib world, bool) M" where
  "wait_stop d = (\<lambda>w. case stop_at w of
      Some t \<Rightarrow> if t \<le> clock w + d then (Inr True, w\<lparr>clock := max (clock w) t\<rparr>)
               else (Inr False, w\<lparr>clock := clock w + d\<rparr>)
    | None \<Rightarrow> (Inr False, w\<lparr>clock := clock w + d\<rparr>))"

definition sleep :: "int \<Rightarrow> ('ib world, unit) M" where
  "sleep d = modifyM (\<lambda>w. w\<lparr>clock := clock w + d\<rparr>)"

section \<open>Sessions\<close>

text \<open>
  \<open>with get_session() as session: body\<close>.  The body works on the database; an exception in it
  rolls the session back, and a database that cannot be reached (at connection, during the body
  or at commit) raises, also without any change.
\<close>

definition with_session :: "(db \<Rightarrow> 'a res \<times> db) \<Rightarrow> ('ib world, 'a) M" where
  "with_session body = (\<lambda>w.
     let w' = w\<lparr>db_calls := Suc (db_calls w)\<rparr> in
     if \<not> db_up w (db_calls w) then (Inl DbError, w')
     else case body (db w) of
         (Inl e, _) \<Rightarrow> (Inl e, w')
       | (Inr x, d) \<Rightarrow> (Inr x, w'\<lparr>db := d\<rparr>))"

definition query :: "(db \<Rightarrow> 'a) \<Rightarrow> ('ib world, 'a) M" where
  "query f = with_session (\<lambda>d. (Inr (f d), d))"

definition execute_update :: "(db \<Rightarrow> db) \<Rightarrow> ('ib world, unit) M" where
  "execute_update f = with_session (\<lambda>d. (Inr (), f d))"

text \<open>A database that always answers.\<close>

definition db_reliable :: "'ib world \<Rightarrow> bool" where
  "db_reliable w \<longleftrightarrow> (\<forall>n. db_up w n)"

text \<open>A session either raises and leaves the database alone, or commits its body.\<close>

lemma with_session_cases:
  assumes "with_session body w = (r, w')"
  obtains (failed) e where "r = Inl e" "w' = w\<lparr>db_calls := Suc (db_calls w)\<rparr>"
        | (committed) x d where "db_up w (db_calls w)" "body (db w) = (Inr x, d)" "r = Inr x"
            "w' = w\<lparr>db_calls := Suc (db_calls w), db := d\<rparr>"
  using assms by (auto simp: with_session_def Let_def split: if_splits prod.splits sum.splits)

lemma query_apply:
  "query f w = (if db_up w (db_calls w) then (Inr (f (db w)), w\<lparr>db_calls := Suc (db_calls w)\<rparr>)
     else (Inl DbError, w\<lparr>db_calls := Suc (db_calls w)\<rparr>))"
  by (simp add: query_def with_session_def Let_def)

lemma execute_update_apply:
  "execute_update f w = (if db_up w (db_calls w)
     then (Inr (), w\<lparr>db_calls := Suc (db_calls w), db := f (db w)\<rparr>)
     else (Inl DbError, w\<lparr>db_calls := Suc (db_calls w)\<rparr>))"
  by (simp add: execute_update_def with_session_def Let_def)

lemma keeps_with_session:
  assumes "\<And>w. P w \<Longrightarrow> P (w\<lparr>db_calls := Suc (db_calls w)\<rparr>)"
    and "\<And>w x d. P w \<Longrightarrow> body (db w) = (Inr x, d) \<Longrightarrow> P (w\<lparr>db_calls := Suc (db_calls w), db := d\<rparr>)"
  shows "keeps P (with_session body)"
proof (rule keepsI)
  fix w r w' assume "with_session body w = (r, w')" and "P w"
  then show "P w'" using assms by (cases rule: with_session_cases) auto
qed

lemma frame_with_session:
  assumes "\<And>w d n. f (w\<lparr>db_calls := n, db := d\<rparr>) = f w"
    and "\<And>w n. f (w\<lparr>db_calls := n\<rparr>) = f w"
  shows "frame f (with_session body)"
  unfolding frame_iff_keeps using assms by (auto intro!: keeps_with_session)

lemma frame_query:
  "(\<And>w n. f (w\<lparr>db_calls := n\<rparr>) = f w) \<Longrightarrow> frame f (query g)"
  by (auto simp: frame_def query_apply)

text \<open>What no session touches.\<close>

lemma frame_session_clock [frame_rules]: "frame clock (with_session body)"
  by (rule frame_with_session) simp_all

lemma frame_session_ib [frame_rules]: "frame ib (with_session body)"
  by (rule frame_with_session) simp_all

lemma frame_session_outbox [frame_rules]: "frame outbox (with_session body)"
  by (rule frame_with_session) simp_all

lemma frame_query_db [frame_rules]: "frame db (query g)"
  by (rule frame_query) simp

lemma frame_query_ib [frame_rules]: "frame ib (query g)"
  by (simp add: query_def frame_rules)

lemma frame_query_clock [frame_rules]: "frame clock (query g)"
  by (simp add: query_def frame_rules)

lemma frame_query_outbox [frame_rules]: "frame outbox (query g)"
  by (simp add: query_def frame_rules)

lemma frame_update_ib [frame_rules]: "frame ib (execute_update g)"
  by (simp add: execute_update_def frame_rules)

lemma frame_update_clock [frame_rules]: "frame clock (execute_update g)"
  by (simp add: execute_update_def frame_rules)

lemma frame_update_outbox [frame_rules]: "frame outbox (execute_update g)"
  by (simp add: execute_update_def frame_rules)

section \<open>Reading rows after their session has ended\<close>

text \<open>
  \<open>get_session\<close> commits and closes the session when its block ends.  Several handlers read the
  attributes of ORM objects after that.  What such a read does is SQLAlchemy's behaviour and a
  parameter, \<open>detached\<close>: with the library's default \<open>expire_on_commit=True\<close>, which
  \<open>sessionmaker(bind=_engine, autoflush=False)\<close> keeps, it raises \<open>DetachedInstanceError\<close>.
\<close>

definition expires_on_commit :: "('r \<Rightarrow> 'r res) \<Rightarrow> bool" where
  "expires_on_commit detached \<longleftrightarrow> (\<forall>r. detached r = Inl DetachedInstanceError)"

definition keeps_on_commit :: "('r \<Rightarrow> 'r res) \<Rightarrow> bool" where
  "keeps_on_commit detached \<longleftrightarrow> (\<forall>r. detached r = Inr r)"

fun read_detached :: "('r \<Rightarrow> 'r res) \<Rightarrow> 'r list \<Rightarrow> 'r list res" where
  "read_detached detached [] = Inr []"
| "read_detached detached (r # rs) =
     res_bind (detached r) (\<lambda>r'. res_bind (read_detached detached rs) (\<lambda>rs'. Inr (r' # rs')))"

lemma read_detached_keeps: "keeps_on_commit d \<Longrightarrow> read_detached d rs = Inr rs"
  by (induction rs) (simp_all add: keeps_on_commit_def)

lemma read_detached_expires: "expires_on_commit d \<Longrightarrow> rs \<noteq> [] \<Longrightarrow>
    read_detached d rs = Inl DetachedInstanceError"
  by (cases rs) (simp_all add: expires_on_commit_def)

text \<open>A handler that queries rows in a session and prints them after it.\<close>

definition read_page :: "(db \<Rightarrow> 'r list) \<Rightarrow> ('r \<Rightarrow> 'r res) \<Rightarrow> ('r \<Rightarrow> 'a) \<Rightarrow> ('ib world, 'a list) M" where
  "read_page f detached g =
     bindM (query f) (\<lambda>rs. bindM (liftR (read_detached detached rs)) (\<lambda>rs. ret (map g rs)))"

lemma read_page_keeps:
  "keeps_on_commit d \<Longrightarrow> db_up w (db_calls w) \<Longrightarrow> fst (read_page f d g w) = Inr (map g (f (db w)))"
  by (simp add: read_page_def bindM_def query_apply liftR_def ret_def read_detached_keeps)

lemma read_page_expires:
  "expires_on_commit d \<Longrightarrow> db_up w (db_calls w) \<Longrightarrow>
   fst (read_page f d g w) = (if f (db w) = [] then Inr [] else Inl DetachedInstanceError)"
  by (simp add: read_page_def bindM_def query_apply liftR_def ret_def read_detached_expires)

lemma frame_read_page [frame_rules]:
  "frame db (read_page f d g)" "frame ib (read_page f d g)" "frame clock (read_page f d g)"
  by (simp_all add: read_page_def frame_rules)

end
