(* ===== verification/Config.thy ===== *)
theory Config
  imports World
begin

text \<open>
  The settings loader \<open>bot/utils/config.py\<close>: a cache of the \<open>settings\<close> table with a time to
  live, casts, and the calling convention of \<open>get\<close>, whose \<open>default\<close> and \<open>cast\<close> parameters are
  keyword-only.  \<open>_loaded_at == 0.0\<close> is \<open>None\<close>.  The locale \<open>settings_source\<close> is the contract
  the components read settings under.
\<close>

section \<open>The cache\<close>

text \<open>\<open>_TTL\<close> is read from the environment once, when the module is loaded.\<close>

definition parse_ttl :: "string option \<Rightarrow> int" where
  "parse_ttl env = (case parse_int (case env of Some raw \<Rightarrow> raw | None \<Rightarrow> ''60'') of
     Some n \<Rightarrow> n | None \<Rightarrow> 60)"

definition load_config_module :: "('ib world, unit) M" where
  "load_config_module = modifyM (\<lambda>w. w\<lparr>cfg_ttl := parse_ttl (environ w ''CONFIG_CACHE_TTL''),
     cfg_cache := Map.empty, cfg_loaded := None\<rparr>)"

text \<open>The table as \<open>{key: value for key, value in rows}\<close>: a later row wins.\<close>

definition load_from_db :: "('ib world, string \<Rightarrow> string option) M" where
  "load_from_db = query (\<lambda>d. map_of (rev (map (\<lambda>s. (s_key s, s_value s)) (settings d))))"

definition cache_fresh :: "'ib world \<Rightarrow> bool" where
  "cache_fresh w \<longleftrightarrow> (case cfg_loaded w of
      Some t \<Rightarrow> clock w - t < 1000 * cfg_ttl w | None \<Rightarrow> False)"

definition refresh :: "bool \<Rightarrow> ('ib world, unit) M" where
  "refresh force = (\<lambda>w.
     if \<not> force \<and> cache_fresh w then (Inr (), w)
     else try_except
       (bindM load_from_db (\<lambda>fresh. modifyM (\<lambda>u. u\<lparr>cfg_cache := fresh, cfg_loaded := Some (clock w)\<rparr>)))
       any_exception
       (\<lambda>_. if cfg_loaded w = None then raise ConfigError else ret ()) w)"

section \<open>Casts\<close>

datatype cast = CStr | CInt | CFloat | CBool

definition bool_true :: "string list" where
  "bool_true = [''true'', ''1'', ''yes'', ''on'']"

fun cast_value :: "string \<Rightarrow> cast \<Rightarrow> pyval res" where
  "cast_value raw CStr = Inr (VStr raw)"
| "cast_value raw CInt = (case parse_int raw of Some n \<Rightarrow> Inr (VInt n) | None \<Rightarrow> Inl ConfigError)"
| "cast_value raw CFloat = (case parse_float raw of Some x \<Rightarrow> Inr (VFloat x) | None \<Rightarrow> Inl ConfigError)"
| "cast_value raw CBool = Inr (VBool (py_lower (strip raw) \<in> set bool_true))"

text \<open>
  \<open>_cast_value(str(default), cast)\<close>, written for each kind of default: \<open>float(str(x)) == x\<close> and
  \<open>int(str(n)) == n\<close>, the text of a float is not an integer, and \<open>True\<close>, \<open>False\<close> and \<open>None\<close>
  are read as the words.
\<close>

fun cast_default :: "pyval \<Rightarrow> cast \<Rightarrow> pyval res" where
  "cast_default v CStr = Inr v"
| "cast_default (VStr s) c = cast_value s c"
| "cast_default (VInt n) CInt = Inr (VInt n)"
| "cast_default (VInt n) CFloat = Inr (VFloat (Fin (of_int n)))"
| "cast_default (VInt n) CBool = Inr (VBool (n = 1))"
| "cast_default (VFloat x) CFloat = Inr (VFloat x)"
| "cast_default (VFloat x) CInt = Inl ConfigError"
| "cast_default (VFloat x) CBool = Inr (VBool False)"
| "cast_default (VBool b) CBool = Inr (VBool b)"
| "cast_default (VBool b) c = Inl ConfigError"
| "cast_default VNone CBool = Inr (VBool False)"
| "cast_default VNone c = Inl ConfigError"

section \<open>Lookup\<close>

definition get_setting :: "string \<Rightarrow> pyval option \<Rightarrow> cast \<Rightarrow> ('ib world, pyval) M" where
  "get_setting key dflt c =
     bindM (refresh False) (\<lambda>_.
     bindM (gets (\<lambda>w. cfg_cache w key)) (\<lambda>raw.
       case raw of
         None \<Rightarrow> (case dflt of Some d \<Rightarrow> liftR (cast_default d c) | None \<Rightarrow> raise ConfigError)
       | Some r \<Rightarrow> liftR (cast_value r c)))"

text \<open>
  A call as the interpreter binds it: \<open>def get(key, *, default=_SENTINEL, cast=str)\<close> takes one
  positional argument, and any other number of them is a \<open>TypeError\<close> before the body runs.
\<close>

definition call_get :: "pyval list \<Rightarrow> pyval option \<Rightarrow> cast \<Rightarrow> ('ib world, pyval) M" where
  "call_get args dflt c = (case args of
      [VStr key] \<Rightarrow> get_setting key dflt c
    | _ \<Rightarrow> raise TypeError)"

definition reload :: "('ib world, unit) M" where
  "reload = refresh True"

definition all_settings :: "('ib world, string \<Rightarrow> string option) M" where
  "all_settings = bindM (refresh False) (\<lambda>_. gets cfg_cache)"

text \<open>\<open>except ConfigError\<close>.\<close>

definition is_config_error :: "exc \<Rightarrow> bool" where
  "is_config_error e \<longleftrightarrow> e = ConfigError"

section \<open>Frames\<close>

lemma frame_load_from_db [frame_rules]:
  "frame db load_from_db" "frame ib load_from_db" "frame clock load_from_db" "frame outbox load_from_db"
  "frame cfg_loaded load_from_db" "frame cfg_cache load_from_db"
  by (auto simp: load_from_db_def frame_def query_apply)

lemma refresh_frames: 
  assumes "\<And>w n. f (w\<lparr>db_calls := n\<rparr>) = f w"
    and "\<And>w c t. f (w\<lparr>cfg_cache := c, cfg_loaded := t\<rparr>) = f w"
  shows "frame f (refresh force)"
  using assms
  by (auto simp: frame_def refresh_def load_from_db_def query_apply try_except_def bindM_def
      modifyM_def raise_def ret_def split: if_splits)

lemma get_setting_frames:
  assumes "frame f (refresh False)"
  shows "frame f (get_setting key d c)"
  using assms by (auto simp: get_setting_def intro!: frame_rules split: option.splits)

lemma call_get_frames:
  assumes "frame f (refresh False)"
  shows "frame f (call_get args d c)"
  using get_setting_frames [OF assms]
  by (auto simp: call_get_def frame_raise split: list.splits pyval.splits)

lemma frame_refresh [frame_rules]:
  "frame db (refresh force)" "frame ib (refresh force)" "frame clock (refresh force)"
  "frame outbox (refresh force)" "frame db_up (refresh force)" "frame environ (refresh force)"
  "frame stop_at (refresh force)" "frame tz_offset (refresh force)" "frame contracts (refresh force)"
  by (rule refresh_frames; simp)+

lemma frame_get_setting [frame_rules]:
  "frame db (get_setting k d c)" "frame ib (get_setting k d c)"
  "frame clock (get_setting k d c)" "frame outbox (get_setting k d c)"
  "frame environ (get_setting k d c)" "frame stop_at (get_setting k d c)"
  "frame tz_offset (get_setting k d c)" "frame db_up (get_setting k d c)"
  "frame contracts (get_setting k d c)"
  by (rule get_setting_frames frame_rules)+

lemma frame_call_get [frame_rules]:
  "frame db (call_get a d c)" "frame ib (call_get a d c)"
  "frame clock (call_get a d c)" "frame outbox (call_get a d c)"
  "frame environ (call_get a d c)" "frame stop_at (call_get a d c)"
  "frame tz_offset (call_get a d c)" "frame db_up (call_get a d c)"
  "frame contracts (call_get a d c)"
  by (rule call_get_frames frame_rules)+

section \<open>Typed reads\<close>

text \<open>\<open>get(key, cast=c, default=d)\<close> at a default of the type of the cast, as the components call it.
  The cast yields a value of that type, so the projections never fail.\<close>

fun as_str :: "pyval \<Rightarrow> string res" where
  "as_str (VStr s) = Inr s"
| "as_str v = Inl TypeError"

fun as_int :: "pyval \<Rightarrow> int res" where
  "as_int (VInt n) = Inr n"
| "as_int v = Inl TypeError"

fun as_float :: "pyval \<Rightarrow> pyfloat res" where
  "as_float (VFloat x) = Inr x"
| "as_float v = Inl TypeError"

fun as_bool :: "pyval \<Rightarrow> bool res" where
  "as_bool (VBool b) = Inr b"
| "as_bool v = Inl TypeError"

definition get_str :: "string \<Rightarrow> string option \<Rightarrow> ('ib world, string) M" where
  "get_str key d = bindM (get_setting key (map_option VStr d) CStr) (\<lambda>v. liftR (as_str v))"

definition get_int :: "string \<Rightarrow> int option \<Rightarrow> ('ib world, int) M" where
  "get_int key d = bindM (get_setting key (map_option VInt d) CInt) (\<lambda>v. liftR (as_int v))"

definition get_float :: "string \<Rightarrow> pyfloat option \<Rightarrow> ('ib world, pyfloat) M" where
  "get_float key d = bindM (get_setting key (map_option VFloat d) CFloat) (\<lambda>v. liftR (as_float v))"

definition get_bool :: "string \<Rightarrow> bool option \<Rightarrow> ('ib world, bool) M" where
  "get_bool key d = bindM (get_setting key (map_option VBool d) CBool) (\<lambda>v. liftR (as_bool v))"

lemmas typed_get_defs = get_str_def get_int_def get_float_def get_bool_def

text \<open>The state trading depends on; reading a setting and sending an alert leave it alone.\<close>

definition trading_state :: "'ib world \<Rightarrow> db \<times> 'ib \<times> int \<times> (string \<Rightarrow> int option) \<times> int option
    \<times> int \<times> (nat \<Rightarrow> bool) \<times> (string \<Rightarrow> string option) \<times> int \<times> manifest_file \<times> string list" where
  "trading_state w = (db w, ib w, clock w, contracts w, stop_at w, tz_offset w, db_up w, environ w, cfg_ttl w,
     manifest w, model_files w)"

lemma frame_of_state:
  "frame trading_state m \<Longrightarrow> (\<And>w w'. trading_state w = trading_state w' \<Longrightarrow> f w = f w') \<Longrightarrow> frame f m"
  by (metis frame_def)

lemma state_frames:
  assumes "frame trading_state m"
  shows "frame db m" "frame ib m" "frame clock m" "frame contracts m" "frame stop_at m"
    "frame tz_offset m" "frame db_up m" "frame environ m" "frame cfg_ttl m" "frame manifest m" "frame model_files m"
  by (rule frame_of_state [OF assms]; simp add: trading_state_def)+

lemma keeps_clock_state: "frame trading_state m \<Longrightarrow> keeps (\<lambda>w. t \<le> clock w) m"
  using state_frames(3) [of m] by (simp add: frame_def keeps_def)

lemma frame_state_get_setting: "frame trading_state (get_setting key d c)"
  by (rule get_setting_frames, rule refresh_frames) (simp_all add: trading_state_def)

text \<open>The contract the components read settings under.\<close>

locale settings_source =
  fixes G :: "('ib world, 'v) M"
  assumes state_frame: "frame trading_state G" and alerts_frame: "frame outbox G"
begin

text \<open>\<open>try: v = get(..) except Exception: v = d\<close>, the pattern of the callers, always returns a
  value and only touches the settings cache.\<close>

lemma guarded_returns: "\<exists>v w'. try_except G any_exception (\<lambda>_. ret d) w = (Inr v, w')
    \<and> trading_state w' = trading_state w \<and> outbox w' = outbox w"
proof (cases "G w")
  case (Pair r u)
  then have "trading_state u = trading_state w" "outbox u = outbox w"
    using frameD [OF state_frame] frameD [OF alerts_frame] by blast+
  with Pair show ?thesis by (cases r) (auto simp: try_except_def ret_def)
qed

lemmas db_frame = state_frames(1) [OF state_frame]
lemmas clock_frame = state_frames(3) [OF state_frame]
lemmas later_clock = keeps_clock_state [OF state_frame]

end

interpretation str_setting: settings_source "get_str key d" for key d
  by unfold_locales (auto simp: get_str_def intro!: frame_rules frame_state_get_setting)

interpretation int_setting: settings_source "get_int key d" for key d
  by unfold_locales (auto simp: get_int_def intro!: frame_rules frame_state_get_setting)

interpretation float_setting: settings_source "get_float key d" for key d
  by unfold_locales (auto simp: get_float_def intro!: frame_rules frame_state_get_setting)

interpretation bool_setting: settings_source "get_bool key d" for key d
  by unfold_locales (auto simp: get_bool_def intro!: frame_rules frame_state_get_setting)

lemmas setting_frames [frame_rules] =
  str_setting.state_frame int_setting.state_frame float_setting.state_frame bool_setting.state_frame
  str_setting.alerts_frame int_setting.alerts_frame float_setting.alerts_frame bool_setting.alerts_frame
  str_setting.db_frame int_setting.db_frame float_setting.db_frame bool_setting.db_frame
  str_setting.clock_frame int_setting.clock_frame float_setting.clock_frame bool_setting.clock_frame

lemmas setting_clock [keeps_rules] =
  str_setting.later_clock int_setting.later_clock float_setting.later_clock bool_setting.later_clock

section \<open>Properties\<close>

definition table_value :: "db \<Rightarrow> string \<Rightarrow> string option" where
  "table_value d = map_of (rev (map (\<lambda>s. (s_key s, s_value s)) (settings d)))"

text \<open>The settings a lookup sees: the cache while it is fresh, else the table, else, when the
  database does not answer, the stale cache if there is one.\<close>

definition visible_settings :: "'ib world \<Rightarrow> (string \<Rightarrow> string option) option" where
  "visible_settings w =
     (if cache_fresh w then Some (cfg_cache w)
      else if db_up w (db_calls w) then Some (table_value (db w))
      else if cfg_loaded w \<noteq> None then Some (cfg_cache w) else None)"

lemma refresh_result:
  "refresh False w =
    (if cache_fresh w then (Inr (), w)
     else if db_up w (db_calls w)
     then (Inr (), w\<lparr>db_calls := Suc (db_calls w), cfg_cache := table_value (db w), cfg_loaded := Some (clock w)\<rparr>)
     else if cfg_loaded w \<noteq> None then (Inr (), w\<lparr>db_calls := Suc (db_calls w)\<rparr>)
     else (Inl ConfigError, w\<lparr>db_calls := Suc (db_calls w)\<rparr>))"
  by (auto simp: refresh_def load_from_db_def query_apply try_except_def bindM_def modifyM_def
      raise_def ret_def table_value_def)

text \<open>A lookup of a setting is a function of the settings it sees: the cast of the stored text,
  the cast of the default when the key is absent, and \<open>ConfigError\<close> without one.  When the
  database cannot be reached before the first load, it is \<open>ConfigError\<close> for every key, whether
  or not the caller gave a default.\<close>

theorem config_get_result:
  "fst (get_setting key dflt c w) = (case visible_settings w of
      None \<Rightarrow> Inl ConfigError
    | Some m \<Rightarrow> (case m key of
        Some raw \<Rightarrow> cast_value raw c
      | None \<Rightarrow> (case dflt of Some d \<Rightarrow> cast_default d c | None \<Rightarrow> Inl ConfigError)))"
  by (auto simp: get_setting_def bindM_def refresh_result visible_settings_def gets_def liftR_def
      raise_def split: option.split)

text \<open>C29: a value written to the table is seen by the first lookup after a \<open>reload\<close>, and that
  lookup reads the cache, not the database.\<close>

theorem config_read_your_writes:
  assumes "db_up w (db_calls w)" and "0 < cfg_ttl w" and "table_value (db w) key = Some raw"
  shows "\<exists>w'. reload w = (Inr (), w') \<and> get_setting key dflt c w' = (cast_value raw c, w')
    \<and> db_calls w' = Suc (db_calls w)"
  using assms
  by (auto simp: reload_def refresh_def load_from_db_def query_apply try_except_def bindM_def
      modifyM_def ret_def table_value_def get_setting_def cache_fresh_def gets_def liftR_def)

lemma config_read_your_writes_witness:
  "\<exists>w'. reload ((boot_world ())\<lparr>db := empty_db\<lparr>settings := [\<lparr>s_key = ''TRADING_MODE'', s_value = ''paper'',
      s_description = None, s_updated = 0\<rparr>]\<rparr>\<rparr>) = (Inr (), w')
    \<and> get_setting ''TRADING_MODE'' None CStr w' = (Inr (VStr ''paper''), w') \<and> db_calls w' = Suc 0"
  using config_read_your_writes [of "(boot_world ())\<lparr>db := empty_db\<lparr>settings := [\<lparr>s_key = ''TRADING_MODE'',
      s_value = ''paper'', s_description = None, s_updated = 0\<rparr>]\<rparr>\<rparr>" "''TRADING_MODE''" "''paper''" None CStr]
  by (simp add: boot_world_def table_value_def)

end
