(* ===== verification/Py_Time.thy ===== *)
theory Py_Time
  imports Py_Str
begin

text \<open>
  The calendar of Python's \<open>datetime\<close>: the year, month and day of a day number (days since the
  first of January 1970) in the proleptic Gregorian calendar, and the texts \<open>isoformat\<close> and
  \<open>strftime\<close> make of a UTC moment given in milliseconds.
\<close>

definition civil :: "int \<Rightarrow> int \<times> int \<times> int" where
  "civil d = (let z = d + 719468;
        era = z div 146097;
        doe = z mod 146097;
        yoe = (doe - doe div 1460 + doe div 36524 - doe div 146096) div 365;
        doy = doe - (365 * yoe + yoe div 4 - yoe div 100);
        mp = (5 * doy + 2) div 153;
        day = doy - (153 * mp + 2) div 5 + 1;
        month = (if mp < 10 then mp + 3 else mp - 9);
        year = yoe + era * 400 + (if month \<le> 2 then 1 else 0)
     in (year, month, day))"

definition pad_num :: "nat \<Rightarrow> int \<Rightarrow> string" where
  "pad_num n k = pad_left n CHR ''0'' (show_int k)"

definition iso_date :: "int \<Rightarrow> string" where
  "iso_date d = (case civil d of (y, m, dd) \<Rightarrow> pad_num 4 y @ ''-'' @ pad_num 2 m @ ''-'' @ pad_num 2 dd)"

text \<open>Hours, minutes, seconds and milliseconds of the day.\<close>

definition time_of :: "int \<Rightarrow> int \<times> int \<times> int \<times> int" where
  "time_of t = (let s = t div 1000 in (s mod 86400 div 3600, s mod 3600 div 60, s mod 60, t mod 1000))"

definition iso_text :: "int \<Rightarrow> string" where
  "iso_text t = (case time_of t of (h, m, s, ms) \<Rightarrow> iso_date (t div 86400000) @ ''T'' @ pad_num 2 h @ '':''
     @ pad_num 2 m @ '':'' @ pad_num 2 s @ (if ms = 0 then '''' else ''.'' @ pad_num 3 ms @ ''000'') @ ''+00:00'')"

text \<open>\<open>strftime("%Y%m%d_%H%M%S")\<close>.\<close>

definition stamp_text :: "int \<Rightarrow> string" where
  "stamp_text t = (case civil (t div 86400000) of (y, mo, d) \<Rightarrow> (case time_of t of (h, m, s, _) \<Rightarrow>
     pad_num 4 y @ pad_num 2 mo @ pad_num 2 d @ ''_'' @ pad_num 2 h @ pad_num 2 m @ pad_num 2 s))"

lemma civil_examples: "civil 0 = (1970, 1, 1)" "civil 11016 = (2000, 2, 29)" "civil 19723 = (2024, 1, 1)"
  "civil (- 1) = (1969, 12, 31)"
  by code_simp+

end
