(* ===== verification/Versioning.thy ===== *)
theory Versioning
  imports World Py_Time
begin

text \<open>
  The model manifest \<open>bot/ml/versioning.py\<close>.  The file \<open>version.json\<close> is missing, unreadable, or
  a JSON document; \<open>json.load\<close> of what \<open>json.dump\<close> wrote is the same document, and the write is
  atomic (a temporary file and a rename), so no other state occurs.  A model file is named by its
  version.
\<close>

section \<open>Dictionaries\<close>

type_synonym dict = "(string \<times> json) list"

definition dict_get :: "string \<Rightarrow> dict \<Rightarrow> json \<Rightarrow> json" where
  "dict_get k d v = (case obj_get k d of Some x \<Rightarrow> x | None \<Rightarrow> v)"

text \<open>\<open>d[k] = v\<close>.\<close>

definition dict_set :: "string \<Rightarrow> json \<Rightarrow> dict \<Rightarrow> dict" where
  "dict_set k v d = (if k \<in> fst ` set d then map (\<lambda>(j, x). if j = k then (j, v) else (j, x)) d else d @ [(k, v)])"

text \<open>\<open>entry["version"]\<close>.\<close>

fun json_index :: "json \<Rightarrow> string \<Rightarrow> json res" where
  "json_index (JObj kvs) k = (case obj_get k kvs of Some v \<Rightarrow> Inr v | None \<Rightarrow> Inl KeyError)"
| "json_index _ k = Inl TypeError"

lemma obj_get_iff: "obj_get k d = None \<longleftrightarrow> k \<notin> fst ` set d"
  by (auto simp: obj_get_def map_of_eq_None_iff)

lemma obj_get_set [simp]: "obj_get k (dict_set k v d) = Some v"
proof (cases "k \<in> fst ` set d")
  case True
  have "map_of (map (\<lambda>(j, x). if j = k then (j, v) else (j, x)) e) k = (if k \<in> fst ` set e then Some v else None)"
    for e :: dict
    by (induction e) auto
  from this [of "rev d"] True show ?thesis by (simp add: obj_get_def dict_set_def rev_map [symmetric])
next
  case False
  then show ?thesis by (simp add: obj_get_def dict_set_def)
qed

lemma obj_get_set_other: "j \<noteq> k \<Longrightarrow> obj_get j (dict_set k v d) = obj_get j d"
proof -
  assume "j \<noteq> k"
  then have "map_of (map (\<lambda>(i, x). if i = k then (i, v) else (i, x)) e) j = map_of e j" for e :: dict
    by (induction e) auto
  from this [of "rev d"] \<open>j \<noteq> k\<close> show ?thesis
    by (simp add: obj_get_def dict_set_def rev_map [symmetric])
qed

section \<open>The manifest\<close>

definition empty_manifest :: dict where
  "empty_manifest = [(''current'', JNull), (''versions'', JArr [])]"

definition load_manifest :: "('ib world, dict) M" where
  "load_manifest = bindM (gets manifest) (\<lambda>file. case file of
      Missing \<Rightarrow> ret empty_manifest
    | Unreadable \<Rightarrow> ret empty_manifest
    | Doc (JObj data) \<Rightarrow> ret (case dict_get ''versions'' data JNull of
          JArr _ \<Rightarrow> data | _ \<Rightarrow> dict_set ''versions'' (JArr []) data)
    | Doc _ \<Rightarrow> raise AttributeError)"

definition save_manifest :: "dict \<Rightarrow> ('ib world, unit) M" where
  "save_manifest d = modifyM (\<lambda>w. w\<lparr>manifest := Doc (JObj d)\<rparr>)"

text \<open>\<open>manifest.get("versions", [])\<close>, which is a list after \<open>load_manifest\<close>.\<close>

definition versions_of :: "dict \<Rightarrow> json list" where
  "versions_of d = (case dict_get ''versions'' d (JArr []) of JArr vs \<Rightarrow> vs | _ \<Rightarrow> [])"

fun find_entry :: "json list \<Rightarrow> json \<Rightarrow> json option res" where
  "find_entry [] version = Inr None"
| "find_entry (e # es) version = res_bind (json_index e ''version'') (\<lambda>v.
     if v = version then Inr (Some v) else find_entry es version)"

definition find_in_manifest :: "dict \<Rightarrow> json \<Rightarrow> json option res" where
  "find_in_manifest d version = find_entry (versions_of d) version"

definition get_current_version :: "('ib world, json) M" where
  "get_current_version = bindM load_manifest (\<lambda>d. ret (dict_get ''current'' d JNull))"

text \<open>The text a version has in the file name.\<close>

fun version_text :: "json \<Rightarrow> string" where
  "version_text (JStr s) = s"
| "version_text (JInt n) = show_int n"
| "version_text _ = ''''"

definition model_file :: "json \<Rightarrow> string" where
  "model_file v = ''model_'' @ version_text v @ ''.lgbm''"

definition get_model_path :: "json \<Rightarrow> ('ib world, string option) M" where
  "get_model_path version = bindM load_manifest (\<lambda>d.
     let v = (if version = JNull then dict_get ''current'' d JNull else version) in
     if v = JNull then ret None
     else bindM (liftR (find_in_manifest d v)) (\<lambda>trusted. case trusted of
         None \<Rightarrow> ret None
       | Some t \<Rightarrow> bindM (gets model_files) (\<lambda>files.
           ret (if model_file t \<in> set files then Some (model_file t) else None))))"

definition list_versions :: "('ib world, json list) M" where
  "list_versions = bindM load_manifest (\<lambda>d. ret (rev (versions_of d)))"

fun without_version :: "json list \<Rightarrow> json \<Rightarrow> json list res" where
  "without_version [] version = Inr []"
| "without_version (e # es) version = res_bind (json_index e ''version'') (\<lambda>v.
     res_bind (without_version es version) (\<lambda>rest. Inr (if v \<noteq> version then e # rest else rest)))"

definition version_entry :: "string \<Rightarrow> int \<Rightarrow> dict \<Rightarrow> int \<Rightarrow> json" where
  "version_entry version n_samples metrics now = JObj [(''version'', JStr version),
     (''trained_at'', JStr (iso_text now)), (''n_samples'', JInt n_samples), (''metrics'', JObj metrics)]"

definition register_version :: "string \<Rightarrow> int \<Rightarrow> dict \<Rightarrow> bool \<Rightarrow> ('ib world, unit) M" where
  "register_version version n_samples metrics set_current =
     bindM load_manifest (\<lambda>d.
     bindM (gets clock) (\<lambda>now.
     bindM (liftR (without_version (versions_of d) (JStr version))) (\<lambda>others.
       let d' = dict_set ''versions'' (JArr (others @ [version_entry version n_samples metrics now])) d;
           d'' = (if set_current then dict_set ''current'' (JStr version) d' else d')
       in save_manifest d'')))"

fun all_indices :: "json list \<Rightarrow> json list res" where
  "all_indices [] = Inr []"
| "all_indices (e # es) = res_bind (json_index e ''version'') (\<lambda>v. res_bind (all_indices es) (\<lambda>vs. Inr (v # vs)))"

text \<open>\<open>sorted\<close> of the known versions, for the message: texts and numbers do not compare.\<close>

fun is_text :: "json \<Rightarrow> bool" where
  "is_text (JStr s) = True"
| "is_text _ = False"

definition unknown_version :: "json list \<Rightarrow> exc" where
  "unknown_version es = (case all_indices es of
      Inl e \<Rightarrow> e
    | Inr vs \<Rightarrow> if list_all is_text vs \<or> length vs \<le> 1 then ValueError else TypeError)"

definition rollback :: "string \<Rightarrow> ('ib world, unit) M" where
  "rollback version = bindM load_manifest (\<lambda>d.
     bindM (liftR (find_in_manifest d (JStr version))) (\<lambda>trusted. case trusted of
         None \<Rightarrow> raise (unknown_version (versions_of d))
       | Some t \<Rightarrow> bindM (gets model_files) (\<lambda>files.
           if model_file t \<notin> set files then raise ValueError
           else save_manifest (dict_set ''current'' t d))))"

definition make_version_string :: "('ib world, string) M" where
  "make_version_string = bindM (gets clock) (\<lambda>now. ret (''v'' @ stamp_text now))"

section \<open>Well-formed manifests\<close>

text \<open>What \<open>register_version\<close> writes: every entry names its version, no two the same.\<close>

definition entry_version :: "json \<Rightarrow> string option" where
  "entry_version e = (case json_index e ''version'' of Inr (JStr s) \<Rightarrow> Some s | _ \<Rightarrow> None)"

definition manifest_ok :: "dict \<Rightarrow> bool" where
  "manifest_ok d \<longleftrightarrow> (\<exists>es. obj_get ''versions'' d = Some (JArr es) \<and> list_all (\<lambda>e. entry_version e \<noteq> None) es
     \<and> distinct (map entry_version es))"

definition file_ok :: "manifest_file \<Rightarrow> bool" where
  "file_ok f \<longleftrightarrow> (case f of Doc (JObj d) \<Rightarrow> manifest_ok d | Doc _ \<Rightarrow> False | _ \<Rightarrow> True)"

lemma entry_version_Some: "entry_version e = Some s \<longleftrightarrow> json_index e ''version'' = Inr (JStr s)"
  by (auto simp: entry_version_def split: sum.splits json.splits)

lemma entry_version_index: "entry_version e = Some s \<Longrightarrow> json_index e ''version'' = Inr (JStr s)"
  by (simp add: entry_version_Some)

lemma load_manifest_ok:
  assumes "file_ok (manifest w)"
  obtains d where "load_manifest w = (Inr d, w)" and "manifest_ok d"
    and "manifest w = Doc (JObj d) \<or> d = empty_manifest"
proof -
  have "manifest_ok empty_manifest" by (simp add: manifest_ok_def empty_manifest_def obj_get_def)
  with assms that show ?thesis
    by (auto simp: load_manifest_def bindM_def gets_def ret_def file_ok_def dict_get_def manifest_ok_def
        split: manifest_file.splits json.splits)
qed

lemma find_entry_ok:
  "list_all (\<lambda>e. entry_version e \<noteq> None) es \<Longrightarrow>
     find_entry es (JStr s) = Inr (if Some s \<in> entry_version ` set es then Some (JStr s) else None)"
proof (induction es)
  case (Cons e es)
  then obtain y where y: "entry_version e = Some y" by auto
  with Cons entry_version_index [OF y] show ?case by auto
qed simp

lemma without_version_ok:
  "list_all (\<lambda>e. entry_version e \<noteq> None) es \<Longrightarrow>
     without_version es (JStr s) = Inr (filter (\<lambda>e. entry_version e \<noteq> Some s) es)"
proof (induction es)
  case (Cons e es)
  then obtain y where y: "entry_version e = Some y" by auto
  with Cons entry_version_index [OF y] show ?case by auto
qed simp

lemma entry_version_new [simp]: "entry_version (version_entry s n m now) = Some s"
  by (simp add: entry_version_Some version_entry_def obj_get_def)

lemma register_result:
  assumes "file_ok (manifest w)"
  shows "\<exists>d. register_version v n m cur w = (Inr (), w\<lparr>manifest := Doc (JObj d)\<rparr>) \<and> manifest_ok d
    \<and> find_in_manifest d (JStr v) = Inr (Some (JStr v))
    \<and> (cur \<longrightarrow> dict_get ''current'' d JNull = JStr v)
    \<and> last (versions_of d) = version_entry v n m (clock w)
    \<and> (\<forall>d0. load_manifest w = (Inr d0, w) \<longrightarrow>
         butlast (versions_of d) = filter (\<lambda>e. entry_version e \<noteq> Some v) (versions_of d0)
       \<and> (\<not> cur \<longrightarrow> dict_get ''current'' d JNull = dict_get ''current'' d0 JNull))"
proof -
  obtain d0 where load: "load_manifest w = (Inr d0, w)" and ok: "manifest_ok d0"
    using assms by (rule load_manifest_ok)
  then obtain es where es: "obj_get ''versions'' d0 = Some (JArr es)"
    "list_all (\<lambda>e. entry_version e \<noteq> None) es" "distinct (map entry_version es)"
    by (auto simp: manifest_ok_def)
  define es' where "es' = filter (\<lambda>e. entry_version e \<noteq> Some v) es @ [version_entry v n m (clock w)]"
  define d where "d = (let d' = dict_set ''versions'' (JArr es') d0 in
    if cur then dict_set ''current'' (JStr v) d' else d')"
  have "versions_of d0 = es" using es(1) by (simp add: versions_of_def dict_get_def)
  then have "register_version v n m cur w = (Inr (), w\<lparr>manifest := Doc (JObj d)\<rparr>)"
    using load without_version_ok [OF es(2), of v]
    by (simp add: register_version_def bindM_def gets_def liftR_def save_manifest_def modifyM_def
        Let_def d_def es'_def)
  moreover have vers: "obj_get ''versions'' d = Some (JArr es')"
    by (simp add: d_def Let_def obj_get_set_other)
  moreover have ok': "list_all (\<lambda>e. entry_version e \<noteq> None) es'" "distinct (map entry_version es')"
    using es(2,3) by (auto simp: es'_def list_all_iff distinct_map inj_on_def)
  moreover have "versions_of d = es'" using vers by (simp add: versions_of_def dict_get_def)
  moreover have "Some v \<in> entry_version ` set es'" by (force simp: es'_def)
  moreover have "dict_get ''current'' d JNull = (if cur then JStr v else dict_get ''current'' d0 JNull)"
    by (simp add: d_def Let_def dict_get_def obj_get_set_other)
  ultimately show ?thesis
    using load \<open>versions_of d0 = es\<close> find_entry_ok [OF ok'(1), of v]
    by (auto simp: manifest_ok_def find_in_manifest_def es'_def)
qed

lemma register_current:
  assumes "file_ok (manifest w)"
  shows "\<exists>u d. register_version v n m True w = (Inr (), u) \<and> manifest u = Doc (JObj d) \<and> manifest_ok d
    \<and> last (versions_of d) = version_entry v n m (clock w)
    \<and> get_current_version u = (Inr (JStr v), u)
    \<and> get_model_path JNull u = (Inr (if model_file (JStr v) \<in> set (model_files u)
         then Some (model_file (JStr v)) else None), u)"
proof -
  obtain d where reg: "register_version v n m True w = (Inr (), w\<lparr>manifest := Doc (JObj d)\<rparr>)"
    and d: "manifest_ok d" "find_in_manifest d (JStr v) = Inr (Some (JStr v))"
      "dict_get ''current'' d JNull = JStr v" "last (versions_of d) = version_entry v n m (clock w)"
    using register_result [OF assms, of v n m True] by auto
  define u where "u = w\<lparr>manifest := Doc (JObj d)\<rparr>"
  have load: "load_manifest u = (Inr d, u)"
    using d(1) by (auto simp: u_def load_manifest_def bindM_def gets_def ret_def manifest_ok_def dict_get_def)
  then have "get_model_path JNull u = (Inr (if model_file (JStr v) \<in> set (model_files u)
      then Some (model_file (JStr v)) else None), u)"
    using d by (simp add: get_model_path_def bindM_def liftR_def gets_def ret_def Let_def)
  moreover have "get_current_version u = (Inr (JStr v), u)"
    using load d by (simp add: get_current_version_def bindM_def ret_def)
  ultimately show ?thesis
    using reg d by (intro exI [of _ u] exI [of _ d]) (simp add: u_def)
qed

section \<open>Properties\<close>

text \<open>C26: registering a version keeps the manifest well-formed: the version is listed exactly once, as the
  newest, with the data given, the other versions keep their entries and their order, and the
  version is the current one exactly when the caller asked for it.  Its model path then resolves
  to its file as soon as that file exists.\<close>

theorem register_then_resolve:
  assumes "file_ok (manifest w)"
  shows "\<exists>u d. register_version v n m True w = (Inr (), u) \<and> manifest u = Doc (JObj d) \<and> manifest_ok d
    \<and> last (versions_of d) = version_entry v n m (clock w)
    \<and> get_current_version u = (Inr (JStr v), u)
    \<and> get_model_path JNull u = (Inr (if model_file (JStr v) \<in> set (model_files u)
         then Some (model_file (JStr v)) else None), u)"
  using assms by (rule register_current)

text \<open>C27: rolling back to a version either makes it the current one, when it is registered and its file
  exists, or raises a \<open>ValueError\<close> and leaves the manifest as it was; it never removes a version.\<close>

theorem rollback_all_or_nothing:
  assumes "file_ok (manifest w)" and "load_manifest w = (Inr d, w)"
  shows "if find_in_manifest d (JStr v) = Inr (Some (JStr v)) \<and> model_file (JStr v) \<in> set (model_files w)
    then \<exists>u. rollback v w = (Inr (), u) \<and> get_current_version u = (Inr (JStr v), u)
       \<and> list_versions u = (fst (list_versions w), u)
    else rollback v w = (Inl ValueError, w)"
proof -
  have ok: "manifest_ok d" using load_manifest_ok [OF assms(1)] assms(2) by (metis Inr_inject Pair_inject)
  then obtain es where es: "obj_get ''versions'' d = Some (JArr es)" "list_all (\<lambda>e. entry_version e \<noteq> None) es"
    by (auto simp: manifest_ok_def)
  then have vers: "versions_of d = es" by (simp add: versions_of_def dict_get_def)
  have indices: "\<exists>vs. all_indices xs = Inr vs \<and> list_all is_text vs"
    if "list_all (\<lambda>e. entry_version e \<noteq> None) xs" for xs
    using that by (induction xs) (auto dest: entry_version_index)
  have unknown: "unknown_version es = ValueError" using indices [OF es(2)] by (auto simp: unknown_version_def)
  show ?thesis
  proof (cases "find_in_manifest d (JStr v) = Inr (Some (JStr v)) \<and> model_file (JStr v) \<in> set (model_files w)")
    case True
    define d' where "d' = dict_set ''current'' (JStr v) d"
    define u where "u = w\<lparr>manifest := Doc (JObj d')\<rparr>"
    have roll: "rollback v w = (Inr (), u)"
      using True assms(2) by (simp add: rollback_def bindM_def liftR_def gets_def save_manifest_def modifyM_def u_def d'_def)
    have vers': "obj_get ''versions'' d' = Some (JArr es)"
      using es(1) by (simp add: d'_def obj_get_set_other)
    then have load: "load_manifest u = (Inr d', u)"
      by (simp add: u_def load_manifest_def bindM_def gets_def ret_def dict_get_def)
    have "get_current_version u = (Inr (JStr v), u)"
      using load by (simp add: get_current_version_def bindM_def ret_def dict_get_def d'_def)
    moreover have "list_versions u = (fst (list_versions w), u)"
      using load assms(2) vers vers' by (simp add: list_versions_def bindM_def ret_def versions_of_def dict_get_def)
    ultimately show ?thesis using True roll by auto
  next
    case False
    then show ?thesis
      using assms(2) vers unknown find_entry_ok [OF es(2), of v]
      by (auto simp: rollback_def bindM_def liftR_def gets_def raise_def find_in_manifest_def split: if_splits)
  qed
qed

lemma register_then_resolve_witness:
  "\<exists>u d. register_version ''v1'' 500 [] True (boot_world ()) = (Inr (), u) \<and> manifest u = Doc (JObj d)
     \<and> get_current_version u = (Inr (JStr ''v1''), u)"
  using register_then_resolve [of "boot_world ()" "''v1''" 500 "[]"]
  by (auto simp: boot_world_def file_ok_def)

lemma rollback_all_or_nothing_witness:
  "rollback ''v1'' (boot_world ()) = (Inl ValueError, boot_world ())"
  using rollback_all_or_nothing [of "boot_world ()" empty_manifest "''v1''"]
  by (simp add: boot_world_def file_ok_def load_manifest_def bindM_def gets_def ret_def)

end
