(* ===== verification/Frame.thy ===== *)
theory Frame
  imports World
begin

text \<open>
  Tables of bars: the part of \<open>pandas.DataFrame\<close> the source uses.  A frame is an index and
  named columns of floats.  The index is a range, a list of moments (a \<open>DatetimeIndex\<close>) or a
  list of dates (an object index, which has no attribute \<open>date\<close>).  A table that still holds
  its dates in a column, as \<open>ib_insync.util.df\<close> returns it, is a \<open>raw_frame\<close>.
\<close>

datatype frame_index = RangeIdx nat | DatetimeIdx "int list" | DateIdx "int list"

record frame =
  f_index :: frame_index
  f_cols :: "(string \<times> pyfloat list) list"

datatype column = Times frame_index | Nums "pyfloat list"

type_synonym raw_frame = "(string \<times> column) list"

definition ohlcv :: "string list" where
  "ohlcv = [''open'', ''high'', ''low'', ''close'', ''volume'']"

fun index_length :: "frame_index \<Rightarrow> nat" where
  "index_length (RangeIdx n) = n"
| "index_length (DatetimeIdx ts) = length ts"
| "index_length (DateIdx ds) = length ds"

text \<open>\<open>len(df)\<close> is the length of the index.\<close>

definition nrows :: "frame \<Rightarrow> nat" where
  "nrows df = index_length (f_index df)"

definition frame_ok :: "frame \<Rightarrow> bool" where
  "frame_ok df \<longleftrightarrow> (\<forall>(c, xs) \<in> set (f_cols df). length xs = nrows df)"

definition has_col :: "string \<Rightarrow> frame \<Rightarrow> bool" where
  "has_col c df \<longleftrightarrow> c \<in> fst ` set (f_cols df)"

definition get_col :: "string \<Rightarrow> frame \<Rightarrow> pyfloat list res" where
  "get_col c df = (case map_of (f_cols df) c of Some xs \<Rightarrow> Inr xs | None \<Rightarrow> Inl KeyError)"

text \<open>\<open>df[c] = xs\<close>: overwrite the column, or add it at the end.\<close>

definition set_col :: "string \<Rightarrow> pyfloat list \<Rightarrow> frame \<Rightarrow> frame" where
  "set_col c xs df = (if has_col c df
     then df\<lparr>f_cols := map (\<lambda>(d, ys). if d = c then (d, xs) else (d, ys)) (f_cols df)\<rparr>
     else df\<lparr>f_cols := f_cols df @ [(c, xs)]\<rparr>)"

section \<open>Row selections\<close>

fun index_with :: "(nat \<Rightarrow> nat) \<Rightarrow> (int list \<Rightarrow> int list) \<Rightarrow> frame_index \<Rightarrow> frame_index" where
  "index_with g f (RangeIdx n) = RangeIdx (g n)"
| "index_with g f (DatetimeIdx ts) = DatetimeIdx (f ts)"
| "index_with g f (DateIdx ds) = DateIdx (f ds)"

text \<open>
  \<open>df.tail(n)\<close> and \<open>df.iloc[:n]\<close>.  The labels of a \<open>RangeIdx\<close> are not used by the source, so
  a selection of a range is the range of its length.
\<close>

definition frame_tail :: "nat \<Rightarrow> frame \<Rightarrow> frame" where
  "frame_tail n df = \<lparr>f_index = index_with (\<lambda>m. min n m) (tail_n n) (f_index df),
     f_cols = map (\<lambda>(c, xs). (c, tail_n n xs)) (f_cols df)\<rparr>"

definition frame_take :: "nat \<Rightarrow> frame \<Rightarrow> frame" where
  "frame_take n df = \<lparr>f_index = index_with (\<lambda>m. min n m) (take n) (f_index df),
     f_cols = map (\<lambda>(c, xs). (c, take n xs)) (f_cols df)\<rparr>"

text \<open>The values of a column in the rows of a mask: \<open>df.loc[mask, c]\<close>.\<close>

definition mask_select :: "bool list \<Rightarrow> 'a list \<Rightarrow> 'a list" where
  "mask_select ms xs = map snd (filter fst (zip ms xs))"

definition loc_col :: "bool list \<Rightarrow> string \<Rightarrow> frame \<Rightarrow> pyfloat list res" where
  "loc_col ms c df = res_bind (get_col c df) (\<lambda>xs. Inr (mask_select ms xs))"

text \<open>\<open>xs.iloc[0]\<close> and \<open>xs.iloc[-1]\<close>.\<close>

definition first_of :: "'a list \<Rightarrow> 'a res" where
  "first_of xs = (case xs of [] \<Rightarrow> Inl IndexError | x # _ \<Rightarrow> Inr x)"

definition last_of :: "'a list \<Rightarrow> 'a res" where
  "last_of xs = (if xs = [] then Inl IndexError else Inr (last xs))"

lemma nrows_frame_tail: "nrows (frame_tail n df) = min n (nrows df)"
  by (cases "f_index df") (simp_all add: nrows_def frame_tail_def)

lemma nrows_frame_take: "nrows (frame_take n df) = min n (nrows df)"
  by (cases "f_index df") (simp_all add: nrows_def frame_take_def min.commute)

lemma frame_ok_tail: "frame_ok df \<Longrightarrow> frame_ok (frame_tail n df)"
  unfolding frame_ok_def nrows_frame_tail by (auto simp: frame_tail_def)

lemma frame_ok_take: "frame_ok df \<Longrightarrow> frame_ok (frame_take n df)"
  unfolding frame_ok_def nrows_frame_take by (auto simp: frame_take_def)

lemma map_of_map_snd: "map_of (map (\<lambda>(c, xs). (c, f xs)) kvs) c = map_option f (map_of kvs c)"
  by (induction kvs) auto

lemma get_col_tail: "get_col c (frame_tail n df) = res_bind (get_col c df) (\<lambda>xs. Inr (tail_n n xs))"
  by (simp add: get_col_def frame_tail_def map_of_map_snd split: option.split)

lemma length_get_col: "frame_ok df \<Longrightarrow> get_col c df = Inr xs \<Longrightarrow> length xs = nrows df"
  by (auto simp: get_col_def frame_ok_def split: option.splits dest!: map_of_SomeD)

section \<open>Raw frames\<close>

definition rename_col :: "string \<Rightarrow> string \<Rightarrow> raw_frame \<Rightarrow> raw_frame" where
  "rename_col a b = map (\<lambda>(c, v). if c = a then (b, v) else (c, v))"

fun column_length :: "column \<Rightarrow> nat" where
  "column_length (Times i) = index_length i"
| "column_length (Nums xs) = length xs"

definition raw_length :: "raw_frame \<Rightarrow> nat" where
  "raw_length r = (case r of [] \<Rightarrow> 0 | (_, v) # _ \<Rightarrow> column_length v)"

text \<open>
  The column named in \<open>set_index\<close> becomes the index and leaves the table; an index of floats is
  not a \<open>DatetimeIndex\<close> and is kept as a range.
\<close>

definition take_index :: "string \<Rightarrow> raw_frame \<Rightarrow> frame_index \<times> raw_frame" where
  "take_index c r = (case map_of r c of
      Some (Times i) \<Rightarrow> (i, filter (\<lambda>(d, _). d \<noteq> c) r)
    | Some (Nums xs) \<Rightarrow> (RangeIdx (length xs), filter (\<lambda>(d, _). d \<noteq> c) r)
    | None \<Rightarrow> (RangeIdx (raw_length r), r))"

text \<open>\<open>df[["open", ..]]\<close>: a missing column is a \<open>KeyError\<close>.\<close>

fun select_cols :: "string list \<Rightarrow> raw_frame \<Rightarrow> (string \<times> pyfloat list) list res" where
  "select_cols [] r = Inr []"
| "select_cols (c # cs) r = (case map_of r c of
      Some (Nums xs) \<Rightarrow> res_bind (select_cols cs r) (\<lambda>cols. Inr ((c, xs) # cols))
    | Some (Times _) \<Rightarrow> Inl TypeError
    | None \<Rightarrow> Inl KeyError)"

lemma select_cols_names: "select_cols cs r = Inr cols \<Longrightarrow> map fst cols = cs"
  by (induction cs arbitrary: cols)
     (auto simp: res_bind_Inr_iff split: option.splits column.splits)

section \<open>Series\<close>

text \<open>\<open>s.iloc[-k]\<close> for a positive \<open>k\<close>.\<close>

definition nth_last :: "nat \<Rightarrow> 'a list \<Rightarrow> 'a res" where
  "nth_last k xs = (if 0 < k \<and> k \<le> length xs then Inr (xs ! (length xs - k)) else Inl IndexError)"

text \<open>\<open>xs[k:]\<close> and \<open>xs[:k]\<close> for any integer, as Python slices.\<close>

definition slice_from :: "int \<Rightarrow> 'a list \<Rightarrow> 'a list" where
  "slice_from k xs = (if 0 \<le> k then drop (nat k) xs else drop (nat (int (length xs) + k)) xs)"

definition slice_to :: "int \<Rightarrow> 'a list \<Rightarrow> 'a list" where
  "slice_to k xs = (if 0 \<le> k then take (nat k) xs else take (nat (int (length xs) + k)) xs)"

text \<open>\<open>s.tail(n)\<close> for any integer: no row for zero, and all but the first rows for a negative one.\<close>

definition tail_int :: "int \<Rightarrow> 'a list \<Rightarrow> 'a list" where
  "tail_int n xs = (if 0 \<le> n then tail_n (nat n) xs else drop (nat (- n)) xs)"

text \<open>\<open>Series.mean\<close>, \<open>max\<close> and \<open>min\<close> skip NaN and are NaN without a value; \<open>np.mean\<close> does not skip.\<close>

definition np_mean :: "pyfloat list \<Rightarrow> pyfloat" where
  "np_mean xs = np_div (sum_list xs) (Fin (of_nat (length xs)))"

definition present :: "pyfloat list \<Rightarrow> pyfloat list" where
  "present xs = filter (\<lambda>x. \<not> is_nan x) xs"

definition s_mean :: "pyfloat list \<Rightarrow> pyfloat" where
  "s_mean xs = np_mean (present xs)"

definition s_max :: "pyfloat list \<Rightarrow> pyfloat" where
  "s_max xs = (case present xs of [] \<Rightarrow> NaN | y # ys \<Rightarrow> foldl py_max y ys)"

definition s_min :: "pyfloat list \<Rightarrow> pyfloat" where
  "s_min xs = (case present xs of [] \<Rightarrow> NaN | y # ys \<Rightarrow> foldl py_min y ys)"

text \<open>\<open>np.maximum\<close> propagates NaN.\<close>

definition np_maximum :: "pyfloat \<Rightarrow> pyfloat \<Rightarrow> pyfloat" where
  "np_maximum a b = (if is_nan a \<or> is_nan b then NaN else py_max a b)"

definition np_minimum :: "pyfloat \<Rightarrow> pyfloat \<Rightarrow> pyfloat" where
  "np_minimum a b = (if is_nan a \<or> is_nan b then NaN else py_min a b)"

text \<open>The mean of a boolean array.\<close>

definition bool_mean :: "bool list \<Rightarrow> pyfloat" where
  "bool_mean bs = np_div (Fin (of_nat (length (filter id bs)))) (Fin (of_nat (length bs)))"

text \<open>\<open>s.rolling(window=w).mean()\<close>: NaN until the window is full and wherever it holds a NaN.\<close>

definition window_at :: "nat \<Rightarrow> nat \<Rightarrow> 'a list \<Rightarrow> 'a list" where
  "window_at w i xs = take w (drop (Suc i - w) xs)"

definition rolling_mean :: "int \<Rightarrow> pyfloat list \<Rightarrow> pyfloat list res" where
  "rolling_mean w xs = (if w < 0 then Inl ValueError
     else Inr (map (\<lambda>i. if Suc i < nat w then NaN else np_mean (window_at (nat w) i xs)) [0..<length xs]))"

lemma length_rolling_mean: "rolling_mean w xs = Inr ys \<Longrightarrow> length ys = length xs"
  by (auto simp: rolling_mean_def split: if_splits)

section \<open>Rows\<close>

text \<open>One value of a column; a row a column does not reach is NaN.\<close>

definition cell_or_nan :: "nat \<Rightarrow> pyfloat list \<Rightarrow> pyfloat" where
  "cell_or_nan i xs = (if i < length xs then xs ! i else NaN)"

text \<open>\<open>df.iloc[i].get(c, nan)\<close>, and the values of a whole row.\<close>

definition row_get :: "frame \<Rightarrow> nat \<Rightarrow> string \<Rightarrow> pyfloat" where
  "row_get df i c = (case map_of (f_cols df) c of Some xs \<Rightarrow> cell_or_nan i xs | None \<Rightarrow> NaN)"

definition row_values :: "frame \<Rightarrow> nat \<Rightarrow> pyfloat list" where
  "row_values df i = map (\<lambda>(c, xs). cell_or_nan i xs) (f_cols df)"

section \<open>The indicator library\<close>

text \<open>The package \<open>ta\<close> is a parameter: each indicator maps its input series to its output series, and
  may raise.\<close>

type_synonym series = "pyfloat list"

record ta_lib =
  ta_ema :: "int \<Rightarrow> series \<Rightarrow> series res"
  ta_sma :: "int \<Rightarrow> series \<Rightarrow> series res"
  ta_macd :: "series \<Rightarrow> (series \<times> series \<times> series) res"
  ta_adx :: "series \<Rightarrow> series \<Rightarrow> series \<Rightarrow> (series \<times> series \<times> series) res"
  ta_rsi :: "series \<Rightarrow> series res"
  ta_stoch :: "series \<Rightarrow> series \<Rightarrow> series \<Rightarrow> (series \<times> series) res"
  ta_atr :: "series \<Rightarrow> series \<Rightarrow> series \<Rightarrow> series res"
  ta_bollinger :: "series \<Rightarrow> (series \<times> series \<times> series \<times> series) res"
  ta_obv :: "series \<Rightarrow> series \<Rightarrow> series res"
  ta_mfi :: "series \<Rightarrow> series \<Rightarrow> series \<Rightarrow> series \<Rightarrow> series res"
  ta_vwap :: "series \<Rightarrow> series \<Rightarrow> series \<Rightarrow> series \<Rightarrow> series res"

text \<open>Lower-casing the column names.\<close>

definition lower_cols :: "frame \<Rightarrow> frame" where
  "lower_cols df = df\<lparr>f_cols := map (\<lambda>(c, xs). (py_lower c, xs)) (f_cols df)\<rparr>"

definition has_ohlcv :: "frame \<Rightarrow> bool" where
  "has_ohlcv df \<longleftrightarrow> set ohlcv \<subseteq> fst ` set (f_cols df)"

lemma nrows_lower_cols [simp]: "nrows (lower_cols df) = nrows df"
  by (simp add: nrows_def lower_cols_def)

end
