(* ===== verification/Indicators.thy ===== *)
theory Indicators
  imports Frame
begin

text \<open>
  The technical indicators \<open>bot/signals/indicators.py\<close>: the validation of the input, the columns
  added in their order, and what the module computes itself from the series of the package \<open>ta\<close>
  (the crossing of the averages, the squeeze and the cumulative VWAP).
\<close>

definition min_rows :: nat where
  "min_rows = 50"

definition indicator_cols :: "string list" where
  "indicator_cols = [''ema_9'', ''ema_21'', ''ema_cross'', ''macd'', ''macd_signal'', ''macd_hist'',
     ''adx'', ''adx_pos'', ''adx_neg'', ''rsi'', ''stoch_k'', ''stoch_d'', ''atr'', ''bb_upper'',
     ''bb_lower'', ''bb_pct'', ''bb_width'', ''bb_squeeze'', ''obv'', ''mfi'', ''vwap'']"

definition validate_and_normalise :: "frame \<Rightarrow> frame res" where
  "validate_and_normalise df = (let d = lower_cols df in if has_ohlcv d then Inr d else Inl ValueError)"

text \<open>Reading a column whose presence has been checked, or that the module has just written.\<close>

definition col :: "frame \<Rightarrow> string \<Rightarrow> series" where
  "col df c = (case map_of (f_cols df) c of Some xs \<Rightarrow> xs | None \<Rightarrow> [])"

text \<open>\<open>(a > b).astype(float)\<close>, NaN where either side is NaN.\<close>

definition flag_series :: "(pyfloat \<Rightarrow> pyfloat \<Rightarrow> bool) \<Rightarrow> series \<Rightarrow> series \<Rightarrow> series" where
  "flag_series P xs ys = map (\<lambda>(x, y). if is_nan x \<or> is_nan y then NaN else Fin (if P x y then 1 else 0)) (zip xs ys)"

definition write_cols :: "(string \<times> series) list \<Rightarrow> frame \<Rightarrow> frame" where
  "write_cols kvs df = fold (\<lambda>(c, xs). set_col c xs) kvs df"

definition add_trend :: "ta_lib \<Rightarrow> frame \<Rightarrow> frame res" where
  "add_trend ta df =
     res_bind (ta_ema ta 9 (col df ''close'')) (\<lambda>ema9.
     res_bind (ta_ema ta 21 (col df ''close'')) (\<lambda>ema21.
     res_bind (ta_macd ta (col df ''close'')) (\<lambda>(macd, macd_signal, macd_hist).
     res_bind (ta_adx ta (col df ''high'') (col df ''low'') (col df ''close'')) (\<lambda>(adx, adx_pos, adx_neg).
       Inr (write_cols
         [(''ema_9'', ema9), (''ema_21'', ema21), (''ema_cross'', flag_series (\<lambda>a b. b < a) ema9 ema21),
          (''macd'', macd), (''macd_signal'', macd_signal), (''macd_hist'', macd_hist),
          (''adx'', adx), (''adx_pos'', adx_pos), (''adx_neg'', adx_neg)] df)))))"

definition add_momentum :: "ta_lib \<Rightarrow> frame \<Rightarrow> frame res" where
  "add_momentum ta df =
     res_bind (ta_rsi ta (col df ''close'')) (\<lambda>rsi.
     res_bind (ta_stoch ta (col df ''high'') (col df ''low'') (col df ''close'')) (\<lambda>(k, d).
       Inr (write_cols [(''rsi'', rsi), (''stoch_k'', k), (''stoch_d'', d)] df)))"

definition add_volatility :: "ta_lib \<Rightarrow> frame \<Rightarrow> frame res" where
  "add_volatility ta df =
     res_bind (ta_atr ta (col df ''high'') (col df ''low'') (col df ''close'')) (\<lambda>atr.
     res_bind (ta_bollinger ta (col df ''close'')) (\<lambda>(up, lo, pct, width).
     res_bind (rolling_mean 20 width) (\<lambda>mean_width.
       Inr (write_cols
         [(''atr'', atr), (''bb_upper'', up), (''bb_lower'', lo), (''bb_pct'', pct), (''bb_width'', width),
          (''bb_squeeze'', flag_series (\<lambda>a b. a < b) width mean_width)] df))))"

text \<open>\<open>s.cumsum()\<close> skips NaN; \<open>s.replace(0, nan)\<close>.\<close>

fun cumsum :: "pyfloat \<Rightarrow> series \<Rightarrow> series" where
  "cumsum acc [] = []"
| "cumsum acc (x # xs) = (if is_nan x then NaN # cumsum acc xs else (acc + x) # cumsum (acc + x) xs)"

definition zero_to_nan :: "series \<Rightarrow> series" where
  "zero_to_nan xs = map (\<lambda>x. if x = Fin 0 then NaN else x) xs"

definition fallback_vwap :: "frame \<Rightarrow> series" where
  "fallback_vwap df =
     (let typical = map (\<lambda>((h, l), c). fdiv_lit (h + l + c) 3)
            (zip (zip (col df ''high'') (col df ''low'')) (col df ''close''));
          cumulative_tp_vol = cumsum (Fin 0) (map2 (*) typical (col df ''volume''));
          cumulative_vol = cumsum (Fin 0) (col df ''volume'')
      in map2 np_div cumulative_tp_vol (zero_to_nan cumulative_vol))"

fun is_datetime :: "frame_index \<Rightarrow> bool" where
  "is_datetime (DatetimeIdx ts) = True"
| "is_datetime _ = False"

definition add_volume :: "ta_lib \<Rightarrow> frame \<Rightarrow> frame res" where
  "add_volume ta df =
     res_bind (ta_obv ta (col df ''close'') (col df ''volume'')) (\<lambda>obv.
     res_bind (ta_mfi ta (col df ''high'') (col df ''low'') (col df ''close'') (col df ''volume'')) (\<lambda>mfi.
     res_bind (if is_datetime (f_index df)
               then ta_vwap ta (col df ''high'') (col df ''low'') (col df ''close'') (col df ''volume'')
               else Inr (fallback_vwap df)) (\<lambda>vwap.
       Inr (write_cols [(''obv'', obv), (''mfi'', mfi), (''vwap'', vwap)] df))))"

definition calculate :: "ta_lib \<Rightarrow> frame \<Rightarrow> frame res" where
  "calculate ta df0 = res_bind (validate_and_normalise df0) (\<lambda>df.
     if nrows df < min_rows
     then Inr (fold (\<lambda>c. set_col c (replicate (nrows df) NaN)) indicator_cols df)
     else res_bind (add_trend ta df) (\<lambda>d1. res_bind (add_momentum ta d1) (\<lambda>d2.
          res_bind (add_volatility ta d2) (\<lambda>d3. add_volume ta d3))))"

section \<open>Columns\<close>

lemma names_set_col: "fst ` set (f_cols (set_col c xs df)) = insert c (fst ` set (f_cols df))"
  by (force simp: set_col_def has_col_def)

lemma col_set_col: "col (set_col c xs df) c = xs"
proof (cases "has_col c df")
  case True
  have "map_of (map (\<lambda>(d, ys). if d = c then (d, xs) else (d, ys)) cs) c = (if c \<in> fst ` set cs then Some xs else None)"
    for cs :: "(string \<times> series) list"
    by (induction cs) auto
  with True show ?thesis by (simp add: col_def set_col_def has_col_def)
next
  case False
  then have "map_of (f_cols df) c = None" by (simp add: has_col_def map_of_eq_None_iff)
  with False show ?thesis by (simp add: col_def set_col_def map_add_def)
qed

lemma map_of_set_col_other: "d \<noteq> c \<Longrightarrow> map_of (f_cols (set_col c xs df)) d = map_of (f_cols df) d"
proof -
  assume "d \<noteq> c"
  then have "map_of (map (\<lambda>(e, ys). if e = c then (e, xs) else (e, ys)) cs) d = map_of cs d"
    for cs :: "(string \<times> series) list"
    by (induction cs) auto
  with \<open>d \<noteq> c\<close> show ?thesis by (simp add: set_col_def map_add_def split: option.split)
qed

text \<open>Adding columns keeps the index and every other column.\<close>

definition extends :: "string list \<Rightarrow> frame \<Rightarrow> frame \<Rightarrow> bool" where
  "extends cs df out \<longleftrightarrow> f_index out = f_index df
     \<and> fst ` set (f_cols out) = set cs \<union> fst ` set (f_cols df)
     \<and> (\<forall>d. d \<notin> set cs \<longrightarrow> map_of (f_cols out) d = map_of (f_cols df) d)"

lemma extends_refl: "extends [] df df"
  by (simp add: extends_def)

lemma extends_set_col: "extends cs df d \<Longrightarrow> extends (c # cs) df (set_col c xs d)"
  by (auto simp: extends_def names_set_col map_of_set_col_other)
     (simp add: set_col_def)

lemma extends_cols:
  "extends cs df d \<Longrightarrow> extends (rev (map fst kvs) @ cs) df (fold (\<lambda>(c, xs). set_col c xs) kvs d)"
proof (induction kvs arbitrary: cs d)
  case Nil
  then show ?case by simp
next
  case (Cons kv kvs)
  obtain c xs where kv: "kv = (c, xs)" by force
  from Cons.IH [OF extends_set_col [OF Cons.prems, of c xs]] show ?case by (simp add: kv)
qed

lemma extends_nan: "extends cs df d \<Longrightarrow> extends (rev ks @ cs) df (fold (\<lambda>c. set_col c v) ks d)"
proof (induction ks arbitrary: cs d)
  case (Cons k ks)
  from Cons.IH [OF extends_set_col [OF Cons.prems, of k v]] show ?case by simp
qed simp

lemma extends_cong: "extends cs df d \<Longrightarrow> set cs = set ds \<Longrightarrow> extends ds df d"
  by (simp add: extends_def)

lemma extends_trans: "extends cs df d \<Longrightarrow> extends ds d e \<Longrightarrow> extends (cs @ ds) df e"
  by (auto simp: extends_def)

lemma extends_write: "map fst kvs = cs \<Longrightarrow> extends cs df (write_cols kvs df)"
  using extends_cols [OF extends_refl, of kvs df]
  by (auto simp: write_cols_def elim!: extends_cong)

lemma add_trend_extends: "add_trend ta df = Inr a \<Longrightarrow> extends [''ema_9'', ''ema_21'', ''ema_cross'', ''macd'',
    ''macd_signal'', ''macd_hist'', ''adx'', ''adx_pos'', ''adx_neg''] df a"
  by (auto simp: add_trend_def res_bind_Inr_iff intro: extends_write)

lemma add_momentum_extends: "add_momentum ta df = Inr a \<Longrightarrow> extends [''rsi'', ''stoch_k'', ''stoch_d''] df a"
  by (auto simp: add_momentum_def res_bind_Inr_iff intro: extends_write)

lemma add_volatility_extends: "add_volatility ta df = Inr a \<Longrightarrow> extends [''atr'', ''bb_upper'', ''bb_lower'',
    ''bb_pct'', ''bb_width'', ''bb_squeeze''] df a"
  by (auto simp: add_volatility_def res_bind_Inr_iff intro: extends_write)

lemma add_volume_extends: "add_volume ta df = Inr a \<Longrightarrow> extends [''obv'', ''mfi'', ''vwap''] df a"
  by (auto simp: add_volume_def res_bind_Inr_iff intro: extends_write)

lemma calculate_extends:
  assumes "calculate ta df = Inr out"
  shows "has_ohlcv (lower_cols df) \<and> extends indicator_cols (lower_cols df) out"
proof -
  have ok: "has_ohlcv (lower_cols df)"
    using assms by (auto simp: calculate_def validate_and_normalise_def Let_def split: if_splits)
  have "extends indicator_cols (lower_cols df) out"
  proof (cases "nrows df < min_rows")
    case True
    then have out: "out = fold (\<lambda>c. set_col c (replicate (nrows df) NaN)) indicator_cols (lower_cols df)"
      using assms ok by (simp add: calculate_def validate_and_normalise_def Let_def)
    show ?thesis unfolding out by (rule extends_cong [OF extends_nan [OF extends_refl]]) simp
  next
    case False
    then obtain d1 d2 d3 where "add_trend ta (lower_cols df) = Inr d1" "add_momentum ta d1 = Inr d2"
      "add_volatility ta d2 = Inr d3" "add_volume ta d3 = Inr out"
      using assms ok by (auto simp: calculate_def validate_and_normalise_def Let_def res_bind_Inr_iff)
    from extends_trans [OF extends_trans [OF extends_trans [OF
        add_trend_extends [OF this(1)] add_momentum_extends [OF this(2)]]
        add_volatility_extends [OF this(3)]] add_volume_extends [OF this(4)]]
    show ?thesis by (simp add: indicator_cols_def)
  qed
  with ok show ?thesis ..
qed

lemma flag_series_replicate: "flag_series P (replicate n (Fin a)) (replicate n (Fin b)) = replicate n (Fin (if P (Fin a) (Fin b) then 1 else 0))"
  by (simp add: flag_series_def)

lemma set_col_new: "\<not> has_col c df \<Longrightarrow> set_col c xs df = df\<lparr>f_cols := f_cols df @ [(c, xs)]\<rparr>"
  by (simp add: set_col_def)

lemma write_cols_new:
  "distinct (map fst kvs) \<Longrightarrow> set (map fst kvs) \<inter> fst ` set (f_cols df) = {} \<Longrightarrow>
   write_cols kvs df = df\<lparr>f_cols := f_cols df @ kvs\<rparr>"
proof (induction kvs arbitrary: df)
  case (Cons kv kvs)
  obtain c xs where kv: "kv = (c, xs)" by force
  from Cons.prems have "\<not> has_col c df" by (auto simp: has_col_def kv)
  then have "write_cols (kv # kvs) df = write_cols kvs (df\<lparr>f_cols := f_cols df @ [(c, xs)]\<rparr>)"
    by (simp add: write_cols_def kv set_col_new)
  also have "\<dots> = df\<lparr>f_cols := f_cols df @ kv # kvs\<rparr>"
    by (subst Cons.IH) (use Cons.prems in \<open>auto simp: kv\<close>)
  finally show ?case .
qed (simp add: write_cols_def)

text \<open>Whatever the library computes, a successful calculation returns the input frame, with lower-case
  column names, the same index and the same values in every other column, extended by exactly the
  21 indicator columns; a frame without one of the five price and volume columns is refused with
  a \<open>ValueError\<close>, and a frame of fewer than 50 rows never reaches the library.\<close>

theorem calculate_adds_columns:
  "(case calculate ta df of Inl _ \<Rightarrow> True | Inr out \<Rightarrow> extends indicator_cols (lower_cols df) out)
   \<and> (has_ohlcv (lower_cols df) \<or> calculate ta df = Inl ValueError)
   \<and> (nrows df \<ge> min_rows \<or> calculate ta df = calculate ta' df)"
  using calculate_extends [of ta df]
  by (auto simp: calculate_def validate_and_normalise_def Let_def split: sum.split)

end
