(* ===== verification/Features.thy ===== *)
theory Features
  imports Indicators
begin

text \<open>
  The feature matrix \<open>bot/ml/features.py\<close> of the signal model, column by column.  The natural
  logarithm is the real one.
\<close>

definition feature_names :: "string list" where
  "feature_names = [''rsi'', ''stoch_k'', ''stoch_d'', ''macd_hist'', ''adx'', ''adx_pos'', ''adx_neg'',
     ''ema_cross'', ''bb_pct'', ''bb_width'', ''bb_squeeze'', ''atr_pct'', ''mfi'', ''obv_slope'',
     ''volume_ratio'', ''close_vs_ema9'', ''close_vs_ema21'', ''close_vs_vwap'', ''body_ratio'',
     ''upper_wick_ratio'', ''lower_wick_ratio'', ''return_1bar'', ''return_3bar'', ''return_6bar'']"

definition required_feature_cols :: "string list" where
  "required_feature_cols = [''rsi'', ''stoch_k'', ''stoch_d'', ''macd_hist'', ''adx'', ''adx_pos'', ''adx_neg'',
     ''ema_cross'', ''bb_pct'', ''bb_width'', ''bb_squeeze'', ''atr'', ''mfi'', ''obv'', ''vwap'', ''ema_9'',
     ''ema_21''] @ ohlcv"

definition normalise_features :: "frame \<Rightarrow> frame res" where
  "normalise_features df = (let d = lower_cols df in
     if set required_feature_cols \<subseteq> fst ` set (f_cols d) then Inr d else Inl ValueError)"

section \<open>Series operations\<close>

definition shift :: "nat \<Rightarrow> series \<Rightarrow> series" where
  "shift n xs = take (length xs) (replicate n NaN @ xs)"

fun np_sign :: "pyfloat \<Rightarrow> pyfloat" where
  "np_sign (Fin a) = Fin (if a < 0 then - 1 else if a = 0 then 0 else 1)"
| "np_sign PInf = Fin 1"
| "np_sign NInf = Fin (- 1)"
| "np_sign NaN = NaN"

definition fill_zero :: "pyfloat \<Rightarrow> pyfloat" where
  "fill_zero x = (if is_nan x then Fin 0 else x)"

definition clip_upper :: "real \<Rightarrow> pyfloat \<Rightarrow> pyfloat" where
  "clip_upper u x = (if Fin u < x then Fin u else x)"

fun np_log :: "pyfloat \<Rightarrow> pyfloat" where
  "np_log (Fin a) = (if 0 < a then Fin (ln a) else if a = 0 then NInf else NaN)"
| "np_log PInf = PInf"
| "np_log _ = NaN"

text \<open>\<open>x / close.replace(0, nan) * 100\<close>.\<close>

definition percent_of :: "series \<Rightarrow> series \<Rightarrow> series" where
  "percent_of xs close = map2 (\<lambda>x c. np_div x c * Fin 100) xs (zero_to_nan close)"

definition obv_slope :: "series \<Rightarrow> series" where
  "obv_slope obv = map (\<lambda>(a, b). fill_zero (np_sign (a - b))) (zip obv (shift 5 obv))"

definition volume_ratio :: "series \<Rightarrow> series res" where
  "volume_ratio volume = res_bind (rolling_mean 20 volume) (\<lambda>vol_ma.
     Inr (map (clip_upper 50) (map2 np_div volume (zero_to_nan vol_ma))))"

text \<open>One candle: open, high, low, close; a doji (no range) has no ratios.\<close>

definition candle_range :: "pyfloat \<Rightarrow> pyfloat \<Rightarrow> pyfloat" where
  "candle_range h l = (if h - l = Fin 0 then NaN else h - l)"

definition body_ratio :: "pyfloat \<Rightarrow> pyfloat \<Rightarrow> pyfloat \<Rightarrow> pyfloat \<Rightarrow> pyfloat" where
  "body_ratio p h l c = np_div (fabs (c - p)) (candle_range h l)"

definition upper_wick_ratio :: "pyfloat \<Rightarrow> pyfloat \<Rightarrow> pyfloat \<Rightarrow> pyfloat \<Rightarrow> pyfloat" where
  "upper_wick_ratio p h l c = np_div (h - s_max [p, c]) (candle_range h l)"

definition lower_wick_ratio :: "pyfloat \<Rightarrow> pyfloat \<Rightarrow> pyfloat \<Rightarrow> pyfloat \<Rightarrow> pyfloat" where
  "lower_wick_ratio p h l c = np_div (s_min [p, c] - l) (candle_range h l)"

definition candle_series :: "(pyfloat \<Rightarrow> pyfloat \<Rightarrow> pyfloat \<Rightarrow> pyfloat \<Rightarrow> pyfloat) \<Rightarrow> frame \<Rightarrow> series" where
  "candle_series f df = map (\<lambda>((p, h), (l, c)). f p h l c)
     (zip (zip (col df ''open'') (col df ''high'')) (zip (col df ''low'') (col df ''close'')))"

definition log_return :: "nat \<Rightarrow> series \<Rightarrow> series" where
  "log_return n close = (let lc = map np_log (zero_to_nan close) in map2 (-) lc (shift n lc))"

section \<open>The matrix\<close>

definition build :: "frame \<Rightarrow> frame res" where
  "build df0 = res_bind (normalise_features df0) (\<lambda>df.
     let close = col df ''close''; difference = (\<lambda>c. map2 (-) close (col df c)) in
     res_bind (volume_ratio (col df ''volume'')) (\<lambda>vr.
     Inr \<lparr>f_index = f_index df, f_cols =
       [(''rsi'', col df ''rsi''), (''stoch_k'', col df ''stoch_k''), (''stoch_d'', col df ''stoch_d''),
        (''macd_hist'', col df ''macd_hist''), (''adx'', col df ''adx''), (''adx_pos'', col df ''adx_pos''),
        (''adx_neg'', col df ''adx_neg''), (''ema_cross'', col df ''ema_cross''),
        (''bb_pct'', col df ''bb_pct''), (''bb_width'', col df ''bb_width''),
        (''bb_squeeze'', col df ''bb_squeeze''), (''atr_pct'', percent_of (col df ''atr'') close),
        (''mfi'', col df ''mfi''), (''obv_slope'', obv_slope (col df ''obv'')), (''volume_ratio'', vr),
        (''close_vs_ema9'', percent_of (difference ''ema_9'') close),
        (''close_vs_ema21'', percent_of (difference ''ema_21'') close),
        (''close_vs_vwap'', percent_of (difference ''vwap'') close),
        (''body_ratio'', candle_series body_ratio df),
        (''upper_wick_ratio'', candle_series upper_wick_ratio df),
        (''lower_wick_ratio'', candle_series lower_wick_ratio df),
        (''return_1bar'', log_return 1 close), (''return_3bar'', log_return 3 close),
        (''return_6bar'', log_return 6 close)]\<rparr>))"

section \<open>Properties\<close>

text \<open>The feature matrix has exactly the columns the model was trained on, in their order and over the
  index of the input, or is refused with a \<open>ValueError\<close> when an input column is missing.\<close>

theorem build_columns:
  "if set required_feature_cols \<subseteq> fst ` set (f_cols (lower_cols df))
   then \<exists>m. build df = Inr m \<and> map fst (f_cols m) = feature_names \<and> f_index m = f_index df
   else build df = Inl ValueError"
  by (auto simp: build_def normalise_features_def Let_def volume_ratio_def rolling_mean_def
      feature_names_def lower_cols_def)

text \<open>For a candle whose open and close lie between its low and its high, the body, the upper wick and
  the lower wick are each a fraction between 0 and 1 of the range and add up to the whole; a candle
  without a range has no ratio at all.\<close>

theorem candle_ratios_partition:
  assumes "l \<le> p" "p \<le> h" "l \<le> c" "c \<le> h"
  shows "if l = h then body_ratio (Fin p) (Fin h) (Fin l) (Fin c) = NaN
    else \<exists>b u v. body_ratio (Fin p) (Fin h) (Fin l) (Fin c) = Fin b
      \<and> upper_wick_ratio (Fin p) (Fin h) (Fin l) (Fin c) = Fin u
      \<and> lower_wick_ratio (Fin p) (Fin h) (Fin l) (Fin c) = Fin v
      \<and> 0 \<le> b \<and> 0 \<le> u \<and> 0 \<le> v \<and> b + u + v = 1"
proof (cases "l = h")
  case True
  then show ?thesis by (simp add: body_ratio_def candle_range_def np_div_def)
next
  case False
  with assms have pos: "0 < h - l" by simp
  have "\<bar>c - p\<bar> / (h - l) + (h - max p c) / (h - l) + (min p c - l) / (h - l)
      = (\<bar>c - p\<bar> + (h - max p c) + (min p c - l)) / (h - l)"
    by (simp add: add_divide_distrib)
  also have "\<bar>c - p\<bar> + (h - max p c) + (min p c - l) = h - l" by (simp add: max_def min_def)
  finally have whole: "\<bar>c - p\<bar> / (h - l) + (h - max p c) / (h - l) + (min p c - l) / (h - l) = 1"
    using pos by simp
  have "body_ratio (Fin p) (Fin h) (Fin l) (Fin c) = Fin (\<bar>c - p\<bar> / (h - l))"
    "upper_wick_ratio (Fin p) (Fin h) (Fin l) (Fin c) = Fin ((h - max p c) / (h - l))"
    "lower_wick_ratio (Fin p) (Fin h) (Fin l) (Fin c) = Fin ((min p c - l) / (h - l))"
    using pos by (simp_all add: body_ratio_def upper_wick_ratio_def lower_wick_ratio_def candle_range_def
        s_max_def s_min_def present_def)
  moreover have "0 \<le> \<bar>c - p\<bar> / (h - l)" "0 \<le> (h - max p c) / (h - l)" "0 \<le> (min p c - l) / (h - l)"
    using assms pos by simp_all
  ultimately show ?thesis using False whole by auto
qed

lemma candle_ratios_partition_witness:
  "\<exists>b u v. body_ratio (Fin 10) (Fin 13) (Fin 9) (Fin 12) = Fin b \<and> 0 \<le> b \<and> 0 \<le> u \<and> 0 \<le> v \<and> b + u + v = 1"
  using candle_ratios_partition [of 9 10 13 12] by auto

end
