(* ===== verification/Ml_Model.thy ===== *)
theory Ml_Model
  imports Config Versioning Features
begin

text \<open>
  LightGBM inference, \<open>bot/ml/model.py\<close>.  The package \<open>lightgbm\<close> is the parameter \<open>lgb_lib\<close>: loading a
  model file gives a handle or an exception, and a handle maps a row of features to the
  probabilities of the classes or raises.  The loaded handle is state of the process.
\<close>

record lgb_lib =
  lgb_load :: "string \<Rightarrow> int res"
  lgb_predict :: "int \<Rightarrow> series \<Rightarrow> series res"

definition labels :: "string list" where
  "labels = [''no_trade'', ''long'', ''short'']"

definition find_model_path :: "('ib world, string option) M" where
  "find_model_path = try_except (get_model_path JNull) any_exception (\<lambda>_. ret None)"

definition load_booster :: "lgb_lib \<Rightarrow> string \<Rightarrow> ('ib world, int option) M" where
  "load_booster lgb path = try_except
     (bindM (liftR (lgb_load lgb path)) (\<lambda>h.
        thenM (modifyM (\<lambda>w. w\<lparr>booster := Some h\<rparr>)) (ret (Some h))))
     any_exception (\<lambda>_. ret None)"

definition get_booster :: "lgb_lib \<Rightarrow> ('ib world, int option) M" where
  "get_booster lgb = bindM (gets booster) (\<lambda>b. case b of
      Some h \<Rightarrow> ret (Some h)
    | None \<Rightarrow> bindM find_model_path (\<lambda>path. case path of
        None \<Rightarrow> ret None
      | Some p \<Rightarrow> load_booster lgb p))"

definition reload_model :: "lgb_lib \<Rightarrow> ('ib world, bool) M" where
  "reload_model lgb =
     thenM (modifyM (\<lambda>w. w\<lparr>booster := None\<rparr>))
     (bindM find_model_path (\<lambda>path. case path of
        None \<Rightarrow> ret False
      | Some p \<Rightarrow> bindM (load_booster lgb p) (\<lambda>h. ret (h \<noteq> None))))"

text \<open>\<open>np.argmax\<close>: the first maximum, or the first NaN.\<close>

fun argmax_from :: "nat \<Rightarrow> pyfloat \<Rightarrow> nat \<Rightarrow> series \<Rightarrow> nat" where
  "argmax_from best m i [] = best"
| "argmax_from best m i (x # xs) =
     (if is_nan m then best else if is_nan x \<or> m < x then argmax_from i x (Suc i) xs
      else argmax_from best m (Suc i) xs)"

definition np_argmax :: "series \<Rightarrow> nat res" where
  "np_argmax xs = (case xs of [] \<Rightarrow> Inl ValueError | x # rest \<Rightarrow> Inr (argmax_from 0 x 1 rest))"

definition classify :: "series \<Rightarrow> (string \<times> pyfloat) res" where
  "classify row = res_bind (np_argmax row) (\<lambda>i.
     if i < length labels then Inr (labels ! i, row ! i) else Inl IndexError)"

definition predict :: "lgb_lib \<Rightarrow> series \<Rightarrow> ('ib world, string \<times> pyfloat) M" where
  "predict lgb features = bindM (get_booster lgb) (\<lambda>b. case b of
      None \<Rightarrow> ret (''no_trade'', Fin 0)
    | Some h \<Rightarrow>
        if list_ex is_nan features then ret (''no_trade'', Fin 0)
        else ret (case res_bind (lgb_predict lgb h features) classify of
            Inl _ \<Rightarrow> (''no_trade'', Fin 0) | Inr p \<Rightarrow> p))"

section \<open>Properties\<close>

lemma load_manifest_state: "snd (load_manifest w) = w"
  by (auto simp: load_manifest_def bindM_def gets_def ret_def raise_def
      split: manifest_file.splits json.splits)

lemma frame_load_manifest [frame_rules]: "frame f load_manifest"
  by (simp add: frame_def load_manifest_state)

lemma frame_find_model_path [frame_rules]: "frame f find_model_path"
  by (auto simp: find_model_path_def get_model_path_def Let_def intro!: frame_rules)

lemma frame_predict:
  assumes "\<And>w b. f (w\<lparr>booster := b\<rparr>) = f w"
  shows "frame f (predict lgb x)"
  using assms by (auto simp: predict_def get_booster_def load_booster_def
      intro!: frame_rules frame_modifyM)

lemma find_model_path_returns [returns_rules]: "never_raises find_model_path"
  by (auto simp: find_model_path_def intro!: returns_rules)

lemma load_booster_returns [returns_rules]: "never_raises (load_booster lgb p)"
  by (auto simp: load_booster_def intro!: returns_rules)

lemma predict_returns [returns_rules]: "never_raises (predict lgb x)"
  by (auto simp: predict_def get_booster_def intro!: returns_rules)

lemma argmax_in_range: "best < i \<Longrightarrow> argmax_from best m i xs < i + length xs"
proof (induction xs arbitrary: best m i)
  case (Cons x xs)
  then show ?case using Cons.IH [of i "Suc i" x] Cons.IH [of best "Suc i" m] by auto
qed simp

lemma np_argmax_range: "np_argmax row = Inr i \<Longrightarrow> i < length row"
  using argmax_in_range [of 0 1] by (auto simp: np_argmax_def split: list.splits)

lemma classify_label: "classify row = Inr (l, p) \<Longrightarrow> l \<in> set labels \<and> p \<in> set row"
  by (auto simp: classify_def res_bind_Inr_iff dest: np_argmax_range split: if_splits)

lemma frame_trading_predict [frame_rules]: "frame trading_state (predict lgb x)"
  by (rule frame_predict) (simp add: trading_state_def)

lemma frame_outbox_predict [frame_rules]: "frame outbox (predict lgb x)"
  by (rule frame_predict) simp

lemma predict_result:
  assumes "predict lgb x w = (Inr (l, p), u)"
  shows "l \<in> set labels \<and> ((l, p) = (''no_trade'', Fin 0)
    \<or> (list_all (\<lambda>v. \<not> is_nan v) x \<and> (\<exists>h row. lgb_predict lgb h x = Inr row \<and> p \<in> set row)))"
proof -
  obtain b v where "get_booster lgb w = (Inr b, v)" and r: "(case b of
      None \<Rightarrow> (''no_trade'', Fin 0)
    | Some h \<Rightarrow> if list_ex is_nan x then (''no_trade'', Fin 0)
        else (case res_bind (lgb_predict lgb h x) classify of Inl _ \<Rightarrow> (''no_trade'', Fin 0) | Inr p \<Rightarrow> p)) = (l, p)"
    using assms unfolding predict_def by (auto elim!: bindM_InrE simp: ret_def split: option.splits if_splits)
  from r show ?thesis
    by (auto simp: labels_def list_ex_iff list_all_iff res_bind_Inr_iff split: option.splits if_splits sum.splits
        dest: classify_label)
qed

text \<open>Inference never raises and touches nothing trading depends on.  It degrades to \<open>no_trade\<close> with
  probability 0 when there is no model, the features hold a NaN, or the library fails; any other
  answer is a label of the model with the probability the model gave it.\<close>

theorem predict_degrades:
  "\<exists>l p u. predict lgb x w = (Inr (l, p), u) \<and> trading_state u = trading_state w \<and> l \<in> set labels
     \<and> ((l, p) = (''no_trade'', Fin 0)
        \<or> (list_all (\<lambda>v. \<not> is_nan v) x \<and> (\<exists>h row. lgb_predict lgb h x = Inr row \<and> p \<in> set row)))"
proof -
  obtain r u where run: "predict lgb x w = (Inr r, u)" using predict_returns by (rule never_raisesE)
  moreover have "trading_state u = trading_state w" using frame_trading_predict run by (rule frameD)
  ultimately show ?thesis using predict_result [of lgb x w "fst r" "snd r" u] by (cases r) auto
qed

end
