(* ===== verification/Backtest.thy ===== *)
theory Backtest
  imports Backtest_Metrics Ml_Model
begin

text \<open>
  The backtest engine \<open>bot/backtesting/engine.py\<close>: the replay of historical bars with simulated
  entries and exits.  The text of an index label and its date, where the label has one, are
  pandas' and a parameter (\<open>label_lib\<close>).  The state of the loop is a \<open>replay_state\<close>; the process
  state is threaded through because the prediction may load the model.
\<close>

record label_lib =
  lbl_str :: "frame_index \<Rightarrow> nat \<Rightarrow> string"
  lbl_date :: "frame_index \<Rightarrow> nat \<Rightarrow> string option"

record backtest_engine =
  be_initial :: pyfloat
  be_size_pct :: pyfloat
  be_stop_atr :: pyfloat
  be_target_atr :: pyfloat
  be_min_prob :: pyfloat
  be_max_per_day :: int

record open_pos =
  op_bar_index :: nat
  op_entry_time :: string
  op_action :: string
  op_entry :: pyfloat
  op_target :: pyfloat
  op_stop :: pyfloat
  op_shares :: int
  op_ml_label :: string
  op_ml_prob :: pyfloat

record replay_state =
  rs_equity :: pyfloat
  rs_curve :: "pyfloat list"
  rs_trades :: "backtest_trade list"
  rs_position :: "open_pos option"
  rs_daily :: "string \<rightharpoonup> int"

definition warmup_bars :: nat where
  "warmup_bars = 60"

text \<open>\<open>BacktestEngine()\<close>: the defaults of \<open>__init__\<close>.\<close>

definition default_engine :: backtest_engine where
  "default_engine = \<lparr>be_initial = Fin 100000, be_size_pct = Fin 2, be_stop_atr = Fin 1,
     be_target_atr = Fin 2, be_min_prob = Fin 0.55, be_max_per_day = 3\<rparr>"

definition params_dict :: "backtest_engine \<Rightarrow> (string \<times> json) list" where
  "params_dict E = [(''initial_capital'', JNum (be_initial E)), (''position_size_pct'', JNum (be_size_pct E)),
     (''stop_loss_atr'', JNum (be_stop_atr E)), (''take_profit_atr'', JNum (be_target_atr E)),
     (''ml_min_probability'', JNum (be_min_prob E)), (''max_trades_per_day'', JInt (be_max_per_day E))]"

section \<open>The helpers\<close>

definition create_position :: "backtest_engine \<Rightarrow> nat \<Rightarrow> string \<Rightarrow> string \<Rightarrow> pyfloat \<Rightarrow> pyfloat \<Rightarrow> pyfloat \<Rightarrow> pyfloat
    \<Rightarrow> open_pos res" where
  "create_position E bar_index bar_time action ml_prob close atr equity =
    (let amount = fdiv_lit (equity * be_size_pct E) 100 in
     res_bind (res_bind (fdiv amount close) py_int) (\<lambda>whole.
       Inr \<lparr>op_bar_index = bar_index, op_entry_time = bar_time, op_action = action, op_entry = close,
         op_target = (if action = ''long'' then close + be_target_atr E * atr else close - be_target_atr E * atr),
         op_stop = (if action = ''long'' then close - be_stop_atr E * atr else close + be_stop_atr E * atr),
         op_shares = max 1 whole, op_ml_label = action, op_ml_prob = ml_prob\<rparr>))"

definition check_exit :: "open_pos \<Rightarrow> pyfloat \<Rightarrow> pyfloat \<Rightarrow> pyfloat \<Rightarrow> (pyfloat \<times> string) option" where
  "check_exit pos high low close =
    (if op_action pos = ''long'' then
       if low \<le> op_stop pos then Some (op_stop pos, ''stop'')
       else if high \<ge> op_target pos then Some (op_target pos, ''target'')
       else None
     else
       if high \<ge> op_stop pos then Some (op_stop pos, ''stop'')
       else if low \<le> op_target pos then Some (op_target pos, ''target'')
       else None)"

definition calc_pnl :: "open_pos \<Rightarrow> pyfloat \<Rightarrow> pyfloat" where
  "calc_pnl pos exit_price =
    (if op_action pos = ''long'' then (exit_price - op_entry pos) * Fin (of_int (op_shares pos))
     else (op_entry pos - exit_price) * Fin (of_int (op_shares pos)))"

definition get_atr :: "frame \<Rightarrow> nat \<Rightarrow> pyfloat" where
  "get_atr enriched i =
    (if \<not> has_col ''atr'' enriched \<or> i \<ge> nrows enriched then Fin 0
     else let v = row_get enriched i ''atr'' in if is_nan v then Fin 0 else v)"

definition check_15min_confirmation :: "frame \<Rightarrow> nat \<Rightarrow> string \<Rightarrow> bool" where
  "check_15min_confirmation enriched i ml_label =
    (if i \<ge> nrows enriched then False
     else let ema_cross = row_get enriched i ''ema_cross''; macd_hist = row_get enriched i ''macd_hist'' in
       if is_nan ema_cross \<or> is_nan macd_hist then True
       else if ml_label = ''long'' then ema_cross = Fin 1 \<and> macd_hist > Fin 0
       else if ml_label = ''short'' then ema_cross = Fin 0 \<and> macd_hist < Fin 0
       else False)"

definition closed_trade :: "open_pos \<Rightarrow> string \<Rightarrow> pyfloat \<Rightarrow> string \<Rightarrow> backtest_trade" where
  "closed_trade pos exit_time exit_price reason =
    \<lparr>bt_bar_index = op_bar_index pos, bt_entry_time = op_entry_time pos, bt_exit_time = Some exit_time,
     bt_action = op_action pos, bt_entry = op_entry pos, bt_exit = Some exit_price,
     bt_shares = op_shares pos, bt_pnl = Some (calc_pnl pos exit_price), bt_reason = reason,
     bt_ml_label = op_ml_label pos, bt_ml_prob = op_ml_prob pos\<rparr>"

section \<open>The replay of one bar\<close>

definition settle :: "open_pos \<Rightarrow> string \<Rightarrow> pyfloat \<Rightarrow> string \<Rightarrow> replay_state \<Rightarrow> replay_state" where
  "settle pos time price reason s =
    s\<lparr>rs_equity := rs_equity s + calc_pnl pos price,
      rs_trades := rs_trades s @ [closed_trade pos time price reason], rs_position := None\<rparr>"

definition exit_step :: "string \<Rightarrow> pyfloat \<Rightarrow> pyfloat \<Rightarrow> pyfloat \<Rightarrow> replay_state \<Rightarrow> replay_state" where
  "exit_step bar_time high low close s =
    (case rs_position s of
      None \<Rightarrow> s
    | Some pos \<Rightarrow> (case check_exit pos high low close of
        None \<Rightarrow> s
      | Some (exit_price, reason) \<Rightarrow> settle pos bar_time exit_price reason s))"

definition bar_signal :: "lgb_lib \<Rightarrow> frame \<Rightarrow> nat \<Rightarrow> ('ib world, string \<times> pyfloat) M" where
  "bar_signal lgb features i =
    (if i < nrows features \<and> \<not> list_ex is_nan (row_values features i)
     then try_except (predict lgb (row_values features i)) any_exception (\<lambda>_. ret (''no_trade'', Fin 0))
     else ret (''no_trade'', Fin 0))"

definition entry_step :: "backtest_engine \<Rightarrow> lgb_lib \<Rightarrow> frame \<Rightarrow> frame \<Rightarrow> nat \<Rightarrow> string \<Rightarrow> string \<Rightarrow> pyfloat
    \<Rightarrow> replay_state \<Rightarrow> ('ib world, replay_state) M" where
  "entry_step E lgb enriched features i bar_time trade_date close s =
    (if rs_position s = None \<and> i \<ge> warmup_bars then
       let count = (case rs_daily s trade_date of Some k \<Rightarrow> k | None \<Rightarrow> 0) in
       if count \<ge> be_max_per_day E then ret s
       else bindM (bar_signal lgb features i) (\<lambda>(ml_label, ml_prob).
         if ml_label \<in> {''long'', ''short''} \<and> ml_prob \<ge> be_min_prob E
            \<and> check_15min_confirmation enriched i ml_label
            \<and> get_atr enriched i > Fin 0 \<and> close > Fin 0
         then bindM (liftR (create_position E i bar_time ml_label ml_prob close (get_atr enriched i) (rs_equity s)))
           (\<lambda>pos. ret (s\<lparr>rs_position := Some pos, rs_daily := (rs_daily s)(trade_date \<mapsto> count + 1)\<rparr>))
         else ret s)
     else ret s)"

text \<open>\<open>float(df[c].iloc[i])\<close>.\<close>

definition cell :: "string \<Rightarrow> nat \<Rightarrow> frame \<Rightarrow> pyfloat res" where
  "cell c i df = res_bind (get_col c df) (\<lambda>xs. if i < length xs then Inr (xs ! i) else Inl IndexError)"

text \<open>A label that has no date is dated by the first ten characters of its text.\<close>

definition trade_date_of :: "label_lib \<Rightarrow> frame_index \<Rightarrow> nat \<Rightarrow> string" where
  "trade_date_of L ix i = (case lbl_date L ix i of Some d \<Rightarrow> d | None \<Rightarrow> take 10 (lbl_str L ix i))"

definition replay_bar :: "backtest_engine \<Rightarrow> label_lib \<Rightarrow> lgb_lib \<Rightarrow> frame \<Rightarrow> frame \<Rightarrow> frame \<Rightarrow> nat
    \<Rightarrow> replay_state \<Rightarrow> ('ib world, replay_state) M" where
  "replay_bar E L lgb bars enriched features i s =
    (let bar_time = lbl_str L (f_index bars) i; trade_date = trade_date_of L (f_index bars) i in
     bindM (liftR (cell ''close'' i bars)) (\<lambda>close.
     bindM (liftR (cell ''high'' i bars)) (\<lambda>high.
     bindM (liftR (cell ''low'' i bars)) (\<lambda>low.
     bindM (entry_step E lgb enriched features i bar_time trade_date close (exit_step bar_time high low close s))
       (\<lambda>s'. ret (s'\<lparr>rs_curve := rs_curve s' @ [rs_equity s']\<rparr>))))))"

fun replay_bars :: "backtest_engine \<Rightarrow> label_lib \<Rightarrow> lgb_lib \<Rightarrow> frame \<Rightarrow> frame \<Rightarrow> frame \<Rightarrow> nat list
    \<Rightarrow> replay_state \<Rightarrow> ('ib world, replay_state) M" where
  "replay_bars E L lgb bars enriched features [] s = ret s"
| "replay_bars E L lgb bars enriched features (i # is) s =
     bindM (replay_bar E L lgb bars enriched features i s) (replay_bars E L lgb bars enriched features is)"

section \<open>The run\<close>

definition start_state :: "backtest_engine \<Rightarrow> replay_state" where
  "start_state E = \<lparr>rs_equity = be_initial E, rs_curve = [], rs_trades = [], rs_position = None,
     rs_daily = Map.empty\<rparr>"

text \<open>A position that is still open is closed at the last close; \<open>equity_curve[-1] = equity\<close>.\<close>

definition close_remaining :: "label_lib \<Rightarrow> frame \<Rightarrow> replay_state \<Rightarrow> replay_state res" where
  "close_remaining L bars s =
    (case rs_position s of
      None \<Rightarrow> Inr s
    | Some pos \<Rightarrow>
        res_bind (res_bind (get_col ''close'' bars) last_of) (\<lambda>last_close.
          let s' = settle pos (lbl_str L (f_index bars) (nrows bars - 1)) last_close ''eod'' s in
          if rs_curve s' = [] then Inl IndexError
          else Inr (s'\<lparr>rs_curve := (rs_curve s')[length (rs_curve s') - 1 := rs_equity s']\<rparr>)))"

definition finish :: "backtest_engine \<Rightarrow> string \<Rightarrow> replay_state \<Rightarrow> backtest_result res" where
  "finish E symbol s =
    res_bind (compute_metrics (rs_trades s) (rs_curve s) (be_initial E)) (\<lambda>m.
      Inr \<lparr>br_symbol = symbol, br_initial = be_initial E, br_final = rs_equity s, br_trades = rs_trades s,
        br_curve = rs_curve s, br_metrics = m, br_params = params_dict E\<rparr>)"

definition run_backtest :: "backtest_engine \<Rightarrow> label_lib \<Rightarrow> ta_lib \<Rightarrow> lgb_lib \<Rightarrow> frame \<Rightarrow> string
    \<Rightarrow> ('ib world, backtest_result) M" where
  "run_backtest E L ta lgb bars0 symbol =
    (let bars = lower_cols bars0 in
     case res_bind (calculate ta bars) (\<lambda>enriched. res_bind (build enriched) (\<lambda>features. Inr (enriched, features))) of
       Inl _ \<Rightarrow> liftR (finish E symbol ((start_state E)\<lparr>rs_curve := [be_initial E]\<rparr>))
     | Inr (enriched, features) \<Rightarrow>
         bindM (replay_bars E L lgb bars enriched features [0..<nrows bars] (start_state E)) (\<lambda>s.
         bindM (liftR (close_remaining L bars s)) (\<lambda>s'. liftR (finish E symbol s'))))"

section \<open>The books\<close>

text \<open>The bars at which positions were opened, in order; an exit only moves an entry from the open position
  to the list of trades.\<close>

definition entries :: "replay_state \<Rightarrow> nat list" where
  "entries s = map bt_bar_index (rs_trades s)
     @ (case rs_position s of None \<Rightarrow> [] | Some p \<Rightarrow> [op_bar_index p])"

definition entries_on :: "(nat \<Rightarrow> string) \<Rightarrow> string \<Rightarrow> nat list \<Rightarrow> int" where
  "entries_on date d is = int (length (filter (\<lambda>i. date i = d) is))"

text \<open>A position opened as \<open>create_position\<close> does it: bracketed around a positive entry price by a stop and a
  target at multiples of a positive range.\<close>

definition bracketed :: "backtest_engine \<Rightarrow> open_pos \<Rightarrow> bool" where
  "bracketed E p \<longleftrightarrow> op_action p \<in> {''long'', ''short''} \<and> 1 \<le> op_shares p \<and> warmup_bars \<le> op_bar_index p
     \<and> op_entry p > Fin 0
     \<and> (\<exists>a > Fin 0. if op_action p = ''long''
         then op_target p = op_entry p + be_target_atr E * a \<and> op_stop p = op_entry p - be_stop_atr E * a
         else op_target p = op_entry p - be_target_atr E * a \<and> op_stop p = op_entry p + be_stop_atr E * a)"

definition exit_rule :: "open_pos \<Rightarrow> pyfloat \<Rightarrow> string \<Rightarrow> bool" where
  "exit_rule p x reason \<longleftrightarrow> reason = ''stop'' \<and> x = op_stop p \<or> reason = ''target'' \<and> x = op_target p
     \<or> reason = ''eod''"

definition trade_ok :: "backtest_engine \<Rightarrow> backtest_trade \<Rightarrow> bool" where
  "trade_ok E t \<longleftrightarrow> (\<exists>p time x reason. bracketed E p \<and> exit_rule p x reason \<and> t = closed_trade p time x reason)"

definition counted :: "backtest_engine \<Rightarrow> (nat \<Rightarrow> string) \<Rightarrow> (string \<rightharpoonup> int) \<Rightarrow> nat list \<Rightarrow> bool" where
  "counted E date daily is \<longleftrightarrow> (\<forall>d. entries_on date d is = (case daily d of None \<Rightarrow> 0 | Some k \<Rightarrow> k)
     \<and> entries_on date d is \<le> max 0 (be_max_per_day E))"

definition books :: "backtest_engine \<Rightarrow> (nat \<Rightarrow> string) \<Rightarrow> nat \<Rightarrow> replay_state \<Rightarrow> bool" where
  "books E date i s \<longleftrightarrow>
     rs_equity s = be_initial E + sum_list (List.map_filter bt_pnl (rs_trades s))
   \<and> (\<forall>t \<in> set (rs_trades s). trade_ok E t)
   \<and> (\<forall>p. rs_position s = Some p \<longrightarrow> bracketed E p)
   \<and> sorted_wrt (<) (entries s) \<and> (\<forall>j \<in> set (entries s). warmup_bars \<le> j \<and> j < i)
   \<and> counted E date (rs_daily s) (entries s)"

lemma books_start: "books E date 0 (start_state E)"
  by (simp add: books_def start_state_def entries_def entries_on_def counted_def map_filter_def flip: zero_pyfloat_def)

lemma books_Suc: "books E date i s \<Longrightarrow> books E date (Suc i) s"
  by (auto simp: books_def less_Suc_eq)

lemma entries_settle: "rs_position s = Some p \<Longrightarrow> entries (settle p time x reason s) = entries s"
  by (simp add: entries_def settle_def closed_trade_def)

lemma pnl_settle: "List.map_filter bt_pnl (rs_trades (settle p time x reason s))
    = List.map_filter bt_pnl (rs_trades s) @ [calc_pnl p x]"
  by (simp add: settle_def closed_trade_def map_filter_def)

lemma books_settle:
  assumes "books E date i s" and "rs_position s = Some p" and "exit_rule p x reason"
  shows "books E date i (settle p time x reason s)"
proof -
  have "trade_ok E (closed_trade p time x reason)"
    using assms unfolding books_def trade_ok_def by blast
  with assms show ?thesis
    by (auto simp: books_def entries_settle pnl_settle) (auto simp: settle_def add.assoc)
qed

lemma check_exit_rule: "check_exit p high low close = Some (x, reason) \<Longrightarrow> exit_rule p x reason"
  by (auto simp: check_exit_def exit_rule_def split: if_splits)

lemma books_exit_step: "books E date i s \<Longrightarrow> books E date i (exit_step time high low close s)"
  by (auto simp: exit_step_def split: option.split intro: books_settle check_exit_rule)

lemma create_position_Inr:
  assumes "create_position E i time action prob close atr equity = Inr p"
    and "action \<in> {''long'', ''short''}" "warmup_bars \<le> i" "close > Fin 0" "atr > Fin 0"
  shows "bracketed E p \<and> op_bar_index p = i"
  using assms by (auto simp: create_position_def Let_def res_bind_Inr_iff bracketed_def)

lemma books_entry_step:
  assumes b: "books E date i s" and run: "entry_step E lgb enriched features i time (date i) close s w = (Inr s', u)"
  shows "books E date (Suc i) s'"
proof (cases "s' = s")
  case True
  with b show ?thesis by (simp add: books_Suc)
next
  case False
  let ?count = "case rs_daily s (date i) of Some k \<Rightarrow> k | None \<Rightarrow> 0"
  obtain action prob p where none: "rs_position s = None" and i: "warmup_bars \<le> i"
    and count: "?count < be_max_per_day E"
    and action: "action \<in> {''long'', ''short''}" "close > Fin 0" "get_atr enriched i > Fin 0"
    and p: "create_position E i time action prob close (get_atr enriched i) (rs_equity s) = Inr p"
    and s': "s' = s\<lparr>rs_position := Some p, rs_daily := (rs_daily s)(date i \<mapsto> ?count + 1)\<rparr>"
    using run False that unfolding entry_step_def Let_def
    by (auto simp: ret_def liftR_def not_le elim!: bindM_InrE split: if_split_asm prod.split_asm; blast)
  from create_position_Inr [OF p action(1) i action(2,3)] have ok: "bracketed E p" "op_bar_index p = i" by auto
  have e: "entries s' = entries s @ [i]" using none ok(2) by (simp add: entries_def s')
  have on: "entries_on date d (entries s') = entries_on date d (entries s) + (if date i = d then 1 else 0)" for d
    by (simp add: entries_on_def e)
  from b have old: "counted E date (rs_daily s) (entries s)" by (simp add: books_def)
  have counts: "counted E date (rs_daily s') (entries s')"
    unfolding counted_def
  proof
    fix d
    from old have "entries_on date d (entries s) = (case rs_daily s d of None \<Rightarrow> 0 | Some k \<Rightarrow> k)"
      "entries_on date d (entries s) \<le> max 0 (be_max_per_day E)" unfolding counted_def by blast+
    with count on [of d] show "entries_on date d (entries s') = (case rs_daily s' d of None \<Rightarrow> 0 | Some k \<Rightarrow> k)
        \<and> entries_on date d (entries s') \<le> max 0 (be_max_per_day E)"
      by (cases "date i = d") (simp_all add: s')
  qed
  have same: "rs_equity s' = rs_equity s" "rs_trades s' = rs_trades s" "rs_position s' = Some p"
    by (simp_all add: s')
  from b counts ok i show ?thesis
    unfolding books_def same by (auto simp: e sorted_wrt_append less_Suc_eq)
qed

definition curve_ok :: "nat \<Rightarrow> replay_state \<Rightarrow> bool" where
  "curve_ok i s \<longleftrightarrow> length (rs_curve s) = i \<and> (0 < i \<longrightarrow> last (rs_curve s) = rs_equity s)"

lemma curve_exit_step: "rs_curve (exit_step time high low close s) = rs_curve s"
  by (auto simp: exit_step_def settle_def split: option.split)

lemma curve_entry_step: "entry_step E lgb enriched features i time date close s w = (Inr s', u) \<Longrightarrow>
    rs_curve s' = rs_curve s \<and> rs_equity s' = rs_equity s"
  unfolding entry_step_def Let_def
  by (auto simp: ret_def liftR_def elim!: bindM_InrE split: if_split_asm prod.split_asm)

lemma replay_bar_books:
  assumes "books E (trade_date_of L (f_index bars)) i s" and "length (rs_curve s) = i"
    and "replay_bar E L lgb bars enriched features i s w = (Inr s', u)"
  shows "books E (trade_date_of L (f_index bars)) (Suc i) s' \<and> curve_ok (Suc i) s'"
proof -
  obtain high low close t v where
    step: "entry_step E lgb enriched features i (lbl_str L (f_index bars) i) (trade_date_of L (f_index bars) i) close
        (exit_step (lbl_str L (f_index bars) i) high low close s) v = (Inr t, u)"
    and s': "s' = t\<lparr>rs_curve := rs_curve t @ [rs_equity t]\<rparr>"
    using assms(3) unfolding replay_bar_def Let_def by (auto simp: ret_def elim!: bindM_InrE)
  from books_entry_step [OF books_exit_step [OF assms(1)] step]
  have "books E (trade_date_of L (f_index bars)) (Suc i) s'" by (simp add: s' books_def entries_def)
  with assms(2) curve_entry_step [OF step] show ?thesis
    by (simp add: curve_ok_def s' curve_exit_step)
qed

lemma replay_bars_books:
  "books E (trade_date_of L (f_index bars)) i s \<Longrightarrow> curve_ok i s \<Longrightarrow>
   replay_bars E L lgb bars enriched features [i..<i + k] s w = (Inr s', u) \<Longrightarrow>
   books E (trade_date_of L (f_index bars)) (i + k) s' \<and> curve_ok (i + k) s'"
proof (induction k arbitrary: i s w)
  case 0
  then show ?case by (simp add: ret_def)
next
  case (Suc k)
  have "[i..<i + Suc k] = i # [Suc i..<Suc i + k]" by (simp add: upt_rec)
  with Suc.prems(3) obtain s1 v where first: "replay_bar E L lgb bars enriched features i s w = (Inr s1, v)"
    and rest: "replay_bars E L lgb bars enriched features [Suc i..<Suc i + k] s1 v = (Inr s', u)"
    by (auto elim!: bindM_InrE)
  from Suc.prems(2) have "length (rs_curve s) = i" by (simp add: curve_ok_def)
  from replay_bar_books [OF Suc.prems(1) this first] Suc.IH [OF _ _ rest] show ?case by simp
qed

lemma close_remaining_books:
  assumes "books E date i s" "curve_ok i s" "close_remaining L bars s = Inr s'"
  shows "books E date i s' \<and> curve_ok i s' \<and> rs_position s' = None"
proof (cases "rs_position s")
  case None
  with assms show ?thesis by (simp add: close_remaining_def)
next
  case (Some p)
  obtain x where c: "rs_curve s \<noteq> []"
    and s': "s' = settle p (lbl_str L (f_index bars) (nrows bars - 1)) x ''eod'' s
      \<lparr>rs_curve := (rs_curve s)[length (rs_curve s) - 1 := rs_equity s + calc_pnl p x]\<rparr>"
    using assms(3) Some
    by (auto simp: close_remaining_def Let_def res_bind_Inr_iff settle_def split: if_splits)
  have "books E date i (settle p (lbl_str L (f_index bars) (nrows bars - 1)) x ''eod'' s)"
    using assms(1) Some by (rule books_settle) (simp add: exit_rule_def)
  then have "books E date i s'" by (simp add: s' books_def entries_def)
  with c assms(2) show ?thesis
    by (simp add: s' curve_ok_def settle_def last_conv_nth)
qed

lemma run_backtest_books:
  assumes "run_backtest E L ta lgb bars symbol w = (Inr r, u)"
  obtains s where "books E (trade_date_of L (f_index bars)) (nrows bars) s" "rs_position s = None"
    "curve_ok (nrows bars) s \<or> rs_curve s = [be_initial E] \<and> rs_trades s = []" "finish E symbol s = Inr r"
proof -
  let ?bars = "lower_cols bars"
  have ix: "f_index ?bars = f_index bars" by (simp add: lower_cols_def)
  show ?thesis
  proof (cases "res_bind (calculate ta ?bars) (\<lambda>enriched. res_bind (build enriched) (\<lambda>features. Inr (enriched, features)))")
    case (Inl e)
    have "books E (trade_date_of L (f_index bars)) (nrows bars) ((start_state E)\<lparr>rs_curve := [be_initial E]\<rparr>)"
      using books_start [of E "trade_date_of L (f_index bars)"]
      by (simp add: books_def start_state_def entries_def)
    with Inl assms that show ?thesis by (simp add: run_backtest_def Let_def liftR_def start_state_def)
  next
    case (Inr p)
    obtain enriched features where p: "p = (enriched, features)" by force
    from assms Inr p obtain s1 v s where
      "replay_bars E L lgb ?bars enriched features [0..<0 + nrows bars] (start_state E) w = (Inr s1, v)"
      and close: "close_remaining L ?bars s1 = Inr s" and fin: "finish E symbol s = Inr r"
      unfolding run_backtest_def Let_def by (auto simp: liftR_def elim!: bindM_InrE)
    from replay_bars_books [OF _ _ this(1)] books_start
    have "books E (trade_date_of L (f_index bars)) (nrows bars) s1 \<and> curve_ok (nrows bars) s1"
      by (simp add: ix curve_ok_def start_state_def)
    with close_remaining_books close fin that show ?thesis by blast
  qed
qed

section \<open>The warm-up\<close>

text \<open>During the warm-up no position is opened, so the state only gains points of the curve.\<close>

lemma replay_bar_warmup:
  assumes "rs_position s = None" and "i < warmup_bars"
    and "cell ''close'' i bars = Inr c" "cell ''high'' i bars = Inr h" "cell ''low'' i bars = Inr l"
  shows "replay_bar E L lgb bars enriched features i s w = (Inr (s\<lparr>rs_curve := rs_curve s @ [rs_equity s]\<rparr>), w)"
  using assms by (simp add: replay_bar_def entry_step_def exit_step_def bindM_def liftR_def ret_def)

lemma replay_warmup:
  assumes "\<And>j. j < warmup_bars \<Longrightarrow> \<exists>c h l. cell ''close'' j bars = Inr c \<and> cell ''high'' j bars = Inr h \<and> cell ''low'' j bars = Inr l"
  shows "rs_position s = None \<Longrightarrow> i + k \<le> warmup_bars \<Longrightarrow>
    replay_bars E L lgb bars enriched features [i..<i + k] s w
      = (Inr (s\<lparr>rs_curve := rs_curve s @ replicate k (rs_equity s)\<rparr>), w)"
proof (induction k arbitrary: i s)
  case 0
  then show ?case by (simp add: ret_def)
next
  case (Suc k)
  from Suc.prems(2) have i: "i < warmup_bars" and up: "[i..<i + Suc k] = i # [Suc i..<Suc i + k]"
    by (simp_all add: upt_rec)
  obtain c h l where "cell ''close'' i bars = Inr c" "cell ''high'' i bars = Inr h" "cell ''low'' i bars = Inr l"
    using assms [OF i] by blast
  from replay_bar_warmup [OF Suc.prems(1) i this, of E L lgb enriched features w]
  show ?case unfolding up using Suc.IH [of "s\<lparr>rs_curve := rs_curve s @ [rs_equity s]\<rparr>" "Suc i"] Suc.prems
    by (simp add: bindM_def)
qed

lemma replay_bars_append: "replay_bars E L lgb bars enriched features (is @ js) s
    = bindM (replay_bars E L lgb bars enriched features is s) (replay_bars E L lgb bars enriched features js)"
proof (induction "is" arbitrary: s)
  case (Cons i "is")
  show ?case by (simp add: bindM_assoc ext [OF Cons.IH])
qed simp

section \<open>A replay of 62 bars\<close>

text \<open>A market that always offers the target price, indicators that always confirm, and a model that always
  answers \<open>long\<close>: one position is opened after the warm-up and reaches its target on the last bar.\<close>

definition demo_bars :: frame where
  "demo_bars = \<lparr>f_index = DatetimeIdx (map (\<lambda>k. 300000 * int k) [0..<62]), f_cols = [(''open'', replicate 62 (Fin 10)), (''high'', replicate 62 (Fin 14)),
     (''low'', replicate 62 (Fin 9)), (''close'', replicate 62 (Fin 10)), (''volume'', replicate 62 (Fin 1000))]\<rparr>"

definition demo_series :: "real \<Rightarrow> series" where
  "demo_series c = replicate 62 (Fin c)"

definition demo_ta :: ta_lib where
  "demo_ta = \<lparr>ta_ema = (\<lambda>n xs. Inr (demo_series (if n = 9 then 11 else 10))), ta_sma = (\<lambda>_ xs. Inr xs),
     ta_macd = (\<lambda>c. Inr (demo_series 1, demo_series 0, demo_series 1)),
     ta_adx = (\<lambda>h l c. Inr (demo_series 30, demo_series 20, demo_series 10)), ta_rsi = (\<lambda>c. Inr (demo_series 60)),
     ta_stoch = (\<lambda>h l c. Inr (demo_series 70, demo_series 65)), ta_atr = (\<lambda>h l c. Inr (demo_series 2)),
     ta_bollinger = (\<lambda>c. Inr (demo_series 12, demo_series 8, demo_series (1 / 2), demo_series 4)),
     ta_obv = (\<lambda>c v. Inr (demo_series 5000)), ta_mfi = (\<lambda>h l c v. Inr (demo_series 55)),
     ta_vwap = (\<lambda>h l c v. Inr (demo_series 10))\<rparr>"

lemma lower_demo: "lower_cols demo_bars = demo_bars"
  unfolding lower_cols_def demo_bars_def by simp code_simp

definition demo_squeeze :: series where
  "demo_squeeze = flag_series (\<lambda>a b. a < b) (demo_series 4) (map (\<lambda>i. if Suc i < 20 then NaN else np_mean (window_at 20 i (demo_series 4))) [0..<62])"


definition demo_enriched :: frame where
  "demo_enriched = \<lparr>f_index = f_index demo_bars, f_cols = f_cols demo_bars @
    [(''ema_9'', demo_series 11), (''ema_21'', demo_series 10), (''ema_cross'', demo_series 1),
     (''macd'', demo_series 1), (''macd_signal'', demo_series 0), (''macd_hist'', demo_series 1),
     (''adx'', demo_series 30), (''adx_pos'', demo_series 20), (''adx_neg'', demo_series 10),
     (''rsi'', demo_series 60), (''stoch_k'', demo_series 70), (''stoch_d'', demo_series 65),
     (''atr'', demo_series 2), (''bb_upper'', demo_series 12), (''bb_lower'', demo_series 8),
     (''bb_pct'', demo_series (1 / 2)), (''bb_width'', demo_series 4), (''bb_squeeze'', demo_squeeze),
     (''obv'', demo_series 5000), (''mfi'', demo_series 55), (''vwap'', demo_series 10)]\<rparr>"

lemma demo_calculate: "calculate demo_ta demo_bars = Inr demo_enriched"
proof -
  have ok: "validate_and_normalise demo_bars = Inr demo_bars"
    by (simp add: validate_and_normalise_def lower_demo) (simp add: has_ohlcv_def demo_bars_def ohlcv_def)
  have n: "nrows demo_bars = 62" by (simp add: nrows_def demo_bars_def)
  have "add_trend demo_ta demo_bars = Inr (write_cols [(''ema_9'', demo_series 11), (''ema_21'', demo_series 10), (''ema_cross'', demo_series 1),
     (''macd'', demo_series 1), (''macd_signal'', demo_series 0), (''macd_hist'', demo_series 1),
     (''adx'', demo_series 30), (''adx_pos'', demo_series 20), (''adx_neg'', demo_series 10)] demo_bars)"
    by (simp add: add_trend_def demo_ta_def demo_series_def flag_series_replicate)
  moreover have "add_momentum demo_ta df = Inr (write_cols [(''rsi'', demo_series 60), (''stoch_k'', demo_series 70), (''stoch_d'', demo_series 65)] df)" for df
    by (simp add: add_momentum_def demo_ta_def)
  moreover have "add_volatility demo_ta df = Inr (write_cols [(''atr'', demo_series 2), (''bb_upper'', demo_series 12), (''bb_lower'', demo_series 8),
     (''bb_pct'', demo_series (1 / 2)), (''bb_width'', demo_series 4), (''bb_squeeze'', demo_squeeze)] df)" for df
    by (simp add: add_volatility_def demo_ta_def demo_squeeze_def rolling_mean_def cong: if_cong) (simp add: demo_series_def)
  moreover have "add_volume demo_ta df = Inr (write_cols [(''obv'', demo_series 5000), (''mfi'', demo_series 55), (''vwap'', demo_series 10)] df)"
    if "is_datetime (f_index df)" for df
    using that by (simp add: add_volume_def demo_ta_def)
  ultimately show ?thesis
    by (simp add: calculate_def ok n min_rows_def)
       (simp add: write_cols_new demo_enriched_def demo_bars_def)
qed


lemma nth_window_sum: "i < 62 \<Longrightarrow> 19 \<le> i \<Longrightarrow> np_mean (window_at 20 i (demo_series c)) = Fin c"
proof -
  assume i: "i < 62" "19 \<le> i"
  then have "window_at 20 i (demo_series c) = map Fin (replicate 20 c)"
    by (simp add: window_at_def demo_series_def)
  then show ?thesis by (simp only: np_mean_def sum_list_Fin) (simp add: sum_list_replicate)
qed

lemma cell_demo [simp]: "i < 62 \<Longrightarrow> cell_or_nan i (demo_series c) = Fin c"
  by (simp add: cell_or_nan_def demo_series_def)

lemma demo_features: "\<exists>m. build demo_enriched = Inr m \<and> nrows m = 62 \<and> (\<forall>i. 20 \<le> i \<and> i < 62 \<longrightarrow> \<not> list_ex is_nan (row_values m i))"
proof -
  have low: "lower_cols demo_enriched = demo_enriched"
    unfolding lower_cols_def demo_enriched_def demo_bars_def
    by simp code_simp
  have cols: "col demo_enriched ''rsi'' = demo_series 60" "col demo_enriched ''stoch_k'' = demo_series 70"
   "col demo_enriched ''stoch_d'' = demo_series 65" "col demo_enriched ''macd_hist'' = demo_series 1"
   "col demo_enriched ''adx'' = demo_series 30" "col demo_enriched ''adx_pos'' = demo_series 20"
   "col demo_enriched ''adx_neg'' = demo_series 10" "col demo_enriched ''ema_cross'' = demo_series 1"
   "col demo_enriched ''bb_pct'' = demo_series (1/2)" "col demo_enriched ''bb_width'' = demo_series 4"
   "col demo_enriched ''mfi'' = demo_series 55" "col demo_enriched ''ema_9'' = demo_series 11"
   "col demo_enriched ''ema_21'' = demo_series 10" "col demo_enriched ''vwap'' = demo_series 10"
   "col demo_enriched ''open'' = demo_series 10" "col demo_enriched ''high'' = demo_series 14"
   "col demo_enriched ''low'' = demo_series 9" "col demo_enriched ''close'' = demo_series 10" 
   "col demo_enriched ''volume'' = demo_series 1000"  "col demo_enriched ''atr'' = demo_series 2"
   "col demo_enriched ''obv'' = demo_series 5000"  "col demo_enriched ''bb_squeeze'' = demo_squeeze"
    by (simp_all add: col_def demo_enriched_def demo_bars_def demo_series_def)
  have sub: "set required_feature_cols \<subseteq> fst ` set (f_cols (lower_cols demo_enriched))"
    by (simp add: low required_feature_cols_def ohlcv_def) (simp add: demo_enriched_def demo_bars_def)
  have zn: "c \<noteq> 0 \<Longrightarrow> zero_to_nan (demo_series c) = demo_series c" for c
    by (simp add: zero_to_nan_def demo_series_def)
  have m2: "map2 (-) (demo_series a) (demo_series b) = demo_series (a - b)" for a b by (simp add: demo_series_def)
  have pc: "c \<noteq> 0 \<Longrightarrow> percent_of (demo_series a) (demo_series c) = demo_series (a / c * 100)" for a c
    by (simp add: percent_of_def zn) (simp add: demo_series_def)
  have lr: "n \<le> i \<Longrightarrow> i < 62 \<Longrightarrow> cell_or_nan i (log_return n (demo_series 10)) = Fin 0" for n i
    by (simp add: log_return_def zn Let_def cell_or_nan_def shift_def) (simp add: demo_series_def nth_append)
  have ob: "i < 62 \<Longrightarrow> \<not> is_nan (cell_or_nan i (obv_slope (demo_series c)))" for i c
    by (simp add: obv_slope_def cell_or_nan_def shift_def fill_zero_def) (simp add: demo_series_def)
  have sq: "19 \<le> i \<Longrightarrow> i < 62 \<Longrightarrow> cell_or_nan i demo_squeeze = Fin 0" for i
    by (simp add: demo_squeeze_def cell_or_nan_def flag_series_def nth_window_sum cong: if_cong) (simp add: demo_series_def)
  obtain vr where vr: "volume_ratio (demo_series 1000) = Inr vr" "\<And>i. 19 \<le> i \<Longrightarrow> i < 62 \<Longrightarrow> cell_or_nan i vr = Fin 1"
    by (simp add: volume_ratio_def rolling_mean_def cell_or_nan_def zero_to_nan_def nth_window_sum clip_upper_def cong: if_cong) (simp add: demo_series_def)
  have cs: "candle_series f demo_enriched = replicate 62 (f (Fin 10) (Fin 14) (Fin 9) (Fin 10))" for f
    by (simp add: candle_series_def cols) (simp add: demo_series_def)
  have cr: "body_ratio (Fin 10) (Fin 14) (Fin 9) (Fin 10) = Fin 0"
    by (simp add: body_ratio_def candle_range_def)
  have cr2: "upper_wick_ratio (Fin 10) (Fin 14) (Fin 9) (Fin 10) = Fin (4 / 5)"
     "lower_wick_ratio (Fin 10) (Fin 14) (Fin 9) (Fin 10) = Fin (1 / 5)"
    by (simp_all add: upper_wick_ratio_def lower_wick_ratio_def candle_range_def s_max_def s_min_def present_def)
  have rc: "i < 62 \<Longrightarrow> cell_or_nan i (replicate 62 x) = x" for i x by (simp add: cell_or_nan_def)
  have n: "index_length (f_index demo_enriched) = 62" by (simp add: demo_enriched_def demo_bars_def)
  show ?thesis
    using sub vr
    by (simp add: build_def normalise_features_def Let_def low cols nrows_def row_values_def m2 pc cs cr cr2 rc lr ob sq n)
qed


definition demo_labels :: label_lib where
  "demo_labels = \<lparr>lbl_str = (\<lambda>_ i. ''2024-01-02 bar '' @ show_nat i), lbl_date = (\<lambda>_ _. Some ''2024-01-02'')\<rparr>"

definition demo_lgb :: lgb_lib where
  "demo_lgb = \<lparr>lgb_load = (\<lambda>_. Inl ApiError), lgb_predict = (\<lambda>_ _. Inr [Fin 0.05, Fin 0.9, Fin 0.05])\<rparr>"

definition demo_process :: "unit world" where
  "demo_process = (boot_world ())\<lparr>booster := Some 1\<rparr>"

lemma demo_predict: "list_all (\<lambda>x. \<not> is_nan x) x \<Longrightarrow> predict demo_lgb x demo_process = (Inr (''long'', Fin 0.9), demo_process)"
  by (simp add: predict_def get_booster_def demo_process_def monad_defs list_all_iff list_ex_iff demo_lgb_def classify_def
     np_argmax_def labels_def)

lemma demo_cells: "i < 62 \<Longrightarrow> cell ''close'' i demo_bars = Inr (Fin 10)"
   "i < 62 \<Longrightarrow> cell ''high'' i demo_bars = Inr (Fin 14)" "i < 62 \<Longrightarrow> cell ''low'' i demo_bars = Inr (Fin 9)"
  by (simp_all add: cell_def get_col_def demo_bars_def)

lemma demo_row: "i < 62 \<Longrightarrow> row_get demo_enriched i ''ema_cross'' = Fin 1" "i < 62 \<Longrightarrow> row_get demo_enriched i ''macd_hist'' = Fin 1"
  "i < 62 \<Longrightarrow> row_get demo_enriched i ''atr'' = Fin 2" "nrows demo_enriched = 62" "has_col ''atr'' demo_enriched"
  by (simp_all add: row_get_def demo_enriched_def demo_bars_def nrows_def has_col_def)

lemma demo_run: "\<exists>r t t'. run_backtest default_engine demo_labels demo_ta demo_lgb demo_bars ''AAPL'' demo_process = (Inr r, demo_process)
   \<and> br_trades r = [t, t'] \<and> bt_pnl t = Some (Fin 800) \<and> bt_entry t = Fin 10 \<and> bt_reason t = ''target''"
proof -
  obtain m where m: "build demo_enriched = Inr m" "nrows m = 62" and row: "\<And>i. 20 \<le> i \<Longrightarrow> i < 62 \<Longrightarrow> \<not> list_ex is_nan (row_values m i)"
    using demo_features by blast
  have sig: "bar_signal demo_lgb m i demo_process = (Inr (''long'', Fin 0.9), demo_process)" if "20 \<le> i" "i < 62" for i
    using row that demo_predict [of "row_values m i"] by (simp add: bar_signal_def m try_except_def list_ex_iff list_all_iff)
  have up: "[0..<nrows demo_bars] = [0..<0 + 60] @ [60, 61]" by (simp add: demo_bars_def nrows_def upt_rec)
  let ?R = "replay_bars default_engine demo_labels demo_lgb demo_bars demo_enriched m"
  define s0 where "s0 = (start_state default_engine)\<lparr>rs_curve := replicate 60 (Fin 100000)\<rparr>"
  have s0: "?R [0..<0 + 60] (start_state default_engine) demo_process = (Inr s0, demo_process)"
    by (subst replay_warmup) (auto simp: warmup_bars_def demo_cells s0_def start_state_def default_engine_def)
  define d where "d = trade_date_of demo_labels (f_index demo_bars) 60"
  have d: "trade_date_of demo_labels (f_index demo_bars) 61 = d" by (simp add: d_def trade_date_of_def demo_labels_def)
  define p where "p i e = \<lparr>op_bar_index = i, op_entry_time = lbl_str demo_labels (f_index demo_bars) i, op_action = ''long'',
     op_entry = Fin 10, op_target = Fin 14, op_stop = Fin 8,
     op_shares = max 1 (trunc_real (e / 500)), op_ml_label = ''long'', op_ml_prob = Fin 0.9\<rparr>" for i e
  have pos: "create_position default_engine i (lbl_str demo_labels (f_index demo_bars) i) ''long'' (Fin 0.9) (Fin 10) (Fin 2) (Fin e)
      = Inr (p i e)" for i e
    by (simp add: create_position_def default_engine_def p_def)
  define s1 where "s1 = s0\<lparr>rs_curve := replicate 60 (Fin 100000) @ [Fin 100000], rs_position := Some (p 60 100000), rs_daily := [d \<mapsto> 1]\<rparr>"
  have E: "be_max_per_day default_engine = 3" "be_min_prob default_engine = Fin 0.55" by (simp_all add: default_engine_def)
  have b60: "replay_bar default_engine demo_labels demo_lgb demo_bars demo_enriched m 60 s0 demo_process = (Inr s1, demo_process)"
    by (simp add: replay_bar_def Let_def demo_cells entry_step_def exit_step_def warmup_bars_def sig monad_defs s0_def start_state_def
        check_15min_confirmation_def get_atr_def demo_row E s1_def flip: d_def)
      (simp add: default_engine_def pos [unfolded default_engine_def, simplified])
  define t where "t = closed_trade (p 60 100000) (lbl_str demo_labels (f_index demo_bars) 61) (Fin 14) ''target''"
  define s2 where "s2 = s1\<lparr>rs_equity := Fin 100800, rs_curve := replicate 60 (Fin 100000) @ [Fin 100000, Fin 100800], 
    rs_trades := [t],
    rs_position := Some (p 61 100800), rs_daily := [d \<mapsto> 2]\<rparr>"
  define s1' where "s1' = s1\<lparr>rs_equity := Fin 100800, rs_trades := [t], rs_position := None\<rparr>"
  have x61: "exit_step (lbl_str demo_labels (f_index demo_bars) 61) (Fin 14) (Fin 9) (Fin 10) s1 = s1'"
    by (simp add: exit_step_def s1_def s0_def start_state_def s1'_def check_exit_def settle_def t_def p_def calc_pnl_def trunc_real_def default_engine_def)
  have s1': "rs_position s1' = None" "rs_daily s1' d = Some 1" "rs_equity s1' = Fin 100800"
    by (simp_all add: s1'_def s1_def s0_def)
  have "entry_step default_engine demo_lgb demo_enriched m 61 (lbl_str demo_labels (f_index demo_bars) 61) d (Fin 10) s1' demo_process
    = (Inr (s1'\<lparr>rs_position := Some (p 61 100800), rs_daily := (rs_daily s1')(d \<mapsto> 2)\<rparr>), demo_process)"
    using pos [of 61 100800]
    by (simp add: entry_step_def warmup_bars_def s1' E sig monad_defs check_15min_confirmation_def get_atr_def demo_row)
  then have b61: "replay_bar default_engine demo_labels demo_lgb demo_bars demo_enriched m 61 s1 demo_process = (Inr s2, demo_process)"
    by (simp add: replay_bar_def Let_def demo_cells x61 monad_defs d) (simp add: s1'_def s2_def s1_def)
  have close: "close_remaining demo_labels demo_bars s2 = Inr (s2\<lparr>rs_trades := [t, closed_trade (p 61 100800)
      (lbl_str demo_labels (f_index demo_bars) 61) (Fin 10) ''eod''], rs_position := None\<rparr>)"
    by (simp add: close_remaining_def s2_def s1_def s0_def demo_bars_def get_col_def last_of_def settle_def p_def calc_pnl_def
        start_state_def nrows_def list_update_append)
  have first: "bt_pnl t = Some (Fin 800) \<and> bt_entry t = Fin 10 \<and> bt_reason t = ''target''"
    by (simp add: t_def closed_trade_def p_def calc_pnl_def trunc_real_def)
  have fin: "\<exists>r. finish default_engine ''AAPL'' s = Inr r \<and> br_trades r = rs_trades s" if "rs_curve s \<noteq> []" for s
    by (simp add: finish_def compute_metrics_def default_engine_def Let_def fdiv_def)
  show ?thesis
    using fin [of "s2\<lparr>rs_trades := [t, closed_trade (p 61 100800) (lbl_str demo_labels (f_index demo_bars) 61) (Fin 10) ''eod''], 
      rs_position := None\<rparr>"] first
    by (simp add: run_backtest_def lower_demo demo_calculate m up replay_bars_append bindM_def s0 [simplified] b60 b61 ret_apply close liftR_def)
      (auto simp: s2_def)
qed

section \<open>Properties\<close>

text \<open>C33: the books of a backtest balance: the final equity is the initial capital plus the results of the trades,
  the equity curve has one point per bar and ends there, every trade is closed and its result is the
  move of the price times the shares, and the entries follow one another, never during the warm-up.
  When the indicators cannot be computed there is no trade and the curve is the initial capital.\<close>

theorem backtest_accounting:
  assumes "run_backtest E L ta lgb bars symbol w = (Inr r, u)"
  shows "br_final r = be_initial E + sum_list (List.map_filter bt_pnl (br_trades r))
    \<and> (length (br_curve r) = nrows bars \<or> br_curve r = [be_initial E] \<and> br_trades r = [])
    \<and> (br_curve r \<noteq> [] \<longrightarrow> last (br_curve r) = br_final r)
    \<and> sorted_wrt (<) (map bt_bar_index (br_trades r))
    \<and> (\<forall>t \<in> set (br_trades r). 60 \<le> bt_bar_index t \<and> bt_bar_index t < nrows bars \<and> 1 \<le> bt_shares t
        \<and> (\<exists>x. bt_exit t = Some x \<and> bt_pnl t = Some ((if bt_action t = ''long'' then x - bt_entry t
              else bt_entry t - x) * Fin (of_int (bt_shares t)))))"
  using assms
proof (rule run_backtest_books)
  fix s
  assume b: "books E (trade_date_of L (f_index bars)) (nrows bars) s" and none: "rs_position s = None"
    and curve: "curve_ok (nrows bars) s \<or> rs_curve s = [be_initial E] \<and> rs_trades s = []"
    and fin: "finish E symbol s = Inr r"
  have r: "br_final r = rs_equity s" "br_trades r = rs_trades s" "br_curve r = rs_curve s"
    using fin by (auto simp: finish_def res_bind_Inr_iff)
  have e: "entries s = map bt_bar_index (rs_trades s)" by (simp add: entries_def none)
  have trade: "1 \<le> bt_shares t \<and> (\<exists>x. bt_exit t = Some x \<and> bt_pnl t = Some ((if bt_action t = ''long''
      then x - bt_entry t else bt_entry t - x) * Fin (of_int (bt_shares t))))" if "t \<in> set (rs_trades s)" for t
  proof -
    from b that have "trade_ok E t" by (simp add: books_def)
    then show ?thesis by (auto simp: trade_ok_def closed_trade_def bracketed_def calc_pnl_def)
  qed
  have last: "last (rs_curve s) = rs_equity s" if "rs_curve s \<noteq> []"
    using curve that b by (auto simp: curve_ok_def books_def map_filter_def zero_pyfloat_def [symmetric])
  show ?thesis
    using b curve last trade unfolding r books_def e by (auto simp: curve_ok_def warmup_bars_def)
qed

lemma backtest_accounting_witness:
  "\<exists>r. run_backtest default_engine demo_labels demo_ta demo_lgb demo_bars ''AAPL'' demo_process = (Inr r, demo_process)
     \<and> length (br_trades r) = 2 \<and> last (br_curve r) = br_final r
     \<and> br_final r = be_initial default_engine + sum_list (List.map_filter bt_pnl (br_trades r))"
proof -
  obtain r t t' where run: "run_backtest default_engine demo_labels demo_ta demo_lgb demo_bars ''AAPL'' demo_process
      = (Inr r, demo_process)" and "br_trades r = [t, t']"
    using demo_run by blast
  with backtest_accounting [OF run] show ?thesis by (auto simp: demo_bars_def nrows_def)
qed

text \<open>On no calendar day are more positions opened than the configured maximum.\<close>

theorem backtest_daily_limit:
  assumes "run_backtest E L ta lgb bars symbol w = (Inr r, u)"
  shows "int (length (filter (\<lambda>t. trade_date_of L (f_index bars) (bt_bar_index t) = d) (br_trades r)))
    \<le> max 0 (be_max_per_day E)"
  using assms
proof (rule run_backtest_books)
  fix s
  assume b: "books E (trade_date_of L (f_index bars)) (nrows bars) s" and none: "rs_position s = None"
    and fin: "finish E symbol s = Inr r"
  have "br_trades r = rs_trades s" using fin by (auto simp: finish_def res_bind_Inr_iff)
  moreover have "entries s = map bt_bar_index (rs_trades s)" by (simp add: entries_def none)
  moreover have "entries_on (trade_date_of L (f_index bars)) d (entries s) \<le> max 0 (be_max_per_day E)"
    using b unfolding books_def counted_def by blast
  ultimately show ?thesis by (simp add: entries_on_def filter_map comp_def)
qed

lemma backtest_daily_limit_witness:
  "\<exists>r. run_backtest default_engine demo_labels demo_ta demo_lgb demo_bars ''AAPL'' demo_process = (Inr r, demo_process)
     \<and> length (br_trades r) = 2
     \<and> int (length (filter (\<lambda>t. trade_date_of demo_labels (f_index demo_bars) (bt_bar_index t) = ''2024-01-02'')
         (br_trades r))) \<le> 3"
proof -
  obtain r t t' where run: "run_backtest default_engine demo_labels demo_ta demo_lgb demo_bars ''AAPL'' demo_process
      = (Inr r, demo_process)" and "br_trades r = [t, t']"
    using demo_run by blast
  moreover have "max 0 (be_max_per_day default_engine) = 3" by (simp add: default_engine_def)
  ultimately show ?thesis using backtest_daily_limit [OF run, of "''2024-01-02''"] by auto
qed

text \<open>With positive multiples and a finite entry price, the stop is on the losing side of the entry and the
  target on the winning side.\<close>

lemma bracket_sides:
  assumes "bracketed E p" and "op_entry p = Fin c" and "be_stop_atr E > Fin 0" and "be_target_atr E > Fin 0"
  shows "calc_pnl p (op_stop p) < Fin 0 \<and> calc_pnl p (op_target p) > Fin 0"
proof -
  have sides: "(Fin c - k * a - Fin c) * Fin n < Fin 0" "(Fin c - (Fin c + k * a)) * Fin n < Fin 0"
    "(Fin c + k * a - Fin c) * Fin n > Fin 0" "(Fin c - (Fin c - k * a)) * Fin n > Fin 0"
    if "k > Fin 0" "a > Fin 0" "n > 0" for k a n
    using that by (cases k; cases a; simp add: minus_pyfloat_def mult_neg_pos)+
  from assms(1) obtain a where a: "a > Fin 0" and br: "if op_action p = ''long''
         then op_target p = op_entry p + be_target_atr E * a \<and> op_stop p = op_entry p - be_stop_atr E * a
         else op_target p = op_entry p - be_target_atr E * a \<and> op_stop p = op_entry p + be_stop_atr E * a"
    by (auto simp: bracketed_def)
  from assms(1) have n: "0 < (of_int (op_shares p) :: real)" by (simp add: bracketed_def)
  from br show ?thesis
    using sides [OF assms(3) a n] sides [OF assms(4) a n] by (simp add: calc_pnl_def assms(2) split: if_splits)
qed



section \<open>No look-ahead\<close>

text \<open>Two frames agree on their first \<open>k\<close> rows.\<close>

definition agree :: "nat \<Rightarrow> frame \<Rightarrow> frame \<Rightarrow> bool" where
  "agree k df df' \<longleftrightarrow> list_all2 (\<lambda>(c, xs) (d, ys). c = d \<and> take k xs = take k ys) (f_cols df) (f_cols df')
     \<and> min k (nrows df) = min k (nrows df')"

definition agree_labels :: "label_lib \<Rightarrow> nat \<Rightarrow> frame \<Rightarrow> frame \<Rightarrow> bool" where
  "agree_labels L k df df' \<longleftrightarrow> (\<forall>i < k. lbl_str L (f_index df) i = lbl_str L (f_index df') i
     \<and> lbl_date L (f_index df) i = lbl_date L (f_index df') i)"

lemma take_eq_cell: "take k xs = take k ys \<Longrightarrow> i < k \<Longrightarrow> (i < length xs \<longleftrightarrow> i < length ys) \<and> (i < length xs \<longrightarrow> xs ! i = ys ! i)"
proof -
  assume t: "take k xs = take k ys" and i: "i < k"
  from arg_cong [OF t, of length] i have len: "i < length xs \<longleftrightarrow> i < length ys" by auto
  from arg_cong [OF t, of "\<lambda>zs. zs ! i"] i have "i < length xs \<longrightarrow> xs ! i = ys ! i" by simp
  with len show ?thesis by simp
qed

lemma take_eq_cell_or_nan: "take k xs = take k ys \<Longrightarrow> i < k \<Longrightarrow> cell_or_nan i xs = cell_or_nan i ys"
  by (auto simp: cell_or_nan_def dest: take_eq_cell)

lemma agree_map_of:
  "list_all2 (\<lambda>(c, xs) (d, ys). c = d \<and> take k xs = take k ys) cs ds \<Longrightarrow>
   rel_option (\<lambda>xs ys. take k xs = take k ys) (map_of cs c) (map_of ds c)"
  by (induction rule: list_all2_induct) auto

lemma agree_cols: "agree k df df' \<Longrightarrow> rel_option (\<lambda>xs ys. take k xs = take k ys) (map_of (f_cols df) c) (map_of (f_cols df') c)"
  by (simp add: agree_def agree_map_of)

lemma agree_nrows: "agree k df df' \<Longrightarrow> i < k \<Longrightarrow> i < nrows df \<longleftrightarrow> i < nrows df'"
  by (auto simp: agree_def min_def split: if_splits)

lemma agree_cell: "agree k df df' \<Longrightarrow> i < k \<Longrightarrow> cell c i df = cell c i df'"
  using agree_cols [of k df df' c]
  by (auto simp: cell_def get_col_def dest: take_eq_cell elim!: option.rel_cases)

lemma agree_row_get: "agree k df df' \<Longrightarrow> i < k \<Longrightarrow> row_get df i c = row_get df' i c"
  using agree_cols [of k df df' c]
  by (auto simp: row_get_def intro: take_eq_cell_or_nan elim!: option.rel_cases)

lemma agree_row_values: "agree k df df' \<Longrightarrow> i < k \<Longrightarrow> row_values df i = row_values df' i"
proof -
  assume "agree k df df'" and i: "i < k"
  then have "list_all2 (\<lambda>(c, xs) (d, ys). c = d \<and> take k xs = take k ys) (f_cols df) (f_cols df')"
    by (simp add: agree_def)
  then show ?thesis unfolding row_values_def
    by (induction rule: list_all2_induct) (auto intro: take_eq_cell_or_nan i)
qed

lemma agree_has_col: "agree k df df' \<Longrightarrow> has_col c df = has_col c df'"
  using agree_cols [of k df df' c] map_of_eq_None_iff [of "f_cols df" c] map_of_eq_None_iff [of "f_cols df'" c]
  by (auto simp: has_col_def elim!: option.rel_cases)

lemma agree_bar_signal: "agree k fs fs' \<Longrightarrow> i < k \<Longrightarrow> bar_signal lgb fs i = bar_signal lgb fs' i"
  by (simp add: bar_signal_def agree_nrows agree_row_values)

lemma agree_get_atr: "agree k df df' \<Longrightarrow> i < k \<Longrightarrow> get_atr df i = get_atr df' i"
  using agree_nrows [of k df df' i] agree_row_get [of k df df' i] agree_has_col [of k df df' "''atr''"]
  by (simp add: get_atr_def not_less [symmetric])

lemma agree_confirmation: "agree k df df' \<Longrightarrow> i < k \<Longrightarrow>
    check_15min_confirmation df i label = check_15min_confirmation df' i label"
  using agree_nrows [of k df df' i] agree_row_get [of k df df' i]
  by (simp add: check_15min_confirmation_def not_less [symmetric])

lemma agree_entry_step:
  assumes "agree k en en'" "agree k fs fs'" "i < k"
  shows "entry_step E lgb en fs i = entry_step E lgb en' fs' i"
  by (intro ext) (simp only: entry_step_def agree_bar_signal [OF assms(2,3)] agree_get_atr [OF assms(1,3)]
      agree_confirmation [OF assms(1,3)])

lemma agree_replay_bar:
  assumes "agree k bars bars'" "agree k en en'" "agree k fs fs'" "agree_labels L k bars bars'" "i < k"
  shows "replay_bar E L lgb bars en fs i = replay_bar E L lgb bars' en' fs' i"
proof -
  have "lbl_str L (f_index bars) i = lbl_str L (f_index bars') i"
    "trade_date_of L (f_index bars) i = trade_date_of L (f_index bars') i"
    using assms(4,5) by (auto simp: agree_labels_def trade_date_of_def split: option.split)
  then show ?thesis
    by (intro ext) (simp only: replay_bar_def agree_cell [OF assms(1,5)] agree_entry_step [OF assms(2,3,5)])
qed

text \<open>C35: the replay does not look ahead: what it has done after \<open>k\<close> bars, the trades it has made included, depends
  only on the first \<open>k\<close> rows of the bars, of their indicators and of their features.\<close>

theorem backtest_no_lookahead:
  assumes "agree k bars bars'" "agree k en en'" "agree k fs fs'" "agree_labels L k bars bars'"
  shows "replay_bars E L lgb bars en fs [0..<k] s w = replay_bars E L lgb bars' en' fs' [0..<k] s w"
proof -
  have "replay_bars E L lgb bars en fs is s w = replay_bars E L lgb bars' en' fs' is s w" if "set is \<subseteq> {..<k}" for "is"
    using that
    by (induction "is" arbitrary: s w) (simp_all add: agree_replay_bar [OF assms] bindM_def ret_def split: prod.split sum.split)
  then show ?thesis by (simp add: atLeast_upt)
qed

lemma backtest_no_lookahead_witness:
  "replay_bars default_engine demo_labels demo_lgb demo_bars demo_enriched demo_enriched [0..<61] (start_state default_engine) demo_process
   = replay_bars default_engine demo_labels demo_lgb
       (demo_bars\<lparr>f_cols := map (\<lambda>(c, xs). (c, xs[61 := Fin 1])) (f_cols demo_bars)\<rparr>) demo_enriched demo_enriched
       [0..<61] (start_state default_engine) demo_process"
proof -
  have refl: "agree k df df" for k df by (simp add: agree_def list_all2_same split: prod.split)
  show ?thesis
    by (rule backtest_no_lookahead [OF _ refl refl])
       (simp_all add: agree_def agree_labels_def demo_bars_def nrows_def)
qed

end
