(* ===== verification/Web_Auth.thy ===== *)
theory Web_Auth
  imports Config
begin

text \<open>
  The authentication of the web API, \<open>web/api/auth.py\<close>: the address of the client, the sliding-window
  limit on failed logins, the tokens and the login route.  The state of the web process is the
  process state with what its modules keep in memory; the package \<open>jwt\<close> is the parameter
  \<open>jwt_lib\<close>.  Only one worker process runs, and the handlers are coroutines without a suspension
  point, so a request is handled at once.
\<close>

record stream_token =
  k_token :: string
  k_ip :: string
  k_created :: int

record 'ib web =
  web_process :: "'ib world"
  failed_attempts :: "string \<Rightarrow> int list"
  stream_tokens :: "(string \<times> stream_token) list"
  random_source :: "nat \<Rightarrow> string"
  random_drawn :: nat

definition boot_web :: "'ib world \<Rightarrow> (nat \<Rightarrow> string) \<Rightarrow> 'ib web" where
  "boot_web w source = \<lparr>web_process = w, failed_attempts = (\<lambda>_. []), stream_tokens = [],
     random_source = source, random_drawn = 0\<rparr>"

definition in_web :: "('ib world, 'a) M \<Rightarrow> ('ib web, 'a) M" where
  "in_web m = (\<lambda>s. case m (web_process s) of (r, w) \<Rightarrow> (r, s\<lparr>web_process := w\<rparr>))"

text \<open>What a handler reads of the request: two headers and the address of the peer.\<close>

record http_request =
  rq_forwarded :: "string option"
  rq_real_ip :: "string option"
  rq_peer :: "string option"

text \<open>A header counts when it is there and not empty.\<close>

definition header :: "string option \<Rightarrow> string option" where
  "header v = (case v of Some s \<Rightarrow> if s \<noteq> [] then Some s else None | None \<Rightarrow> None)"

definition get_client_ip :: "http_request \<Rightarrow> string" where
  "get_client_ip rq = (case header (rq_forwarded rq) of
      Some f \<Rightarrow> strip (hd (split_on CHR '','' f))
    | None \<Rightarrow> (case header (rq_real_ip rq) of
          Some r \<Rightarrow> strip r
        | None \<Rightarrow> (case rq_peer rq of Some h \<Rightarrow> h | None \<Rightarrow> ''unknown'')))"

section \<open>The limit on failed logins\<close>

definition max_attempts :: nat where
  "max_attempts = 5"

definition window_ms :: int where
  "window_ms = 60000"

text \<open>The loop pops old moments from the left and stops at the first recent one.\<close>

definition drop_old :: "int \<Rightarrow> int list \<Rightarrow> int list" where
  "drop_old now dq = dropWhile (\<lambda>t. now - t > window_ms) dq"

definition check_rate_limit :: "string \<Rightarrow> ('ib web, unit) M" where
  "check_rate_limit ip =
     bindM (gets (\<lambda>s. drop_old (clock (web_process s)) (failed_attempts s ip))) (\<lambda>dq.
     thenM (modifyM (\<lambda>s. s\<lparr>failed_attempts := (failed_attempts s)(ip := dq)\<rparr>))
     (if length dq \<ge> max_attempts then raise (HTTPException 429) else ret ()))"

definition record_failure :: "string \<Rightarrow> ('ib web, unit) M" where
  "record_failure ip = modifyM (\<lambda>s. s\<lparr>failed_attempts :=
     (failed_attempts s)(ip := failed_attempts s ip @ [clock (web_process s)])\<rparr>)"

section \<open>Tokens\<close>

text \<open>
  \<open>jwt.encode({"sub": .., "exp": ..}, key)\<close> with the expiry as a moment, and \<open>jwt.decode(token, key)\<close>
  at a moment: the claim \<open>sub\<close>, if the token has one, or the reason it is refused.
\<close>

datatype jwt_error = ExpiredSignature | OtherJwtError

record jwt_lib =
  jwt_encode :: "string \<Rightarrow> int \<Rightarrow> string \<Rightarrow> string"
  jwt_decode :: "string \<Rightarrow> string \<Rightarrow> int \<Rightarrow> jwt_error + string option"

text \<open>The expiry is a number of seconds in the token; a token is refused from that second on.\<close>

definition jwt_law :: "jwt_lib \<Rightarrow> bool" where
  "jwt_law J \<longleftrightarrow> (\<forall>sub e key now. jwt_decode J (jwt_encode J sub e key) key now =
     (if now < e div 1000 * 1000 then Inr (Some sub) else Inl ExpiredSignature))"

definition env_or_fail :: "string \<Rightarrow> ('ib world, string) M" where
  "env_or_fail name = bindM (gets (\<lambda>w. environ w name)) (\<lambda>v. case v of
      Some s \<Rightarrow> if s \<noteq> [] then ret s else raise RuntimeErr | None \<Rightarrow> raise RuntimeErr)"

definition secret_key :: "('ib world, string) M" where
  "secret_key = env_or_fail ''SECRET_KEY''"

definition web_password :: "('ib world, string) M" where
  "web_password = env_or_fail ''WEB_PASSWORD''"

definition token_life_ms :: int where
  "token_life_ms = 24 * 3600000"

definition create_token :: "jwt_lib \<Rightarrow> ('ib world, string) M" where
  "create_token J = bindM (gets (\<lambda>w. clock w + token_life_ms)) (\<lambda>e.
     bindM secret_key (\<lambda>key. ret (jwt_encode J ''admin'' e key)))"

text \<open>\<open>_decode_token\<close>: a payload of another subject is an \<open>InvalidTokenError\<close>.\<close>

definition decode_token :: "jwt_lib \<Rightarrow> string \<Rightarrow> ('ib world, jwt_error + string option) M" where
  "decode_token J token = bindM secret_key (\<lambda>key. bindM (gets clock) (\<lambda>now.
     ret (case jwt_decode J token key now of
        Inl e \<Rightarrow> Inl e
      | Inr sub \<Rightarrow> if sub \<noteq> Some ''admin'' then Inl OtherJwtError else Inr sub)))"

definition require_auth :: "jwt_lib \<Rightarrow> string \<Rightarrow> ('ib world, unit) M" where
  "require_auth J credentials = bindM (decode_token J credentials) (\<lambda>r. case r of
      Inl ExpiredSignature \<Rightarrow> raise (HTTPException 401)
    | Inl OtherJwtError \<Rightarrow> raise (HTTPException 401)
    | Inr _ \<Rightarrow> ret ())"

section \<open>The login route\<close>

text \<open>\<open>hmac.compare_digest\<close> is equality.\<close>

definition login :: "jwt_lib \<Rightarrow> string \<Rightarrow> http_request \<Rightarrow> ('ib web, string) M" where
  "login J password rq = (let client_ip = get_client_ip rq in
     thenM (check_rate_limit client_ip)
     (bindM (in_web web_password) (\<lambda>expected.
       if password \<noteq> expected
       then thenM (record_failure client_ip) (raise (HTTPException 401))
       else in_web (create_token J))))"

section \<open>What a login does\<close>

lemma login_cases:
  assumes "login J password rq s = (r, t)"
  defines "ip \<equiv> get_client_ip rq" and "now \<equiv> clock (web_process s)"
  defines "dq \<equiv> drop_old now (failed_attempts s ip)"
  shows "clock (web_process t) = now \<and> environ (web_process t) = environ (web_process s)
    \<and> (\<forall>i. i \<noteq> ip \<longrightarrow> failed_attempts t i = failed_attempts s i)
    \<and> (if r = Inl (HTTPException 401) then length dq < max_attempts \<and> failed_attempts t ip = dq @ [now]
       else failed_attempts t ip = dq)
    \<and> (length dq \<ge> max_attempts \<longrightarrow> r = Inl (HTTPException 429))"
  using assms(1)
  by (auto simp: login_def Let_def check_rate_limit_def record_failure_def in_web_def web_password_def env_or_fail_def
      create_token_def secret_key_def monad_defs ip_def now_def dq_def split: if_splits option.splits)

lemma login_wrong_password:
  assumes "environ (web_process s) ''WEB_PASSWORD'' = Some pw" "pw \<noteq> []" "password \<noteq> pw"
    and "length (drop_old (clock (web_process s)) (failed_attempts s (get_client_ip rq))) < max_attempts"
  shows "\<exists>t. login J password rq s = (Inl (HTTPException 401), t)"
  using assms
  by (auto simp: login_def Let_def check_rate_limit_def record_failure_def in_web_def web_password_def env_or_fail_def
      monad_defs)

section \<open>Runs\<close>

text \<open>A run of the web process: time passes and logins are attempted.  The trace collects the moments and the
  addresses of the attempts that were answered with a wrong password.\<close>

definition elapse :: "int \<Rightarrow> 'ib web \<Rightarrow> 'ib web" where
  "elapse d s = s\<lparr>web_process := (web_process s)\<lparr>clock := clock (web_process s) + d\<rparr>\<rparr>"

inductive attempts :: "jwt_lib \<Rightarrow> 'ib web \<Rightarrow> (int \<times> string) list \<Rightarrow> 'ib web \<Rightarrow> bool" for J s0 where
  start: "attempts J s0 [] s0"
| wait: "attempts J s0 fs s \<Longrightarrow> 0 \<le> d \<Longrightarrow> attempts J s0 fs (elapse d s)"
| attempt: "attempts J s0 fs s \<Longrightarrow> login J password rq s = (r, t) \<Longrightarrow>
    attempts J s0 (if r = Inl (HTTPException 401) then fs @ [(clock (web_process s), get_client_ip rq)] else fs) t"

definition moments :: "string \<Rightarrow> (int \<times> string) list \<Rightarrow> int list" where
  "moments ip fs = map fst (filter (\<lambda>(_, i). i = ip) fs)"

text \<open>The queue of an address is the recent part of its failures; what was dropped is older than the window.\<close>

definition window_inv :: "int list \<Rightarrow> int list \<Rightarrow> int \<Rightarrow> bool" where
  "window_inv ts dq now \<longleftrightarrow> sorted ts \<and> (\<forall>x \<in> set ts. x \<le> now)
     \<and> (\<exists>old. ts = old @ dq \<and> (\<forall>x \<in> set old. now - x > window_ms))
     \<and> (\<forall>i. i + max_attempts < length ts \<longrightarrow> ts ! (i + max_attempts) - ts ! i > window_ms)"

lemma window_inv_later: "window_inv ts dq now \<Longrightarrow> now \<le> now' \<Longrightarrow> window_inv ts dq now'"
  unfolding window_inv_def by (auto 0 3 intro: order_trans)

lemma window_inv_drop: "window_inv ts dq now \<Longrightarrow> window_inv ts (drop_old now dq) now"
proof -
  assume inv: "window_inv ts dq now"
  then obtain old where "ts = old @ dq" "\<forall>x \<in> set old. now - x > window_ms"
    by (auto simp: window_inv_def)
  moreover have "dq = takeWhile (\<lambda>x. now - x > window_ms) dq @ drop_old now dq"
    by (simp add: drop_old_def)
  moreover have "\<forall>x \<in> set (takeWhile (\<lambda>x. now - x > window_ms) dq). now - x > window_ms"
    by (auto dest: set_takeWhileD)
  ultimately have "\<exists>old'. ts = old' @ drop_old now dq \<and> (\<forall>x \<in> set old'. now - x > window_ms)"
    by (intro exI [of _ "old @ takeWhile (\<lambda>x. now - x > window_ms) dq"]) auto
  with inv show ?thesis by (simp add: window_inv_def)
qed

lemma window_inv_add:
  assumes inv: "window_inv ts dq now" and few: "length dq < max_attempts"
  shows "window_inv (ts @ [now]) (dq @ [now]) now"
proof -
  obtain old where ts: "ts = old @ dq" and old: "\<forall>x \<in> set old. now - x > window_ms"
    using inv by (auto simp: window_inv_def)
  have "(ts @ [now]) ! (i + max_attempts) - (ts @ [now]) ! i > window_ms" if i: "i + max_attempts < length (ts @ [now])" for i
  proof (cases "i + max_attempts < length ts")
    case True
    with inv show ?thesis by (simp add: nth_append window_inv_def)
  next
    case False
    with i have n: "i + max_attempts = length ts" by simp
    with few ts have "i < length old" by simp
    with old ts n show ?thesis by (simp add: nth_append max_attempts_def)
  qed
  with inv ts old show ?thesis
    by (auto simp: window_inv_def sorted_append)
qed

lemma attempts_inv:
  "attempts J (boot_web w source) fs s \<Longrightarrow>
   window_inv (moments ip fs) (failed_attempts s ip) (clock (web_process s))"
proof (induction rule: attempts.induct)
  case start
  then show ?case by (simp add: window_inv_def moments_def boot_web_def)
next
  case (wait fs s d)
  then show ?case by (auto simp: elapse_def intro: window_inv_later)
next
  case (attempt fs s password rq r t)
  note step = login_cases [OF attempt.hyps(2)]
  show ?case
  proof (cases "ip = get_client_ip rq")
    case True
    with window_inv_drop [OF attempt.IH] step window_inv_add [OF window_inv_drop [OF attempt.IH]] show ?thesis
      by (auto simp: moments_def)
  next
    case False
    with attempt.IH step show ?thesis by (auto simp: moments_def)
  qed
qed

section \<open>Properties\<close>

text \<open>C21: from a fresh start, whatever is attempted and however much time passes, the failed logins of one
  address never exceed five within a minute: the sixth comes more than 60 seconds after the first.\<close>

theorem login_rate_limited:
  assumes "attempts J (boot_web w source) fs s" and "i + 5 < length (moments ip fs)"
  shows "moments ip fs ! (i + 5) - moments ip fs ! i > 60000"
  using attempts_inv [OF assms(1), of ip] assms(2) by (simp add: window_inv_def max_attempts_def window_ms_def)

lemma strip_id: "\<forall>c \<in> set s. \<not> is_space c \<Longrightarrow> strip s = s"
proof -
  assume plain: "\<forall>c \<in> set s. \<not> is_space c"
  have "dropWhile is_space u = u" if "set u \<subseteq> set s" for u
    using plain that by (cases u) auto
  then show ?thesis by (simp add: strip_def)
qed

text \<open>A process with a password, and one client that keeps trying a wrong one every 61 seconds.\<close>

definition demo_jwt :: jwt_lib where
  "demo_jwt = \<lparr>jwt_encode = (\<lambda>sub e key. sub @ ''.'' @ show_int e @ ''.'' @ key),
     jwt_decode = (\<lambda>tok key now. Inl OtherJwtError)\<rparr>"

definition guarded_world :: "unit world" where
  "guarded_world = (boot_world ())\<lparr>environ := [''WEB_PASSWORD'' \<mapsto> ''pw'', ''SECRET_KEY'' \<mapsto> ''k'']\<rparr>"

definition peer :: "string \<Rightarrow> http_request" where
  "peer h = \<lparr>rq_forwarded = None, rq_real_ip = None, rq_peer = Some h\<rparr>"

lemma client_ip_peer: "get_client_ip (peer h) = h"
  by (simp add: get_client_ip_def header_def peer_def)

lemma spaced_attempts:
  "\<exists>s. attempts demo_jwt (boot_web guarded_world (\<lambda>_. [])) (map (\<lambda>k. (61000 * int k, ''10.0.0.9'')) [0..<n]) s
     \<and> clock (web_process s) = 61000 * int n \<and> environ (web_process s) = environ guarded_world
     \<and> failed_attempts s ''10.0.0.9'' = (if n = 0 then [] else [61000 * int (n - 1)])"
proof (induction n)
  case 0
  show ?case by (intro exI [of _ "boot_web guarded_world (\<lambda>_. [])"] conjI)
      (auto intro: attempts.start simp: boot_web_def guarded_world_def boot_world_def)
next
  case (Suc n)
  then obtain s where s: "attempts demo_jwt (boot_web guarded_world (\<lambda>_. [])) (map (\<lambda>k. (61000 * int k, ''10.0.0.9'')) [0..<n]) s"
    "clock (web_process s) = 61000 * int n" "environ (web_process s) = environ guarded_world"
    "failed_attempts s ''10.0.0.9'' = (if n = 0 then [] else [61000 * int (n - 1)])" by blast
  then have dq: "drop_old (clock (web_process s)) (failed_attempts s ''10.0.0.9'') = []"
    by (cases n) (simp_all add: drop_old_def window_ms_def)
  obtain t where t: "login demo_jwt ''guess'' (peer ''10.0.0.9'') s = (Inl (HTTPException 401), t)"
    using login_wrong_password [of s "''pw''" "''guess''" "peer ''10.0.0.9''" demo_jwt] s(3) dq
    by (auto simp: client_ip_peer guarded_world_def max_attempts_def)
  have "attempts demo_jwt (boot_web guarded_world (\<lambda>_. [])) (map (\<lambda>k. (61000 * int k, ''10.0.0.9'')) [0..<Suc n]) (elapse 61000 t)"
    using attempts.wait [OF attempts.attempt [OF s(1) t], of 61000] by (simp add: s(2) client_ip_peer)
  with login_cases [OF t] s dq show ?case
    by (intro exI [of _ "elapse 61000 t"]) (simp add: elapse_def client_ip_peer)
qed

lemma login_rate_limited_witness:
  "\<exists>fs s. attempts demo_jwt (boot_web guarded_world (\<lambda>_. [])) fs s \<and> length (moments ''10.0.0.9'' fs) = 6
     \<and> moments ''10.0.0.9'' fs ! 5 - moments ''10.0.0.9'' fs ! 0 > 60000"
proof -
  obtain s where run: "attempts demo_jwt (boot_web guarded_world (\<lambda>_. [])) (map (\<lambda>k. (61000 * int k, ''10.0.0.9'')) [0..<6]) s"
    using spaced_attempts [of 6] by blast
  have n: "length (moments ''10.0.0.9'' (map (\<lambda>k. (61000 * int k, ''10.0.0.9'')) [0..<6])) = 6"
    by (simp add: moments_def filter_map comp_def)
  with login_rate_limited [OF run, of 0] run show ?thesis by fastforce
qed

text \<open>Behind the proxy of the deployment, which appends the address it saw to the \<open>X-Forwarded-For\<close> header
  it received, the limit does not bind a client that chooses that header: in any state with finitely
  many recorded addresses there is a header with which a wrong password is checked again and not
  refused with 429, whatever the real address.\<close>

theorem login_limit_spoofed:
  assumes "environ (web_process s) ''WEB_PASSWORD'' = Some pw" "pw \<noteq> []" "password \<noteq> pw"
    and "finite {ip. failed_attempts s ip \<noteq> []}"
  shows "\<exists>h. fst (login J password \<lparr>rq_forwarded = Some (h @ '', '' @ addr), rq_real_ip = Some addr, rq_peer = p\<rparr> s)
    = Inl (HTTPException 401)"
proof -
  have "infinite (range (\<lambda>n. replicate n CHR ''1''))"
    by (subst finite_image_iff) (auto simp: inj_on_def dest: arg_cong [of _ _ length])
  then have "\<not> range (\<lambda>n. replicate n CHR ''1'') \<subseteq> {ip. failed_attempts s ip \<noteq> []}"
    using finite_subset [OF _ assms(4)] by metis
  then obtain n where fresh: "failed_attempts s (replicate n CHR ''1'') = []" by auto
  let ?rq = "\<lparr>rq_forwarded = Some (replicate n CHR ''1'' @ '', '' @ addr), rq_real_ip = Some addr, rq_peer = p\<rparr>"
  have "hd (split_on CHR '','' (replicate n CHR ''1'' @ '', '' @ addr)) = replicate n CHR ''1''"
    by (induction n) (auto split: list.split)
  moreover have "strip (replicate n CHR ''1'') = replicate n CHR ''1''"
    by (rule strip_id) (simp add: is_space_def)
  ultimately have "get_client_ip ?rq = replicate n CHR ''1''"
    by (simp add: get_client_ip_def header_def)
  then show ?thesis
    using login_wrong_password [OF assms(1-3), of ?rq J] fresh
    by (intro exI [of _ "replicate n CHR ''1''"]) (auto simp: drop_old_def max_attempts_def)
qed

definition busy_web :: "unit web" where
  "busy_web = (boot_web guarded_world (\<lambda>_. []))\<lparr>failed_attempts := (\<lambda>_. [])(''8.8.8.8'' := [0, 0, 0, 0, 0])\<rparr>"

lemma login_limit_spoofed_witness:
  "login demo_jwt ''guess'' (peer ''8.8.8.8'') busy_web = (Inl (HTTPException 429), busy_web)
   \<and> (\<exists>h. fst (login demo_jwt ''guess'' \<lparr>rq_forwarded = Some (h @ '', '' @ ''8.8.8.8''), rq_real_ip = Some ''8.8.8.8'',
        rq_peer = None\<rparr> busy_web) = Inl (HTTPException 401))"
proof
  show "login demo_jwt ''guess'' (peer ''8.8.8.8'') busy_web = (Inl (HTTPException 429), busy_web)"
    by (simp add: login_def Let_def client_ip_peer check_rate_limit_def busy_web_def boot_web_def guarded_world_def boot_world_def
        drop_old_def window_ms_def max_attempts_def monad_defs)
  have "finite {ip. failed_attempts busy_web ip \<noteq> []}"
    by (rule finite_subset [of _ "{''8.8.8.8''}"]) (auto simp: busy_web_def boot_web_def)
  then show "\<exists>h. fst (login demo_jwt ''guess'' \<lparr>rq_forwarded = Some (h @ '', '' @ ''8.8.8.8''), rq_real_ip = Some ''8.8.8.8'',
        rq_peer = None\<rparr> busy_web) = Inl (HTTPException 401)"
    by (intro login_limit_spoofed [where pw = "''pw''"]) (simp_all add: busy_web_def boot_web_def guarded_world_def)
qed

text \<open>C22: the token of a successful login is accepted on every protected route until 24 hours later (to the
  second), and refused with 401 from then on.\<close>

theorem login_token_valid:
  assumes law: "jwt_law J" and ok: "login J password rq s = (Inr token, t)"
    and key: "environ w ''SECRET_KEY'' = environ (web_process s) ''SECRET_KEY''"
  shows "require_auth J token w
    = (if clock w < (clock (web_process s) + 86400000) div 1000 * 1000 then (Inr (), w) else (Inl (HTTPException 401), w))"
proof -
  obtain k where k: "environ (web_process s) ''SECRET_KEY'' = Some k" "k \<noteq> []"
    and token: "token = jwt_encode J ''admin'' (clock (web_process s) + 86400000) k"
    using ok by (auto simp: login_def Let_def check_rate_limit_def record_failure_def in_web_def web_password_def
        env_or_fail_def create_token_def secret_key_def token_life_ms_def monad_defs split: if_splits option.splits)
  from law have "jwt_decode J token k (clock w) =
      (if clock w < (clock (web_process s) + 86400000) div 1000 * 1000 then Inr (Some ''admin'') else Inl ExpiredSignature)"
    by (simp add: jwt_law_def token)
  with k key show ?thesis
    by (simp add: require_auth_def decode_token_def secret_key_def env_or_fail_def monad_defs)
qed

text \<open>A token service that writes the expiry in unary.\<close>

definition unary_jwt :: jwt_lib where
  "unary_jwt = \<lparr>jwt_encode = (\<lambda>sub e key.
       (if e div 1000 < 0 then CHR ''-'' else CHR ''+'') # replicate (nat \<bar>e div 1000\<bar>) CHR ''1'' @ CHR ''.'' # sub),
     jwt_decode = (\<lambda>tok key now.
       let n = int (length (takeWhile (\<lambda>c. c = CHR ''1'') (tl tok)));
           e = 1000 * (if hd tok = CHR ''-'' then - n else n)
       in if now < e then Inr (Some (tl (dropWhile (\<lambda>c. c = CHR ''1'') (tl tok)))) else Inl ExpiredSignature)\<rparr>"

lemma unary_jwt_law: "jwt_law unary_jwt"
proof -
  have "takeWhile (\<lambda>c. c = CHR ''1'') (replicate n CHR ''1'' @ CHR ''.'' # sub) = replicate n CHR ''1''"
    and "dropWhile (\<lambda>c. c = CHR ''1'') (replicate n CHR ''1'' @ CHR ''.'' # sub) = CHR ''.'' # sub" for n sub
    by (induction n) simp_all
  then show ?thesis by (auto simp: jwt_law_def unary_jwt_def Let_def mult.commute)
qed

lemma login_token_valid_witness:
  "\<exists>token t. login unary_jwt ''pw'' (peer ''h'') (boot_web guarded_world (\<lambda>_. [])) = (Inr token, t)
     \<and> require_auth unary_jwt token (guarded_world\<lparr>clock := 86399999\<rparr>) = (Inr (), guarded_world\<lparr>clock := 86399999\<rparr>)
     \<and> fst (require_auth unary_jwt token (guarded_world\<lparr>clock := 86400000\<rparr>)) = Inl (HTTPException 401)"
proof -
  obtain token t where ok: "login unary_jwt ''pw'' (peer ''h'') (boot_web guarded_world (\<lambda>_. [])) = (Inr token, t)"
    by (simp add: login_def Let_def client_ip_peer check_rate_limit_def boot_web_def guarded_world_def boot_world_def
        drop_old_def max_attempts_def in_web_def web_password_def env_or_fail_def create_token_def secret_key_def monad_defs)
  from ok login_token_valid [OF unary_jwt_law ok, of "guarded_world\<lparr>clock := 86399999\<rparr>"]
    login_token_valid [OF unary_jwt_law ok, of "guarded_world\<lparr>clock := 86400000\<rparr>"]
  show ?thesis by (simp add: guarded_world_def boot_world_def boot_web_def)
qed

end
