(* ===== verification/Web_Universe.thy ===== *)
theory Web_Universe
  imports Web_Auth Json Py_Time
begin

text \<open>
  The universe approval API, \<open>web/api/universe.py\<close>: the pending scan, the history, the user's
  decision and the rescan hint, each over the database of the process state.  How the driver
  prints a moment is the parameter \<open>tstr\<close>; what reading a row after its session does is the parameter
  \<open>detached\<close>.  A body that breaks a bound of its request model is answered with 422.
\<close>

section \<open>Rows as dictionaries\<close>

definition opt_str :: "string option \<Rightarrow> json" where
  "opt_str v = (case v of Some s \<Rightarrow> JStr s | None \<Rightarrow> JNull)"

definition opt_time :: "(int \<Rightarrow> string) \<Rightarrow> int option \<Rightarrow> json" where
  "opt_time tstr v = (case v of Some t \<Rightarrow> JStr (tstr t) | None \<Rightarrow> JNull)"

definition selection_to_dict :: "(int \<Rightarrow> string) \<Rightarrow> selection \<Rightarrow> json" where
  "selection_to_dict tstr s = JObj
    [(''id'', JInt (u_id s)), (''scan_date'', JStr (iso_date (u_date s))), (''candidates'', JArr (u_candidates s)),
     (''selected_symbol'', opt_str (u_selected s)), (''status'', JStr (u_status s)),
     (''reasoning'', opt_str (u_reasoning s)), (''created_at'', JStr (tstr (u_created s))),
     (''decided_at'', opt_time tstr (u_decided_at s)), (''decided_by'', opt_str (u_decided_by s))]"

text \<open>The symbols of the candidates that are dictionaries with a text under \<open>symbol\<close>.\<close>

definition candidate_symbols :: "selection \<Rightarrow> string list" where
  "candidate_symbols row = concat (map (\<lambda>c. case c of
       JObj kvs \<Rightarrow> (case obj_get ''symbol'' kvs of Some (JStr s) \<Rightarrow> [py_upper s] | _ \<Rightarrow> [])
     | _ \<Rightarrow> []) (u_candidates row))"

section \<open>Reading\<close>

text \<open>\<open>ORDER BY scan_date DESC\<close>; the dates of the rows are unique.\<close>

definition by_scan_date :: "selection list \<Rightarrow> selection list" where
  "by_scan_date rs = rev (sort_key u_date rs)"

definition get_pending :: "(int \<Rightarrow> string) \<Rightarrow> ('ib world, json option) M" where
  "get_pending tstr = query (\<lambda>d.
     case by_scan_date (filter (\<lambda>r. u_status r = ''pending_approval'') (rows (selections d))) of
       [] \<Rightarrow> None | row # _ \<Rightarrow> Some (selection_to_dict tstr row))"

definition clamp_limit :: "int \<Rightarrow> int \<Rightarrow> nat" where
  "clamp_limit cap limit = nat (max 1 (min limit cap))"

definition get_history :: "(int \<Rightarrow> string) \<Rightarrow> (selection \<Rightarrow> selection res) \<Rightarrow> int \<Rightarrow> ('ib world, json list) M" where
  "get_history tstr detached limit =
     read_page (\<lambda>d. take (clamp_limit 200 limit) (by_scan_date (rows (selections d)))) detached (selection_to_dict tstr)"

section \<open>Deciding\<close>

definition approve_row :: "string \<Rightarrow> int \<Rightarrow> string \<Rightarrow> selection \<Rightarrow> selection" where
  "approve_row symbol now ip row = row\<lparr>u_selected := Some symbol, u_status := ''approved'',
     u_decided_at := Some now, u_decided_by := Some ip\<rparr>"

definition reject_row :: "string \<Rightarrow> int \<Rightarrow> string \<Rightarrow> selection \<Rightarrow> selection" where
  "reject_row reason now ip row = row\<lparr>u_status := ''rejected'', u_decided_at := Some now, u_decided_by := Some ip,
     u_reasoning := (if reason \<noteq> [] then Some (strip ((case u_reasoning row of Some t \<Rightarrow> t | None \<Rightarrow> '''')
         @ [CHR 0x0A, CHR 0x0A] @ ''Rejection reason: '' @ reason))
       else u_reasoning row)\<rparr>"

text \<open>
  The session of both routes: an unknown row is 404, a decided one 409, and \<open>check\<close> is the last guard
  before the row is written.
\<close>

definition decide_selection :: "int \<Rightarrow> (selection \<Rightarrow> unit res) \<Rightarrow> (selection \<Rightarrow> selection) \<Rightarrow> db \<Rightarrow> selection res \<times> db" where
  "decide_selection i check f d = (case lookup_row u_id i (selections d) of
      None \<Rightarrow> (Inl (HTTPException 404), d)
    | Some row \<Rightarrow>
        if u_status row \<noteq> ''pending_approval'' then (Inl (HTTPException 409), d)
        else (case check row of
            Inl e \<Rightarrow> (Inl e, d)
          | Inr _ \<Rightarrow> (Inr (f row), d\<lparr>selections := update_row u_id i f (selections d)\<rparr>)))"

definition approve_selection :: "(int \<Rightarrow> string) \<Rightarrow> int \<Rightarrow> string \<Rightarrow> http_request \<Rightarrow> ('ib world, json) M" where
  "approve_selection tstr i wanted rq =
    (if i < 1 \<or> length wanted < 1 \<or> length wanted > 20 then raise (HTTPException 422)
     else let ip = get_client_ip rq; symbol = strip (py_upper wanted) in
       bindM (gets clock) (\<lambda>now.
       bindM (with_session (decide_selection i
           (\<lambda>row. if symbol \<notin> set (candidate_symbols row) then Inl (HTTPException 422) else Inr ())
           (approve_row symbol now ip))) (\<lambda>row. ret (selection_to_dict tstr row))))"

definition reject_selection :: "(int \<Rightarrow> string) \<Rightarrow> int \<Rightarrow> string \<Rightarrow> http_request \<Rightarrow> ('ib world, json) M" where
  "reject_selection tstr i reason rq =
    (if i < 1 \<or> length reason > 500 then raise (HTTPException 422)
     else let ip = get_client_ip rq in
       bindM (gets clock) (\<lambda>now.
       bindM (with_session (decide_selection i (\<lambda>_. Inr ()) (reject_row reason now ip)))
         (\<lambda>row. ret (selection_to_dict tstr row))))"

section \<open>The rescan hint\<close>

text \<open>\<open>session.get(Setting, key)\<close>, then an insert or an update of the row.  The dash of the description is
  written as a hyphen.\<close>

definition put_setting :: "string \<Rightarrow> setting \<Rightarrow> (setting \<Rightarrow> setting) \<Rightarrow> db \<Rightarrow> db" where
  "put_setting key new f d = (if \<exists>s \<in> set (settings d). s_key s = key
     then d\<lparr>settings := update_where (\<lambda>s. s_key s = key) f (settings d)\<rparr>
     else d\<lparr>settings := settings d @ [new]\<rparr>)"

definition scan_now :: "('ib world, json) M" where
  "scan_now = bindM (gets clock) (\<lambda>now.
     thenM (execute_update (put_setting ''UNIVERSE_SCAN_REQUESTED''
         \<lparr>s_key = ''UNIVERSE_SCAN_REQUESTED'', s_value = iso_text now,
          s_description = Some ''Internal flag - requests a universe rescan on the next tick.'', s_updated = now\<rparr>
         (\<lambda>s. s\<lparr>s_value := iso_text now, s_updated := now\<rparr>)))
     (thenM reload (ret (JObj [(''ok'', JBool True), (''requested_at'', JStr (iso_text now))]))))"

section \<open>Properties\<close>

text \<open>What the API does to a row; a row that is not pending is never changed.\<close>

definition decision_step :: "selection \<Rightarrow> selection \<Rightarrow> bool" where
  "decision_step a b \<longleftrightarrow> b = a \<or> (u_status a = ''pending_approval''
     \<and> ((\<exists>symbol now ip. symbol \<in> set (candidate_symbols a) \<and> b = approve_row symbol now ip a)
        \<or> (\<exists>reason now ip. b = reject_row reason now ip a)))"

interpretation user_decision: lifecycle decision_step "\<lambda>r. u_status r \<noteq> ''pending_approval''"
  by unfold_locales (auto simp: decision_step_def)

lemma decide_selection_cases:
  assumes "decide_selection i check f d = (r, d')"
  obtains (missing) "lookup_row u_id i (selections d) = None" "r = Inl (HTTPException 404)" "d' = d"
    | (decided) row where "lookup_row u_id i (selections d) = Some row" "u_status row \<noteq> ''pending_approval''"
        "r = Inl (HTTPException 409)" "d' = d"
    | (refused) row e where "lookup_row u_id i (selections d) = Some row" "u_status row = ''pending_approval''"
        "check row = Inl e" "r = Inl e" "d' = d"
    | (made) row where "lookup_row u_id i (selections d) = Some row" "u_status row = ''pending_approval''"
        "check row = Inr ()" "r = Inr (f row)" "d' = d\<lparr>selections := update_row u_id i f (selections d)\<rparr>"
  using assms by (auto simp: decide_selection_def split: option.splits if_splits sum.splits)

text \<open>C18: an approval is refused with 404 for an unknown scan, with 409 for a scan that is already decided and
  with 422 for a symbol that is not a candidate, and then changes nothing; otherwise it records the
  symbol, the moment and the address in that row, and touches no other row and no other table.\<close>

theorem approve_outcome:
  assumes up: "db_up w (db_calls w)" and valid: "1 \<le> i" "1 \<le> length wanted" "length wanted \<le> 20"
    and run: "approve_selection tstr i wanted rq w = (r, u)"
  shows "case lookup_row u_id i (selections (db w)) of
      None \<Rightarrow> r = Inl (HTTPException 404) \<and> db u = db w
    | Some row \<Rightarrow>
        if u_status row \<noteq> ''pending_approval'' then r = Inl (HTTPException 409) \<and> db u = db w
        else if strip (py_upper wanted) \<notin> set (candidate_symbols row) then r = Inl (HTTPException 422) \<and> db u = db w
        else let row' = row\<lparr>u_selected := Some (strip (py_upper wanted)), u_status := ''approved'',
                 u_decided_at := Some (clock w), u_decided_by := Some (get_client_ip rq)\<rparr>
             in r = Inr (selection_to_dict tstr row') \<and> lookup_row u_id i (selections (db u)) = Some row'
              \<and> (\<forall>j. j \<noteq> i \<longrightarrow> lookup_row u_id j (selections (db u)) = lookup_row u_id j (selections (db w)))
              \<and> trades (db u) = trades (db w) \<and> settings (db u) = settings (db w) \<and> jobs (db u) = jobs (db w)"
proof -
  have same_id: "u_id (approve_row symbol now ip row) = u_id row" for symbol now ip row
    by (simp add: approve_row_def)
  show ?thesis
    using run up valid
    by (auto simp: approve_selection_def Let_def bindM_def gets_def ret_def raise_def with_session_def
        decide_selection_def approve_row_def selection_tab.lookup_update option.map_ident
        split: option.split if_splits)
qed

definition pending_row :: selection where
  "pending_row = \<lparr>u_id = 1, u_date = 0, u_candidates = [JObj [(''symbol'', JStr ''AAPL'')], JObj [(''symbol'', JStr ''msft'')]],
     u_selected = None, u_status = ''pending_approval'', u_reasoning = None, u_created = 0, u_decided_at = None,
     u_decided_by = None\<rparr>"

definition pending_world :: "unit world" where
  "pending_world = (boot_world ())\<lparr>db := empty_db\<lparr>selections := \<lparr>rows = [pending_row], next_id = 2\<rparr>\<rparr>\<rparr>"

lemma pending_lookup: "lookup_row u_id 1 (selections (db pending_world)) = Some pending_row"
  by (simp add: lookup_row_def pending_world_def pending_row_def)

lemma pending_candidates: "candidate_symbols pending_row = [''AAPL'', ''MSFT'']"
  by (simp add: candidate_symbols_def pending_row_def obj_get_def) code_simp

lemma approve_outcome_witness:
  "\<exists>r u. approve_selection (\<lambda>_. ''now'') 1 ''msft '' (peer ''::1'') pending_world = (Inr r, u)
     \<and> lookup_row u_id 1 (selections (db u)) = Some (pending_row\<lparr>u_selected := Some ''MSFT'', u_status := ''approved'',
         u_decided_at := Some 0, u_decided_by := Some ''::1''\<rparr>)"
proof -
  have upper: "strip (py_upper ''msft '') = ''MSFT''" by code_simp
  obtain r u where run: "approve_selection (\<lambda>_. ''now'') 1 ''msft '' (peer ''::1'') pending_world = (r, u)" by force
  have up: "db_up pending_world (db_calls pending_world)" by (simp add: pending_world_def boot_world_def)
  have now: "clock pending_world = 0" "u_status pending_row = ''pending_approval''"
    by (simp_all add: pending_world_def boot_world_def pending_row_def)
  from approve_outcome [OF up _ _ _ run] run show ?thesis
    by (simp add: pending_lookup upper pending_candidates client_ip_peer now Let_def)
qed

end
