(* ===== verification/Calendar.thy ===== *)
theory Calendar
  imports World
begin

text \<open>
  The trading calendar \<open>bot/utils/calendar.py\<close>.  The package \<open>exchange_calendars\<close> is the
  parameter \<open>exchange\<close>: which days are sessions, the UTC opening and closing moments of a
  session, and the next session.  A moment given by a caller is a UTC time with the offset of
  its time zone, because \<open>now.date()\<close> is the date in that zone.
\<close>

record exchange =
  is_session :: "int \<Rightarrow> bool"
  session_open :: "int \<Rightarrow> int"
  session_close :: "int \<Rightarrow> int"
  next_session :: "int \<Rightarrow> int"
  date_to_next_session :: "int \<Rightarrow> int"

text \<open>What the package documents and the code relies on.\<close>

definition exchange_laws :: "exchange \<Rightarrow> bool" where
  "exchange_laws x \<longleftrightarrow>
     (\<forall>d. is_session x d \<longrightarrow> session_open x d < session_close x d
        \<and> day_of (session_open x d) = d \<and> day_of (session_close x d - 1) = d)
   \<and> (\<forall>d. is_session x d \<longrightarrow> is_session x (next_session x d) \<and> d < next_session x d
        \<and> (\<forall>e. d < e \<and> e < next_session x d \<longrightarrow> \<not> is_session x e))
   \<and> (\<forall>d. is_session x (date_to_next_session x d) \<and> d \<le> date_to_next_session x d
        \<and> (\<forall>e. d \<le> e \<and> e < date_to_next_session x d \<longrightarrow> \<not> is_session x e))"

datatype day_arg = Today | ADate int | AMoment int

fun to_date :: "int \<Rightarrow> day_arg \<Rightarrow> int" where
  "to_date now Today = day_of now"
| "to_date now (AMoment t) = day_of t"
| "to_date now (ADate d) = d"

definition is_trading_day :: "exchange \<Rightarrow> int \<Rightarrow> day_arg \<Rightarrow> bool" where
  "is_trading_day x now dt = is_session x (to_date now dt)"

definition assert_session :: "exchange \<Rightarrow> int \<Rightarrow> unit res" where
  "assert_session x d = (if is_session x d then Inr () else Inl ValueError)"

definition market_open :: "exchange \<Rightarrow> int \<Rightarrow> day_arg \<Rightarrow> int res" where
  "market_open x now dt = (let d = to_date now dt in
     res_bind (assert_session x d) (\<lambda>_. Inr (session_open x d)))"

definition market_close :: "exchange \<Rightarrow> int \<Rightarrow> day_arg \<Rightarrow> int res" where
  "market_close x now dt = (let d = to_date now dt in
     res_bind (assert_session x d) (\<lambda>_. Inr (session_close x d)))"

definition is_market_open :: "exchange \<Rightarrow> int \<Rightarrow> (int \<times> int) option \<Rightarrow> bool res" where
  "is_market_open x clk dt = (case (case dt of Some m \<Rightarrow> m | None \<Rightarrow> (clk, 0)) of (now, off) \<Rightarrow>
     (let today = day_of (now + off) in
      if \<not> is_trading_day x clk (ADate today) then Inr False
      else res_bind (market_open x clk (ADate today)) (\<lambda>open_time.
           res_bind (market_close x clk (ADate today)) (\<lambda>close_time.
             Inr (open_time \<le> now \<and> now < close_time)))))"

definition minutes_until_close :: "exchange \<Rightarrow> int \<Rightarrow> (int \<times> int) option \<Rightarrow> int res" where
  "minutes_until_close x clk dt = (case (case dt of Some m \<Rightarrow> m | None \<Rightarrow> (clk, 0)) of (now, off) \<Rightarrow>
     (let today = day_of (now + off) in
      if \<not> is_trading_day x clk (ADate today) then Inr 0
      else res_bind (market_close x clk (ADate today)) (\<lambda>close.
             if close \<le> now then Inr 0 else Inr ((close - now) div 60000))))"

definition next_trading_day :: "exchange \<Rightarrow> int \<Rightarrow> day_arg \<Rightarrow> int" where
  "next_trading_day x now dt = (let d = to_date now dt in
     if is_session x d then next_session x d else date_to_next_session x d)"

section \<open>Without an exception\<close>

lemma is_market_open_now:
  "is_market_open x clk None = Inr (is_session x (day_of clk)
     \<and> session_open x (day_of clk) \<le> clk \<and> clk < session_close x (day_of clk))"
  by (simp add: is_market_open_def is_trading_day_def market_open_def market_close_def
      assert_session_def Let_def)

lemma minutes_until_close_now:
  "minutes_until_close x clk None = Inr (
     if is_session x (day_of clk) \<and> clk < session_close x (day_of clk)
     then (session_close x (day_of clk) - clk) div 60000 else 0)"
  by (simp add: minutes_until_close_def is_trading_day_def market_close_def assert_session_def
      Let_def)

section \<open>Properties\<close>

text \<open>The market is open exactly between the opening and the closing of today's session, and
  the minutes left until the close are the whole minutes of the time left: never negative, zero
  exactly when less than one minute of a session is left, and at most one minute short.\<close>

theorem calendar_open_minutes:
  assumes "is_market_open x clk None = Inr True"
  shows "\<exists>m. minutes_until_close x clk None = Inr m \<and> 0 \<le> m
    \<and> 60000 * m \<le> session_close x (day_of clk) - clk
    \<and> session_close x (day_of clk) - clk < 60000 * (m + 1)"
proof -
  from assms have left: "is_session x (day_of clk)" "clk < session_close x (day_of clk)"
    by (simp_all add: is_market_open_now)
  define r q where "r = session_close x (day_of clk) - clk" and "q = r div 60000"
  have m: "minutes_until_close x clk None = Inr q"
    using left by (simp add: minutes_until_close_now r_def q_def)
  have "r = 60000 * q + r mod 60000" unfolding q_def by (rule mult_div_mod_eq [symmetric])
  moreover have "0 \<le> r mod 60000" "r mod 60000 < 60000" by (rule pos_mod_sign pos_mod_bound; simp)+
  ultimately have "60000 * q \<le> r \<and> r < 60000 * (q + 1)"
    unfolding distrib_left by linarith
  moreover have "0 \<le> q" using left by (simp add: r_def q_def pos_imp_zdiv_nonneg_iff)
  ultimately show ?thesis unfolding r_def [symmetric] using m by blast
qed

text \<open>A concrete calendar: every weekday is a session from 14:30 to 21:00 UTC.\<close>

definition weekday_exchange :: exchange where
  "weekday_exchange = \<lparr>is_session = (\<lambda>d. (d + 3) mod 7 < 5),
     session_open = (\<lambda>d. d * ms_per_day + 52200000),
     session_close = (\<lambda>d. d * ms_per_day + 75600000),
     next_session = (\<lambda>d. if (d + 3) mod 7 = 4 then d + 3 else d + 1),
     date_to_next_session = (\<lambda>d. if (d + 3) mod 7 = 5 then d + 2 else if (d + 3) mod 7 = 6 then d + 1 else d)\<rparr>"

lemma calendar_open_minutes_witness:
  "\<exists>m. minutes_until_close weekday_exchange 55000000 None = Inr m \<and> 0 \<le> m
    \<and> 60000 * m \<le> session_close weekday_exchange (day_of 55000000) - 55000000
    \<and> session_close weekday_exchange (day_of 55000000) - 55000000 < 60000 * (m + 1)"
  by (rule calendar_open_minutes)
     (simp add: is_market_open_now weekday_exchange_def day_of_def ms_per_day_def)

text \<open>The next trading day is a session, lies after the reference day, and no session lies
  strictly between.\<close>

theorem next_trading_day_correct:
  assumes "exchange_laws x"
  shows "is_session x (next_trading_day x now dt) \<and> to_date now dt < next_trading_day x now dt
    \<and> (\<forall>e. to_date now dt < e \<and> e < next_trading_day x now dt \<longrightarrow> \<not> is_session x e)"
proof (cases "is_session x (to_date now dt)")
  case True
  with assms show ?thesis by (simp add: next_trading_day_def exchange_laws_def)
next
  case False
  let ?n = "date_to_next_session x (to_date now dt)"
  have n: "is_session x ?n" "to_date now dt \<le> ?n"
    "\<forall>e. to_date now dt \<le> e \<and> e < ?n \<longrightarrow> \<not> is_session x e"
    using assms by (simp_all add: exchange_laws_def)
  with False have "to_date now dt \<noteq> ?n" by metis
  with n False show ?thesis by (simp add: next_trading_day_def)
qed

lemma weekday_exchange_laws: "exchange_laws weekday_exchange"
proof -
  have day: "day_of (d * ms_per_day + k) = d" if "0 \<le> k" "k < ms_per_day" for d k
    using that by (simp add: day_of_def ms_per_day_def)
  have step: "(if (d + 3) mod 7 = 4 then d + 3 else d + 1) > d" for d :: int by simp
  have mods: "(d + 3) mod 7 < 5 \<Longrightarrow> (d + 3) mod 7 \<noteq> 4 \<Longrightarrow> (d + 1 + 3) mod 7 < 5" for d :: int
    by presburger
  have fri: "(d + 3) mod 7 = 4 \<Longrightarrow> (d + 3 + 3) mod 7 < 5
      \<and> (\<forall>e. d < e \<and> e < d + 3 \<longrightarrow> \<not> (e + 3) mod 7 < 5)" for d :: int
    by presburger
  have sat: "(d + 3) mod 7 = 5 \<Longrightarrow> (d + 2 + 3) mod 7 < 5
      \<and> (\<forall>e. d \<le> e \<and> e < d + 2 \<longrightarrow> \<not> (e + 3) mod 7 < 5)" for d :: int
    by presburger
  have sun: "(d + 3) mod 7 = 6 \<Longrightarrow> (d + 1 + 3) mod 7 < 5
      \<and> (\<forall>e. d \<le> e \<and> e < d + 1 \<longrightarrow> \<not> (e + 3) mod 7 < 5)" for d :: int
    by presburger
  have work: "(d + 3) mod 7 \<noteq> 5 \<Longrightarrow> (d + 3) mod 7 \<noteq> 6 \<Longrightarrow> (d + 3) mod 7 < 5" for d :: int
    by presburger
  have close: "d * ms_per_day + 75600000 - 1 = d * ms_per_day + 75599999" for d by simp
  show ?thesis
    unfolding exchange_laws_def weekday_exchange_def
    using mods fri sat sun work
    by (auto simp: day close ms_per_day_def [symmetric] simp del: mult_minus_right)
       (simp_all add: day_of_def ms_per_day_def)
qed

text \<open>Friday the 2nd of January 1970: the next trading day is Monday.\<close>

lemma next_trading_day_correct_witness:
  "exchange_laws weekday_exchange \<and> next_trading_day weekday_exchange 0 (ADate 1) = 4
    \<and> is_session weekday_exchange (next_trading_day weekday_exchange 0 (ADate 1))"
  using next_trading_day_correct [OF weekday_exchange_laws, of 0 "ADate 1"] weekday_exchange_laws
  by (simp add: next_trading_day_def weekday_exchange_def)

end
