(* ===== verification/Broker.thy ===== *)
theory Broker
  imports Config Frame
begin

text \<open>
  The IBKR connection \<open>bot/core/broker.py\<close>.  The package \<open>ib_insync\<close> is the parameter
  \<open>ib_api\<close>: every call gets the current time and the state of the client library, and returns
  its result or exception, the milliseconds it took and the new state.  The contract a client
  of the broker relies on is the locale \<open>order_broker\<close>.
\<close>

section \<open>The client library\<close>

record ib_trade =
  it_order_id :: int
  it_status :: string
  it_avg_fill :: pyfloat

record ib_position =
  ip_symbol :: string
  ip_position :: pyfloat
  ip_avg_cost :: pyfloat

datatype ib_order = LimitOrder string int pyfloat | MarketOrder string int

type_synonym ('ib, 'a) ib_fun = "int \<Rightarrow> 'ib \<Rightarrow> 'a res \<times> nat \<times> 'ib"

record conn =
  c_host :: string
  c_port :: int
  c_client_id :: int
  c_timeout :: int

record 'ib ib_api =
  ib_connected :: "'ib \<Rightarrow> bool"
  ib_connect :: "conn \<Rightarrow> ('ib, unit) ib_fun"
  ib_disconnect :: "('ib, unit) ib_fun"
  ib_pump :: "('ib, unit) ib_fun"
  ib_qualify :: "string \<Rightarrow> ('ib, int list) ib_fun"
  ib_history :: "int \<Rightarrow> string \<Rightarrow> string \<Rightarrow> ('ib, raw_frame) ib_fun"
  ib_place :: "int \<Rightarrow> ib_order \<Rightarrow> ('ib, int) ib_fun"
  ib_trades :: "('ib, ib_trade list) ib_fun"
  ib_cancel :: "int \<Rightarrow> ('ib, unit) ib_fun"
  ib_positions :: "('ib, ib_position list) ib_fun"
  ib_summary :: "('ib, (string \<times> string) list) ib_fun"

definition ib_call :: "('ib, 'a) ib_fun \<Rightarrow> ('ib world, 'a) M" where
  "ib_call f = (\<lambda>w. case f (clock w) (ib w) of
     (r, ms, s) \<Rightarrow> (r, w\<lparr>clock := clock w + int ms, ib := s\<rparr>))"

section \<open>Bar sizes\<close>

definition bar_size_table :: "(string \<times> int) list" where
  "bar_size_table = [(''1 min'', 60), (''2 mins'', 120), (''3 mins'', 180), (''5 mins'', 300),
     (''10 mins'', 600), (''15 mins'', 900), (''20 mins'', 1200), (''30 mins'', 1800),
     (''1 hour'', 3600), (''1 day'', 86400)]"

definition bar_size_seconds :: "string \<Rightarrow> int" where
  "bar_size_seconds bar_size = (case map_of bar_size_table bar_size of Some n \<Rightarrow> n | None \<Rightarrow> 300)"

text \<open>The days or years requested; \<open>int(total_seconds / 23_400)\<close> is the whole quotient.\<close>

datatype duration = Days int | Years int

definition bars_to_duration_units :: "int \<Rightarrow> string \<Rightarrow> duration" where
  "bars_to_duration_units n_bars bar_size =
     (if bar_size = ''1 day''
      then if n_bars \<le> 365 then Days (max (n_bars + 10) 30) else Years (n_bars div 250 + 1)
      else (let total_seconds = n_bars * bar_size_seconds bar_size;
                days = trunc_real (of_int total_seconds / 23400) + 2
            in Days (max days 1)))"

fun show_duration :: "duration \<Rightarrow> string" where
  "show_duration (Days n) = show_int n @ '' D''"
| "show_duration (Years n) = show_int n @ '' Y''"

definition bars_to_duration :: "int \<Rightarrow> string \<Rightarrow> string" where
  "bars_to_duration n_bars bar_size = show_duration (bars_to_duration_units n_bars bar_size)"

section \<open>Connection\<close>

definition max_reconnect_attempts :: nat where
  "max_reconnect_attempts = 3"

text \<open>\<open>IBKRConnection.__init__\<close>: a new client library state and an empty contract cache.\<close>

definition new_connection :: "'ib \<Rightarrow> ('ib world, unit) M" where
  "new_connection fresh = modifyM (\<lambda>w. w\<lparr>ib := fresh, contracts := Map.empty\<rparr>)"

text \<open>\<open>IBKRConnection(port=port)\<close> with the defaults of its constructor.\<close>

definition default_conn :: "int \<Rightarrow> conn" where
  "default_conn port = \<lparr>c_host = ''127.0.0.1'', c_port = port, c_client_id = 1, c_timeout = 30\<rparr>"

definition connect :: "'ib ib_api \<Rightarrow> conn \<Rightarrow> ('ib world, unit) M" where
  "connect api c = try_except (ib_call (ib_connect api c)) any_exception (\<lambda>_. raise ConnectionErr)"

definition is_connected :: "'ib ib_api \<Rightarrow> ('ib world, bool) M" where
  "is_connected api = gets (\<lambda>w. ib_connected api (ib w))"

definition disconnect :: "'ib ib_api \<Rightarrow> ('ib world, unit) M" where
  "disconnect api = bindM (is_connected api) (\<lambda>up.
     if up then ib_call (ib_disconnect api) else ret ())"

text \<open>The loop \<open>for attempt in range(1, _MAX_RECONNECT_ATTEMPTS + 1)\<close>, with \<open>left\<close> rounds to go.\<close>

fun reconnect :: "'ib ib_api \<Rightarrow> conn \<Rightarrow> nat \<Rightarrow> nat \<Rightarrow> ('ib world, unit) M" where
  "reconnect api c attempt 0 = raise ConnectionErr"
| "reconnect api c attempt (Suc left) =
     try_except (ib_call (ib_connect api c)) any_exception (\<lambda>_.
       thenM (if attempt < max_reconnect_attempts then sleep (1000 * 2 ^ attempt) else ret ())
             (reconnect api c (attempt + 1) left))"

definition ensure_connected :: "'ib ib_api \<Rightarrow> conn \<Rightarrow> ('ib world, unit) M" where
  "ensure_connected api c = bindM (is_connected api) (\<lambda>up.
     if up then ib_call (ib_pump api) else reconnect api c 1 max_reconnect_attempts)"

definition get_contract :: "'ib ib_api \<Rightarrow> string \<Rightarrow> ('ib world, int) M" where
  "get_contract api symbol = bindM (gets (\<lambda>w. contracts w symbol)) (\<lambda>cached.
     case cached of
       Some k \<Rightarrow> ret k
     | None \<Rightarrow> bindM (ib_call (ib_qualify api symbol)) (\<lambda>qualified.
         case qualified of
           [] \<Rightarrow> raise ValueError
         | k # _ \<Rightarrow> thenM (modifyM (\<lambda>w. w\<lparr>contracts := (contracts w)(symbol \<mapsto> k)\<rparr>)) (ret k)))"

section \<open>Historical bars\<close>

text \<open>\<open>bars\<close> is given by what \<open>util.df\<close> makes of it: no bars is the table without rows.\<close>

definition hist_bars_to_df :: "raw_frame \<Rightarrow> frame option res" where
  "hist_bars_to_df bars =
     (if raw_length bars = 0 then Inr None
      else let df = (if ''date'' \<in> fst ` set bars then rename_col ''date'' ''datetime'' bars else bars);
               (i, df') = take_index ''datetime'' df
           in res_bind (select_cols ohlcv df') (\<lambda>cols. Inr (Some \<lparr>f_index = i, f_cols = cols\<rparr>)))"

definition hist_pace_ms :: int where
  "hist_pace_ms = 500"

text \<open>The body both fetchers share, and the exceptions they let through.\<close>

definition request_bars :: "'ib ib_api \<Rightarrow> conn \<Rightarrow> string \<Rightarrow> nat \<Rightarrow> string \<Rightarrow> ('ib world, frame option) M" where
  "request_bars api c symbol n_bars bar_size =
     thenM (ensure_connected api c)
     (bindM (get_contract api symbol) (\<lambda>contract.
      bindM (ib_call (ib_history api contract (bars_to_duration (int n_bars) bar_size) bar_size)) (\<lambda>bars.
      thenM (sleep hist_pace_ms)
      (bindM (liftR (hist_bars_to_df bars)) (\<lambda>df. ret (map_option (frame_tail n_bars) df))))))"

definition not_connection_error :: "exc \<Rightarrow> bool" where
  "not_connection_error e \<longleftrightarrow> e \<noteq> ConnectionErr"

definition fetch_daily_bars :: "'ib ib_api \<Rightarrow> conn \<Rightarrow> string \<Rightarrow> nat \<Rightarrow> ('ib world, frame option) M" where
  "fetch_daily_bars api c symbol n_bars =
     try_except (request_bars api c symbol n_bars ''1 day'') not_connection_error (\<lambda>_. ret None)"

definition fetch_intraday_bars :: "'ib ib_api \<Rightarrow> conn \<Rightarrow> string \<Rightarrow> nat \<Rightarrow> string \<Rightarrow> ('ib world, frame option) M" where
  "fetch_intraday_bars api c symbol n_bars bar_size =
     try_except (request_bars api c symbol n_bars bar_size) not_connection_error (\<lambda>_. ret None)"

section \<open>Orders\<close>

definition place_order :: "'ib ib_api \<Rightarrow> conn \<Rightarrow> string \<Rightarrow> string \<Rightarrow> int \<Rightarrow> string \<Rightarrow> pyfloat option \<Rightarrow>
    ('ib world, int) M" where
  "place_order api c symbol action shares order_type limit_price =
     thenM (ensure_connected api c)
     (bindM (get_contract api symbol) (\<lambda>contract.
        if order_type = ''LMT''
        then (case limit_price of
            None \<Rightarrow> raise ValueError
          | Some p \<Rightarrow> ib_call (ib_place api contract (LimitOrder action shares p)))
        else ib_call (ib_place api contract (MarketOrder action shares))))"

definition get_order_status :: "'ib ib_api \<Rightarrow> conn \<Rightarrow> int \<Rightarrow> ('ib world, string \<times> pyfloat option) M" where
  "get_order_status api c order_id =
     thenM (ensure_connected api c)
     (bindM (ib_call (ib_trades api)) (\<lambda>trades.
        case List.find (\<lambda>t. it_order_id t = order_id) trades of
          Some t \<Rightarrow> ret (it_status t, if it_status t = ''Filled'' then Some (it_avg_fill t) else None)
        | None \<Rightarrow> ret (''Inactive'', None)))"

definition cancel_order :: "'ib ib_api \<Rightarrow> conn \<Rightarrow> int \<Rightarrow> ('ib world, unit) M" where
  "cancel_order api c order_id =
     thenM (ensure_connected api c)
     (bindM (ib_call (ib_trades api)) (\<lambda>trades.
        case List.find (\<lambda>t. it_order_id t = order_id) trades of
          Some t \<Rightarrow> ib_call (ib_cancel api (it_order_id t))
        | None \<Rightarrow> ret ()))"

record position =
  p_symbol :: string
  p_shares :: int
  p_avg_cost :: pyfloat
  p_action :: string

fun convert_positions :: "ib_position list \<Rightarrow> position list res" where
  "convert_positions [] = Inr []"
| "convert_positions (p # ps) = res_bind (py_int (ip_position p)) (\<lambda>shares.
     if shares = 0 then convert_positions ps
     else res_bind (convert_positions ps) (\<lambda>rest. Inr (
       \<lparr>p_symbol = ip_symbol p, p_shares = \<bar>shares\<bar>, p_avg_cost = ip_avg_cost p,
        p_action = (if 0 < shares then ''long'' else ''short'')\<rparr> # rest)))"

definition get_positions :: "'ib ib_api \<Rightarrow> conn \<Rightarrow> ('ib world, position list) M" where
  "get_positions api c = thenM (ensure_connected api c)
     (bindM (ib_call (ib_positions api)) (\<lambda>ps. liftR (convert_positions ps)))"

definition get_portfolio_value :: "'ib ib_api \<Rightarrow> conn \<Rightarrow> ('ib world, pyfloat) M" where
  "get_portfolio_value api c = thenM (ensure_connected api c)
     (bindM (ib_call (ib_summary api)) (\<lambda>items.
        case List.find (\<lambda>(tag, _). tag = ''NetLiquidation'') items of
          Some (_, value) \<Rightarrow> (case parse_float value of Some x \<Rightarrow> ret x | None \<Rightarrow> raise ValueError)
        | None \<Rightarrow> ret (Fin 100000)))"

section \<open>What the connection leaves alone\<close>

text \<open>The part of the process state that belongs to the bot: everything but the clock and the
  client library.\<close>

definition book :: "'ib world \<Rightarrow> db \<times> (nat \<Rightarrow> bool) \<times> nat \<times> alert list \<times> (string \<Rightarrow> string option)
    \<times> int option \<times> int \<times> (string \<Rightarrow> string option) \<times> int option \<times> int \<times> manifest_file \<times> string list" where
  "book w = (db w, db_up w, db_calls w, outbox w, cfg_cache w, cfg_loaded w, cfg_ttl w, environ w,
     stop_at w, tz_offset w, manifest w, model_files w)"

lemma frame_of_book: "frame book m \<Longrightarrow> (\<And>w w'. book w = book w' \<Longrightarrow> f w = f w') \<Longrightarrow> frame f m"
  by (metis frame_def)

lemma book_frames:
  assumes "frame book m"
  shows "frame db m" "frame outbox m" "frame stop_at m" "frame db_up m" "frame db_calls m"
    "frame cfg_cache m" "frame cfg_loaded m" "frame cfg_ttl m" "frame environ m" "frame tz_offset m"
    "frame manifest m" "frame model_files m"
  by (rule frame_of_book [OF assms]; simp add: book_def)+

text \<open>Time only passes forward.\<close>

definition later :: "('ib world, 'a) M \<Rightarrow> bool" where
  "later m \<longleftrightarrow> (\<forall>t. keeps (\<lambda>w. t \<le> clock w) m)"

lemma laterD: "later m \<Longrightarrow> m w = (r, w') \<Longrightarrow> clock w \<le> clock w'"
  by (metis later_def keepsD order_refl)

lemma frame_book_ib_call [frame_rules]: "frame book (ib_call f)"
  by (auto simp: frame_def ib_call_def book_def split: prod.splits)

lemma keeps_clock_ib_call [keeps_rules]: "keeps (\<lambda>w. t \<le> clock w) (ib_call f)"
  by (auto simp: keeps_def ib_call_def split: prod.splits)

lemma frame_book_sleep [frame_rules]: "frame book (sleep d)"
  by (auto simp: sleep_def book_def intro!: frame_modifyM)

lemma keeps_clock_sleep [keeps_rules]: "0 \<le> d \<Longrightarrow> keeps (\<lambda>w. t \<le> clock w) (sleep d)"
  by (auto simp: sleep_def intro!: keeps_modifyM)

lemma frame_book_contracts: "frame book (modifyM (\<lambda>w. w\<lparr>contracts := g w\<rparr>))"
  by (auto simp: book_def intro!: frame_modifyM)

lemma keeps_clock_contracts: "keeps (\<lambda>w. t \<le> clock w) (modifyM (\<lambda>w. w\<lparr>contracts := g w\<rparr>))"
  by (auto intro!: keeps_modifyM)

lemma frame_book_reconnect [frame_rules]: "frame book (reconnect api c a n)"
  by (induction n arbitrary: a) (auto intro!: frame_rules)

lemma keeps_clock_reconnect [keeps_rules]: "keeps (\<lambda>w. t \<le> clock w) (reconnect api c a n)"
  by (induction n arbitrary: a) (auto intro!: keeps_rules)

lemma frame_book_ensure [frame_rules]: "frame book (ensure_connected api c)"
  by (auto simp: ensure_connected_def is_connected_def intro!: frame_rules)

lemma keeps_clock_ensure [keeps_rules]: "keeps (\<lambda>w. t \<le> clock w) (ensure_connected api c)"
  by (auto simp: ensure_connected_def is_connected_def intro!: keeps_rules)

lemma frame_book_contract [frame_rules]: "frame book (get_contract api symbol)"
  by (auto simp: get_contract_def intro!: frame_rules frame_book_contracts split: list.split)

lemma keeps_clock_contract [keeps_rules]: "keeps (\<lambda>w. t \<le> clock w) (get_contract api symbol)"
  by (auto simp: get_contract_def intro!: keeps_rules keeps_clock_contracts split: list.split)

lemmas broker_op_defs = place_order_def get_order_status_def cancel_order_def get_positions_def
  get_portfolio_value_def connect_def disconnect_def is_connected_def

lemma frame_book_orders [frame_rules]:
  "frame book (place_order api c symbol act n ty price)" "frame book (get_order_status api c i)"
  "frame book (cancel_order api c i)" "frame book (get_positions api c)"
  "frame book (get_portfolio_value api c)" "frame book (connect api c)" "frame book (disconnect api)"
  by (auto simp: broker_op_defs intro!: frame_rules split: option.split)

lemma keeps_clock_orders [keeps_rules]:
  "keeps (\<lambda>w. t \<le> clock w) (place_order api c symbol act n ty price)"
  "keeps (\<lambda>w. t \<le> clock w) (get_order_status api c i)"
  "keeps (\<lambda>w. t \<le> clock w) (cancel_order api c i)"
  "keeps (\<lambda>w. t \<le> clock w) (get_positions api c)"
  "keeps (\<lambda>w. t \<le> clock w) (get_portfolio_value api c)"
  "keeps (\<lambda>w. t \<le> clock w) (connect api c)" "keeps (\<lambda>w. t \<le> clock w) (disconnect api)"
  by (auto simp: broker_op_defs intro!: keeps_rules split: option.split)

lemma frame_book_request [frame_rules]: "frame book (request_bars api c symbol n bsize)"
  by (auto simp: request_bars_def intro!: frame_rules)

lemma frame_book_fetch [frame_rules]:
  "frame book (fetch_daily_bars api c symbol n)" "frame book (fetch_intraday_bars api c symbol n bsize)"
  by (auto simp: fetch_daily_bars_def fetch_intraday_bars_def intro!: frame_rules)

lemma keeps_clock_fetch [keeps_rules]:
  "keeps (\<lambda>w. t \<le> clock w) (fetch_daily_bars api c symbol n)"
  "keeps (\<lambda>w. t \<le> clock w) (fetch_intraday_bars api c symbol n bsize)"
  by (auto simp: fetch_daily_bars_def fetch_intraday_bars_def request_bars_def hist_pace_ms_def
      intro!: keeps_rules)

section \<open>Bounds in time\<close>

abbreviation takes :: "('ib world, 'a) M \<Rightarrow> int \<Rightarrow> bool" where
  "takes \<equiv> cost clock"

lemma takes_sleep: "takes (sleep d) d"
  by (simp add: cost_def sleep_def modifyM_def)

lemma takes_ib_call: "(\<And>t s. int (fst (snd (f t s))) \<le> d) \<Longrightarrow> takes (ib_call f) d"
  by (simp add: cost_def ib_call_def case_prod_beta)

text \<open>Connecting may take until its timeout; the other calls of the library return at once.\<close>

definition prompt_api :: "'ib ib_api \<Rightarrow> conn \<Rightarrow> bool" where
  "prompt_api api c \<longleftrightarrow> (\<forall>t s. int (fst (snd (ib_connect api c t s))) \<le> 1000 * c_timeout c)
     \<and> (\<forall>t s. fst (snd (ib_pump api t s)) = 0) \<and> (\<forall>t s. fst (snd (ib_trades api t s)) = 0)
     \<and> 0 \<le> c_timeout c"

lemma takes_reconnect_step:
  assumes "prompt_api api c" and "takes (reconnect api c (attempt + 1) left) b" and "0 \<le> b"
  shows "takes (reconnect api c attempt (Suc left))
    (1000 * c_timeout c + ((if attempt < max_reconnect_attempts then 1000 * 2 ^ attempt else 0) + b))"
  unfolding reconnect.simps
  using assms
  by (intro cost_try_except takes_ib_call cost_thenM)
     (auto simp: prompt_api_def intro: takes_sleep cost_ret)

lemma takes_reconnect:
  assumes "prompt_api api c"
  shows "takes (reconnect api c 1 3) (3000 * c_timeout c + 6000)"
proof -
  define T where "T = 1000 * c_timeout c"
  have "0 \<le> T" using assms by (simp add: prompt_api_def T_def)
  note step = takes_reconnect_step [OF assms, folded T_def]
  have "takes (reconnect api c 4 0) 0" by (simp add: cost_raise)
  then have "takes (reconnect api c 3 (Suc 0)) T"
    using step [of 3 0 0] by (simp add: max_reconnect_attempts_def del: reconnect.simps)
  then have "takes (reconnect api c 2 (Suc (Suc 0))) (T + (4000 + T))"
    using step [of 2 "Suc 0" T] \<open>0 \<le> T\<close> by (simp add: max_reconnect_attempts_def del: reconnect.simps)
  then have "takes (reconnect api c 1 (Suc (Suc (Suc 0)))) (T + (2000 + (T + (4000 + T))))"
    using step [of 1 "Suc (Suc 0)" "T + (4000 + T)"] \<open>0 \<le> T\<close>
    by (simp add: max_reconnect_attempts_def numeral_2_eq_2 del: reconnect.simps)
  then have "takes (reconnect api c 1 (Suc (Suc (Suc 0)))) (3000 * c_timeout c + 6000)"
    unfolding T_def by (rule cost_mono) simp
  then show ?thesis by (simp only: numeral_3_eq_3)
qed

lemma takes_ensure_connected:
  assumes "prompt_api api c"
  shows "takes (ensure_connected api c) (3000 * c_timeout c + 6000)"
proof -
  have "takes (if up then ib_call (ib_pump api) else reconnect api c 1 max_reconnect_attempts)
      (3000 * c_timeout c + 6000)" for up
    using assms takes_reconnect [OF assms]
    by (auto simp: max_reconnect_attempts_def prompt_api_def intro!: takes_ib_call)
  then have "takes (ensure_connected api c) (0 + (3000 * c_timeout c + 6000))"
    unfolding ensure_connected_def is_connected_def using assms
    by (intro cost_bindM cost_gets) (auto simp: prompt_api_def)
  then show ?thesis by simp
qed

lemma takes_order_status:
  assumes "prompt_api api c"
  shows "takes (get_order_status api c i) (3000 * c_timeout c + 6000)"
proof -
  have "takes (get_order_status api c i) ((3000 * c_timeout c + 6000) + (0 + 0))"
    unfolding get_order_status_def
    using assms takes_ensure_connected [OF assms]
    by (intro cost_thenM cost_bindM)
       (auto simp: prompt_api_def intro!: takes_ib_call cost_ret split: option.split)
  then show ?thesis by simp
qed

section \<open>The contract of a broker\<close>

text \<open>The protocol \<open>IBKRBroker\<close> of \<open>bot/orders/executor.py\<close>, with the portfolio query that the
  engine looks for on it.\<close>

record 'ib broker_ops =
  b_place :: "string \<Rightarrow> string \<Rightarrow> int \<Rightarrow> string \<Rightarrow> pyfloat option \<Rightarrow> ('ib world, int) M"
  b_status :: "int \<Rightarrow> ('ib world, string \<times> pyfloat option) M"
  b_cancel :: "int \<Rightarrow> ('ib world, unit) M"
  b_positions :: "('ib world, position list) M"
  b_portfolio :: "('ib world, pyfloat) M option"

definition ibkr_broker :: "'ib ib_api \<Rightarrow> conn \<Rightarrow> 'ib broker_ops" where
  "ibkr_broker api c = \<lparr>b_place = place_order api c, b_status = get_order_status api c,
     b_cancel = cancel_order api c, b_positions = get_positions api c,
     b_portfolio = Some (get_portfolio_value api c)\<rparr>"

locale order_broker =
  fixes B :: "'ib broker_ops"
  assumes place_book: "frame book (b_place B symbol act n ty price)"
    and status_book: "frame book (b_status B i)"
    and cancel_book: "frame book (b_cancel B i)"
    and positions_book: "frame book (b_positions B)"
    and place_later: "later (b_place B symbol act n ty price)"
    and status_later: "later (b_status B i)"
    and cancel_later: "later (b_cancel B i)"
    and positions_later: "later (b_positions B)"

interpretation ibkr: order_broker "ibkr_broker api c" for api c
  by unfold_locales (simp_all add: ibkr_broker_def later_def frame_rules keeps_rules)

section \<open>Properties\<close>

text \<open>The duration requested from IBKR covers the bars asked for: a daily request asks for at
  least ten days more than bars (or for whole years of 250 sessions), an intraday request for
  at least one full session of 23,400 seconds more than the bars take.\<close>

theorem bars_to_duration_covers:
  assumes "0 \<le> n"
  shows "case bars_to_duration_units n bar_size of
      Years y \<Rightarrow> bar_size = ''1 day'' \<and> n < 250 * y
    | Days d \<Rightarrow> if bar_size = ''1 day'' then n + 10 \<le> d \<and> 30 \<le> d
        else n * bar_size_seconds bar_size + 23400 < 23400 * d"
proof (cases "bar_size = ''1 day''")
  case True
  have "n < 250 * (n div 250 + 1)" by presburger
  with True show ?thesis by (simp add: bars_to_duration_units_def)
next
  case False
  define total where "total = n * bar_size_seconds bar_size"
  have "0 \<le> bar_size_seconds bar_size"
    by (auto simp: bar_size_seconds_def bar_size_table_def split: option.split)
  with assms have "0 \<le> total" by (simp add: total_def)
  define days where "days = \<lfloor>(of_int total :: real) / 23400\<rfloor>"
  have "(of_int total :: real) / 23400 < of_int days + 1" unfolding days_def by linarith
  then have "(of_int total :: real) < of_int (23400 * days + 23400)" by (simp add: field_simps)
  then have "total < 23400 * days + 23400" by (simp only: of_int_less_iff)
  moreover have "0 \<le> days" using \<open>0 \<le> total\<close> by (simp add: days_def)
  moreover have "trunc_real (of_int total / 23400) = days"
    using \<open>0 \<le> total\<close> by (simp add: trunc_real_def days_def)
  ultimately show ?thesis
    using False by (simp add: bars_to_duration_units_def Let_def total_def)
qed

lemma bars_to_duration_covers_witness:
  "bars_to_duration 200 ''5 mins'' = ''4 D'' \<and> (200 :: int) * 300 + 23400 < 23400 * 4"
proof -
  have "bars_to_duration_units 200 ''5 mins'' = Days 4"
    by (simp add: bars_to_duration_units_def bar_size_seconds_def bar_size_table_def trunc_real_def
        floor_eq_iff)
  then show ?thesis
    using bars_to_duration_covers [of 200 "''5 mins''"]
    by (simp add: bars_to_duration_def bar_size_seconds_def bar_size_table_def show_int_def
        show_nat.simps digit_char_def char_of_eq_iff)
qed

lemma hist_bars_ohlcv:
  "hist_bars_to_df bars = Inr (Some df) \<Longrightarrow> map fst (f_cols df) = ohlcv"
  by (auto simp: hist_bars_to_df_def Let_def res_bind_Inr_iff select_cols_names
      split: if_splits prod.splits)

lemma request_bars_result:
  assumes "request_bars api c symbol n bar_size w = (Inr (Some df), w')"
  shows "nrows df \<le> n \<and> map fst (f_cols df) = ohlcv"
proof -
  obtain bars d where "hist_bars_to_df bars = Inr (Some d)" and df: "df = frame_tail n d"
    using assms unfolding request_bars_def
    by (elim thenM_InrE bindM_InrE) (auto simp: liftR_def ret_def)
  then have "map fst (f_cols d) = ohlcv" by (simp add: hist_bars_ohlcv)
  then show ?thesis 
    by (simp add: df nrows_frame_tail) (simp add: frame_tail_def comp_def case_prod_beta)
qed

definition fetch_contract :: "nat \<Rightarrow> frame option res \<Rightarrow> bool" where
  "fetch_contract n r \<longleftrightarrow> (case r of
      Inl e \<Rightarrow> e = ConnectionErr
    | Inr None \<Rightarrow> True
    | Inr (Some df) \<Rightarrow> nrows df \<le> n \<and> map fst (f_cols df) = ohlcv)"

lemma fetch_contract_request:
  "fetch_contract n (fst (try_except (request_bars api c symbol n bar_size) not_connection_error
    (\<lambda>_. ret None) w))"
  using request_bars_result
  by (fastforce simp: fetch_contract_def try_except_def not_connection_error_def ret_def
      split: prod.split sum.split option.split)

text \<open>C37: a bar request never raises anything but a lost connection; every other failure is the
  absence of data, and the data returned is a table of open, high, low, close and volume with at
  most the number of rows asked for.\<close>

theorem fetch_bars_contract:
  "fetch_contract n (fst (fetch_daily_bars api c symbol n w)) \<and>
   fetch_contract n (fst (fetch_intraday_bars api c symbol n bar_size w))"
  by (simp add: fetch_daily_bars_def fetch_intraday_bars_def fetch_contract_request)

text \<open>The positions reported are exactly the positions IBKR holds a non-zero whole number of
  shares of, each with that number and its side.\<close>

theorem positions_faithful:
  assumes "convert_positions ps = Inr qs"
  shows "map (\<lambda>q. (p_symbol q, if p_action q = ''long'' then p_shares q else - p_shares q)) qs
     = filter (\<lambda>(_, n). n \<noteq> 0)
         (map (\<lambda>p. (ip_symbol p, case ip_position p of Fin x \<Rightarrow> trunc_real x | _ \<Rightarrow> 0)) ps)
   \<and> (\<forall>q \<in> set qs. 0 < p_shares q)"
  using assms
proof (induction ps arbitrary: qs)
  case Nil
  then show ?case by simp
next
  case (Cons p ps)
  then obtain n where n: "py_int (ip_position p) = Inr n"
    by (auto simp: res_bind_Inr_iff)
  then have "(case ip_position p of Fin x \<Rightarrow> trunc_real x | _ \<Rightarrow> 0) = n"
    by (cases "ip_position p") auto
  then show ?case
    using Cons n by (auto simp: res_bind_Inr_iff split: if_splits)
qed

lemma positions_faithful_witness:
  "convert_positions [\<lparr>ip_symbol = ''AAPL'', ip_position = Fin (-7), ip_avg_cost = Fin 100\<rparr>]
     = Inr [\<lparr>p_symbol = ''AAPL'', p_shares = 7, p_avg_cost = Fin 100, p_action = ''short''\<rparr>]"
  (is "?l = Inr [?q]")
proof -
  have "?l = Inr [?q]" by (simp add: trunc_real_def)
  moreover from positions_faithful [OF this] have "0 < p_shares ?q" by simp
  ultimately show ?thesis by blast
qed

end
