(* ===== verification/Logger.thy ===== *)
theory Logger
  imports World "HOL-Library.Sublist"
begin

text \<open>
  The logger \<open>bot/utils/logger.py\<close>: the category loggers, their files, and the queue between the callers
  and the thread that writes the records to the database.  A line of a file is the record it shows;
  rotating a file moves lines and is not modelled.  The callers and the writer thread interleave.
\<close>

section \<open>Records and loggers\<close>

definition valid_categories :: "string list" where
  "valid_categories = [''universe'', ''signals'', ''ml'', ''risk'', ''trading'', ''ibkr'', ''web'', ''claude'', ''sentiment'']"

definition db_queue_max :: nat where
  "db_queue_max = 10000"

text \<open>The methods of \<open>CategoryLogger\<close> and the levels they log at; any other name is an \<open>AttributeError\<close>.\<close>

definition logger_methods :: "(string \<times> string \<times> nat) list" where
  "logger_methods = [(''debug'', ''DEBUG'', 10), (''info'', ''INFO'', 20), (''warning'', ''WARNING'', 30),
     (''error'', ''ERROR'', 40), (''critical'', ''CRITICAL'', 50)]"

definition call_logger :: "string \<Rightarrow> ('s, unit) M" where
  "call_logger name = (if map_of logger_methods name = None then raise AttributeError else ret ())"

text \<open>Where a call stands in the source.\<close>

record call_site =
  site_module :: string
  site_func :: string
  site_line :: int

record log_record =
  rec_created :: int
  rec_level :: string
  rec_category :: string
  rec_module :: string
  rec_func :: string
  rec_line :: int
  rec_message :: string
  rec_structured :: "(string \<times> json) list"

text \<open>What the formatter appends to a line, with \<open>str\<close> of a value as the parameter.\<close>

fun join_fields :: "string list \<Rightarrow> string" where
  "join_fields [] = ''''"
| "join_fields [f] = f"
| "join_fields (f # fs) = f @ '' '' @ join_fields fs"

definition structured_suffix :: "(json \<Rightarrow> string) \<Rightarrow> log_record \<Rightarrow> string" where
  "structured_suffix str r = (if rec_structured r \<noteq> []
     then '' | '' @ join_fields (map (\<lambda>(k, v). k @ ''='' @ str v) (rec_structured r)) else '''')"

section \<open>The state of the module\<close>

text \<open>A process shuts its logger down once, when it ends, and makes no new logger after that.  The queue
  holds records and, after \<open>close\<close>, the mark that ends the thread; \<open>log_fallback\<close> are the
  lines \<open>_fallback_error\<close> writes.\<close>

record 'ib logging =
  log_process :: "'ib world"
  log_built :: "string list"
  log_handler :: bool
  log_shut :: bool
  log_worker :: bool
  log_queue :: "log_record option list"
  log_disk :: "(string \<times> log_record) list"
  log_fallback :: "(int \<times> string) list"

definition boot_logging :: "'ib world \<Rightarrow> 'ib logging" where
  "boot_logging w = \<lparr>log_process = w, log_built = [], log_handler = False, log_shut = False, log_worker = False, log_queue = [],
     log_disk = [], log_fallback = []\<rparr>"

definition fallback_error :: "string \<Rightarrow> ('ib logging, unit) M" where
  "fallback_error message = modifyM (\<lambda>s. s\<lparr>log_fallback := log_fallback s @ [(clock (log_process s), message)]\<rparr>)"

section \<open>The database handler\<close>

definition get_async_db_handler :: "('ib logging, unit) M" where
  "get_async_db_handler = modifyM (\<lambda>s. if log_handler s then s
     else s\<lparr>log_handler := True, log_worker := True\<rparr>)"

definition emit :: "log_record \<Rightarrow> ('ib logging, unit) M" where
  "emit r = modifyM (\<lambda>s. if length (log_queue s) < db_queue_max
     then s\<lparr>log_queue := log_queue s @ [Some r]\<rparr> else s)"

definition entry_of :: "log_record \<Rightarrow> log_entry" where
  "entry_of r = \<lparr>l_id = 0, l_timestamp = rec_created r, l_level = rec_level r, l_category = rec_category r,
     l_module = rec_module r, l_func = rec_func r, l_line = rec_line r, l_message = rec_message r, l_extra = Some (JObj (rec_structured r))\<rparr>"

definition insert_entry :: "log_record \<Rightarrow> ('ib world, unit) M" where
  "insert_entry r = execute_update (\<lambda>d. d\<lparr>log_entries := snd (insert_row (\<lambda>i e. e\<lparr>l_id := i\<rparr>) (entry_of r) (log_entries d))\<rparr>)"

definition in_logging :: "('ib world, 'a) M \<Rightarrow> ('ib logging, 'a) M" where
  "in_logging m = (\<lambda>s. case m (log_process s) of (r, w) \<Rightarrow> (r, s\<lparr>log_process := w\<rparr>))"

definition write_to_db :: "log_record \<Rightarrow> ('ib logging, unit) M" where
  "write_to_db r = try_except (in_logging (insert_entry r)) any_exception
     (\<lambda>_. fallback_error (''DB log flush failed for record: '' @ take 120 (rec_message r)))"

text \<open>One round of the thread; with an empty queue it waits.\<close>

definition drain_one :: "('ib logging, unit) M" where
  "drain_one = bindM (gets log_queue) (\<lambda>q. case q of
      [] \<Rightarrow> ret ()
    | None # rest \<Rightarrow> modifyM (\<lambda>s. s\<lparr>log_queue := rest, log_worker := False\<rparr>)
    | Some r # rest \<Rightarrow> thenM (modifyM (\<lambda>s. s\<lparr>log_queue := rest\<rparr>)) (write_to_db r))"

text \<open>\<open>close\<close> puts the end mark into the queue; it waits while the queue is full.\<close>

definition can_close :: "'ib logging \<Rightarrow> bool" where
  "can_close s \<longleftrightarrow> length (log_queue s) < db_queue_max"

definition shutdown :: "('ib logging, unit) M" where
  "shutdown = modifyM (\<lambda>s. if log_handler s then s\<lparr>log_queue := log_queue s @ [None], log_handler := False, log_shut := True\<rparr> else s)"

section \<open>Logging\<close>

definition build_logger :: "string \<Rightarrow> ('ib logging, unit) M" where
  "build_logger category =
     thenM (if category \<notin> set valid_categories
            then fallback_error (''Unknown log category '' @ CHR 0x27 # category @ CHR 0x27 # '' - check bot/utils/logger.py'')
            else ret ())
       get_async_db_handler"

definition get_logger :: "string \<Rightarrow> ('ib logging, unit) M" where
  "get_logger category = bindM (gets log_built) (\<lambda>built.
     if category \<in> set built then ret ()
     else thenM (build_logger category) (modifyM (\<lambda>s. s\<lparr>log_built := log_built s @ [category]\<rparr>)))"

definition to_disk :: "string \<Rightarrow> log_record \<Rightarrow> ('ib logging, unit) M" where
  "to_disk file r = modifyM (\<lambda>s. s\<lparr>log_disk := log_disk s @ [(file, r)]\<rparr>)"

text \<open>\<open>getattr(logger, method)(msg, **fields)\<close> in a module: the handlers run in the order they were added.\<close>

definition log_call :: "string \<Rightarrow> string \<Rightarrow> call_site \<Rightarrow> string \<Rightarrow> (string \<times> json) list \<Rightarrow> ('ib logging, unit) M" where
  "log_call category method site msg kw = (case map_of logger_methods method of
      None \<Rightarrow> raise AttributeError
    | Some (levelname, severity) \<Rightarrow> bindM (gets (\<lambda>s. clock (log_process s))) (\<lambda>now.
        let r = \<lparr>rec_created = now, rec_level = levelname, rec_category = category,
                 rec_module = site_module site, rec_func = site_func site, rec_line = site_line site, rec_message = msg, rec_structured = kw\<rparr> in
        thenM (to_disk (category @ ''.log'') r)
       (thenM (if severity \<ge> 40 then to_disk ''errors.log'' r else ret ())
              (emit r))))"

section \<open>Interleavings\<close>

inductive log_step :: "'ib logging \<Rightarrow> 'ib logging \<Rightarrow> bool" where
  logger: "\<not> log_shut s \<Longrightarrow> get_logger c s = (r, t) \<Longrightarrow> log_step s t"
| call: "c \<in> set (log_built s) \<Longrightarrow> c \<noteq> ''errors'' \<Longrightarrow> log_call c m site msg kw s = (r, t) \<Longrightarrow> log_step s t"
| drain: "log_worker s \<Longrightarrow> drain_one s = (r, t) \<Longrightarrow> log_step s t"
| close: "can_close s \<Longrightarrow> shutdown s = (r, t) \<Longrightarrow> log_step s t"

inductive_cases log_stepE: "log_step s t"

section \<open>The order of the records\<close>

text \<open>What a line and a row show of a record.\<close>

definition rec_view :: "log_record \<Rightarrow> int \<times> string \<times> string \<times> string \<times> string \<times> int \<times> string \<times> json option" where
  "rec_view r = (rec_created r, rec_level r, rec_category r, rec_module r, rec_func r, rec_line r, rec_message r, Some (JObj (rec_structured r)))"

definition row_view :: "log_entry \<Rightarrow> int \<times> string \<times> string \<times> string \<times> string \<times> int \<times> string \<times> json option" where
  "row_view e = (l_timestamp e, l_level e, l_category e, l_module e, l_func e, l_line e, l_message e, l_extra e)"

definition queued :: "log_record option list \<Rightarrow> log_record list" where
  "queued q = List.map_filter (\<lambda>x. x) q"

text \<open>The records in the category files; \<open>errors.log\<close> repeats some of them.\<close>

definition logged :: "'ib logging \<Rightarrow> log_record list" where
  "logged s = map snd (filter (\<lambda>(file, _). file \<noteq> ''errors.log'') (log_disk s))"

definition written :: "'ib logging \<Rightarrow> (int \<times> string \<times> string \<times> string \<times> string \<times> int \<times> string \<times> json option) list" where
  "written s = map row_view (rows (log_entries (db (log_process s))))"

definition in_order :: "'ib logging \<Rightarrow> bool" where
  "in_order s \<longleftrightarrow> subseq (written s @ map rec_view (queued (log_queue s))) (map rec_view (logged s))
     \<and> length (log_queue s) \<le> db_queue_max"

lemma queued_simps [simp]: "queued [] = []" "queued (Some r # q) = r # queued q" "queued (None # q) = queued q"
    "queued (p @ q) = queued p @ queued q"
  by (simp_all add: queued_def map_filter_def)

lemma row_view_entry [simp]: "row_view ((entry_of r)\<lparr>l_id := i\<rparr>) = rec_view r"
  by (simp add: row_view_def entry_of_def rec_view_def)

lemma insert_entry_cases:
  assumes "insert_entry r w = (x, u)"
  obtains (failed) e where "x = Inl e" "log_entries (db u) = log_entries (db w)"
    | (stored) i where "x = Inr ()" "rows (log_entries (db u)) = rows (log_entries (db w)) @ [(entry_of r)\<lparr>l_id := i\<rparr>]"
  using assms by (auto simp: insert_entry_def execute_update_apply insert_row_def Let_def split: if_splits)

lemma views_queue [simp]: "written (s\<lparr>log_queue := q\<rparr>) = written s" "logged (s\<lparr>log_queue := q\<rparr>) = logged s"
  by (simp_all add: written_def logged_def)

lemma in_order_same: "in_order s \<Longrightarrow> written t = written s \<Longrightarrow> log_queue t = log_queue s \<Longrightarrow> logged t = logged s \<Longrightarrow> in_order t"
  by (simp add: in_order_def)

lemma in_order_drain:
  assumes ok: "in_order s" and run: "drain_one s = (x, t)"
  shows "in_order t"
proof (cases "log_queue s")
  case Nil
  with ok run show ?thesis by (simp add: drain_one_def bindM_def gets_def ret_def)
next
  case (Cons m q)
  show ?thesis
  proof (cases m)
    case None
    with ok run Cons show ?thesis
      by (auto simp: drain_one_def bindM_def gets_def modifyM_def in_order_def written_def logged_def)
  next
    case (Some r)
    obtain y w where ins: "insert_entry r (log_process s) = (y, w)" by force
    from ok Cons Some have seq: "subseq (written s @ rec_view r # map rec_view (queued q)) (map rec_view (logged s))"
      and len: "length q \<le> db_queue_max" by (simp_all add: in_order_def)
    have t: "logged t = logged s" "log_queue t = q" "log_process t = w"
      using run Cons Some ins
      by (auto simp: drain_one_def thenM_def bindM_def gets_def modifyM_def write_to_db_def try_except_def in_logging_def
          fallback_error_def logged_def split: sum.splits)
    from ins show ?thesis
    proof (cases rule: insert_entry_cases)
      case (failed e)
      have "subseq (written s @ map rec_view (queued q)) (written s @ rec_view r # map rec_view (queued q))"
        by (intro list_emb_append_mono list_emb_Cons) simp_all
      with seq have "subseq (written s @ map rec_view (queued q)) (map rec_view (logged s))"
        by (rule subseq_order.trans [rotated])
      with failed len t show ?thesis by (simp add: in_order_def written_def)
    next
      case (stored i)
      with seq len t show ?thesis by (simp add: in_order_def written_def)
    qed
  qed
qed

lemma in_order_emit:
  assumes "in_order s" and "logged t = logged s @ [r]" and "written t = written s" and "log_queue t = log_queue s"
  shows "in_order (snd (emit r t))"
proof -
  have "subseq (written s @ map rec_view (queued (log_queue s))) (map rec_view (logged s @ [r]))"
    using assms(1) by (auto simp: in_order_def intro: subseq_order.trans)
  moreover have "subseq ((written s @ map rec_view (queued (log_queue s))) @ [rec_view r]) (map rec_view (logged s) @ [rec_view r])"
    using assms(1) by (intro list_emb_append_mono) (simp_all add: in_order_def)
  ultimately show ?thesis
    using assms by (auto simp: emit_def modifyM_def in_order_def)
qed

lemma in_order_log_call:
  assumes ok: "in_order s" and c: "c \<noteq> ''errors''" and run: "log_call c m site msg kw s = (x, t)"
  shows "in_order t"
proof (cases "map_of logger_methods m")
  case None
  with ok run show ?thesis by (simp add: log_call_def raise_def)
next
  case (Some lv)
  obtain levelname severity where lv: "lv = (levelname, severity)" by force
  define r where "r = \<lparr>rec_created = clock (log_process s), rec_level = levelname, rec_category = c,
    rec_module = site_module site, rec_func = site_func site, rec_line = site_line site, rec_message = msg, rec_structured = kw\<rparr>"
  define u where "u = s\<lparr>log_disk := log_disk s @ [(c @ ''.log'', r)] @ (if severity \<ge> 40 then [(''errors.log'', r)] else [])\<rparr>"
  have "c @ ''.log'' \<noteq> ''errors.log''" using c append_same_eq [of c "''.log''" "''errors''"] by simp
  then have "logged u = logged s @ [r]" by (simp add: logged_def u_def)
  moreover have "written u = written s" "log_queue u = log_queue s" by (simp_all add: written_def u_def)
  ultimately have "in_order (snd (emit r u))" by (rule in_order_emit [OF ok])
  moreover have "t = snd (emit r u)"
    using run Some lv
    by (auto simp: log_call_def bindM_def gets_def thenM_def to_disk_def modifyM_def ret_def emit_def r_def u_def Let_def split: if_splits)
  ultimately show ?thesis by simp
qed

lemma in_order_get_logger:
  assumes "in_order s" and "get_logger c s = (x, t)"
  shows "in_order t"
  using assms
  by (auto simp: get_logger_def build_logger_def get_async_db_handler_def fallback_error_def monad_defs written_def logged_def
      split: if_splits intro!: in_order_same [of s])

lemma in_order_shutdown:
  assumes "in_order s" and "can_close s" and "shutdown s = (x, t)"
  shows "in_order t"
  using assms by (auto simp: shutdown_def modifyM_def in_order_def can_close_def written_def logged_def)

lemma log_steps_in_order: "log_step\<^sup>*\<^sup>* s t \<Longrightarrow> in_order s \<Longrightarrow> in_order t"
proof (induction rule: rtranclp_induct)
  case (step t u)
  then show ?case
    by (auto elim!: log_stepE intro: in_order_get_logger in_order_log_call in_order_drain in_order_shutdown)
qed simp

section \<open>Properties\<close>


definition demo_site :: call_site where
  "demo_site = \<lparr>site_module = ''auth'', site_func = ''login'', site_line = 210\<rparr>"


end
