(* ===== verification/Web_Routes.thy ===== *)
theory Web_Routes
  imports Web_Universe Calendar Broker Backtest Logger
begin

text \<open>
  The routes of the web application, \<open>web/api/main.py\<close>: status, settings, logs, trades, performance,
  portfolio and backtests.  Rows of equal sort key come in the database's order, which is left open;
  the model returns the later row first.  \<open>tstr\<close> is how the driver prints a moment and
  \<open>detached\<close> what reading a row after its session does.
\<close>

section \<open>Small routes\<close>

definition cors_origins :: "(string \<Rightarrow> string option) \<Rightarrow> string list" where
  "cors_origins env =
    (let domain = strip (case env ''DOMAIN'' of Some s \<Rightarrow> s | None \<Rightarrow> '''') in
     [''http://localhost'', ''http://127.0.0.1'', ''http://localhost:5173'', ''http://127.0.0.1:5173'']
     @ (if domain \<noteq> [] then [''https://'' @ domain] else []))"

definition health :: "('ib world, json) M" where
  "health = gets (\<lambda>w. JObj [(''status'', JStr ''ok''), (''timestamp'', JStr (iso_text (clock w)))])"

definition status_route :: "exchange \<Rightarrow> ('ib world, json) M" where
  "status_route x =
     bindM (try_except (get_str ''TRADING_MODE'' None) is_config_error (\<lambda>_. ret ''unknown'')) (\<lambda>mode.
     bindM (gets clock) (\<lambda>now.
     bindM (liftR (is_market_open x now None)) (\<lambda>is_open.
       ret (JObj [(''trading_mode'', JStr mode), (''market_open'', JBool is_open),
         (''trading_day'', JBool (is_trading_day x now Today)), (''timestamp'', JStr (iso_text now))]))))"

definition list_settings :: "('ib world, string \<Rightarrow> string option) M" where
  "list_settings = all_settings"

section \<open>Updating a setting\<close>

definition valid_trading_modes :: "string list" where
  "valid_trading_modes = [''paper'', ''live'', ''dryrun'']"

text \<open>The pattern of the path parameter: an upper-case letter, then at most 99 upper-case letters, digits and
  underscores.\<close>

definition upper_letter :: "char \<Rightarrow> bool" where
  "upper_letter c \<longleftrightarrow> 65 \<le> code c \<and> code c \<le> 90"

definition key_ok :: "string \<Rightarrow> bool" where
  "key_ok key = (case key of [] \<Rightarrow> False
     | c # cs \<Rightarrow> upper_letter c \<and> length cs \<le> 99
         \<and> list_all (\<lambda>d. upper_letter d \<or> is_digit d \<or> d = CHR ''_'') cs)"

definition body_ok :: "string \<Rightarrow> string option \<Rightarrow> bool" where
  "body_ok val description \<longleftrightarrow> length val \<le> 10000 \<and> (case description of Some t \<Rightarrow> length t \<le> 500 | None \<Rightarrow> True)"

definition update_setting :: "string \<Rightarrow> string \<Rightarrow> string option \<Rightarrow> ('ib world, json) M" where
  "update_setting key val description =
    (if \<not> key_ok key \<or> \<not> body_ok val description then raise (HTTPException 422)
     else if key = ''TRADING_MODE'' \<and> val \<notin> set valid_trading_modes then raise (HTTPException 422)
     else bindM (gets clock) (\<lambda>now.
       thenM (execute_update (put_setting key
           \<lparr>s_key = key, s_value = val, s_description = description, s_updated = now\<rparr>
           (\<lambda>s. s\<lparr>s_value := val, s_updated := now,
                 s_description := (if description \<noteq> None then description else s_description s)\<rparr>)))
       (thenM reload (ret (JObj [(''key'', JStr key), (''value'', JStr val)])))))"

section \<open>Logs\<close>

definition valid_log_levels :: "string list" where
  "valid_log_levels = [''DEBUG'', ''INFO'', ''WARNING'', ''ERROR'', ''CRITICAL'']"

text \<open>An optional text filter applies when it is there and not empty.\<close>

definition matches :: "string option \<Rightarrow> string \<Rightarrow> bool" where
  "matches f s \<longleftrightarrow> (case header f of Some t \<Rightarrow> s = t | None \<Rightarrow> True)"

definition log_filter_error :: "string option \<Rightarrow> string option \<Rightarrow> exc option" where
  "log_filter_error category level =
    (if (case category of Some c \<Rightarrow> c \<notin> set valid_categories | None \<Rightarrow> False) then Some (HTTPException 422)
     else if (case level of Some l \<Rightarrow> py_upper l \<notin> set valid_log_levels | None \<Rightarrow> False) then Some (HTTPException 422)
     else None)"

definition latest_first :: "('r \<Rightarrow> int) \<Rightarrow> 'r list \<Rightarrow> 'r list" where
  "latest_first key rs = rev (sort_key key rs)"

definition opt_json :: "json option \<Rightarrow> json" where
  "opt_json v = (case v of Some j \<Rightarrow> j | None \<Rightarrow> JNull)"

definition log_to_dict :: "(int \<Rightarrow> string) \<Rightarrow> log_entry \<Rightarrow> json" where
  "log_to_dict tstr r = JObj [(''id'', JInt (l_id r)), (''timestamp'', JStr (tstr (l_timestamp r))),
     (''level'', JStr (l_level r)), (''category'', JStr (l_category r)), (''module'', JStr (l_module r)),
     (''message'', JStr (l_message r)), (''extra'', opt_json (l_extra r))]"

definition recent_logs :: "(int \<Rightarrow> string) \<Rightarrow> (log_entry \<Rightarrow> log_entry res) \<Rightarrow> string option
    \<Rightarrow> string option \<Rightarrow> int \<Rightarrow> ('ib world, json list) M" where
  "recent_logs tstr detached category level limit =
    (case log_filter_error category level of
      Some e \<Rightarrow> raise e
    | None \<Rightarrow> read_page (\<lambda>d. take (clamp_limit 500 limit) (latest_first l_timestamp
          (filter (\<lambda>r. matches category (l_category r) \<and> matches (map_option py_upper level) (l_level r))
            (rows (log_entries d))))) detached (log_to_dict tstr))"

section \<open>Trades\<close>

definition opt_num :: "pyfloat option \<Rightarrow> json" where
  "opt_num v = (case v of Some x \<Rightarrow> JNum x | None \<Rightarrow> JNull)"

definition opt_int :: "int option \<Rightarrow> json" where
  "opt_int v = (case v of Some n \<Rightarrow> JInt n | None \<Rightarrow> JNull)"

definition trade_to_dict :: "(int \<Rightarrow> string) \<Rightarrow> trade \<Rightarrow> json" where
  "trade_to_dict tstr t = JObj
    [(''id'', JInt (t_id t)), (''symbol'', JStr (t_symbol t)), (''action'', JStr (t_action t)),
     (''trading_mode'', JStr (t_mode t)), (''status'', JStr (t_status t)), (''shares'', JInt (t_shares t)),
     (''entry_price'', JNum (t_entry t)), (''target_price'', JNum (t_target t)), (''stop_price'', JNum (t_stop t)),
     (''fill_price'', opt_num (t_fill t)), (''exit_price'', opt_num (t_exit t)), (''pnl'', opt_num (t_pnl t)),
     (''ibkr_order_id'', opt_int (t_order_id t)), (''ml_label'', JStr (t_ml_label t)),
     (''ml_probability'', JNum (t_ml_prob t)), (''confirmed_15min'', JBool (t_confirmed t)),
     (''explanation'', opt_str (t_explanation t)), (''created_at'', JStr (tstr (t_created t))),
     (''filled_at'', opt_time tstr (t_filled_at t)), (''closed_at'', opt_time tstr (t_closed_at t))]"

definition selected_trades :: "string option \<Rightarrow> string option \<Rightarrow> db \<Rightarrow> trade list" where
  "selected_trades symbol status_filter d =
     filter (\<lambda>t. matches (map_option py_upper symbol) (t_symbol t) \<and> matches status_filter (t_status t)) (rows (trades d))"

text \<open>The count and the page are read in one session.\<close>

definition list_trades :: "(int \<Rightarrow> string) \<Rightarrow> (trade \<Rightarrow> trade res) \<Rightarrow> string option \<Rightarrow> string option \<Rightarrow> int \<Rightarrow> int
    \<Rightarrow> ('ib world, json) M" where
  "list_trades tstr detached symbol status_filter limit offset =
    (let limit' = clamp_limit 500 limit; offset' = nat (max 0 offset) in
     bindM (query (\<lambda>d. let sel = selected_trades symbol status_filter d in
         (length sel, take limit' (drop offset' (latest_first t_created sel))))) (\<lambda>(total, rs).
     bindM (liftR (read_detached detached rs)) (\<lambda>rs.
       ret (JObj [(''total'', JInt (int total)), (''offset'', JInt (int offset')), (''limit'', JInt (int limit')),
         (''trades'', JArr (map (trade_to_dict tstr) rs))]))))"

definition active_statuses :: "string list" where
  "active_statuses = [''pending'', ''open'', ''filled'']"

definition open_trades :: "(int \<Rightarrow> string) \<Rightarrow> (trade \<Rightarrow> trade res) \<Rightarrow> ('ib world, json list) M" where
  "open_trades tstr detached = read_page
     (\<lambda>d. latest_first t_created (filter (\<lambda>t. t_status t \<in> set active_statuses) (rows (trades d)))) detached
     (trade_to_dict tstr)"

text \<open>The dictionary is built inside the session.\<close>

definition get_trade :: "(int \<Rightarrow> string) \<Rightarrow> int \<Rightarrow> ('ib world, json) M" where
  "get_trade tstr i = with_session (\<lambda>d. (case lookup_row t_id i (trades d) of
      None \<Rightarrow> Inl (HTTPException 404) | Some t \<Rightarrow> Inr (trade_to_dict tstr t), d))"

section \<open>Performance\<close>

record performance_report =
  pf_period :: string
  pf_trade_count :: nat
  pf_total_pnl :: pyfloat
  pf_win_rate :: pyfloat
  pf_avg_pnl :: pyfloat
  pf_largest_win :: pyfloat
  pf_largest_loss :: pyfloat
  pf_profit_factor :: pyfloat
  pf_timestamp :: string

definition period_days :: "string \<Rightarrow> int option" where
  "period_days period = map_of [(''1d'', 1), (''7d'', 7), (''30d'', 30)] period"

text \<open>A row without a closing moment passes no comparison.\<close>

definition closed_trades :: "int \<Rightarrow> string \<Rightarrow> db \<Rightarrow> trade list" where
  "closed_trades now period d =
    (let closed = filter (\<lambda>t. t_status t = ''closed'') (rows (trades d)) in
     case period_days period of
       Some days \<Rightarrow> filter (\<lambda>t. case t_closed_at t of Some c \<Rightarrow> now - days * ms_per_day \<le> c | None \<Rightarrow> False) closed
     | None \<Rightarrow> closed)"

definition performance_of :: "string \<Rightarrow> string \<Rightarrow> pyfloat list \<Rightarrow> performance_report" where
  "performance_of period stamp pnls =
    (let wins = filter (\<lambda>p. p > Fin 0) pnls; losses = filter (\<lambda>p. p \<le> Fin 0) pnls;
         gross_profit = sum_list wins; gross_loss = fabs (sum_list losses);
         count = (\<lambda>xs. Fin (of_nat (length xs)))
     in \<lparr>pf_period = period, pf_trade_count = length pnls, pf_total_pnl = fround 2 (sum_list pnls),
         pf_win_rate = (if pnls \<noteq> [] then fround 1 (fdiv_nz (count wins) (count pnls) * Fin 100) else Fin 0),
         pf_avg_pnl = (if pnls \<noteq> [] then fround 2 (fdiv_nz (sum_list pnls) (count pnls)) else Fin 0),
         pf_largest_win = fround 2 (max_or_0 wins), pf_largest_loss = fround 2 (min_or_0 losses),
         pf_profit_factor = (if gross_loss > Fin 0 then fround 2 (fdiv_nz gross_profit gross_loss) else Fin 0),
         pf_timestamp = stamp\<rparr>)"

definition empty_performance :: "string \<Rightarrow> string \<Rightarrow> performance_report" where
  "empty_performance period stamp = \<lparr>pf_period = period, pf_trade_count = 0, pf_total_pnl = Fin 0, pf_win_rate = Fin 0,
     pf_avg_pnl = Fin 0, pf_largest_win = Fin 0, pf_largest_loss = Fin 0, pf_profit_factor = Fin 0,
     pf_timestamp = stamp\<rparr>"

text \<open>The results are read after the session; the rows come in the order of their closing moments, which no
  field of the report depends on.\<close>

definition performance :: "(trade \<Rightarrow> trade res) \<Rightarrow> string \<Rightarrow> ('ib world, performance_report) M" where
  "performance detached period = bindM (gets clock) (\<lambda>now.
     bindM (query (closed_trades now period)) (\<lambda>rs.
       if rs = [] then ret (empty_performance period (iso_text now))
       else bindM (liftR (read_detached detached rs)) (\<lambda>rs.
         ret (performance_of period (iso_text now) (List.map_filter t_pnl rs)))))"

definition performance_dict :: "performance_report \<Rightarrow> json" where
  "performance_dict p = JObj
    [(''period'', JStr (pf_period p)), (''trade_count'', JInt (int (pf_trade_count p))),
     (''total_pnl'', JNum (pf_total_pnl p)), (''win_rate'', JNum (pf_win_rate p)), (''avg_pnl'', JNum (pf_avg_pnl p)),
     (''largest_win'', JNum (pf_largest_win p)), (''largest_loss'', JNum (pf_largest_loss p)),
     (''profit_factor'', JNum (pf_profit_factor p)), (''timestamp'', JStr (pf_timestamp p))]"

section \<open>Portfolio\<close>

definition position_dict :: "trade \<Rightarrow> json" where
  "position_dict t = JObj
    [(''symbol'', JStr (t_symbol t)), (''action'', JStr (t_action t)), (''shares'', JInt (t_shares t)),
     (''entry_price'', JNum (t_entry t)), (''fill_price'', opt_num (t_fill t)),
     (''target_price'', JNum (t_target t)), (''stop_price'', JNum (t_stop t)), (''status'', JStr (t_status t))]"

text \<open>\<open>SUM(pnl)\<close> skips NULL; a NULL moment passes no comparison.\<close>

definition pnl_since :: "int \<Rightarrow> db \<Rightarrow> pyfloat" where
  "pnl_since start d = sum_list (List.map_filter t_pnl (filter (\<lambda>t. t_status t = ''closed''
     \<and> (case t_closed_at t of Some c \<Rightarrow> start \<le> c | None \<Rightarrow> False)) (rows (trades d))))"

definition portfolio :: "(trade \<Rightarrow> trade res) \<Rightarrow> ('ib world, json) M" where
  "portfolio detached = bindM (gets (\<lambda>w. (day_start (local_today w), clock w))) (\<lambda>(start, now).
     bindM (query (\<lambda>d. (filter (\<lambda>t. t_status t \<in> set active_statuses) (rows (trades d)), pnl_since start d,
         length (filter (\<lambda>t. start \<le> t_created t) (rows (trades d)))))) (\<lambda>(open_rows, today_pnl, today_count).
     bindM (liftR (read_detached detached open_rows)) (\<lambda>open_rows.
       ret (JObj [(''open_positions'', JArr (map position_dict open_rows)),
         (''position_count'', JInt (int (length open_rows))), (''daily_pnl'', JNum (fround 2 today_pnl)),
         (''daily_trades'', JInt (int today_count)), (''timestamp'', JStr (iso_text now))]))))"

section \<open>Backtests\<close>

text \<open>
  The fetch of both web modules: without a port, or when anything fails, there are no bars; the
  connection is closed again on every path after it has been made.
\<close>

definition fetch_bars :: "'ib ib_api \<Rightarrow> 'ib \<Rightarrow> string \<Rightarrow> nat \<Rightarrow> ('ib world, frame option) M" where
  "fetch_bars api fresh symbol n_bars =
     bindM (gets (\<lambda>w. header (environ w ''IBKR_PORT''))) (\<lambda>port_str. case port_str of
       None \<Rightarrow> ret None
     | Some s \<Rightarrow> try_except
         (bindM (liftR (case parse_int s of Some n \<Rightarrow> Inr n | None \<Rightarrow> Inl ValueError)) (\<lambda>port.
          let c = default_conn port in
          thenM (new_connection fresh) (thenM (connect api c)
            (try_finally (fetch_intraday_bars api c symbol n_bars ''5 mins'') (disconnect api)))))
         any_exception (\<lambda>_. ret None))"

record backtest_request =
  bq_symbol :: string
  bq_capital :: pyfloat
  bq_size_pct :: pyfloat
  bq_stop_atr :: pyfloat
  bq_target_atr :: pyfloat
  bq_min_prob :: pyfloat

definition backtest_body_ok :: "backtest_request \<Rightarrow> bool" where
  "backtest_body_ok b \<longleftrightarrow> length (bq_symbol b) \<le> 20 \<and> bq_capital b > Fin 0
     \<and> bq_size_pct b > Fin 0 \<and> bq_size_pct b \<le> Fin 100 \<and> bq_stop_atr b > Fin 0 \<and> bq_target_atr b > Fin 0
     \<and> bq_min_prob b \<ge> Fin 0 \<and> bq_min_prob b \<le> Fin 1"

definition requested_engine :: "backtest_request \<Rightarrow> backtest_engine" where
  "requested_engine b = default_engine\<lparr>be_initial := bq_capital b, be_size_pct := bq_size_pct b,
     be_stop_atr := bq_stop_atr b, be_target_atr := bq_target_atr b, be_min_prob := bq_min_prob b\<rparr>"

definition run_backtest_route :: "'ib ib_api \<Rightarrow> 'ib \<Rightarrow> label_lib \<Rightarrow> ta_lib \<Rightarrow> lgb_lib \<Rightarrow> backtest_request
    \<Rightarrow> ('ib world, (string \<times> json) list) M" where
  "run_backtest_route api fresh L ta lgb b =
    (if \<not> backtest_body_ok b then raise (HTTPException 422)
     else bindM (fetch_bars api fresh (bq_symbol b) 1000) (\<lambda>bars. case bars of
         None \<Rightarrow> raise (HTTPException 422)
       | Some bars \<Rightarrow> bindM (run_backtest (requested_engine b) L ta lgb bars (py_upper (bq_symbol b)))
           (\<lambda>r. ret (to_dict r))))"

section \<open>Settings stay readable\<close>

definition keys_distinct :: "db \<Rightarrow> bool" where
  "keys_distinct d \<longleftrightarrow> distinct (map s_key (settings d))"

lemma map_of_update_where:
  "distinct (map s_key ss) \<Longrightarrow> (\<And>s. s_key (f s) = s_key s) \<Longrightarrow> (\<And>s. s_value (f s) = v) \<Longrightarrow> \<exists>s \<in> set ss. s_key s = key \<Longrightarrow>
   map_of (map (\<lambda>s. (s_key s, s_value s)) (update_where (\<lambda>s. s_key s = key) f ss)) =
   (map_of (map (\<lambda>s. (s_key s, s_value s)) ss))(key \<mapsto> v)"
proof (induction ss)
  case (Cons s ss)
  have same: "update_where (\<lambda>s. s_key s = key) f ss = ss" if "key \<notin> s_key ` set ss"
    unfolding update_where_def by (rule map_idI) (use that in auto)
  show ?case
  proof (cases "s_key s = key")
    case True
    with Cons.prems have "key \<notin> s_key ` set ss" by auto
    with True same Cons.prems(2,3) show ?thesis by (auto simp: update_where_def fun_eq_iff)
  next
    case False
    with Cons show ?thesis by (auto simp: update_where_def fun_upd_twist)
  qed
qed simp

lemma table_value_rev: "table_value d = map_of (map (\<lambda>s. (s_key s, s_value s)) (rev (settings d)))"
  by (simp add: table_value_def rev_map)

lemma put_setting_stored:
  assumes "keys_distinct d" and "s_key new = key" "s_value new = v"
    and "\<And>s. s_key (f s) = s_key s" "\<And>s. s_value (f s) = v"
  shows "keys_distinct (put_setting key new f d) \<and> table_value (put_setting key new f d) = (table_value d)(key \<mapsto> v)"
proof (cases "\<exists>s \<in> set (settings d). s_key s = key")
  case True
  then have k: "keys_distinct (put_setting key new f d)"
    using assms(1,4) by (simp add: put_setting_def keys_distinct_def map_update_where)
  have "rev (settings (put_setting key new f d)) = update_where (\<lambda>s. s_key s = key) f (rev (settings d))"
    using True by (simp add: put_setting_def update_where_def rev_map)
  moreover have "distinct (map s_key (rev (settings d)))"
    using assms(1) by (simp add: keys_distinct_def flip: rev_map)
  ultimately have "table_value (put_setting key new f d) = (table_value d)(key \<mapsto> v)"
    using map_of_update_where [of "rev (settings d)" f v key] assms(4,5) True by (simp add: table_value_rev)
  with k show ?thesis ..
next
  case False
  then have k: "keys_distinct (put_setting key new f d)"
    using assms(1,2) by (auto simp: put_setting_def keys_distinct_def)
  have "table_value (put_setting key new f d) = (table_value d)(key \<mapsto> v)"
    using False assms(2,3) by (simp add: table_value_rev put_setting_def)
  with k show ?thesis ..
qed

lemma put_setting_description:
  assumes "keys_distinct d" "s \<in> set (settings d)" "s_key s = key" "\<And>s. s_key (f s) = s_key s"
  shows "f s \<in> set (settings (put_setting key new f d))"
  using assms by (auto simp: put_setting_def in_update_where)

text \<open>An accepted update of a setting is what every later lookup of that key returns while the cache is
  fresh, the other keys keep their values, and an existing description survives unless the request
  carries one.  A key or a body outside the declared bounds, or an unknown trading mode, is refused with 422 and
  changes nothing.\<close>

theorem update_setting_roundtrip:
  assumes up: "\<And>n. db_up w n" and ttl: "0 < cfg_ttl w" and keys: "keys_distinct (db w)"
  shows "if key_ok key \<and> body_ok val desc \<and> (key = ''TRADING_MODE'' \<longrightarrow> val \<in> {''paper'', ''live'', ''dryrun''})
    then \<exists>u. update_setting key val desc w = (Inr (JObj [(''key'', JStr key), (''value'', JStr val)]), u)
      \<and> get_setting key None CStr u = (Inr (VStr val), u)
      \<and> (\<forall>k. k \<noteq> key \<longrightarrow> table_value (db u) k = table_value (db w) k) \<and> keys_distinct (db u)
      \<and> (\<forall>s \<in> set (settings (db w)). s_key s = key \<and> desc = None \<longrightarrow>
          (\<exists>s' \<in> set (settings (db u)). s_key s' = key \<and> s_value s' = val \<and> s_description s' = s_description s))
    else update_setting key val desc w = (Inl (HTTPException 422), w)"
proof (cases "key_ok key \<and> body_ok val desc \<and> (key = ''TRADING_MODE'' \<longrightarrow> val \<in> {''paper'', ''live'', ''dryrun''})")
  case False
  then show ?thesis by (auto simp: update_setting_def raise_def valid_trading_modes_def)
next
  case True
  define new :: setting where "new = \<lparr>s_key = key, s_value = val, s_description = desc, s_updated = clock w\<rparr>"
  define f :: "setting \<Rightarrow> setting" where "f = (\<lambda>s. s\<lparr>s_value := val, s_updated := clock w,
      s_description := (if desc \<noteq> None then desc else s_description s)\<rparr>)"
  define v where "v = w\<lparr>db_calls := Suc (db_calls w), db := put_setting key new f (db w)\<rparr>"
  have put: "keys_distinct (db v)" "table_value (db v) = (table_value (db w))(key \<mapsto> val)"
    using put_setting_stored [OF keys, of new key val f] by (simp_all add: v_def new_def f_def)
  have "execute_update (put_setting key new f) w = (Inr (), v)"
    using up by (simp add: execute_update_apply v_def)
  moreover define u where "u = v\<lparr>db_calls := Suc (db_calls v), cfg_cache := table_value (db v), cfg_loaded := Some (clock v)\<rparr>"
  have "reload v = (Inr (), u)"
    using up by (simp add: reload_def refresh_def load_from_db_def query_apply try_except_def bindM_def modifyM_def
        table_value_def u_def v_def)
  ultimately have run: "update_setting key val desc w = (Inr (JObj [(''key'', JStr key), (''value'', JStr val)]), u)"
    using True unfolding new_def f_def
    by (auto simp: update_setting_def valid_trading_modes_def bindM_def thenM_def gets_def ret_def)
  have "get_setting key None CStr u = (Inr (VStr val), u)"
    using ttl put by (simp add: get_setting_def refresh_def cache_fresh_def u_def v_def bindM_def gets_def liftR_def)
  moreover have "\<exists>s' \<in> set (settings (db u)). s_key s' = key \<and> s_value s' = val \<and> s_description s' = s_description s"
    if "s \<in> set (settings (db w))" "s_key s = key" "desc = None" for s
    using put_setting_description [OF keys that(1,2), of f new] that(2,3)
    by (intro bexI [of _ "f s"]) (simp_all add: u_def v_def f_def)
  ultimately show ?thesis using True run put by (auto simp: u_def)
qed

definition mode_world :: "unit world" where
  "mode_world = (boot_world ())\<lparr>db := empty_db\<lparr>settings := [\<lparr>s_key = ''TRADING_MODE'', s_value = ''dryrun'',
     s_description = Some ''mode'', s_updated = 0\<rparr>]\<rparr>\<rparr>"

lemma update_setting_roundtrip_witness:
  "\<exists>u. update_setting ''TRADING_MODE'' ''paper'' None mode_world
       = (Inr (JObj [(''key'', JStr ''TRADING_MODE''), (''value'', JStr ''paper'')]), u)
     \<and> get_setting ''TRADING_MODE'' None CStr u = (Inr (VStr ''paper''), u)"
proof -
  have "key_ok ''TRADING_MODE''" "body_ok ''paper'' None" by code_simp+
  then show ?thesis
    using update_setting_roundtrip [of mode_world "''TRADING_MODE''" "''paper''" None]
    by (auto simp: mode_world_def boot_world_def keys_distinct_def)
qed



text \<open>Five routes print rows after the session that read them has ended.  With the default of SQLAlchemy each
  of them fails as soon as there is a row to print, and works only while there is none; with rows that
  keep their attributes the same query is printed.\<close>

theorem routes_print_detached_rows:
  assumes up: "db_up w (db_calls w)"
    and "expires_on_commit dt" "expires_on_commit dl" "expires_on_commit ds" "keeps_on_commit kt"
  shows "fst (open_trades tstr dt w) = (if filter (\<lambda>t. t_status t \<in> {''pending'', ''open'', ''filled''}) (rows (trades (db w))) = []
        then Inr [] else Inl DetachedInstanceError)
    \<and> (closed_trades (clock w) period (db w) \<noteq> [] \<longrightarrow> fst (performance dt period w) = Inl DetachedInstanceError)
    \<and> (filter (\<lambda>t. t_status t \<in> {''pending'', ''open'', ''filled''}) (rows (trades (db w))) \<noteq> []
        \<longrightarrow> fst (portfolio dt w) = Inl DetachedInstanceError)
    \<and> (rows (log_entries (db w)) \<noteq> [] \<longrightarrow> fst (recent_logs tstr dl None None limit w) = Inl DetachedInstanceError)
    \<and> (rows (selections (db w)) \<noteq> [] \<longrightarrow> fst (get_history tstr ds limit w) = Inl DetachedInstanceError)
    \<and> fst (open_trades tstr kt w) = Inr (map (trade_to_dict tstr)
        (latest_first t_created (filter (\<lambda>t. t_status t \<in> {''pending'', ''open'', ''filled''}) (rows (trades (db w))))))"
proof -
  have active: "set active_statuses = {''pending'', ''open'', ''filled''}" by (simp add: active_statuses_def)
  have none: "latest_first key rs = [] \<longleftrightarrow> rs = []" for key :: "'r \<Rightarrow> int" and rs
    unfolding latest_first_def by (metis length_0_conv length_rev length_sort)
  have pos: "clamp_limit cap n \<noteq> 0" for cap n by (simp add: clamp_limit_def)
  have hist: "by_scan_date rs = [] \<longleftrightarrow> rs = []" for rs
    unfolding by_scan_date_def by (metis length_0_conv length_rev length_sort)
  have logs: "log_filter_error None None = None" by (simp add: log_filter_error_def)
  have open_: "fst (open_trades tstr dt w) = (if filter (\<lambda>t. t_status t \<in> {''pending'', ''open'', ''filled''}) (rows (trades (db w))) = []
        then Inr [] else Inl DetachedInstanceError)"
    using up assms(2) by (simp add: open_trades_def read_page_expires none active del: filter_empty_conv)
  have perf: "closed_trades (clock w) period (db w) \<noteq> [] \<Longrightarrow> fst (performance dt period w) = Inl DetachedInstanceError"
    using up assms(2) by (simp add: performance_def bindM_def gets_def query_apply liftR_def read_detached_expires)
  have port: "filter (\<lambda>t. t_status t \<in> {''pending'', ''open'', ''filled''}) (rows (trades (db w))) \<noteq> []
        \<Longrightarrow> fst (portfolio dt w) = Inl DetachedInstanceError"
    using up assms(2) by (simp add: portfolio_def bindM_def gets_def query_apply liftR_def read_detached_expires active
        del: filter_empty_conv)
  have log_: "rows (log_entries (db w)) \<noteq> [] \<Longrightarrow> fst (recent_logs tstr dl None None limit w) = Inl DetachedInstanceError"
    using up assms(3) by (simp add: recent_logs_def logs read_page_expires none pos matches_def header_def)
  have hist_: "rows (selections (db w)) \<noteq> [] \<Longrightarrow> fst (get_history tstr ds limit w) = Inl DetachedInstanceError"
    using up assms(4) by (simp add: get_history_def read_page_expires hist pos)
  have keep: "fst (open_trades tstr kt w) = Inr (map (trade_to_dict tstr)
        (latest_first t_created (filter (\<lambda>t. t_status t \<in> {''pending'', ''open'', ''filled''}) (rows (trades (db w))))))"
    using up assms(5) by (simp add: open_trades_def read_page_keeps active)
  from open_ perf port log_ hist_ keep show ?thesis by blast
qed

lemma routes_print_detached_rows_witness:
  "fst (get_history (\<lambda>_. ''now'') (\<lambda>_. Inl DetachedInstanceError) 30 pending_world) = Inl DetachedInstanceError
   \<and> fst (open_trades (\<lambda>_. ''now'') Inr pending_world) = Inr []"
  using routes_print_detached_rows [of pending_world "\<lambda>_. Inl DetachedInstanceError" "\<lambda>_. Inl DetachedInstanceError"
      "\<lambda>_. Inl DetachedInstanceError" Inr "\<lambda>_. ''now''"]
  by (simp add: expires_on_commit_def keeps_on_commit_def pending_world_def boot_world_def empty_db_def empty_table_def
      latest_first_def)

end
