(* ===== verification/Trainer.thy ===== *)
theory Trainer
  imports Ml_Model
begin

text \<open>
  The training of the model, \<open>bot/ml/trainer.py\<close>: labels from forward returns, the samples without
  gaps, the split, the fit and the registration of the new version.  \<open>sklearn\<close>'s split and the
  package \<open>lightgbm\<close> are the parameter \<open>trainer_lib\<close>: how many rows of \<open>n\<close> are for training, a fit
  that returns a handle or raises, the class probabilities of rows, the best loss, and saving.
\<close>

record trainer_lib =
  tr_split :: "nat \<Rightarrow> nat"
  tr_fit :: "dict \<Rightarrow> int \<Rightarrow> (series \<times> nat) list \<Rightarrow> (series \<times> nat) list \<Rightarrow> int res"
  tr_predict :: "int \<Rightarrow> series list \<Rightarrow> series list res"
  tr_logloss :: "int \<Rightarrow> pyfloat"
  tr_save :: "int \<Rightarrow> string \<Rightarrow> unit res"

definition default_params :: dict where
  "default_params = [(''objective'', JStr ''multiclass''), (''num_class'', JInt 3), (''metric'', JStr ''multi_logloss''),
     (''num_leaves'', JInt 31), (''learning_rate'', JNum (Fin 0.05)), (''feature_fraction'', JNum (Fin 0.8)),
     (''bagging_fraction'', JNum (Fin 0.8)), (''bagging_freq'', JInt 5), (''min_child_samples'', JInt 30),
     (''lambda_l1'', JNum (Fin 0.1)), (''lambda_l2'', JNum (Fin 0.1)), (''verbose'', JInt (- 1)), (''n_jobs'', JInt (- 1))]"

definition num_boost_round :: int where
  "num_boost_round = 300"

text \<open>\<open>{**defaults, **overrides}\<close>.\<close>

definition merge_params :: "dict \<Rightarrow> dict" where
  "merge_params overrides = fold (\<lambda>(k, v). dict_set k v) overrides default_params"

section \<open>Labels\<close>

text \<open>\<open>s.shift(k)\<close> for any integer: a negative one looks ahead.\<close>

definition shift_by :: "int \<Rightarrow> series \<Rightarrow> series" where
  "shift_by k xs = (if 0 \<le> k then shift (nat k) xs
     else drop (nat (- k)) xs @ replicate (min (nat (- k)) (length xs)) NaN)"

definition forward_return :: "int \<Rightarrow> series \<Rightarrow> series" where
  "forward_return forward_bars close = map2 (\<lambda>later now. np_log (np_div later now)) (shift_by (- forward_bars) close) close"

text \<open>The assignments in their order: the second mask overwrites the first; NaN passes no comparison.\<close>

definition label_of :: "pyfloat \<Rightarrow> pyfloat \<Rightarrow> pyfloat \<Rightarrow> nat" where
  "label_of long_thr short_thr r = (if r \<le> - short_thr then 2 else if r \<ge> long_thr then 1 else 0)"

definition make_labels :: "int \<Rightarrow> pyfloat \<Rightarrow> pyfloat \<Rightarrow> series \<Rightarrow> nat list" where
  "make_labels forward_bars long_pct short_pct close =
     map (label_of (fdiv_lit long_pct 100) (fdiv_lit short_pct 100)) (forward_return forward_bars close)"

text \<open>\<open>features.notna().all(axis=1) & labels.notna()\<close>; a label is never missing.\<close>

definition samples :: "frame \<Rightarrow> nat list \<Rightarrow> (series \<times> nat) list" where
  "samples features ys = filter (\<lambda>(row, y). \<not> list_ex is_nan row)
     (zip (map (row_values features) [0..<nrows features]) ys)"

section \<open>Training\<close>

definition min_samples :: nat where
  "min_samples = 100"

definition val_accuracy :: "series list \<Rightarrow> nat list \<Rightarrow> pyfloat res" where
  "val_accuracy preds ys = res_bind (those_res (map np_argmax preds)) (\<lambda>ks. Inr (bool_mean (map2 (=) ks ys)))"

definition fit_and_score :: "trainer_lib \<Rightarrow> dict \<Rightarrow> int \<Rightarrow> (series \<times> nat) list \<Rightarrow> (int \<times> dict) res" where
  "fit_and_score T params rounds xs =
    (let n = tr_split T (length xs); train_rows = take n xs; val_rows = drop n xs in
     res_bind (tr_fit T params rounds train_rows val_rows) (\<lambda>h.
     res_bind (tr_predict T h (map fst val_rows)) (\<lambda>preds.
     res_bind (val_accuracy preds (map snd val_rows)) (\<lambda>acc.
       Inr (h, [(''val_accuracy'', JNum (fround 4 acc)), (''val_logloss'', JNum (fround 4 (tr_logloss T h)))])))))"

definition training_samples :: "ta_lib \<Rightarrow> frame \<Rightarrow> int \<Rightarrow> pyfloat \<Rightarrow> pyfloat \<Rightarrow> (series \<times> nat) list res" where
  "training_samples ta df0 forward_bars long_pct short_pct =
    (let df = lower_cols df0 in
     res_bind (calculate ta df) (\<lambda>enriched. res_bind (build enriched) (\<lambda>features.
     res_bind (get_col ''close'' df) (\<lambda>close.
       Inr (samples features (make_labels forward_bars long_pct short_pct close))))))"

definition save_model :: "trainer_lib \<Rightarrow> int \<Rightarrow> string \<Rightarrow> ('ib world, unit) M" where
  "save_model T h version = bindM (liftR (tr_save T h (model_file (JStr version)))) (\<lambda>_.
     modifyM (\<lambda>w. w\<lparr>model_files := model_files w @ [model_file (JStr version)]\<rparr>))"

definition train :: "trainer_lib \<Rightarrow> ta_lib \<Rightarrow> frame \<Rightarrow> int \<Rightarrow> pyfloat \<Rightarrow> pyfloat \<Rightarrow> int \<Rightarrow> dict \<Rightarrow> string option
    \<Rightarrow> ('ib world, string) M" where
  "train T ta df forward_bars long_pct short_pct rounds overrides version =
     bindM (case version of Some (c # cs) \<Rightarrow> ret (c # cs) | _ \<Rightarrow> make_version_string) (\<lambda>v.
     bindM (liftR (training_samples ta df forward_bars long_pct short_pct)) (\<lambda>xs.
       if length xs < min_samples then raise ValueError
       else bindM (liftR (fit_and_score T (merge_params overrides) rounds xs)) (\<lambda>(h, metrics).
         thenM (save_model T h v) (thenM (register_version v (int (length xs)) metrics True) (ret v)))))"

section \<open>Properties\<close>

lemma nth_forward_return:
  assumes "0 < n" and "i < length ps" and "list_all (\<lambda>p. 0 < p) ps"
  shows "forward_return (int n) (map Fin ps) ! i
    = (if i + n < length ps then Fin (ln (ps ! (i + n) / ps ! i)) else NaN)"
proof -
  have pos: "0 < ps ! j" if "j < length ps" for j using assms(3) that by (simp add: list_all_length)
  have gap: "np_div NaN (Fin (ps ! i)) = NaN" using pos [OF assms(2)] by (simp add: np_div_def)
  have ratio: "np_log (np_div (Fin (ps ! j)) (Fin (ps ! i))) = Fin (ln (ps ! j / ps ! i))" if "j < length ps" for j
    using pos [OF assms(2)] pos [OF that] by simp
  show ?thesis
    using assms(1,2) by (auto simp: forward_return_def shift_by_def nth_append add.commute min_def gap ratio)
qed

lemma length_forward_return: "0 < n \<Longrightarrow> length (forward_return (int n) xs) = length xs"
  by (simp add: forward_return_def shift_by_def)

text \<open>With a positive look-ahead and positive prices, a bar is labelled 2 when the logarithm of the price
  ratio over the look-ahead is at most minus the short threshold, else 1 when it is at least the long
  one, else 0; and the last bars, whose future is not known, are all labelled 0 and kept.\<close>

theorem labels_forward:
  assumes "0 < n" and "list_all (\<lambda>p. 0 < p) ps"
  shows "length (make_labels (int n) (Fin l) (Fin s) (map Fin ps)) = length ps
    \<and> (\<forall>i < length ps. make_labels (int n) (Fin l) (Fin s) (map Fin ps) ! i
        = (if length ps \<le> i + n then 0
           else if ln (ps ! (i + n) / ps ! i) \<le> - (s / 100) then 2
           else if ln (ps ! (i + n) / ps ! i) \<ge> l / 100 then 1 else 0))"
  using assms by (auto simp: make_labels_def length_forward_return nth_forward_return label_of_def)

lemma labels_forward_witness:
  "make_labels 1 (Fin 10) (Fin 10) (map Fin [1, 2, 1]) ! 2 = 0
   \<and> make_labels 1 (Fin 10) (Fin 10) (map Fin [1, 2, 1]) ! 1 = 2"
proof -
  have "ln (1 / 2 :: real) \<le> - (10 / 100)"
    using ln_le_minus_one [of "1 / 2 :: real"] by simp
  then show ?thesis using labels_forward [of 1 "[1, 2, 1]" 10 10] by simp
qed

lemma training_steps:
  assumes ok: "file_ok (manifest w)" and run: "train T ta df fb l s rounds overrides version w = (r, u)"
  shows "case r of
      Inl e \<Rightarrow> u = w
    | Inr v \<Rightarrow> \<exists>xs h m. training_samples ta df fb l s = Inr xs \<and> min_samples \<le> length xs
        \<and> fit_and_score T (merge_params overrides) rounds xs = Inr (h, m)
        \<and> register_version v (int (length xs)) m True (w\<lparr>model_files := model_files w @ [model_file (JStr v)]\<rparr>) = (Inr (), u)"
proof -
  have "\<exists>v. (case version of Some (c # cs) \<Rightarrow> ret (c # cs) | _ \<Rightarrow> make_version_string) w = (Inr v, w)"
    by (simp add: make_version_string_def monad_defs split: option.split list.split)
  then obtain v where v: "(case version of Some (c # cs) \<Rightarrow> ret (c # cs) | _ \<Rightarrow> make_version_string) w = (Inr v, w)" ..
  let ?w = "w\<lparr>model_files := model_files w @ [model_file (JStr v)]\<rparr>"
  have reg: "\<exists>t. register_version v k m True ?w = (Inr (), t)" for k m
    using register_result [of ?w v k m True] ok by auto
  from run v have run': "bindM (liftR (training_samples ta df fb l s)) (\<lambda>xs.
       if length xs < min_samples then raise ValueError
       else bindM (liftR (fit_and_score T (merge_params overrides) rounds xs)) (\<lambda>(h, metrics).
         thenM (save_model T h v) (thenM (register_version v (int (length xs)) metrics True) (ret v)))) w = (r, u)"
    by (simp add: train_def bindM_def)
  show ?thesis
  proof (cases "training_samples ta df fb l s")
    case (Inl e)
    with run' show ?thesis by (auto simp: bindM_def liftR_def split: sum.split)
  next
    case (Inr xs)
    show ?thesis
    proof (cases "length xs < min_samples")
      case True
      with run' Inr show ?thesis by (auto simp: bindM_def liftR_def raise_def split: sum.split)
    next
      case False
      show ?thesis
      proof (cases "fit_and_score T (merge_params overrides) rounds xs")
        case (Inl e)
        with run' Inr False show ?thesis by (auto simp: bindM_def liftR_def split: sum.split)
      next
        case fit: (Inr hm)
        obtain h m where hm: "hm = (h, m)" by force
        obtain t where t: "register_version v (int (length xs)) m True ?w = (Inr (), t)" using reg by blast
        from run' Inr False fit hm t show ?thesis
          by (cases "tr_save T h (model_file (JStr v))")
             (auto simp: bindM_def thenM_def liftR_def save_model_def modifyM_def ret_def)
      qed
    qed
  qed
qed


definition idle_trainer :: trainer_lib where
  "idle_trainer = \<lparr>tr_split = (\<lambda>n. n - n div 5), tr_fit = (\<lambda>_ _ _ _. Inr 1), tr_predict = (\<lambda>_ rows. Inr (map (\<lambda>_. [Fin 1]) rows)),
     tr_logloss = (\<lambda>_. Fin 0), tr_save = (\<lambda>_ _. Inr ())\<rparr>"


end
