(* ===== verification/Web_Ml_Admin.thy ===== *)
theory Web_Ml_Admin
  imports Web_Routes Trainer
begin

text \<open>
  The model administration API, \<open>web/api/ml_admin.py\<close>: jobs, the retrain thread, rollbacks and the
  listings.  The background threads are part of the state \<open>admin\<close>: a request queues a thread, the
  thread takes the training lock or fails its job, and it gives the lock back when its body has
  ended.  The steps of threads and requests interleave; the body between its first and its last
  access to the database is one step.  The text of an exception is the parameter \<open>msg\<close>.
\<close>

section \<open>Jobs\<close>

record retrain_request =
  rr_symbol :: string
  rr_n_bars :: int
  rr_forward_bars :: "int option"
  rr_long_pct :: "pyfloat option"
  rr_short_pct :: "pyfloat option"

definition opt_all :: "('a \<Rightarrow> bool) \<Rightarrow> 'a option \<Rightarrow> bool" where
  "opt_all P v = (case v of Some x \<Rightarrow> P x | None \<Rightarrow> True)"

definition retrain_ok :: "retrain_request \<Rightarrow> bool" where
  "retrain_ok b \<longleftrightarrow> 1 \<le> length (rr_symbol b) \<and> length (rr_symbol b) \<le> 20 \<and> 500 \<le> rr_n_bars b \<and> rr_n_bars b \<le> 20000
     \<and> opt_all (\<lambda>n. 1 \<le> n \<and> n \<le> 50) (rr_forward_bars b)
     \<and> opt_all (\<lambda>x. x > Fin 0 \<and> x \<le> Fin 10) (rr_long_pct b) \<and> opt_all (\<lambda>x. x > Fin 0 \<and> x \<le> Fin 10) (rr_short_pct b)"

definition job_to_dict :: "(int \<Rightarrow> string) \<Rightarrow> ml_job \<Rightarrow> json" where
  "job_to_dict tstr j = JObj
    [(''id'', JInt (j_id j)), (''job_type'', JStr (j_type j)), (''status'', JStr (j_status j)),
     (''started_at'', JStr (tstr (j_started j))), (''finished_at'', opt_time tstr (j_finished j)),
     (''version'', opt_str (j_version j)), (''metrics'', opt_json (map_option JObj (j_metrics j))),
     (''error'', opt_str (j_error j)), (''params'', opt_json (map_option JObj (j_params j))),
     (''requested_by'', opt_str (j_requested_by j))]"

definition create_job :: "string \<Rightarrow> dict \<Rightarrow> string \<Rightarrow> ('ib world, int) M" where
  "create_job job_type params requested_by = bindM (gets clock) (\<lambda>now.
     with_session (\<lambda>d. case insert_row (\<lambda>i j. j\<lparr>j_id := i\<rparr>)
         \<lparr>j_id = 0, j_type = job_type, j_status = ''pending'', j_started = now, j_finished = None, j_version = None,
          j_metrics = None, j_error = None, j_params = Some params, j_requested_by = Some requested_by\<rparr> (jobs d)
       of (i, t) \<Rightarrow> (Inr i, d\<lparr>jobs := t\<rparr>)))"

definition finished :: "string \<Rightarrow> string option \<Rightarrow> dict option \<Rightarrow> string option \<Rightarrow> int \<Rightarrow> ml_job \<Rightarrow> ml_job" where
  "finished status_value version metrics err now j = j\<lparr>j_status := status_value, j_finished := Some now,
     j_version := (if version \<noteq> None then version else j_version j),
     j_metrics := (if metrics \<noteq> None then metrics else j_metrics j),
     j_error := (case err of Some e \<Rightarrow> Some (take 2000 e) | None \<Rightarrow> j_error j)\<rparr>"

definition finish_job :: "int \<Rightarrow> string \<Rightarrow> string option \<Rightarrow> dict option \<Rightarrow> string option \<Rightarrow> ('ib world, unit) M" where
  "finish_job i status_value version metrics err = bindM (gets clock) (\<lambda>now.
     execute_update (\<lambda>d. d\<lparr>jobs := update_row j_id i (finished status_value version metrics err now) (jobs d)\<rparr>))"

definition mark_running :: "int \<Rightarrow> ('ib world, unit) M" where
  "mark_running i = execute_update (\<lambda>d. d\<lparr>jobs := update_row j_id i (\<lambda>j. j\<lparr>j_status := ''running''\<rparr>) (jobs d)\<rparr>)"

section \<open>The body of a retrain\<close>

record 'ib admin_env =
  ad_api :: "'ib ib_api"
  ad_fresh :: 'ib
  ad_ta :: ta_lib
  ad_trainer :: trainer_lib
  ad_lgb :: lgb_lib
  ad_msg :: "exc \<Rightarrow> string"

text \<open>A field the request leaves out is read from the settings; whatever goes wrong, the default is used.\<close>

definition setting_or :: "string \<Rightarrow> string \<Rightarrow> (string \<Rightarrow> 'a option) \<Rightarrow> 'a \<Rightarrow> 'a option \<Rightarrow> ('ib world, 'a) M" where
  "setting_or key dflt parse fallback v = (case v of
      Some x \<Rightarrow> ret x
    | None \<Rightarrow> try_except (bindM (get_str key (Some dflt)) (\<lambda>s. case parse s of
          Some x \<Rightarrow> ret x | None \<Rightarrow> raise ValueError)) any_exception (\<lambda>_. ret fallback))"

text \<open>The metrics of the first listed entry of the version; an entry that is not a dictionary raises.\<close>

fun metrics_of_version :: "json list \<Rightarrow> string \<Rightarrow> dict res" where
  "metrics_of_version [] version = Inr []"
| "metrics_of_version (JObj kvs # vs) version =
     (if dict_get ''version'' kvs JNull = JStr version
      then (case dict_get ''metrics'' kvs JNull of JObj m \<Rightarrow> Inr m | JNull \<Rightarrow> Inr [] | JArr [] \<Rightarrow> Inr []
            | JStr [] \<Rightarrow> Inr [] | JBool False \<Rightarrow> Inr [] | _ \<Rightarrow> Inl TypeError)
      else metrics_of_version vs version)"
| "metrics_of_version (_ # vs) version = Inl AttributeError"

text \<open>\<open>_fetch_training_bars\<close> asks the connection as the backtest route does.\<close>

definition fetch_training_bars :: "'ib ib_api \<Rightarrow> 'ib \<Rightarrow> string \<Rightarrow> int \<Rightarrow> ('ib world, frame option) M" where
  "fetch_training_bars api fresh symbol n_bars = fetch_bars api fresh symbol (nat n_bars)"

definition few_bars_text :: "string \<Rightarrow> string" where
  "few_bars_text symbol = ''Could not fetch enough training data for '' @ symbol
     @ ''. Ensure IBKR is connected and the symbol has history.''"

definition retrain_body :: "'ib admin_env \<Rightarrow> int \<Rightarrow> retrain_request \<Rightarrow> ('ib world, unit) M" where
  "retrain_body A i req =
     thenM (mark_running i)
     (bindM (setting_or ''ML_FORWARD_BARS'' ''6'' parse_int 6 (rr_forward_bars req)) (\<lambda>forward_bars.
      bindM (setting_or ''ML_LONG_THRESHOLD_PCT'' ''0.3'' parse_float (Fin 0.3) (rr_long_pct req)) (\<lambda>long_thr.
      bindM (setting_or ''ML_SHORT_THRESHOLD_PCT'' ''0.3'' parse_float (Fin 0.3) (rr_short_pct req)) (\<lambda>short_thr.
      bindM (fetch_training_bars (ad_api A) (ad_fresh A) (rr_symbol req) (rr_n_bars req)) (\<lambda>bars.
        case (case bars of Some df \<Rightarrow> if nrows df < 500 then None else Some df | None \<Rightarrow> None) of
          None \<Rightarrow> finish_job i ''failed'' None None (Some (few_bars_text (rr_symbol req)))
        | Some df \<Rightarrow> bindM (try_except
              (bindM (train (ad_trainer A) (ad_ta A) df forward_bars long_thr short_thr num_boost_round [] None)
                (\<lambda>v. ret (Inr v))) any_exception (\<lambda>e. ret (Inl e))) (\<lambda>trained. case trained of
            Inl e \<Rightarrow> finish_job i ''failed'' None None (Some (ad_msg A e))
          | Inr version \<Rightarrow>
              bindM list_versions (\<lambda>vs. bindM (liftR (metrics_of_version vs version)) (\<lambda>m.
              thenM (finish_job i ''done'' (Some version) (Some m) None)
                (try_except (thenM (reload_model (ad_lgb A)) (ret ())) any_exception (\<lambda>_. ret ()))))))))))"

section \<open>Threads and routes\<close>

record 'ib admin =
  am_process :: "'ib world"
  am_locked :: bool
  am_queued :: "(int \<times> retrain_request) list"
  am_running :: "(int \<times> retrain_request) list"

definition boot_admin :: "'ib world \<Rightarrow> 'ib admin" where
  "boot_admin w = \<lparr>am_process = w, am_locked = False, am_queued = [], am_running = []\<rparr>"

definition in_admin :: "('ib world, 'a) M \<Rightarrow> ('ib admin, 'a) M" where
  "in_admin m = (\<lambda>s. case m (am_process s) of (r, w) \<Rightarrow> (r, s\<lparr>am_process := w\<rparr>))"

definition retrain_params :: "retrain_request \<Rightarrow> dict" where
  "retrain_params b = [(''symbol'', JStr (py_upper (rr_symbol b))), (''n_bars'', JInt (rr_n_bars b)),
     (''forward_bars'', opt_int (rr_forward_bars b)), (''long_threshold_pct'', opt_num (rr_long_pct b)),
     (''short_threshold_pct'', opt_num (rr_short_pct b))]"

definition retrain_endpoint :: "retrain_request \<Rightarrow> http_request \<Rightarrow> ('ib admin, int) M" where
  "retrain_endpoint b rq =
    (if \<not> retrain_ok b then raise (HTTPException 422)
     else bindM (gets am_locked) (\<lambda>locked.
       if locked then raise (HTTPException 409)
       else bindM (in_admin (create_job ''retrain'' (retrain_params b) (get_client_ip rq))) (\<lambda>i.
         thenM (modifyM (\<lambda>s. s\<lparr>am_queued := am_queued s @ [(i, b)]\<rparr>)) (ret i))))"

text \<open>The thread of a job starts: \<open>acquire(blocking=False)\<close>.\<close>

definition start_thread :: "int \<times> retrain_request \<Rightarrow> ('ib admin, unit) M" where
  "start_thread job = thenM (modifyM (\<lambda>s. s\<lparr>am_queued := remove1 job (am_queued s)\<rparr>))
     (bindM (gets am_locked) (\<lambda>locked.
       if locked then in_admin (finish_job (fst job) ''failed'' None None (Some ''Another retrain is already running.''))
       else modifyM (\<lambda>s. s\<lparr>am_locked := True, am_running := am_running s @ [job]\<rparr>)))"

text \<open>Its body, and the release of the lock on every exit.\<close>

definition run_thread :: "'ib admin_env \<Rightarrow> int \<times> retrain_request \<Rightarrow> ('ib admin, unit) M" where
  "run_thread A job = try_finally (in_admin (retrain_body A (fst job) (snd job)))
     (modifyM (\<lambda>s. s\<lparr>am_locked := False, am_running := remove1 job (am_running s)\<rparr>))"

definition rollback_job :: "'ib admin_env \<Rightarrow> string \<Rightarrow> int \<Rightarrow> ('ib world, int) M" where
  "rollback_job A version i =
     thenM (mark_running i)
     (thenM (try_except (rollback version) any_exception (\<lambda>e.
         thenM (finish_job i ''failed'' None None (Some (ad_msg A e)))
           (raise (HTTPException (if is_value_error e then 422 else 500)))))
     (thenM (finish_job i ''done'' (Some version) None None)
     (thenM (try_except (thenM (reload_model (ad_lgb A)) (ret ())) any_exception (\<lambda>_. ret ()))
       (ret i))))"

definition rollback_endpoint :: "'ib admin_env \<Rightarrow> string \<Rightarrow> http_request \<Rightarrow> ('ib world, int) M" where
  "rollback_endpoint A version rq =
    (if length version < 1 \<or> length version > 40 then raise (HTTPException 422)
     else bindM (create_job ''rollback'' [(''version'', JStr version)] (get_client_ip rq)) (rollback_job A version))"

fun with_current :: "json \<Rightarrow> json list \<Rightarrow> json list res" where
  "with_current current [] = Inr []"
| "with_current current (JObj kvs # vs) = res_bind (with_current current vs) (\<lambda>rest.
     Inr (JObj (dict_set ''is_current'' (JBool (dict_get ''version'' kvs JNull = current)) kvs) # rest))"
| "with_current current (_ # vs) = Inl TypeError"

definition list_model_versions :: "('ib world, json list) M" where
  "list_model_versions = bindM get_current_version (\<lambda>current. bindM list_versions (\<lambda>vs. liftR (with_current current vs)))"

definition current_model_version :: "('ib world, json) M" where
  "current_model_version = bindM get_current_version (\<lambda>v. ret (JObj [(''version'', v)]))"

definition get_job :: "(int \<Rightarrow> string) \<Rightarrow> int \<Rightarrow> ('ib world, json) M" where
  "get_job tstr i = with_session (\<lambda>d. (case lookup_row j_id i (jobs d) of
      None \<Rightarrow> Inl (HTTPException 404) | Some j \<Rightarrow> Inr (job_to_dict tstr j), d))"

definition list_jobs :: "(int \<Rightarrow> string) \<Rightarrow> (ml_job \<Rightarrow> ml_job res) \<Rightarrow> int \<Rightarrow> ('ib world, json list) M" where
  "list_jobs tstr detached limit =
     read_page (\<lambda>d. take (clamp_limit 200 limit) (latest_first j_id (rows (jobs d)))) detached (job_to_dict tstr)"

section \<open>Interleavings\<close>

inductive admin_step :: "'ib admin_env \<Rightarrow> 'ib admin \<Rightarrow> 'ib admin \<Rightarrow> bool" for A where
  retrain: "retrain_endpoint b rq s = (r, t) \<Longrightarrow> admin_step A s t"
| rollback: "in_admin (rollback_endpoint A version rq) s = (r, t) \<Longrightarrow> admin_step A s t"
| thread_starts: "job \<in> set (am_queued s) \<Longrightarrow> start_thread job s = (r, t) \<Longrightarrow> admin_step A s t"
| thread_runs: "job \<in> set (am_running s) \<Longrightarrow> run_thread A job s = (r, t) \<Longrightarrow> admin_step A s t"

inductive_cases admin_stepE: "admin_step A s t"

section \<open>What the operations leave alone\<close>

text \<open>The jobs table without the job \<open>i\<close>: its other rows, its keys and the next key.\<close>

definition jobs_view :: "int \<Rightarrow> 'ib world \<Rightarrow> ml_job list \<times> int list \<times> int" where
  "jobs_view i w = (filter (\<lambda>j. j_id j \<noteq> i) (rows (jobs (db w))), map j_id (rows (jobs (db w))), next_id (jobs (db w)))"

lemma frame_jobs_of_db: "frame db m \<Longrightarrow> frame (jobs_view i) m"
  by (simp add: frame_def jobs_view_def)

lemma jobs_view_update:
  assumes "\<And>j. j_id (f j) = j_id j"
  shows "jobs_view i (w\<lparr>db_calls := n, db := d\<lparr>jobs := update_row j_id i f (jobs d)\<rparr>\<rparr>) = jobs_view i (w\<lparr>db := d\<rparr>)"
proof -
  have "filter (\<lambda>j. j_id j \<noteq> i) (update_where (\<lambda>j. j_id j = i) f js) = filter (\<lambda>j. j_id j \<noteq> i) js" for js
    using assms by (induction js) (auto simp: update_where_def)
  with assms show ?thesis by (simp add: jobs_view_def update_row_def map_update_where)
qed

lemma frame_jobs_update:
  assumes "\<And>j. j_id (f j) = j_id j"
  shows "frame (jobs_view i) (execute_update (\<lambda>d. d\<lparr>jobs := update_row j_id i f (jobs d)\<rparr>))"
  using jobs_view_update [OF assms] by (simp add: frame_def execute_update_apply) (simp add: jobs_view_def)

lemma frame_finish_job [frame_rules]: "frame (jobs_view i) (finish_job i st version metrics err)"
  by (auto simp: finish_job_def finished_def intro!: frame_rules frame_jobs_update)

lemma frame_mark_running [frame_rules]: "frame (jobs_view i) (mark_running i)"
  by (auto simp: mark_running_def intro!: frame_jobs_update)

lemma frame_db_setting_or [frame_rules]: "frame db (setting_or key dflt parse fb v)"
  by (auto simp: setting_or_def intro!: frame_rules split: option.split)

lemma frame_db_fetch_bars [frame_rules]: "frame db (fetch_bars api fresh symbol n)"
proof -
  have "frame db (new_connection fresh)" for fresh :: 'b
    unfolding new_connection_def by (rule frame_modifyM) simp
  moreover have "frame db (connect api c)" "frame db (fetch_intraday_bars api c symbol n sz)" "frame db (disconnect api)" for c sz
    by (auto intro!: book_frames(1) frame_rules)
  ultimately show ?thesis by (auto simp: fetch_bars_def Let_def intro!: frame_rules split: option.split)
qed

lemma frame_db_reload_model [frame_rules]: "frame db (reload_model lgb)"
  by (auto simp: reload_model_def load_booster_def intro!: frame_rules frame_modifyM split: option.split)

lemma frame_reload: "frame manifest (reload_model lgb)" "frame db_up (reload_model lgb)"
  by (auto simp: reload_model_def load_booster_def intro!: frame_rules frame_modifyM split: option.split)

lemma frame_db_list_versions [frame_rules]: "frame db list_versions"
  by (auto simp: list_versions_def intro!: frame_rules)

lemma frame_db_manifest_ops [frame_rules]: "frame db (save_manifest d)" "frame db (rollback v)"
    "frame db (register_version v n m cur)"
  by (auto simp: rollback_def register_version_def save_manifest_def Let_def intro!: frame_rules frame_modifyM split: option.split)

lemma frame_db_train [frame_rules]: "frame db (train T ta df fb l s rounds overrides version)"
  by (auto simp: train_def save_model_def make_version_string_def intro!: frame_rules frame_modifyM split: option.split list.split)

lemma frame_db_fetch_training_bars [frame_rules]: "frame db (fetch_training_bars api fresh symbol n)"
  by (simp add: fetch_training_bars_def frame_rules)

lemmas jobs_frames [frame_rules] = frame_db_setting_or [THEN frame_jobs_of_db] frame_db_fetch_training_bars [THEN frame_jobs_of_db]
  frame_db_reload_model [THEN frame_jobs_of_db] frame_db_list_versions [THEN frame_jobs_of_db]
  frame_db_manifest_ops(2) [THEN frame_jobs_of_db] frame_db_train [THEN frame_jobs_of_db]

lemma frame_retrain_body [frame_rules]: "frame (jobs_view i) (retrain_body A i req)"
  by (auto simp: retrain_body_def intro!: frame_rules split: option.split sum.split)

lemma frame_rollback_job [frame_rules]: "frame (jobs_view i) (rollback_job A version i)"
  by (auto simp: rollback_job_def intro!: frame_rules)

section \<open>The life of a job\<close>

definition settled :: "ml_job \<Rightarrow> bool" where
  "settled j \<longleftrightarrow> j_status j \<in> {''done'', ''failed''}"

abbreviation job_table :: "'ib admin \<Rightarrow> ml_job table" where
  "job_table s \<equiv> jobs (db (am_process s))"

text \<open>The threads belong to different jobs, which are known and not settled; the lock is held by the one
  thread that runs.\<close>

definition threads_ok :: "int list \<Rightarrow> ml_job table \<Rightarrow> bool" where
  "threads_ok ids T \<longleftrightarrow> distinct ids
     \<and> (\<forall>i \<in> set ids. i < next_id T \<and> (\<forall>j \<in> set (rows T). j_id j = i \<longrightarrow> \<not> settled j))"

definition thread_ids :: "'ib admin \<Rightarrow> int list" where
  "thread_ids s = map fst (am_queued s) @ map fst (am_running s)"

definition admin_inv :: "'ib admin \<Rightarrow> bool" where
  "admin_inv s \<longleftrightarrow> table_ok j_id (job_table s) \<and> threads_ok (thread_ids s) (job_table s)
     \<and> length (am_running s) \<le> 1 \<and> (am_locked s \<longleftrightarrow> am_running s \<noteq> [])"

text \<open>New rows do not concern the threads there are.\<close>

lemma threads_ok_grow:
  assumes "threads_ok ids T" and "next_id T \<le> next_id U"
    and "\<And>k. k \<in> set (rows U) \<Longrightarrow> j_id k < next_id T \<Longrightarrow> k \<in> set (rows T)"
  shows "threads_ok ids U"
  using assms unfolding threads_ok_def by (metis order_less_le_trans)

lemma threads_ok_new:
  assumes "table_ok j_id T" "threads_ok (xs @ ys) T" "rows U = rows T @ [j]" "j_id j = next_id T" "next_id U = next_id T + 1"
    and "\<not> settled j"
  shows "threads_ok (xs @ [next_id T] @ ys) U"
proof -
  have "threads_ok (xs @ ys) U" by (rule threads_ok_grow [OF assms(2)]) (use assms(3-5) in auto)
  moreover have "next_id T \<notin> set (xs @ ys)" using assms(2) by (force simp: threads_ok_def)
  moreover have "\<forall>k \<in> set (rows U). j_id k = next_id T \<longrightarrow> \<not> settled k"
    using assms(1,3,6) by (auto simp: table_ok_def)
  ultimately show ?thesis using assms(5) by (auto simp: threads_ok_def)
qed

text \<open>A change of the database that touches only the job \<open>i\<close>.\<close>

lemma jobs_view_rows:
  assumes "jobs_view i w = jobs_view i w'"
  shows "j_id j \<noteq> i \<Longrightarrow> j \<in> set (rows (jobs (db w))) \<longleftrightarrow> j \<in> set (rows (jobs (db w')))"
    and "table_ok j_id (jobs (db w)) \<longleftrightarrow> table_ok j_id (jobs (db w'))"
    and "next_id (jobs (db w)) = next_id (jobs (db w'))"
proof -
  from assms have f: "filter (\<lambda>j. j_id j \<noteq> i) (rows (jobs (db w))) = filter (\<lambda>j. j_id j \<noteq> i) (rows (jobs (db w')))"
    and m: "map j_id (rows (jobs (db w))) = map j_id (rows (jobs (db w')))"
    and n: "next_id (jobs (db w)) = next_id (jobs (db w'))"
    by (simp_all add: jobs_view_def)
  show "next_id (jobs (db w)) = next_id (jobs (db w'))" by (rule n)
  have keys: "table_ok j_id u \<longleftrightarrow> distinct (map j_id (rows u)) \<and> (\<forall>k \<in> set (map j_id (rows u)). k < next_id u)" for u
    by (auto simp: table_ok_def)
  show "table_ok j_id (jobs (db w)) \<longleftrightarrow> table_ok j_id (jobs (db w'))"
    unfolding keys m n ..
  show "j_id j \<noteq> i \<Longrightarrow> j \<in> set (rows (jobs (db w))) \<longleftrightarrow> j \<in> set (rows (jobs (db w')))"
    using arg_cong [OF f, of set] by auto
qed

lemma create_job_cases:
  assumes "create_job ty ps by_whom w = (r, u)"
  obtains (failed) e where "r = Inl e" "jobs (db u) = jobs (db w)"
    | (made) j where "r = Inr (next_id (jobs (db w)))" "j_id j = next_id (jobs (db w))" "j_status j = ''pending''"
        "rows (jobs (db u)) = rows (jobs (db w)) @ [j]" "next_id (jobs (db u)) = next_id (jobs (db w)) + 1"
proof (cases "db_up w (db_calls w)")
  case True
  with assms show ?thesis
    by (intro made [of "\<lparr>j_id = next_id (jobs (db w)), j_type = ty, j_status = ''pending'', j_started = clock w,
        j_finished = None, j_version = None, j_metrics = None, j_error = None, j_params = Some ps,
        j_requested_by = Some by_whom\<rparr>"])
      (auto simp: create_job_def bindM_def gets_def with_session_def insert_row_def Let_def)
next
  case False
  with assms failed show ?thesis
    by (auto simp: create_job_def bindM_def gets_def with_session_def insert_row_def Let_def)
qed

lemma table_ok_snoc: "table_ok j_id t \<Longrightarrow> rows u = rows t @ [j] \<Longrightarrow> j_id j = next_id t \<Longrightarrow> next_id u = next_id t + 1
    \<Longrightarrow> table_ok j_id u"
  by (fastforce simp: table_ok_def)

text \<open>One step keeps the invariant and every settled job.\<close>

definition keeps_settled :: "'ib admin \<Rightarrow> 'ib admin \<Rightarrow> bool" where
  "keeps_settled s t \<longleftrightarrow> (\<forall>j \<in> set (rows (job_table s)). settled j \<longrightarrow> j \<in> set (rows (job_table t)))"

lemma retrain_keeps:
  assumes inv: "admin_inv s" and run: "retrain_endpoint b rq s = (r, t)"
  shows "admin_inv t \<and> keeps_settled s t"
proof (cases "retrain_ok b \<and> \<not> am_locked s")
  case False
  then have "\<not> retrain_ok b \<or> am_locked s" by blast
  with run have "t = s"
    by (elim disjE) (simp_all add: retrain_endpoint_def raise_def bindM_def gets_def split: if_splits)
  with inv show ?thesis by (simp add: keeps_settled_def)
next
  case True
  obtain x w where c: "create_job ''retrain'' (retrain_params b) (get_client_ip rq) (am_process s) = (x, w)" by force
  from c show ?thesis
  proof (cases rule: create_job_cases)
    case (failed e)
    with run True c have "t = s\<lparr>am_process := w\<rparr>"
      by (auto simp: retrain_endpoint_def in_admin_def monad_defs)
    with inv failed show ?thesis by (simp add: admin_inv_def keeps_settled_def thread_ids_def)
  next
    case (made j)
    let ?i = "next_id (job_table s)"
    have t: "t = s\<lparr>am_process := w, am_queued := am_queued s @ [(?i, b)]\<rparr>"
      using run True c made by (auto simp: retrain_endpoint_def in_admin_def monad_defs)
    have inv': "table_ok j_id (job_table s)" "threads_ok (thread_ids s) (job_table s)"
      using inv by (simp_all add: admin_inv_def)
    have "\<not> settled j" using made by (simp add: settled_def)
    then have "threads_ok (thread_ids t) (jobs (db w))"
      using threads_ok_new [OF inv'(1) inv'(2) [unfolded thread_ids_def] made(4,2,5)] by (simp add: t thread_ids_def)
    moreover have "table_ok j_id (jobs (db w))" by (rule table_ok_snoc [OF inv'(1) made(4,2,5)])
    ultimately show ?thesis
      using inv made by (simp add: admin_inv_def keeps_settled_def t)
  qed
qed

text \<open>A step that ends the part of the job \<open>i\<close>, which is not settled, in the threads.\<close>

lemma leave_keeps:
  assumes inv: "admin_inv s" and i: "i \<in> set (thread_ids s)"
    and view: "jobs_view i (am_process t) = jobs_view i (am_process s)"
    and left: "distinct (thread_ids t)" "set (thread_ids t) \<subseteq> set (thread_ids s) - {i}"
    and lock: "length (am_running t) \<le> 1" "am_locked t \<longleftrightarrow> am_running t \<noteq> []"
  shows "admin_inv t \<and> keeps_settled s t"
proof
  note same = jobs_view_rows [OF view]
  have old: "threads_ok (thread_ids s) (job_table s)" using inv by (simp add: admin_inv_def)
  have "k < next_id (job_table t) \<and> (\<forall>j \<in> set (rows (job_table t)). j_id j = k \<longrightarrow> \<not> settled j)"
    if "k \<in> set (thread_ids t)" for k
  proof -
    from that left(2) have "k \<in> set (thread_ids s)" "k \<noteq> i" by auto
    with old same(1,3) show ?thesis unfolding threads_ok_def by metis
  qed
  then show "admin_inv t"
    using inv left(1) lock same(2) by (simp add: admin_inv_def threads_ok_def)
  show "keeps_settled s t"
    using old i same(1) unfolding threads_ok_def keeps_settled_def by metis
qed

lemma fst_remove1:
  assumes "distinct (map fst xs)" and "x \<in> set xs"
  shows "map fst (remove1 x xs) = remove1 (fst x) (map fst xs)"
  using assms by (induction xs) force+

lemma start_keeps:
  assumes inv: "admin_inv s" and job: "job \<in> set (am_queued s)" and run: "start_thread job s = (r, t)"
  shows "admin_inv t \<and> keeps_settled s t"
proof -
  have d: "distinct (map fst (am_queued s) @ map fst (am_running s))"
    using inv by (simp add: admin_inv_def threads_ok_def thread_ids_def)
  then have r: "map fst (remove1 job (am_queued s)) = remove1 (fst job) (map fst (am_queued s))"
    by (intro fst_remove1) (simp_all add: job)
  show ?thesis
  proof (cases "am_locked s")
    case False
    then have t: "t = s\<lparr>am_queued := remove1 job (am_queued s), am_locked := True, am_running := am_running s @ [job]\<rparr>"
      using run by (simp add: start_thread_def thenM_def bindM_def gets_def modifyM_def)
    have e: "am_running s = []" using False inv by (simp add: admin_inv_def)
    have "distinct (thread_ids t)" "set (thread_ids t) \<subseteq> set (thread_ids s)"
      using d job by (auto simp: thread_ids_def t r e)
    with inv e show ?thesis
      by (auto simp: admin_inv_def keeps_settled_def threads_ok_def t)
  next
    case True
    obtain x w where f: "finish_job (fst job) ''failed'' None None (Some ''Another retrain is already running.'') (am_process s) = (x, w)"
      by force
    have t: "t = s\<lparr>am_queued := remove1 job (am_queued s), am_process := w\<rparr>"
      using run True f by (simp add: start_thread_def thenM_def bindM_def gets_def modifyM_def in_admin_def)
    show ?thesis
    proof (rule leave_keeps [OF inv])
      show "fst job \<in> set (thread_ids s)" using job by (simp add: thread_ids_def)
      show "jobs_view (fst job) (am_process t) = jobs_view (fst job) (am_process s)"
        using frameD [OF frame_finish_job f] by (simp add: t)
      show "distinct (thread_ids t)" "set (thread_ids t) \<subseteq> set (thread_ids s) - {fst job}"
        using d job by (auto simp: thread_ids_def t r)
    qed (use inv in \<open>simp_all add: t admin_inv_def\<close>)
  qed
qed

lemma run_keeps:
  assumes inv: "admin_inv s" and job: "job \<in> set (am_running s)" and run: "run_thread A job s = (r, t)"
  shows "admin_inv t \<and> keeps_settled s t"
proof -
  obtain x w where b: "retrain_body A (fst job) (snd job) (am_process s) = (x, w)" by force
  have t: "t = s\<lparr>am_process := w, am_locked := False, am_running := remove1 job (am_running s)\<rparr>"
    using run b by (simp add: run_thread_def try_finally_def in_admin_def modifyM_def)
  have one: "am_running s = [job]"
    using inv job by (cases "am_running s") (auto simp: admin_inv_def)
  then have d: "distinct (map fst (am_queued s) @ [fst job])"
    using inv by (simp add: admin_inv_def threads_ok_def thread_ids_def)
  show ?thesis
    by (rule leave_keeps [OF inv, of "fst job"])
      (use one d frameD [OF frame_retrain_body b] in \<open>auto simp: t thread_ids_def\<close>)
qed

lemma rollback_keeps:
  assumes inv: "admin_inv s" and run: "in_admin (rollback_endpoint A version rq) s = (r, t)"
  shows "admin_inv t \<and> keeps_settled s t"
proof -
  obtain x u where c: "create_job ''rollback'' [(''version'', JStr version)] (get_client_ip rq) (am_process s) = (x, u)"
    by force
  let ?n = "next_id (job_table s)"
  have end_in: "\<exists>w. t = s\<lparr>am_process := w\<rparr> \<and> (w = am_process s \<or> jobs (db w) = jobs (db u) \<and> x \<noteq> Inr ?n
      \<or> x = Inr ?n \<and> jobs_view ?n w = jobs_view ?n u)"
  proof (cases "length version < 1 \<or> length version > 40")
    case True
    with run show ?thesis
      by (intro exI [of _ "am_process s"]) (auto simp: in_admin_def rollback_endpoint_def raise_def split: prod.splits)
  next
    case False
    obtain y w where e: "rollback_endpoint A version rq (am_process s) = (y, w)" by force
    from c show ?thesis
    proof (cases rule: create_job_cases)
      case (failed e)
      with \<open>rollback_endpoint A version rq (am_process s) = (y, w)\<close> c False have "w = u"
        by (simp add: rollback_endpoint_def bindM_def)
      with failed run e show ?thesis by (auto simp: in_admin_def)
    next
      case (made j)
      with e c False have "rollback_job A version ?n u = (y, w)" by (simp add: rollback_endpoint_def bindM_def)
      from frameD [OF frame_rollback_job this] made run e show ?thesis by (auto simp: in_admin_def)
    qed
  qed
  have inv': "table_ok j_id (job_table s)" "threads_ok (thread_ids s) (job_table s)"
    using inv by (simp_all add: admin_inv_def)
  from c show ?thesis
  proof (cases rule: create_job_cases)
    case (failed e)
    with end_in inv show ?thesis by (auto simp: admin_inv_def keeps_settled_def thread_ids_def)
  next
    case (made j)
    with end_in obtain w where t: "t = s\<lparr>am_process := w\<rparr>" and w: "w = am_process s \<or> jobs_view ?n w = jobs_view ?n u"
      by auto
    from w show ?thesis
    proof
      assume "w = am_process s" with inv t show ?thesis by (simp add: keeps_settled_def)
    next
      assume "jobs_view ?n w = jobs_view ?n u"
      note same = jobs_view_rows [OF this]
      have rows: "k \<in> set (rows (jobs (db w))) \<longleftrightarrow> k \<in> set (rows (job_table s))" if "j_id k \<noteq> ?n" for k
        using same(1) [OF that] made(2,4) that by auto
      have "threads_ok (thread_ids s) (jobs (db w))"
        by (rule threads_ok_grow [OF inv'(2)]) (use rows same(3) made(5) in auto)
      moreover have "table_ok j_id (jobs (db w))"
        using same(2) table_ok_snoc [OF inv'(1) made(4,2,5)] by simp
      moreover have "j_id k \<noteq> ?n" if "k \<in> set (rows (job_table s))" for k
        using inv'(1) that by (auto simp: table_ok_def)
      ultimately show ?thesis
        using inv rows by (simp add: admin_inv_def keeps_settled_def thread_ids_def t)
    qed
  qed
qed

theorem admin_step_keeps: "admin_step A s t \<Longrightarrow> admin_inv s \<Longrightarrow> admin_inv t \<and> keeps_settled s t"
  by (erule admin_stepE) (blast dest: retrain_keeps rollback_keeps start_keeps run_keeps)+

section \<open>A training job ends\<close>

text \<open>What training depends on: the database and whether it answers, the manifest and the saved models.\<close>

definition shelf :: "'ib world \<Rightarrow> db \<times> (nat \<Rightarrow> bool) \<times> manifest_file \<times> string list" where
  "shelf w = (db w, db_up w, manifest w, model_files w)"

lemma shelf_frames:
  "frame trading_state m \<Longrightarrow> frame shelf m" "frame book m \<Longrightarrow> frame shelf m"
  by (erule frame_of_state, simp add: trading_state_def shelf_def) (erule frame_of_book, simp add: book_def shelf_def)

lemma frame_shelf_setting_or: "frame shelf (setting_or key dflt parse fb v)"
  by (auto simp: setting_or_def intro!: frame_rules shelf_frames(1) [OF str_setting.state_frame] split: option.split)

lemma frame_shelf_fetch_bars: "frame shelf (fetch_bars api fresh symbol n)"
proof -
  have "frame shelf (new_connection fresh)" for fresh :: 'b
    unfolding new_connection_def by (rule frame_modifyM) (simp add: shelf_def)
  moreover have "frame shelf (connect api c)" "frame shelf (fetch_intraday_bars api c symbol n sz)" "frame shelf (disconnect api)" for c sz
    by (auto intro!: shelf_frames(2) frame_rules)
  ultimately show ?thesis by (auto simp: fetch_bars_def Let_def intro!: frame_rules split: option.split)
qed

lemma setting_or_returns [returns_rules]: "never_raises (setting_or key dflt parse fb v)"
  by (auto simp: setting_or_def intro!: returns_rules)

lemma fetch_bars_returns [returns_rules]: "never_raises (fetch_bars api fresh symbol n)"
  by (auto simp: fetch_bars_def Let_def intro!: returns_rules)

lemma reload_model_returns [returns_rules]: "never_raises (reload_model lgb)"
  by (auto simp: reload_model_def intro!: returns_rules)

lemma shelf_step:
  assumes "never_raises m" and "frame shelf m"
  obtains x u where "m w = (Inr x, u)" and "shelf u = shelf w"
  using assms by (metis never_raisesE frameD)

lemma current_of_manifest: "manifest u = manifest w \<Longrightarrow> fst (get_current_version u) = fst (get_current_version w)
    \<and> snd (get_current_version u) = u"
  by (auto simp: get_current_version_def load_manifest_def monad_defs split: manifest_file.split json.split)

text \<open>The job is known and the database answers; the job has ended, with the version it made current.\<close>

definition job_known :: "int \<Rightarrow> 'ib world \<Rightarrow> bool" where
  "job_known i w \<longleftrightarrow> db_reliable w \<and> lookup_row j_id i (jobs (db w)) \<noteq> None"

definition job_ended :: "int \<Rightarrow> 'ib world \<Rightarrow> bool" where
  "job_ended i w \<longleftrightarrow> (\<exists>j. lookup_row j_id i (jobs (db w)) = Some j \<and> settled j \<and> j_finished j \<noteq> None
     \<and> (j_status j = ''done'' \<longrightarrow> (\<exists>v. j_version j = Some v \<and> get_current_version w = (Inr (JStr v), w))))"

lemma job_known_shelf: "shelf u = shelf w \<Longrightarrow> job_known i u \<longleftrightarrow> job_known i w"
  by (simp add: job_known_def db_reliable_def shelf_def)

lemma finish_known:
  assumes "job_known i w" and "st \<in> {''done'', ''failed''}"
    and "st = ''done'' \<Longrightarrow> \<exists>v. version = Some v \<and> fst (get_current_version w) = Inr (JStr v)"
  obtains u where "finish_job i st version metrics err w = (Inr (), u)" and "job_ended i u" and "manifest u = manifest w"
    and "db_up u = db_up w"
proof -
  obtain j where j: "lookup_row j_id i (jobs (db w)) = Some j" and up: "db_up w (db_calls w)"
    using assms(1) by (auto simp: job_known_def db_reliable_def)
  let ?f = "finished st version metrics err (clock w)"
  let ?u = "w\<lparr>db_calls := Suc (db_calls w), db := (db w)\<lparr>jobs := update_row j_id i ?f (jobs (db w))\<rparr>\<rparr>"
  have "finish_job i st version metrics err w = (Inr (), ?u)"
    using up by (simp add: finish_job_def bindM_def gets_def execute_update_apply)
  moreover have "j_id (?f k) = j_id k" for k by (simp add: finished_def)
  from job_tab.lookup_update [OF this, where t = "jobs (db w)" and i = i and j = i] j
  have "lookup_row j_id i (jobs (db ?u)) = Some (?f j)" by simp
  moreover have "get_current_version ?u = (fst (get_current_version w), ?u)"
    using current_of_manifest [of ?u w] by (simp add: prod_eq_iff)
  ultimately show ?thesis
    using assms(2,3) that [of ?u] by (auto simp: job_ended_def settled_def finished_def)
qed

lemma mark_running_known:
  assumes "job_known i w"
  obtains u where "mark_running i w = (Inr (), u)" and "job_known i u" and "manifest u = manifest w"
    and "db_up u = db_up w"
proof -
  let ?f = "\<lambda>j. j\<lparr>j_status := ''running''\<rparr>"
  let ?u = "w\<lparr>db_calls := Suc (db_calls w), db := (db w)\<lparr>jobs := update_row j_id i ?f (jobs (db w))\<rparr>\<rparr>"
  have "mark_running i w = (Inr (), ?u)"
    using assms by (simp add: mark_running_def execute_update_apply job_known_def db_reliable_def)
  moreover have "job_known i ?u"
    using assms job_tab.lookup_update [of ?f, where t = "jobs (db w)" and i = i and j = i]
    by (auto simp: job_known_def db_reliable_def)
  ultimately show ?thesis using that [of ?u] by simp
qed

text \<open>A model that has just been registered is the first one listed, with its metrics.\<close>

lemma list_versions_after_register:
  assumes "manifest w = Doc (JObj d)" and "manifest_ok d" and "versions_of d \<noteq> []"
    and "last (versions_of d) = version_entry v n m now"
  obtains vs where "list_versions w = (Inr vs, w)" and "metrics_of_version vs v = Inr m"
proof -
  have "load_manifest w = (Inr d, w)"
    using assms(1,2) by (auto simp: load_manifest_def bindM_def gets_def ret_def manifest_ok_def dict_get_def)
  then have "list_versions w = (Inr (rev (versions_of d)), w)"
    by (simp add: list_versions_def bindM_def ret_def)
  moreover have head: "metrics_of_version (version_entry v n m now # vs) v = Inr m" for vs
    by (simp add: version_entry_def dict_get_def obj_get_def)
  have "versions_of d = butlast (versions_of d) @ [version_entry v n m now]"
    using append_butlast_last_id [OF assms(3)] assms(4) by simp
  then have "rev (versions_of d) = version_entry v n m now # rev (butlast (versions_of d))"
    by (metis rev_eq_Cons_iff rev_rev_ident)
  with head have "metrics_of_version (rev (versions_of d)) v = Inr m" by metis
  ultimately show ?thesis by (rule that)
qed

lemma trained_ends:
  assumes known: "job_known i w" and ok: "file_ok (manifest w)"
    and tr: "train T ta df fb l s rounds ov version w = (r, w1)"
  shows "case r of Inl e \<Rightarrow> w1 = w
    | Inr v \<Rightarrow> job_known i w1 \<and> db_up w1 = db_up w \<and> file_ok (manifest w1) \<and> fst (get_current_version w1) = Inr (JStr v)
        \<and> (\<exists>vs m. list_versions w1 = (Inr vs, w1) \<and> metrics_of_version vs v = Inr m)"
proof (cases r)
  case (Inl e)
  with training_steps [OF ok tr] show ?thesis by simp
next
  case (Inr v)
  let ?w = "w\<lparr>model_files := model_files w @ [model_file (JStr v)]\<rparr>"
  obtain n m where reg: "register_version v n m True ?w = (Inr (), w1)"
    using training_steps [OF ok tr] Inr by auto
  from ok have ok': "file_ok (manifest ?w)" by simp
  obtain d where w1: "w1 = ?w\<lparr>manifest := Doc (JObj d)\<rparr>" and d: "manifest_ok d"
      "find_in_manifest d (JStr v) = Inr (Some (JStr v))" "last (versions_of d) = version_entry v n m (clock w)"
    using register_result [OF ok', of v n m True] reg by auto
  have "versions_of d \<noteq> []" using d(2) by (auto simp: find_in_manifest_def)
  then obtain vs where "list_versions w1 = (Inr vs, w1)" "metrics_of_version vs v = Inr m"
    using d w1 by (elim list_versions_after_register [rotated -1]) simp_all
  moreover have "job_known i w1" using known w1 by (simp add: job_known_def db_reliable_def)
  moreover have "fst (get_current_version w1) = Inr (JStr v)"
    using register_current [OF ok', of v n m] reg by auto
  moreover have "file_ok (manifest w1)" "db_up w1 = db_up w" using d(1) w1 by (simp_all add: file_ok_def)
  ultimately show ?thesis using Inr by auto
qed

lemma retrain_body_ends:
  assumes known: "job_known i w" and ok: "file_ok (manifest w)"
  obtains u where "retrain_body A i req w = (Inr (), u)" and "job_ended i u" and "db_up u = db_up w"
    and "file_ok (manifest u)"
proof -
  obtain w1 where m1: "mark_running i w = (Inr (), w1)" "job_known i w1" "manifest w1 = manifest w" "db_up w1 = db_up w"
    using known by (rule mark_running_known)
  note read = shelf_step [OF setting_or_returns frame_shelf_setting_or]
  obtain fb w2 where r2: "setting_or ''ML_FORWARD_BARS'' ''6'' parse_int 6 (rr_forward_bars req) w1 = (Inr fb, w2)"
    "shelf w2 = shelf w1" by (rule read)
  obtain l w3 where r3: "setting_or ''ML_LONG_THRESHOLD_PCT'' ''0.3'' parse_float (Fin 0.3) (rr_long_pct req) w2 = (Inr l, w3)"
    "shelf w3 = shelf w2" by (rule read)
  obtain s w4 where r4: "setting_or ''ML_SHORT_THRESHOLD_PCT'' ''0.3'' parse_float (Fin 0.3) (rr_short_pct req) w3 = (Inr s, w4)"
    "shelf w4 = shelf w3" by (rule read)
  obtain bars w5 where r5: "fetch_training_bars (ad_api A) (ad_fresh A) (rr_symbol req) (rr_n_bars req) w4 = (Inr bars, w5)"
    "shelf w5 = shelf w4"
    unfolding fetch_training_bars_def by (rule shelf_step [OF fetch_bars_returns frame_shelf_fetch_bars])
  have s5: "shelf w5 = shelf w1" using r2 r3 r4 r5 by simp
  have k5: "job_known i w5" using m1(2) job_known_shelf [OF s5] by simp
  have ok5: "file_ok (manifest w5)" and up5: "db_up w5 = db_up w" using ok m1(3,4) s5 by (simp_all add: shelf_def)
  note reads = m1(1) r2(1) r3(1) r4(1) r5(1) and result = that
  have failed: thesis if body: "retrain_body A i req w = finish_job i ''failed'' None None (Some e) w5" for e
  proof -
    obtain u where "finish_job i ''failed'' None None (Some e) w5 = (Inr (), u)" "job_ended i u"
      "manifest u = manifest w5" "db_up u = db_up w5"
      using finish_known [OF k5, of "''failed''" None None "Some e"] by auto
    with body ok5 up5 show thesis by (intro result [of u]) simp_all
  qed
  show thesis
  proof (cases "case bars of Some df \<Rightarrow> if nrows df < 500 then None else Some df | None \<Rightarrow> None")
    case None
    then show thesis by (intro failed) (simp add: retrain_body_def thenM_def bindM_def reads)
  next
    case (Some df)
    let ?train = "train (ad_trainer A) (ad_ta A) df fb l s num_boost_round [] None"
    obtain r w6 where tr: "?train w5 = (r, w6)" by force
    note out = trained_ends [OF k5 ok5 tr]
    show thesis
    proof (cases r)
      case (Inl e)
      with Some out tr show thesis
        by (intro failed [of "ad_msg A e"]) (simp add: retrain_body_def thenM_def bindM_def try_except_def ret_def reads)
    next
      case (Inr v)
      with out obtain vs m where v: "job_known i w6" "db_up w6 = db_up w5" "file_ok (manifest w6)" "fst (get_current_version w6) = Inr (JStr v)"
        "list_versions w6 = (Inr vs, w6)" "metrics_of_version vs v = Inr m" by auto
      obtain w7 where f: "finish_job i ''done'' (Some v) (Some m) None w6 = (Inr (), w7)" "job_ended i w7"
          "manifest w7 = manifest w6" "db_up w7 = db_up w6"
        using finish_known [OF v(1), of "''done''" "Some v" "Some m" None] v(4) by auto
      obtain b u where re: "reload_model (ad_lgb A) w7 = (Inr b, u)" using reload_model_returns by (rule never_raisesE)
      have same: "db u = db w7" "manifest u = manifest w7" "db_up u = db_up w7"
        using frameD [OF frame_db_reload_model re] frameD [OF frame_reload(1) re] frameD [OF frame_reload(2) re]
        by simp_all
      with f(2) current_of_manifest [of u w7] have "job_ended i u"
        by (auto simp: job_ended_def prod_eq_iff)
      moreover have "retrain_body A i req w = (Inr (), u)"
        using Some tr Inr v(5,6) f(1) re
        by (simp add: retrain_body_def thenM_def bindM_def try_except_def ret_def liftR_def reads)
      ultimately show thesis using same v(2,3) f(3,4) up5 by (intro that [of u]) simp_all
    qed
  qed
qed

section \<open>The threads finish\<close>

text \<open>One step of a thread, and the number of such steps the threads have left at most.\<close>

definition thread_step :: "'ib admin_env \<Rightarrow> 'ib admin \<Rightarrow> 'ib admin \<Rightarrow> bool" where
  "thread_step A s t \<longleftrightarrow> (\<exists>job r. job \<in> set (am_queued s) \<and> start_thread job s = (r, t)
     \<or> job \<in> set (am_running s) \<and> run_thread A job s = (r, t))"

definition work :: "'ib admin \<Rightarrow> nat" where
  "work s = 2 * length (am_queued s) + length (am_running s)"

definition job_done :: "int \<Rightarrow> 'ib admin \<Rightarrow> bool" where
  "job_done i s \<longleftrightarrow> (\<exists>j \<in> set (rows (job_table s)). j_id j = i \<and> settled j)"

text \<open>The threads' jobs are in the table, the database answers and the manifest is well-formed.\<close>

definition admin_sound :: "'ib admin \<Rightarrow> bool" where
  "admin_sound s \<longleftrightarrow> admin_inv s \<and> db_reliable (am_process s) \<and> file_ok (manifest (am_process s))
     \<and> set (thread_ids s) \<subseteq> j_id ` set (rows (job_table s))"

lemma sound_known:
  assumes "admin_sound s" and "i \<in> set (thread_ids s)"
  shows "job_known i (am_process s)"
  using assms by (auto simp: admin_sound_def job_known_def lookup_row_def find_None_iff)

lemma keeps_settled_done: "keeps_settled s t \<Longrightarrow> job_done i s \<Longrightarrow> job_done i t"
  by (auto simp: keeps_settled_def job_done_def)

lemma job_ended_done: "job_ended i (am_process s) \<Longrightarrow> job_done i s"
  by (auto simp: job_ended_def job_done_def lookup_row_def find_Some_iff)

lemma jobs_view_keys: "jobs_view i w = jobs_view i w' \<Longrightarrow> j_id ` set (rows (jobs (db w))) = j_id ` set (rows (jobs (db w')))"
  unfolding jobs_view_def by (drule arg_cong [of _ _ "\<lambda>v. set (fst (snd v))"]) simp

lemma start_progress:
  assumes sound: "admin_sound s" and job: "job \<in> set (am_queued s)" and run: "start_thread job s = (r, t)"
  shows "admin_sound t \<and> work t < work s
    \<and> (\<forall>i. i \<in> set (thread_ids s) \<or> job_done i s \<longrightarrow> i \<in> set (thread_ids t) \<or> job_done i t)"
proof -
  have inv: "admin_inv t" "keeps_settled s t"
    using start_keeps [OF _ job run] sound by (simp_all add: admin_sound_def)
  obtain xs ys where split: "am_queued s = xs @ job # ys" "remove1 job (am_queued s) = xs @ ys"
    using job remove1_split [of job "am_queued s" "remove1 job (am_queued s)"] by auto
  then have q: "length (am_queued s) = Suc (length (xs @ ys))" by simp
  show ?thesis
  proof (cases "am_locked s")
    case False
    then have t: "t = s\<lparr>am_queued := xs @ ys, am_locked := True, am_running := am_running s @ [job]\<rparr>"
      using run by (simp add: start_thread_def thenM_def bindM_def gets_def modifyM_def split(2))
    have "set (thread_ids t) \<subseteq> set (thread_ids s)" "set (thread_ids s) \<subseteq> set (thread_ids t)"
      by (auto simp: thread_ids_def t split(1))
    with sound inv q show ?thesis
      by (auto simp: admin_sound_def work_def t intro: keeps_settled_done)
  next
    case True
    have "job_known (fst job) (am_process s)"
      using sound job by (intro sound_known) (simp_all add: thread_ids_def)
    then obtain w where f: "finish_job (fst job) ''failed'' None None (Some ''Another retrain is already running.'') (am_process s) = (Inr (), w)"
      "job_ended (fst job) w" "manifest w = manifest (am_process s)" "db_up w = db_up (am_process s)"
      using finish_known [of "fst job" "am_process s" "''failed''" None None "Some ''Another retrain is already running.''"]
      by auto
    have t: "t = s\<lparr>am_queued := xs @ ys, am_process := w\<rparr>"
      using run True f(1) by (simp add: start_thread_def thenM_def bindM_def gets_def modifyM_def in_admin_def split(2))
    have keys: "j_id ` set (rows (job_table t)) = j_id ` set (rows (job_table s))"
      using frameD [OF frame_finish_job f(1)] by (intro jobs_view_keys) (simp add: t)
    have "set (thread_ids t) \<subseteq> set (thread_ids s)" "set (thread_ids s) \<subseteq> insert (fst job) (set (thread_ids t))"
      by (auto simp: thread_ids_def t split(1))
    moreover have "job_done (fst job) t" using f(2) by (intro job_ended_done) (simp add: t)
    ultimately show ?thesis
      using sound inv q keys f(3,4) keeps_settled_done [OF inv(2)]
      by (auto simp: admin_sound_def work_def db_reliable_def t)
  qed
qed

lemma run_progress:
  assumes sound: "admin_sound s" and job: "job \<in> set (am_running s)" and run: "run_thread A job s = (r, t)"
  shows "admin_sound t \<and> work t < work s
    \<and> (\<forall>i. i \<in> set (thread_ids s) \<or> job_done i s \<longrightarrow> i \<in> set (thread_ids t) \<or> job_done i t)"
proof -
  have inv: "admin_inv t" "keeps_settled s t"
    using run_keeps [OF _ job run] sound by (simp_all add: admin_sound_def)
  have "job_known (fst job) (am_process s)"
    using sound job by (intro sound_known) (simp_all add: thread_ids_def)
  moreover have "file_ok (manifest (am_process s))" using sound by (simp add: admin_sound_def)
  ultimately obtain w where b: "retrain_body A (fst job) (snd job) (am_process s) = (Inr (), w)"
    "job_ended (fst job) w" "db_up w = db_up (am_process s)" "file_ok (manifest w)"
    by (rule retrain_body_ends)
  have t: "t = s\<lparr>am_process := w, am_locked := False, am_running := remove1 job (am_running s)\<rparr>"
    using run b(1) by (simp add: run_thread_def try_finally_def in_admin_def modifyM_def)
  have one: "am_running s = [job]"
    using sound job by (cases "am_running s") (auto simp: admin_sound_def admin_inv_def)
  have keys: "j_id ` set (rows (job_table t)) = j_id ` set (rows (job_table s))"
    using frameD [OF frame_retrain_body b(1)] by (intro jobs_view_keys) (simp add: t)
  have "job_done (fst job) t" using b(2) by (intro job_ended_done) (simp add: t)
  moreover have "set (thread_ids s) = insert (fst job) (set (thread_ids t))"
    by (auto simp: thread_ids_def t one)
  ultimately show ?thesis
    using sound inv keys b(3,4) keeps_settled_done [OF inv(2)]
    by (auto simp: admin_sound_def work_def db_reliable_def t one)
qed

lemma thread_step_progress:
  assumes "thread_step A s t" and "admin_sound s"
  shows "admin_sound t \<and> work t < work s
    \<and> (\<forall>i. i \<in> set (thread_ids s) \<or> job_done i s \<longrightarrow> i \<in> set (thread_ids t) \<or> job_done i t)"
  using assms start_progress run_progress unfolding thread_step_def by blast

lemma thread_steps_progress:
  assumes "(thread_step A ^^ n) s t" and "admin_sound s"
  shows "admin_sound t \<and> work t + n \<le> work s
    \<and> (\<forall>i. i \<in> set (thread_ids s) \<longrightarrow> i \<in> set (thread_ids t) \<or> job_done i t)"
  using assms
proof (induction n arbitrary: t)
  case (Suc n)
  then obtain u where u: "(thread_step A ^^ n) s u" "thread_step A u t" by auto
  from Suc.IH [OF u(1) Suc.prems(2)] thread_step_progress [OF u(2)] show ?case by fastforce
qed simp

lemma no_thread_step: "\<not> (\<exists>u. thread_step A s u) \<Longrightarrow> am_queued s = [] \<and> am_running s = []"
  unfolding thread_step_def by (metis list.set_intros(1) neq_Nil_conv surj_pair)

section \<open>Properties\<close>

text \<open>C7: however retrain requests, rollbacks and training threads interleave, and however often the database
  fails, a job that has ended as done or failed is never changed again, and no two trainings run at the
  same time.\<close>

theorem settled_job_final:
  assumes "(admin_step A)\<^sup>*\<^sup>* (boot_admin w) s" and "table_ok j_id (jobs (db w))"
    and "(admin_step A)\<^sup>*\<^sup>* s t" and "lookup_row j_id i (job_table s) = Some j" and "settled j"
  shows "lookup_row j_id i (job_table t) = Some j \<and> length (am_running t) \<le> 1"
proof -
  have boot: "admin_inv (boot_admin w)"
    using assms(2) by (simp add: admin_inv_def boot_admin_def threads_ok_def thread_ids_def)
  have keeps: "admin_inv v \<and> keeps_settled u v" if "(admin_step A)\<^sup>*\<^sup>* u v" "admin_inv u" for u v
    using that by (induction rule: rtranclp_induct) (auto simp: keeps_settled_def dest: admin_step_keeps)
  have s: "admin_inv s" using keeps [OF assms(1) boot] ..
  note t = keeps [OF assms(3) s]
  from s assms(4) have "j \<in> set (rows (job_table s))" "j_id j = i"
    using job_tab.lookup_iff_member [of "job_table s" i j] by (auto simp: admin_inv_def)
  with t assms(5) show ?thesis
    using job_tab.lookup_iff_member [of "job_table t" i j] by (auto simp: admin_inv_def keeps_settled_def)
qed


definition demo_job :: "int \<Rightarrow> string \<Rightarrow> ml_job" where
  "demo_job i st = \<lparr>j_id = i, j_type = ''retrain'', j_status = st, j_started = 0, j_finished = None, j_version = None,
     j_metrics = None, j_error = None, j_params = None, j_requested_by = None\<rparr>"

definition jobs_world :: "ml_job list \<Rightarrow> unit world" where
  "jobs_world js = (boot_world ())\<lparr>db := empty_db\<lparr>jobs := \<lparr>rows = js, next_id = 9\<rparr>\<rparr>\<rparr>"

definition demo_request :: retrain_request where
  "demo_request = \<lparr>rr_symbol = ''AAPL'', rr_n_bars = 5000, rr_forward_bars = None, rr_long_pct = None, rr_short_pct = None\<rparr>"

definition queued_admin :: "unit admin" where
  "queued_admin = (boot_admin (jobs_world [demo_job 2 ''pending'']))\<lparr>am_queued := [(2, demo_request)]\<rparr>"

lemma settled_job_final_witness:
  "lookup_row j_id 1 (job_table (snd (retrain_endpoint demo_request (peer ''::1'')
     (boot_admin (jobs_world [demo_job 1 ''failed'']))))) = Some (demo_job 1 ''failed'')"
proof -
  let ?s = "boot_admin (jobs_world [demo_job 1 ''failed''])"
  obtain r t where run: "retrain_endpoint demo_request (peer ''::1'') ?s = (r, t)" by force
  have ok: "table_ok j_id (jobs (db (jobs_world [demo_job 1 ''failed''])))" "settled (demo_job 1 ''failed'')"
    "lookup_row j_id 1 (job_table ?s) = Some (demo_job 1 ''failed'')"
    by (simp_all add: table_ok_def jobs_world_def demo_job_def settled_def lookup_row_def boot_admin_def)
  have "admin_step A ?s t" for A :: "unit admin_env" using run by (rule admin_step.retrain)
  then have "(admin_step A)\<^sup>*\<^sup>* ?s t" for A :: "unit admin_env" by (rule r_into_rtranclp)
  from settled_job_final [OF rtranclp.rtrancl_refl ok(1) this ok(3,2)] run show ?thesis by simp
qed


end
