(* ===== verification/Web_Logs.thy ===== *)
theory Web_Logs
  imports Web_Routes
begin

text \<open>
  The live log stream, \<open>web/api/logs_stream.py\<close>: the single-use stream tokens and the generator of the
  events.  The generator is run with what the other processes do to the database before each of its
  polls, up to the poll at which the client has gone; \<open>dumps\<close> is \<open>json.dumps\<close>.
\<close>

section \<open>Stream tokens\<close>

definition token_ttl_ms :: int where
  "token_ttl_ms = 60000"

definition token_max_entries :: nat where
  "token_max_entries = 500"

type_synonym token_store = "(string \<times> stream_token) list"

definition purge_expired :: "int \<Rightarrow> token_store \<Rightarrow> token_store" where
  "purge_expired now ts = filter (\<lambda>(_, t). \<not> now - k_created t > token_ttl_ms) ts"

definition pop_token :: "string \<Rightarrow> token_store \<Rightarrow> token_store" where
  "pop_token k ts = filter (\<lambda>(j, _). j \<noteq> k) ts"

definition put_token :: "string \<Rightarrow> stream_token \<Rightarrow> token_store \<Rightarrow> token_store" where
  "put_token k t ts = (if k \<in> fst ` set ts then map (\<lambda>(j, u). if j = k then (j, t) else (j, u)) ts else ts @ [(k, t)])"

text \<open>\<open>min(values, key=created_at)\<close>: the first of the oldest ones.\<close>

fun oldest :: "stream_token \<Rightarrow> stream_token list \<Rightarrow> stream_token" where
  "oldest t [] = t"
| "oldest t (u # us) = (if k_created u < k_created t then oldest u us else oldest t us)"

definition evict :: "token_store \<Rightarrow> token_store" where
  "evict ts = (case map snd ts of
      [] \<Rightarrow> ts
    | t # us \<Rightarrow> if length ts \<ge> token_max_entries then pop_token (k_token (oldest t us)) ts else ts)"

definition issue_token :: "string \<Rightarrow> ('ib web, string) M" where
  "issue_token ip = bindM (gets (\<lambda>s. (clock (web_process s), random_source s (random_drawn s)))) (\<lambda>(now, tok).
     thenM (modifyM (\<lambda>s. s\<lparr>random_drawn := Suc (random_drawn s), stream_tokens := put_token tok
              \<lparr>k_token = tok, k_ip = ip, k_created = now\<rparr> (evict (purge_expired now (stream_tokens s)))\<rparr>))
           (ret tok))"

definition consume_token :: "string \<Rightarrow> string \<Rightarrow> ('ib web, bool) M" where
  "consume_token tok ip = bindM (gets (\<lambda>s. (clock (web_process s),
        map_of (purge_expired (clock (web_process s)) (stream_tokens s)) tok))) (\<lambda>(now, entry).
     thenM (modifyM (\<lambda>s. s\<lparr>stream_tokens := pop_token tok (purge_expired now (stream_tokens s))\<rparr>))
       (ret (case entry of
          None \<Rightarrow> False
        | Some t \<Rightarrow> k_ip t = ip \<and> \<not> now - k_created t > token_ttl_ms)))"

definition stream_token_endpoint :: "http_request \<Rightarrow> ('ib web, json) M" where
  "stream_token_endpoint rq = bindM (issue_token (get_client_ip rq)) (\<lambda>tok.
     ret (JObj [(''stream_token'', JStr tok), (''expires_in'', JInt 60)]))"

section \<open>Events\<close>

datatype sse_event = Entry int json | Failure | Heartbeat

text \<open>The text of an event.\<close>

definition newline :: string where
  "newline = [CHR 0x0A]"

fun event_text :: "(json \<Rightarrow> string) \<Rightarrow> sse_event \<Rightarrow> string" where
  "event_text dumps (Entry i payload) = ''id: '' @ show_int i @ newline @ ''data: '' @ dumps payload @ newline @ newline"
| "event_text dumps Failure = ''event: error'' @ newline @ ''data: ''
     @ dumps (JObj [(''error'', JStr ''Internal error fetching logs.'')]) @ newline @ newline"
| "event_text dumps Heartbeat = '': heartbeat'' @ newline @ newline"

section \<open>The generator\<close>

record 'ib sse =
  sse_process :: "'ib world"
  last_id :: int
  last_heartbeat :: int
  sent :: "sse_event list"

record sse_env =
  sv_category :: "string option"
  sv_level :: "string option"
  sv_detached :: "log_entry \<Rightarrow> log_entry res"
  sv_tstr :: "int \<Rightarrow> string"

definition in_sse :: "('ib world, 'a) M \<Rightarrow> ('ib sse, 'a) M" where
  "in_sse m = (\<lambda>s. case m (sse_process s) of (r, w) \<Rightarrow> (r, s\<lparr>sse_process := w\<rparr>))"

definition yield_event :: "sse_event \<Rightarrow> ('ib sse, unit) M" where
  "yield_event e = modifyM (\<lambda>s. s\<lparr>sent := sent s @ [e]\<rparr>)"

definition wanted :: "sse_env \<Rightarrow> log_entry \<Rightarrow> bool" where
  "wanted V r \<longleftrightarrow> matches (sv_category V) (l_category r) \<and> matches (map_option py_upper (sv_level V)) (l_level r)"

text \<open>The rows of the first page are the latest 50 in ascending order; a poll reads the next 200.\<close>

definition first_page :: "sse_env \<Rightarrow> db \<Rightarrow> log_entry list" where
  "first_page V d = rev (take 50 (latest_first l_id (filter (wanted V) (rows (log_entries d)))))"

definition next_page :: "sse_env \<Rightarrow> int \<Rightarrow> db \<Rightarrow> log_entry list" where
  "next_page V i d = take 200 (sort_key l_id (filter (\<lambda>r. wanted V r \<and> l_id r > i) (rows (log_entries d))))"

text \<open>A row is read after its session has ended; \<open>upd\<close> is how its number enters \<open>last_id\<close>.\<close>

definition send_rows :: "sse_env \<Rightarrow> (int \<Rightarrow> int \<Rightarrow> int) \<Rightarrow> log_entry list \<Rightarrow> ('ib sse, unit) M" where
  "send_rows V upd rs = for_each rs (\<lambda>r. bindM (liftR (sv_detached V r)) (\<lambda>r.
     thenM (modifyM (\<lambda>s. s\<lparr>last_id := upd (last_id s) (l_id r)\<rparr>))
       (yield_event (Entry (l_id r) (log_to_dict (sv_tstr V) r)))))"

text \<open>The handler of both blocks: \<open>log.exception(..)\<close>, then the event.\<close>

definition report_failure :: "('ib sse, unit) M" where
  "report_failure = thenM (call_logger ''exception'') (yield_event Failure)"

definition initial_sync :: "sse_env \<Rightarrow> ('ib sse, unit) M" where
  "initial_sync V = try_except (bindM (in_sse (query (first_page V))) (send_rows V max)) any_exception (\<lambda>_. report_failure)"

definition heartbeat :: "('ib sse, unit) M" where
  "heartbeat = bindM (gets (\<lambda>s. clock (sse_process s))) (\<lambda>now. bindM (gets last_heartbeat) (\<lambda>before.
     if now - before > 15000
     then thenM (yield_event Heartbeat) (modifyM (\<lambda>s. s\<lparr>last_heartbeat := now\<rparr>)) else ret ()))"

definition poll_round :: "sse_env \<Rightarrow> ('ib sse, unit) M" where
  "poll_round V = thenM (try_except (bindM (gets last_id) (\<lambda>i.
        bindM (in_sse (query (next_page V i))) (send_rows V (\<lambda>_ i. i)))) any_exception (\<lambda>_. report_failure))
     (thenM heartbeat (in_sse (sleep 1000)))"

text \<open>One poll per element: what the others do to the database before it.\<close>

fun polls :: "sse_env \<Rightarrow> (db \<Rightarrow> db) list \<Rightarrow> ('ib sse, unit) M" where
  "polls V [] = ret ()"
| "polls V (e # es) = thenM (in_sse (modifyM (\<lambda>w. w\<lparr>db := e (db w)\<rparr>))) (thenM (poll_round V) (polls V es))"

definition log_event_generator :: "sse_env \<Rightarrow> int \<Rightarrow> (db \<Rightarrow> db) list \<Rightarrow> 'ib world \<Rightarrow> unit res \<times> 'ib sse" where
  "log_event_generator V since_id es w = thenM (initial_sync V) (polls V es)
     \<lparr>sse_process = w, last_id = since_id, last_heartbeat = clock w, sent = []\<rparr>"

text \<open>The checks of the route before it returns the generator; a valid token is used up by them.\<close>

definition stream_endpoint :: "string \<Rightarrow> string option \<Rightarrow> string option \<Rightarrow> int \<Rightarrow> http_request \<Rightarrow> ('ib web, unit) M" where
  "stream_endpoint tok category level since_id rq =
    (if length tok < 16 \<or> length tok > 256 \<or> (case category of Some c \<Rightarrow> length c > 50 | None \<Rightarrow> False)
        \<or> (case level of Some l \<Rightarrow> length l > 20 | None \<Rightarrow> False) \<or> since_id < 0 then raise (HTTPException 422)
     else bindM (consume_token tok (get_client_ip rq)) (\<lambda>ok.
       if \<not> ok then raise (HTTPException 401)
       else (case log_filter_error category level of Some e \<Rightarrow> raise e | None \<Rightarrow> ret ())))"

section \<open>Use of the tokens\<close>

text \<open>A run of the token store: time passes, tokens are issued and used.\<close>

datatype token_event = Issued string string int | Used string string int bool

inductive token_run :: "'ib web \<Rightarrow> token_event list \<Rightarrow> 'ib web \<Rightarrow> bool" for s0 where
  start: "token_run s0 [] s0"
| wait: "token_run s0 es s \<Longrightarrow> 0 \<le> d \<Longrightarrow> token_run s0 es (elapse d s)"
| issue: "token_run s0 es s \<Longrightarrow> issue_token ip s = (Inr tok, t) \<Longrightarrow>
    token_run s0 (es @ [Issued tok ip (clock (web_process s))]) t"
| use: "token_run s0 es s \<Longrightarrow> consume_token tok ip s = (Inr ok, t) \<Longrightarrow>
    token_run s0 (es @ [Used tok ip (clock (web_process s)) ok]) t"

fun accepted :: "token_event list \<Rightarrow> string list" where
  "accepted [] = []"
| "accepted (Used tok ip now True # es) = tok # accepted es"
| "accepted (_ # es) = accepted es"

lemma accepted_append [simp]: "accepted (es @ fs) = accepted es @ accepted fs"
  by (induction es rule: accepted.induct) simp_all

definition store_inv :: "(nat \<Rightarrow> string) \<Rightarrow> token_event list \<Rightarrow> 'ib web \<Rightarrow> bool" where
  "store_inv src es s \<longleftrightarrow> random_source s = src \<and> distinct (map fst (stream_tokens s)) \<and> length (stream_tokens s) \<le> token_max_entries
     \<and> (\<forall>(k, t) \<in> set (stream_tokens s). k_token t = k \<and> k \<in> src ` {..<random_drawn s} \<and> Issued k (k_ip t) (k_created t) \<in> set es)
     \<and> distinct (accepted es) \<and> set (accepted es) \<subseteq> src ` {..<random_drawn s} - fst ` set (stream_tokens s)
     \<and> (\<forall>tok ip now. Used tok ip now True \<in> set es \<longrightarrow> (\<exists>t0. Issued tok ip t0 \<in> set es \<and> now - t0 \<le> token_ttl_ms))"

lemma store_invD:
  assumes "store_inv src es s"
  shows "random_source s = src" "length (stream_tokens s) \<le> token_max_entries" "distinct (map fst (stream_tokens s))"
    "(k, t) \<in> set (stream_tokens s) \<Longrightarrow> k_token t = k \<and> k \<in> src ` {..<random_drawn s} \<and> Issued k (k_ip t) (k_created t) \<in> set es"
    "distinct (accepted es)" "set (accepted es) \<subseteq> src ` {..<random_drawn s} - fst ` set (stream_tokens s)"
    "Used k ip now True \<in> set es \<Longrightarrow> \<exists>t0. Issued k ip t0 \<in> set es \<and> now - t0 \<le> token_ttl_ms"
  using assms unfolding store_inv_def by (blast | fast)+

text \<open>What is left of a store after an eviction.\<close>

lemma oldest_in: "oldest t us \<in> set (t # us)"
  by (induction us arbitrary: t) auto

lemma distinct_keys_filter: "distinct (map fst ts) \<Longrightarrow> distinct (map fst (filter P ts))"
  by (rule distinct_map_filter)

lemma evict_filter:
  assumes "\<forall>(k, t) \<in> set ts. k_token t = k"
  obtains P where "evict ts = filter P ts" and "length ts \<le> token_max_entries \<Longrightarrow> length (evict ts) < token_max_entries"
proof (cases "length ts \<ge> token_max_entries \<and> ts \<noteq> []")
  case False
  then have "evict ts = ts" by (auto simp: evict_def split: list.splits)
  with False that [of "\<lambda>_. True"] show thesis by (auto simp: token_max_entries_def)
next
  case True
  then obtain t us where tu: "map snd ts = t # us" by (cases ts) auto
  let ?o = "oldest t us"
  have "?o \<in> snd ` set ts" using oldest_in [of t us] tu by (metis set_map)
  then obtain k where k: "(k, ?o) \<in> set ts" by auto
  with assms have key: "k_token ?o = k" by auto
  have e: "evict ts = filter (\<lambda>(j, _). j \<noteq> k) ts" using True tu key by (simp add: evict_def pop_token_def)
  have "length (filter (\<lambda>(j, _). j \<noteq> k) ts) < length ts" by (rule length_filter_less [OF k]) simp
  with e that [of "\<lambda>(j, _). j \<noteq> k"] show thesis by simp
qed

lemma store_inv_issue:
  assumes inv: "store_inv src es s" and inj: "inj src" and run: "issue_token ip s = (Inr tok, t)"
  shows "store_inv src (es @ [Issued tok ip (clock (web_process s))]) t"
proof -
  let ?now = "clock (web_process s)"
  let ?ts = "purge_expired ?now (stream_tokens s)"
  let ?e = "\<lparr>k_token = tok, k_ip = ip, k_created = ?now\<rparr>"
  have tok: "tok = src (random_drawn s)" and t: "t = s\<lparr>random_drawn := Suc (random_drawn s),
      stream_tokens := put_token tok ?e (evict ?ts)\<rparr>"
    using run inv by (auto simp: issue_token_def bindM_def gets_def thenM_def modifyM_def ret_def store_inv_def)
  have keyed: "\<forall>(k, t) \<in> set ?ts. k_token t = k" using inv by (auto simp: store_inv_def purge_expired_def)
  obtain P where P: "evict ?ts = filter P ?ts" and len: "length ?ts \<le> token_max_entries \<Longrightarrow> length (evict ?ts) < token_max_entries"
    using evict_filter [OF keyed] by blast
  then obtain Q where Q: "evict ?ts = filter Q (stream_tokens s)" by (simp add: purge_expired_def)
  have "length ?ts \<le> token_max_entries"
    using inv by (auto simp: store_inv_def purge_expired_def intro: order_trans [OF length_filter_le])
  with len have short: "length (evict ?ts) < token_max_entries" by simp
  have fresh: "tok \<notin> src ` {..<random_drawn s}" using inj by (auto simp: tok inj_on_def)
  then have new: "tok \<notin> fst ` set (filter Q (stream_tokens s))" using inv by (force simp: store_inv_def)
  then have st: "stream_tokens t = filter Q (stream_tokens s) @ [(tok, ?e)]" by (simp add: t Q put_token_def)
  have src: "src ` {..<random_drawn t} = insert tok (src ` {..<random_drawn s})" by (simp add: t tok lessThan_Suc)
  have acc: "accepted (es @ [Issued tok ip ?now]) = accepted es" by simp
  have "set (accepted es) \<subseteq> insert tok (src ` {..<random_drawn s}) - fst ` set (stream_tokens t)"
    using inv fresh by (auto simp: store_inv_def st)
  moreover have "\<forall>(k, u) \<in> set (stream_tokens t). k_token u = k \<and> k \<in> insert tok (src ` {..<random_drawn s})
      \<and> Issued k (k_ip u) (k_created u) \<in> set (es @ [Issued tok ip ?now])"
    using inv by (auto simp: store_inv_def st)
  moreover have "\<exists>t0. Issued k ip' t0 \<in> set (es @ [Issued tok ip ?now]) \<and> now - t0 \<le> token_ttl_ms"
    if "Used k ip' now True \<in> set (es @ [Issued tok ip ?now])" for k ip' now
    using that inv by (fastforce simp: store_inv_def)
  moreover have "distinct (map fst (stream_tokens t))" "length (stream_tokens t) \<le> token_max_entries"
    using inv new short Q by (auto simp: st store_inv_def distinct_map_filter)
  moreover have "random_source t = src" "distinct (accepted es)" using inv by (simp_all add: t store_inv_def)
  ultimately show ?thesis unfolding store_inv_def acc src by blast
qed

lemma store_inv_use:
  assumes inv: "store_inv src es s" and run: "consume_token tok ip s = (Inr ok, t)"
  shows "store_inv src (es @ [Used tok ip (clock (web_process s)) ok]) t"
proof -
  let ?now = "clock (web_process s)"
  have t: "t = s\<lparr>stream_tokens := pop_token tok (purge_expired ?now (stream_tokens s))\<rparr>"
    and ok: "ok = (case map_of (purge_expired ?now (stream_tokens s)) tok of None \<Rightarrow> False
        | Some u \<Rightarrow> k_ip u = ip \<and> \<not> ?now - k_created u > token_ttl_ms)"
    using run by (auto simp: consume_token_def bindM_def gets_def thenM_def modifyM_def ret_def)
  obtain Q where Q: "stream_tokens t = filter Q (stream_tokens s)" "\<And>x. Q x \<Longrightarrow> fst x \<noteq> tok"
  proof
    show "stream_tokens t = filter (\<lambda>x. (case x of (_, u) \<Rightarrow> \<not> token_ttl_ms < ?now - k_created u) \<and> fst x \<noteq> tok) (stream_tokens s)"
      by (simp add: t pop_token_def purge_expired_def case_prod_beta)
  qed simp
  have short: "length (stream_tokens t) \<le> token_max_entries"
    unfolding Q(1) using inv by (intro order_trans [OF length_filter_le]) (simp add: store_inv_def)
  have young: "tok \<in> src ` {..<random_drawn s} \<and> tok \<notin> set (accepted es) \<and> (\<exists>t0. Issued tok ip t0 \<in> set es \<and> ?now - t0 \<le> token_ttl_ms)"
    if "ok"
  proof -
    from that ok obtain u where "map_of (purge_expired ?now (stream_tokens s)) tok = Some u" "k_ip u = ip"
      "?now - k_created u \<le> token_ttl_ms" by (auto split: option.splits)
    then have u: "(tok, u) \<in> set (stream_tokens s)" by (auto simp: purge_expired_def dest: map_of_SomeD)
    moreover have "tok \<in> fst ` set (stream_tokens s)" using image_eqI [OF _ u, of tok fst] by simp
    ultimately show ?thesis using store_invD(4) [OF inv u] store_invD(6) [OF inv] \<open>k_ip u = ip\<close>
      \<open>?now - k_created u \<le> token_ttl_ms\<close> by blast
  qed
  have used: "distinct (accepted (es @ [Used tok ip ?now ok]))"
    "set (accepted (es @ [Used tok ip ?now ok])) \<subseteq> src ` {..<random_drawn t} - fst ` set (stream_tokens t)"
    using store_invD(5, 6) [OF inv] young Q by (cases ok; auto simp: t)+
  have "\<exists>t0. Issued k ip' t0 \<in> set (es @ [Used tok ip ?now ok]) \<and> now - t0 \<le> token_ttl_ms"
    if "Used k ip' now True \<in> set (es @ [Used tok ip ?now ok])" for k ip' now
    using that young store_invD(7) [OF inv, of k ip' now] by auto
  moreover have "\<forall>(k, u) \<in> set (stream_tokens t). k_token u = k \<and> k \<in> src ` {..<random_drawn t}
      \<and> Issued k (k_ip u) (k_created u) \<in> set (es @ [Used tok ip ?now ok])"
  proof -
    have "random_drawn t = random_drawn s" "set (stream_tokens t) \<subseteq> set (stream_tokens s)" by (simp add: t) (auto simp: Q(1))
    with store_invD(4) [OF inv] show ?thesis by fastforce
  qed
  ultimately show ?thesis
    using used short store_invD(1, 3) [OF inv] unfolding store_inv_def by (simp add: Q(1) distinct_map_filter) (simp add: t)
qed

lemma token_run_inv: "token_run s0 es s \<Longrightarrow> inj src \<Longrightarrow> store_inv src [] s0 \<Longrightarrow> store_inv src es s"
proof (induction rule: token_run.induct)
  case (wait es s d)
  then show ?case by (simp add: store_inv_def elapse_def)
next
  case (issue es s ip tok t)
  then show ?case using store_inv_issue by blast
next
  case (use es s tok ip ok t)
  then show ?case using store_inv_use by blast
qed simp

text \<open>C20: Within any run of the token store in which \<open>secrets.token_urlsafe\<close> never repeats itself, whatever
  the order of issues, uses and waiting: no stream token is accepted twice, every accepted use comes from
  the address the token was issued to and at most 60 seconds after that, and the store never holds more
  than 500 tokens.\<close>

theorem stream_token_single_use:
  assumes "token_run (boot_web w src) es s" and "inj src"
  shows "distinct (accepted es) \<and> length (stream_tokens s) \<le> 500
    \<and> (\<forall>tok ip now. Used tok ip now True \<in> set es \<longrightarrow> (\<exists>t0. Issued tok ip t0 \<in> set es \<and> now - t0 \<le> 60000))"
proof -
  have "store_inv src [] (boot_web w src)" by (simp add: store_inv_def boot_web_def)
  from token_run_inv [OF assms this] show ?thesis
    using store_invD(2, 5, 7) by (fastforce simp: token_max_entries_def token_ttl_ms_def)
qed

definition unary :: "nat \<Rightarrow> string" where
  "unary n = replicate n CHR ''t''"

text \<open>A token that is used twice.\<close>

lemma second_use_refused:
  "\<exists>s. token_run (boot_web guarded_world unary) [Issued [] ''h'' 0, Used [] ''h'' 0 True, Used [] ''h'' 0 False] s"
proof -
  let ?s0 = "boot_web guarded_world unary"
  let ?t = "\<lparr>k_token = [], k_ip = ''h'', k_created = 0\<rparr>"
  let ?s1 = "?s0\<lparr>random_drawn := 1, stream_tokens := [([], ?t)]\<rparr>"
  let ?s2 = "?s0\<lparr>random_drawn := 1\<rparr>"
  note steps = bindM_def gets_def thenM_def modifyM_def ret_def boot_web_def guarded_world_def boot_world_def
    purge_expired_def pop_token_def token_ttl_ms_def
  have "issue_token ''h'' ?s0 = (Inr [], ?s1)"
    by (simp add: issue_token_def steps evict_def put_token_def unary_def)
  from token_run.issue [OF token_run.start this]
  have one: "token_run ?s0 [Issued [] ''h'' 0] ?s1" by (simp add: steps)
  have "consume_token [] ''h'' ?s1 = (Inr True, ?s2)" by (simp add: consume_token_def steps)
  from token_run.use [OF one this]
  have two: "token_run ?s0 [Issued [] ''h'' 0, Used [] ''h'' 0 True] ?s2" by (simp add: steps)
  have "consume_token [] ''h'' ?s2 = (Inr False, ?s2)" by (simp add: consume_token_def steps)
  from token_run.use [OF two this]
  have "token_run ?s0 [Issued [] ''h'' 0, Used [] ''h'' 0 True, Used [] ''h'' 0 False] ?s2" by (simp add: steps)
  then show ?thesis by blast
qed

lemma inj_unary: "inj unary"
  by (auto simp: inj_def unary_def replicate_eq_replicate)

theorem stream_token_single_use_witness:
  "\<exists>es s. token_run (boot_web guarded_world unary) es s \<and> accepted es = [[]] \<and> length (stream_tokens s) \<le> 500"
  using second_use_refused stream_token_single_use [OF _ inj_unary] by fastforce

section \<open>What the stream sends\<close>

definition entries :: "sse_event list \<Rightarrow> sse_event list" where
  "entries es = filter (\<lambda>e. case e of Entry _ _ \<Rightarrow> True | _ \<Rightarrow> False) es"

definition entry_event :: "sse_env \<Rightarrow> log_entry \<Rightarrow> sse_event" where
  "entry_event V r = Entry (l_id r) (log_to_dict (sv_tstr V) r)"

lemma entries_simps [simp]: "entries [] = []" "entries (es @ fs) = entries es @ entries fs"
    "entries (map (entry_event V) rs) = map (entry_event V) rs" "entries [Heartbeat] = []"
    "Failure \<noteq> entry_event V r"
  by (auto simp: entries_def entry_event_def filter_map comp_def)

lemma send_rows_live:
  assumes "keeps_on_commit (sv_detached V)"
  shows "send_rows V upd rs s = (Inr (), s\<lparr>last_id := foldl upd (last_id s) (map l_id rs),
    sent := sent s @ map (entry_event V) rs\<rparr>)"
  using assms
  by (induction rs arbitrary: s)
     (auto simp: entry_event_def send_rows_def keeps_on_commit_def liftR_def thenM_def bindM_def modifyM_def yield_event_def ret_def)

lemma heartbeat_result: "\<exists>h hs. heartbeat s = (Inr (), s\<lparr>last_heartbeat := h, sent := sent s @ hs\<rparr>) \<and> entries hs = []
    \<and> Failure \<notin> set hs"
proof (cases "clock (sse_process s) - last_heartbeat s > 15000")
  case True
  then have "heartbeat s = (Inr (), s\<lparr>last_heartbeat := clock (sse_process s), sent := sent s @ [Heartbeat]\<rparr>)"
    by (simp add: heartbeat_def bindM_def gets_def thenM_def yield_event_def modifyM_def)
  then show ?thesis by fastforce
next
  case False
  then have "heartbeat s = (Inr (), s\<lparr>last_heartbeat := last_heartbeat s, sent := sent s @ []\<rparr>)"
    by (simp add: heartbeat_def bindM_def gets_def ret_def)
  then show ?thesis by (metis entries_simps(1) empty_iff list.set(1))
qed

lemma poll_round_live:
  assumes "keeps_on_commit (sv_detached V)" and "db_reliable (sse_process s)"
  shows "\<exists>u rs. poll_round V s = (Inr (), u) \<and> rs = next_page V (last_id s) (db (sse_process s))
    \<and> last_id u = last (last_id s # map l_id rs) \<and> entries (sent u) = entries (sent s) @ map (entry_event V) rs
    \<and> (Failure \<in> set (sent u) \<longrightarrow> Failure \<in> set (sent s))
    \<and> db (sse_process u) = db (sse_process s) \<and> db_up (sse_process u) = db_up (sse_process s)"
proof -
  let ?rs = "next_page V (last_id s) (db (sse_process s))"
  have last: "foldl (\<lambda>_ i. i) a xs = last (a # xs)" for a :: int and xs
    by (induction xs arbitrary: a) auto
  define v where "v = s\<lparr>sse_process := (sse_process s)\<lparr>db_calls := Suc (db_calls (sse_process s))\<rparr>,
    last_id := last (last_id s # map l_id ?rs), sent := sent s @ map (entry_event V) ?rs\<rparr>"
  have body: "try_except (bindM (gets last_id) (\<lambda>i. bindM (in_sse (query (next_page V i))) (send_rows V (\<lambda>_ i. i))))
      any_exception (\<lambda>_. report_failure) s = (Inr (), v)"
    using assms(2)
    by (simp add: try_except_def bindM_def gets_def in_sse_def query_apply db_reliable_def send_rows_live [OF assms(1)]
        last v_def del: last.simps)
  obtain h hs where beat: "heartbeat v = (Inr (), v\<lparr>last_heartbeat := h, sent := sent v @ hs\<rparr>)" "entries hs = []" "Failure \<notin> set hs"
    using heartbeat_result by blast
  let ?u = "v\<lparr>last_heartbeat := h, sent := sent v @ hs, sse_process := (sse_process v)\<lparr>clock := clock (sse_process v) + 1000\<rparr>\<rparr>"
  have "poll_round V s = (Inr (), ?u)"
    using body beat(1) by (simp add: poll_round_def thenM_def bindM_def in_sse_def sleep_def modifyM_def)
  with beat show ?thesis by (intro exI [of _ ?u] exI [of _ ?rs]) (auto simp: v_def)
qed

text \<open>A sorted page continues the rows that have been sent.\<close>

lemma sorted_page:
  fixes f :: "'r \<Rightarrow> int"
  assumes "sorted_wrt (\<lambda>r s. f r < f s) S" and "l0 \<le> a"
  shows "filter (\<lambda>r. l0 < f r \<and> f r \<le> a) S @ take n (filter (\<lambda>r. a < f r) S)
    = filter (\<lambda>r. l0 < f r \<and> f r \<le> last (a # map f (take n (filter (\<lambda>r. a < f r) S)))) S"
proof -
  have split: "S = filter (\<lambda>r. f r \<le> a) S @ filter (\<lambda>r. a < f r) S"
    using assms(1)
  proof (induction S)
    case (Cons r S)
    show ?case
    proof (cases "f r \<le> a")
      case False
      then have "\<forall>s \<in> set S. a < f s" using Cons.prems by force
      then have "filter (\<lambda>r. f r \<le> a) S = []" "filter (\<lambda>r. a < f r) S = S" by (auto simp: filter_empty_conv not_le)
      with False show ?thesis by simp
    qed (use Cons in auto)
  qed simp
  define P Q where "P = filter (\<lambda>r. f r \<le> a) S" and "Q = filter (\<lambda>r. a < f r) S"
  define ys zs where "ys = take n Q" and "zs = drop n Q"
  have S: "S = P @ ys @ zs" using split unfolding P_def [symmetric] Q_def [symmetric] ys_def zs_def append_take_drop_id .
  define b where "b = last (a # map f ys)"
  have sorted: "sorted_wrt (\<lambda>r s. f r < f s) (ys @ zs)" using assms(1) S by (metis sorted_wrt_append)
  have above: "a < f r" if "r \<in> set (ys @ zs)" for r using that by (auto simp: ys_def zs_def Q_def dest: in_set_takeD in_set_dropD)
  have ys: "f r \<le> b" if "r \<in> set ys" for r
    using that sorted by (cases ys rule: rev_cases) (auto simp: b_def sorted_wrt_append)
  have zs: "\<not> f r \<le> b" if "r \<in> set zs" for r
    using that sorted above [of r] by (cases ys rule: rev_cases) (auto simp: b_def sorted_wrt_append)
  have "a \<le> b" using above by (cases ys rule: rev_cases) (force simp: b_def)+
  have "filter (\<lambda>r. l0 < f r \<and> f r \<le> b) P = filter (\<lambda>r. l0 < f r \<and> f r \<le> a) P"
    using \<open>a \<le> b\<close> by (intro filter_cong) (auto simp: P_def)
  moreover have "filter (\<lambda>r. l0 < f r \<and> f r \<le> b) ys = ys"
    using ys above assms(2) by (intro filter_True) force
  moreover have "filter (\<lambda>r. l0 < f r \<and> f r \<le> b) zs = []" using zs by (auto simp: filter_empty_conv)
  moreover have "filter (\<lambda>r. l0 < f r \<and> f r \<le> a) (ys @ zs) = []" using above by (fastforce simp: filter_empty_conv)
  ultimately have "filter (\<lambda>r. l0 < f r \<and> f r \<le> a) (P @ ys @ zs) @ ys = filter (\<lambda>r. l0 < f r \<and> f r \<le> b) (P @ ys @ zs)"
    unfolding filter_append by simp
  then show ?thesis unfolding S [symmetric] unfolding b_def ys_def Q_def .
qed

text \<open>What the others may do to the log: rows are appended with growing numbers.\<close>

definition ids_ascend :: "db \<Rightarrow> bool" where
  "ids_ascend d \<longleftrightarrow> sorted_wrt (\<lambda>r s. l_id r < l_id s) (rows (log_entries d))
     \<and> (\<forall>r \<in> set (rows (log_entries d)). l_id r < next_id (log_entries d))"

definition appends :: "(db \<Rightarrow> db) \<Rightarrow> bool" where
  "appends e \<longleftrightarrow> (\<forall>d. ids_ascend d \<longrightarrow> ids_ascend (e d) \<and> prefix (rows (log_entries d)) (rows (log_entries (e d))))"

text \<open>Every insertion of the table does just that; \<open>insert_entry\<close> of the logger is one.\<close>

definition log_row :: "log_entry \<Rightarrow> db \<Rightarrow> db" where
  "log_row e d = d\<lparr>log_entries := snd (insert_row (\<lambda>i r. r\<lparr>l_id := i\<rparr>) e (log_entries d))\<rparr>"

lemma insert_appends: "appends (log_row e)"
  by (auto simp: appends_def log_row_def insert_row_def ids_ascend_def sorted_wrt_append)

text \<open>The interface between the stream and whoever writes the log: each write appends.\<close>

locale log_writer =
  fixes put_log :: "'r \<Rightarrow> db \<Rightarrow> db"
  assumes write_appends: "appends (put_log r)"
begin

lemma writes_append: "appends (fold put_log rs)"
proof (induction rs)
  case (Cons r rs)
  then show ?case using write_appends [of r] unfolding appends_def fold_Cons comp_def by (metis prefix_order.trans)
qed (simp add: appends_def)

end

interpretation logger_writes: log_writer "\<lambda>r. log_row (entry_of r)"
  by unfold_locales (rule insert_appends)

abbreviation wanted_rows :: "sse_env \<Rightarrow> db \<Rightarrow> log_entry list" where
  "wanted_rows V d \<equiv> filter (wanted V) (rows (log_entries d))"

text \<open>The rows above \<open>l0\<close> that a generator at \<open>last_id\<close> has sent.\<close>

definition sent_so_far :: "sse_env \<Rightarrow> sse_event list \<Rightarrow> int \<Rightarrow> 'ib sse \<Rightarrow> bool" where
  "sent_so_far V first l0 s \<longleftrightarrow> ids_ascend (db (sse_process s)) \<and> db_reliable (sse_process s) \<and> Failure \<notin> set (sent s)
     \<and> (last_id s = l0 \<or> last_id s \<in> l_id ` set (rows (log_entries (db (sse_process s))))) \<and> l0 \<le> last_id s
     \<and> entries (sent s) = first
         @ map (entry_event V) (filter (\<lambda>r. l0 < l_id r \<and> l_id r \<le> last_id s) (wanted_rows V (db (sse_process s))))"

lemma ascending_wanted: "ids_ascend d \<Longrightarrow> sorted_wrt (\<lambda>r s. l_id r < l_id s) (wanted_rows V d)"
  unfolding ids_ascend_def by (blast intro: sorted_wrt_filter)

lemma sort_key_ascending: "sorted_wrt (\<lambda>r s. f r < (f s :: int)) S \<Longrightarrow> sort_key f S = S"
  by (rule sort_key_id_if_sorted) (auto simp: sorted_map intro: sorted_wrt_mono_rel [rotated])

lemma next_page_ascending:
  assumes "ids_ascend d"
  shows "next_page V i d = take 200 (filter (\<lambda>r. i < l_id r) (wanted_rows V d))"
proof -
  have "sorted_wrt (\<lambda>r s. l_id r < l_id s) (filter (\<lambda>r. wanted V r \<and> i < l_id r) (rows (log_entries d)))"
    using assms unfolding ids_ascend_def by (blast intro: sorted_wrt_filter)
  from sort_key_ascending [OF this] show ?thesis by (simp add: next_page_def conj_commute)
qed

text \<open>What the others append does not change what has been sent.\<close>

lemma sent_so_far_appends:
  assumes "sent_so_far V first l0 s" and "appends e"
  shows "sent_so_far V first l0 (s\<lparr>sse_process := (sse_process s)\<lparr>db := e (db (sse_process s))\<rparr>\<rparr>)"
proof -
  let ?d = "db (sse_process s)"
  obtain new where new: "rows (log_entries (e ?d)) = rows (log_entries ?d) @ new" and asc: "ids_ascend (e ?d)"
    using assms unfolding sent_so_far_def appends_def prefix_def by blast
  have "filter (\<lambda>r. l0 < l_id r \<and> l_id r \<le> last_id s) (filter (wanted V) new) = []"
    using assms(1) asc by (force simp: sent_so_far_def ids_ascend_def new sorted_wrt_append filter_empty_conv)
  with assms(1) asc show ?thesis by (auto simp: sent_so_far_def new db_reliable_def)
qed

lemma sent_so_far_poll:
  assumes "sent_so_far V first l0 s" and "keeps_on_commit (sv_detached V)"
  shows "\<exists>u. poll_round V s = (Inr (), u) \<and> sent_so_far V first l0 u \<and> db (sse_process u) = db (sse_process s)
    \<and> (length (filter (\<lambda>r. l0 < l_id r) (wanted_rows V (db (sse_process s)))) \<le> 200 \<longrightarrow>
        (\<forall>r \<in> set (wanted_rows V (db (sse_process s))). l_id r \<le> last_id u \<or> l_id r \<le> l0))"
proof -
  let ?d = "db (sse_process s)" and ?l = "last_id s"
  let ?S = "wanted_rows V ?d"
  define page where "page = take 200 (filter (\<lambda>r. ?l < l_id r) ?S)"
  have asc: "ids_ascend ?d" and rel: "db_reliable (sse_process s)" and le: "l0 \<le> ?l"
    using assms(1) by (simp_all add: sent_so_far_def)
  obtain u where u: "poll_round V s = (Inr (), u)" "last_id u = last (?l # map l_id page)"
    "entries (sent u) = entries (sent s) @ map (entry_event V) page" "Failure \<notin> set (sent u)"
    "db (sse_process u) = ?d" "db_up (sse_process u) = db_up (sse_process s)"
    using poll_round_live [OF assms(2) rel] assms(1) next_page_ascending [OF asc] unfolding page_def
    by (auto simp: sent_so_far_def)
  have split: "filter (\<lambda>r. l0 < l_id r \<and> l_id r \<le> ?l) ?S @ page = filter (\<lambda>r. l0 < l_id r \<and> l_id r \<le> last_id u) ?S"
    unfolding u(2) page_def by (rule sorted_page [OF ascending_wanted [OF asc] le])
  have page: "set page \<subseteq> {r \<in> set ?S. ?l < l_id r}" by (auto simp: page_def dest: in_set_takeD)
  have "last_id u = ?l \<or> last_id u \<in> l_id ` set page" by (cases page rule: rev_cases) (auto simp: u(2))
  moreover from this page le have "l0 \<le> last_id u" by auto
  ultimately have inv: "sent_so_far V first l0 u"
    using assms(1) u(3-6) page split [symmetric] by (auto simp: sent_so_far_def db_reliable_def)
  have "l_id r \<le> last_id u"
    if few: "length (filter (\<lambda>r. l0 < l_id r) ?S) \<le> 200" and r: "r \<in> set ?S" "l0 < l_id r" for r
  proof -
    have "filter (\<lambda>r. ?l < l_id r) ?S = filter (\<lambda>r. ?l < l_id r) (filter (\<lambda>r. l0 < l_id r) ?S)"
      using le by (auto intro: filter_cong)
    then have "length (filter (\<lambda>r. ?l < l_id r) ?S) \<le> 200" using few by (metis length_filter_le order_trans)
    then have "page = filter (\<lambda>r. ?l < l_id r) ?S" by (simp add: page_def)
    with r have "r \<in> set (filter (\<lambda>r. l0 < l_id r \<and> l_id r \<le> last_id u) ?S)"
      unfolding split [symmetric] by auto
    then show ?thesis by simp
  qed
  then have "\<forall>r \<in> set ?S. l_id r \<le> last_id u \<or> l_id r \<le> l0"
    if "length (filter (\<lambda>r. l0 < l_id r) ?S) \<le> 200" using that by (meson not_le)
  with u(1,5) inv show ?thesis by blast
qed

lemma sent_so_far_polls:
  assumes "sent_so_far V first l0 s" and "keeps_on_commit (sv_detached V)" and "\<forall>e \<in> set es. appends e"
  shows "\<exists>u. polls V es s = (Inr (), u) \<and> sent_so_far V first l0 u \<and> db (sse_process u) = fold (\<lambda>e. e) es (db (sse_process s))
    \<and> (es \<noteq> [] \<and> length (filter (\<lambda>r. l0 < l_id r) (wanted_rows V (db (sse_process u)))) \<le> 200 \<longrightarrow>
        (\<forall>r \<in> set (wanted_rows V (db (sse_process u))). l_id r \<le> last_id u \<or> l_id r \<le> l0))"
  using assms(1, 3)
proof (induction es arbitrary: s)
  case (Cons e es)
  let ?s = "s\<lparr>sse_process := (sse_process s)\<lparr>db := e (db (sse_process s))\<rparr>\<rparr>"
  have "sent_so_far V first l0 ?s" using Cons.prems by (simp add: sent_so_far_appends)
  from sent_so_far_poll [OF this assms(2)] obtain t where t: "poll_round V ?s = (Inr (), t)" "sent_so_far V first l0 t"
    "db (sse_process t) = db (sse_process ?s)" "length (filter (\<lambda>r. l0 < l_id r) (wanted_rows V (db (sse_process t)))) \<le> 200 \<Longrightarrow>
        \<forall>r \<in> set (wanted_rows V (db (sse_process t))). l_id r \<le> last_id t \<or> l_id r \<le> l0" by metis
  have "\<forall>e \<in> set es. appends e" using Cons.prems by simp
  from Cons.IH [OF t(2) this] obtain u where u: "polls V es t = (Inr (), u)" "sent_so_far V first l0 u"
    "db (sse_process u) = fold (\<lambda>e. e) es (db (sse_process t))" "es \<noteq> [] \<and> length (filter (\<lambda>r. l0 < l_id r) (wanted_rows V (db (sse_process u)))) \<le> 200 \<longrightarrow>
        (\<forall>r \<in> set (wanted_rows V (db (sse_process u))). l_id r \<le> last_id u \<or> l_id r \<le> l0)" by metis
  have run: "polls V (e # es) s = (Inr (), u)"
    using t(1) u(1) by (simp add: thenM_def bindM_def in_sse_def modifyM_def)
  have "es = [] \<Longrightarrow> u = t" using u(1) by (simp add: ret_def)
  moreover have "db (sse_process u) = fold (\<lambda>e. e) (e # es) (db (sse_process s))" using u(3) t(3) by simp
  ultimately show ?case using run u(2,4) t(4) by blast
qed (simp add: ret_def)

text \<open>The start of a stream: the latest 50 wanted rows.\<close>

lemma first_page_ascending:
  assumes "ids_ascend d"
  shows "first_page V d = drop (length (wanted_rows V d) - 50) (wanted_rows V d)"
  by (simp add: first_page_def latest_first_def sort_key_ascending [OF ascending_wanted [OF assms]] take_rev)

lemma foldl_max: "(foldl max (a :: int) xs = a \<or> foldl max a xs \<in> set xs) \<and> a \<le> foldl max a xs"
proof (induction xs arbitrary: a)
  case (Cons x xs)
  from Cons.IH [of "max a x"] show ?case by (auto simp: max_def split: if_splits)
qed simp

lemma foldl_max_ge: "x \<in> set xs \<Longrightarrow> x \<le> foldl max (a :: int) xs"
proof (induction xs arbitrary: a)
  case (Cons y xs)
  then show ?case using foldl_max [of "max a y" xs] by (cases "x = y") auto
qed simp

text \<open>The start of a stream leaves no wanted row behind it.\<close>

lemma first_rows_cover:
  assumes "ids_ascend d" and "r \<in> set (wanted_rows V d)"
  shows "l_id r \<le> foldl max a (map l_id (drop (length (wanted_rows V d) - 50) (wanted_rows V d)))"
proof -
  define S where "S = wanted_rows V d"
  have r: "r \<in> set S" and sorted: "sorted_wrt (\<lambda>r s. l_id r < l_id s) S"
    using assms ascending_wanted unfolding S_def by blast+
  then have ne: "S \<noteq> []" by auto
  have "l_id r \<le> l_id (last S)"
    using r sorted by (cases S rule: rev_cases) (auto simp: sorted_wrt_append)
  moreover have "length S - 50 < length S" using ne by (simp add: diff_less)
  then have "last S \<in> set (drop (length S - 50) S)"
    using last_in_set [of "drop (length S - 50) S"] by (simp add: last_drop)
  ultimately show ?thesis unfolding S_def [symmetric] using foldl_max_ge by (metis (no_types, lifting) image_eqI list.set_map order_trans)
qed

lemma stream_result:
  assumes "keeps_on_commit (sv_detached V)" and "db_reliable w" and "ids_ascend (db w)" and "\<forall>e \<in> set es. appends e"
    and "log_event_generator V since_id es w = (r, s)"
    and "first = drop (length (wanted_rows V (db w)) - 50) (wanted_rows V (db w))"
    and "l0 = foldl max since_id (map l_id first)"
  shows "db (sse_process s) = fold (\<lambda>e. e) es (db w) \<and> r = Inr () \<and> Failure \<notin> set (sent s)
    \<and> entries (sent s) = map (entry_event V)
        (first @ filter (\<lambda>r. l0 < l_id r \<and> l_id r \<le> last_id s) (wanted_rows V (db (sse_process s))))
    \<and> (es \<noteq> [] \<and> length (filter (\<lambda>r. l0 < l_id r) (wanted_rows V (db (sse_process s)))) \<le> 200 \<longrightarrow>
        entries (sent s) = map (entry_event V) (first @ filter (\<lambda>r. l0 < l_id r) (wanted_rows V (db (sse_process s)))))"
proof -
  let ?s0 = "\<lparr>sse_process = w, last_id = since_id, last_heartbeat = clock w, sent = []\<rparr>"
  let ?s1 = "\<lparr>sse_process = w\<lparr>db_calls := Suc (db_calls w)\<rparr>, last_id = l0, last_heartbeat = clock w,
    sent = map (entry_event V) first\<rparr>"
  have sync: "initial_sync V ?s0 = (Inr (), ?s1)"
    using assms(2) by (simp add: initial_sync_def try_except_def bindM_def in_sse_def query_apply db_reliable_def
        first_page_ascending [OF assms(3)] send_rows_live [OF assms(1)] assms(6,7))
  have "set first \<subseteq> set (rows (log_entries (db w)))" unfolding assms(6) by (auto dest: in_set_dropD)
  then have start: "sent_so_far V (map (entry_event V) first) l0 ?s1"
    using assms(2,3) by (auto simp: sent_so_far_def db_reliable_def)
  have db: "db (sse_process ?s1) = db w" by simp
  from sent_so_far_polls [OF start assms(1,4), unfolded db] obtain u where u: "polls V es ?s1 = (Inr (), u)"
    "sent_so_far V (map (entry_event V) first) l0 u"
    "db (sse_process u) = fold (\<lambda>e. e) es (db w)" "es \<noteq> [] \<and> length (filter (\<lambda>r. l0 < l_id r) (wanted_rows V (db (sse_process u)))) \<le> 200 \<longrightarrow>
        (\<forall>r \<in> set (wanted_rows V (db (sse_process u))). l_id r \<le> last_id u \<or> l_id r \<le> l0)" by blast
  have "r = Inr ()" "s = u" using assms(5) sync u(1) by (simp_all add: log_event_generator_def thenM_def bindM_def)
  moreover have "filter (\<lambda>r. l0 < l_id r \<and> l_id r \<le> last_id u) (wanted_rows V (db (sse_process u)))
      = filter (\<lambda>r. l0 < l_id r) (wanted_rows V (db (sse_process u)))"
    if "es \<noteq> [] \<and> length (filter (\<lambda>r. l0 < l_id r) (wanted_rows V (db (sse_process u)))) \<le> 200"
    using u(4) that by (intro filter_cong) (auto simp: not_le)
  ultimately show ?thesis using u(2,3) by (simp add: sent_so_far_def)
qed


text \<open>A stream that meets one row, and then another one.\<close>

definition demo_entry :: "int \<Rightarrow> log_entry" where
  "demo_entry i = \<lparr>l_id = i, l_timestamp = 0, l_level = ''INFO'', l_category = ''trading'', l_module = ''m'', l_func = ''f'', l_line = 1,
     l_message = ''x'', l_extra = None\<rparr>"

definition logged_world :: "unit world" where
  "logged_world = guarded_world\<lparr>db := (db guarded_world)\<lparr>log_entries := \<lparr>rows = [demo_entry 1], next_id = 2\<rparr>\<rparr>\<rparr>"

definition demo_sse :: "(log_entry \<Rightarrow> log_entry res) \<Rightarrow> sse_env" where
  "demo_sse detached = \<lparr>sv_category = None, sv_level = Some ''info'', sv_detached = detached, sv_tstr = (\<lambda>_. ''now'')\<rparr>"


text \<open>Steps that send no failure.\<close>

definition quiet :: "('ib sse, 'a) M \<Rightarrow> bool" where
  "quiet m \<longleftrightarrow> (\<forall>s. Failure \<in> set (sent (snd (m s))) \<longrightarrow> Failure \<in> set (sent s))"

lemma quietD: "quiet m \<Longrightarrow> m s = (r, t) \<Longrightarrow> Failure \<in> set (sent t) \<Longrightarrow> Failure \<in> set (sent s)"
  unfolding quiet_def by (metis snd_conv)

lemma quiet_bind:
  assumes "quiet m" and "\<And>x. quiet (f x)"
  shows "quiet (bindM m f)"
  unfolding quiet_def
proof (intro allI impI)
  fix s assume sent: "Failure \<in> set (sent (snd (bindM m f s)))"
  obtain r t where m: "m s = (r, t)" by force
  obtain r' u where u: "bindM m f s = (r', u)" by force
  show "Failure \<in> set (sent s)"
  proof (rule quietD [OF assms(1) m], cases r)
    case (Inl e) with sent m show "Failure \<in> set (sent t)" by (simp add: bindM_def)
  next
    case (Inr x) with u m have "f x t = (r', u)" by (simp add: bindM_def)
    from quietD [OF assms(2) this] sent u show "Failure \<in> set (sent t)" by simp
  qed
qed

lemma quiet_then: "quiet m \<Longrightarrow> quiet n \<Longrightarrow> quiet (thenM m n)"
  unfolding thenM_def by (rule quiet_bind)

lemma quiet_try:
  assumes "quiet m" and "\<And>e. quiet (h e)"
  shows "quiet (try_except m P h)"
  unfolding quiet_def
proof (intro allI impI)
  fix s assume sent: "Failure \<in> set (sent (snd (try_except m P h s)))"
  obtain r t where m: "m s = (r, t)" by force
  obtain r' u where u: "try_except m P h s = (r', u)" by force
  show "Failure \<in> set (sent s)"
  proof (rule quietD [OF assms(1) m], cases r)
    case (Inr x) with sent m show "Failure \<in> set (sent t)" by (simp add: try_except_def)
  next
    case (Inl e)
    show "Failure \<in> set (sent t)"
    proof (cases "P e")
      case True with u m Inl have "h e t = (r', u)" by (simp add: try_except_def)
      from quietD [OF assms(2) this] sent u show ?thesis by simp
    qed (use sent m Inl in \<open>simp add: try_except_def\<close>)
  qed
qed

lemma quiet_for_each: "(\<And>x. quiet (f x)) \<Longrightarrow> quiet (for_each xs f)"
  by (induction xs) (simp_all add: quiet_then, simp add: quiet_def ret_def)

lemma report_failure_raises: "report_failure s = (Inl AttributeError, s)"
  by (simp add: report_failure_def call_logger_def logger_methods_def thenM_def bindM_def raise_def)

lemma quiet_steps: "quiet (in_sse m)" "quiet (gets g)" "quiet (liftR x)" "quiet (ret y)" "quiet report_failure"
    "quiet (modifyM (\<lambda>s. s\<lparr>last_id := k s\<rparr>))" "quiet (modifyM (\<lambda>s. s\<lparr>last_heartbeat := h s\<rparr>))"
    "quiet (yield_event (Entry i j))" "quiet (yield_event Heartbeat)"
  by (simp_all add: quiet_def in_sse_def gets_def liftR_def ret_def modifyM_def yield_event_def report_failure_raises
      split: prod.splits sum.splits)

lemma quiet_generator: "quiet (thenM (initial_sync V) (polls V es))"
proof -
  have rows: "quiet (send_rows V upd rs)" for upd rs
    unfolding send_rows_def by (intro quiet_for_each quiet_bind quiet_then quiet_steps)
  have poll: "quiet (poll_round V)"
    unfolding poll_round_def heartbeat_def using rows
    by (auto intro!: quiet_then quiet_try quiet_bind quiet_steps split: if_splits)
  have "quiet (polls V es)" by (induction es) (auto intro!: quiet_then quiet_steps poll)
  then show ?thesis unfolding initial_sync_def using rows by (intro quiet_then quiet_try quiet_bind quiet_steps)
qed

text \<open>The stream cannot report an error.  Both handlers call a method \<open>exception\<close> that \<open>CategoryLogger\<close> does not have,
  so whatever happens no failure event is ever sent; and with the default of SQLAlchemy, which expires rows
  when their session commits, a stream whose first page is not empty ends with \<open>AttributeError\<close> before
  it has sent anything.\<close>

theorem stream_errors_lost:
  "Failure \<notin> set (sent (snd (log_event_generator V since_id es w)))
   \<and> (db_up w (db_calls w) \<and> expires_on_commit (sv_detached V) \<and> first_page V (db w) \<noteq> [] \<longrightarrow>
      (\<exists>s. log_event_generator V since_id es w = (Inl AttributeError, s) \<and> sent s = []))"
proof -
  let ?s0 = "\<lparr>sse_process = w, last_id = since_id, last_heartbeat = clock w, sent = []\<rparr>"
  have "Failure \<notin> set (sent (snd (log_event_generator V since_id es w)))"
    using quiet_generator [of V es] by (auto simp: quiet_def log_event_generator_def dest!: spec [of _ ?s0])
  moreover have "\<exists>s. initial_sync V ?s0 = (Inl AttributeError, s) \<and> sent s = []"
    if "db_up w (db_calls w)" "expires_on_commit (sv_detached V)" "first_page V (db w) \<noteq> []"
    using that by (cases "first_page V (db w)")
      (simp_all add: initial_sync_def try_except_def bindM_def in_sse_def query_apply send_rows_def thenM_def liftR_def
        expires_on_commit_def any_exception_def report_failure_raises)
  ultimately show ?thesis by (fastforce simp: log_event_generator_def thenM_def bindM_def)
qed

lemma stream_errors_lost_witness:
  "\<exists>s. log_event_generator (demo_sse (\<lambda>_. Inl DetachedInstanceError)) 0 [] logged_world = (Inl AttributeError, s) \<and> sent s = []"
proof -
  let ?V = "demo_sse (\<lambda>_. Inl DetachedInstanceError)"
  have "py_upper ''info'' = ''INFO''" by code_simp
  then have "wanted ?V (demo_entry 1)" by (simp add: wanted_def demo_sse_def demo_entry_def matches_def header_def)
  then have "first_page ?V (db logged_world) \<noteq> []"
    by (simp add: first_page_def logged_world_def latest_first_def)
  moreover have "db_up logged_world (db_calls logged_world)" "expires_on_commit (sv_detached ?V)"
    by (simp_all add: logged_world_def guarded_world_def boot_world_def expires_on_commit_def demo_sse_def)
  ultimately show ?thesis using stream_errors_lost [of ?V 0 "[]" logged_world] by blast
qed

end
