(* ===== verification/Web_Service.thy ===== *)
theory Web_Service
  imports Web_Auth Calendar
begin

text \<open>
  Control of the bot's systemd unit, \<open>web/api/service.py\<close>.  \<open>subprocess.run\<close> is the parameter \<open>run\<close>: from
  the arguments, the timeout in seconds and the state of the host it gives the result, the time it took in
  milliseconds and the state of the host afterwards.  \<open>busy_until\<close> is the moment at which another
  request gives the lock back.
\<close>

section \<open>State\<close>

record completed =
  returncode :: int
  out_text :: string
  err_text :: string

type_synonym 'h runner = "string list \<Rightarrow> int \<Rightarrow> 'h \<Rightarrow> completed res \<times> int \<times> 'h"

datatype audit =
    Status_failed
  | Timed_out string
  | Not_found string
  | Service_action string bool int string string
  | Stop_while_open string

record 'h service =
  sv_clock :: int
  busy_until :: int
  lock_ours :: bool
  host :: 'h
  commands :: "(string list \<times> int) list"
  audit_log :: "audit list"

definition privileged_actions :: "string list" where
  "privileged_actions = [''start'', ''stop'', ''restart'']"

definition subprocess_timeout :: int where
  "subprocess_timeout = 35"

definition run_systemctl :: "'h runner \<Rightarrow> string list \<Rightarrow> int \<Rightarrow> ('h service, completed) M" where
  "run_systemctl run args timeout = (\<lambda>s. case run args timeout (host s) of (r, d, h) \<Rightarrow>
     (r, s\<lparr>host := h, sv_clock := sv_clock s + d, commands := commands s @ [(args, timeout)]\<rparr>))"

definition note_audit :: "audit \<Rightarrow> ('h service, unit) M" where
  "note_audit a = modifyM (\<lambda>s. s\<lparr>audit_log := audit_log s @ [a]\<rparr>)"

section \<open>Status\<close>

definition or_text :: "string \<Rightarrow> string \<Rightarrow> string" where
  "or_text a b = (if a \<noteq> [] then a else b)"

definition not_available :: "exc \<Rightarrow> bool" where
  "not_available e \<longleftrightarrow> e = TimeoutExpired \<or> e = FileNotFoundErr"

text \<open>Whether the unit is active, and its state.\<close>

definition service_status :: "'h runner \<Rightarrow> ('h service, bool \<times> string) M" where
  "service_status run = try_except
     (bindM (run_systemctl run [''/usr/bin/systemctl'', ''is-active'', ''ibkr-bot''] 5) (\<lambda>r.
        let state = strip (or_text (or_text (out_text r) (err_text r)) ''unknown'')
        in ret (state = ''active'', or_text state ''unknown'')))
     not_available (\<lambda>_. thenM (note_audit Status_failed) (ret (False, ''error'')))"

section \<open>Actions\<close>

text \<open>\<open>_action_lock.acquire(timeout=5)\<close>.\<close>

definition acquire_lock :: "('h service, bool) M" where
  "acquire_lock = (\<lambda>s. if busy_until s \<le> sv_clock s + 5000
     then (Inr True, s\<lparr>sv_clock := max (sv_clock s) (busy_until s), lock_ours := True\<rparr>)
     else (Inr False, s\<lparr>sv_clock := sv_clock s + 5000\<rparr>))"

definition release_lock :: "('h service, unit) M" where
  "release_lock = modifyM (\<lambda>s. s\<lparr>lock_ours := False\<rparr>)"

definition locked_action :: "'h runner \<Rightarrow> string \<Rightarrow> string \<Rightarrow> ('h service, string \<times> string) M" where
  "locked_action run action by =
     bindM (try_except (try_except
         (run_systemctl run [''/usr/bin/sudo'', ''-n'', ''/usr/bin/systemctl'', action, ''ibkr-bot''] subprocess_timeout)
         (\<lambda>e. e = TimeoutExpired) (\<lambda>_. thenM (note_audit (Timed_out action)) (raise (HTTPException 504))))
         (\<lambda>e. e = FileNotFoundErr) (\<lambda>_. thenM (note_audit (Not_found action)) (raise (HTTPException 500)))) (\<lambda>r.
       let ok = (returncode r = 0); stderr = strip (err_text r) in
       thenM (note_audit (Service_action action ok (returncode r) (take 200 stderr) by))
         (if \<not> ok then raise (HTTPException 500) else ret (action, stderr)))"

definition perform :: "'h runner \<Rightarrow> string \<Rightarrow> string \<Rightarrow> ('h service, string \<times> string) M" where
  "perform run action by =
    (if action \<notin> set privileged_actions then raise (HTTPException 400)
     else bindM acquire_lock (\<lambda>acquired.
       if \<not> acquired then raise (HTTPException 409)
       else try_finally (locked_action run action by) release_lock))"

section \<open>Routes\<close>

definition start_endpoint :: "'h runner \<Rightarrow> http_request \<Rightarrow> ('h service, string \<times> string) M" where
  "start_endpoint run rq = perform run ''start'' (get_client_ip rq)"

text \<open>The bodies take only their word of confirmation.  The warning during market hours never fails.\<close>

definition stop_endpoint :: "'h runner \<Rightarrow> exchange \<Rightarrow> string \<Rightarrow> http_request \<Rightarrow> ('h service, string \<times> string) M" where
  "stop_endpoint run x confirm rq =
    (if confirm \<noteq> ''STOP'' then raise (HTTPException 422)
     else thenM (try_except (bindM (bindM (gets sv_clock) (\<lambda>now. liftR (is_market_open x now None))) (\<lambda>open_now.
            if open_now then note_audit (Stop_while_open (get_client_ip rq)) else ret ())) any_exception (\<lambda>_. ret ()))
       (perform run ''stop'' (get_client_ip rq)))"

definition restart_endpoint :: "'h runner \<Rightarrow> string \<Rightarrow> http_request \<Rightarrow> ('h service, string \<times> string) M" where
  "restart_endpoint run confirm rq =
    (if confirm \<noteq> ''RESTART'' then raise (HTTPException 422) else perform run ''restart'' (get_client_ip rq))"

section \<open>What an action does\<close>

definition sudo_command :: "string \<Rightarrow> string list \<times> int" where
  "sudo_command action = ([''/usr/bin/sudo'', ''-n'', ''/usr/bin/systemctl'', action, ''ibkr-bot''], 35)"

text \<open>The reply to a command that has been run.\<close>

fun action_reply :: "string \<Rightarrow> completed res \<Rightarrow> (string \<times> string) res" where
  "action_reply action (Inr r) = (if returncode r = 0 then Inr (action, strip (err_text r)) else Inl (HTTPException 500))"
| "action_reply action (Inl e) = (if e = TimeoutExpired then Inl (HTTPException 504)
     else if e = FileNotFoundErr then Inl (HTTPException 500) else Inl e)"

fun action_audit :: "string \<Rightarrow> string \<Rightarrow> completed res \<Rightarrow> audit list" where
  "action_audit action by (Inr r) = [Service_action action (returncode r = 0) (returncode r) (take 200 (strip (err_text r))) by]"
| "action_audit action by (Inl e) = (if e = TimeoutExpired then [Timed_out action]
     else if e = FileNotFoundErr then [Not_found action] else [])"

lemma locked_action_result:
  assumes "run (fst (sudo_command action)) 35 (host s) = (r, d, h)"
  shows "locked_action run action by s = (action_reply action r, s\<lparr>host := h, sv_clock := sv_clock s + d,
    commands := commands s @ [sudo_command action], audit_log := audit_log s @ action_audit action by r\<rparr>)"
  using assms
  by (cases r) (auto simp: locked_action_def run_systemctl_def subprocess_timeout_def sudo_command_def try_except_def
      bindM_def thenM_def note_audit_def modifyM_def raise_def ret_def Let_def)

lemma service_action_result:
  assumes "\<not> lock_ours s" and "perform run action by s = (r, t)"
  shows "\<not> lock_ours t \<and>
    (if action \<notin> {''start'', ''stop'', ''restart''} then r = Inl (HTTPException 400) \<and> t = s
     else if busy_until s > sv_clock s + 5000 then r = Inl (HTTPException 409) \<and> t = s\<lparr>sv_clock := sv_clock s + 5000\<rparr>
     else (\<exists>x d. run (fst (sudo_command action)) 35 (host s) = (x, d, host t) \<and> r = action_reply action x
        \<and> commands t = commands s @ [sudo_command action] \<and> audit_log t = audit_log s @ action_audit action by x
        \<and> sv_clock t = max (sv_clock s) (busy_until s) + d))"
proof (cases "action \<in> {''start'', ''stop'', ''restart''} \<and> busy_until s \<le> sv_clock s + 5000")
  case True
  let ?s = "s\<lparr>sv_clock := max (sv_clock s) (busy_until s), lock_ours := True\<rparr>"
  obtain x d h where run: "run (fst (sudo_command action)) 35 (host s) = (x, d, h)" by (metis prod_cases3)
  then have "locked_action run action by ?s = (action_reply action x, ?s\<lparr>host := h, sv_clock := sv_clock ?s + d,
      commands := commands s @ [sudo_command action], audit_log := audit_log s @ action_audit action by x\<rparr>)"
    using locked_action_result [of run action ?s x d h] by simp
  with True assms(2) have "r = action_reply action x" "t = ?s\<lparr>host := h, sv_clock := sv_clock ?s + d,
      commands := commands s @ [sudo_command action], audit_log := audit_log s @ action_audit action by x, lock_ours := False\<rparr>"
    by (auto simp: perform_def privileged_actions_def bindM_def acquire_lock_def try_finally_def release_lock_def modifyM_def)
  with True run show ?thesis by auto
next
  case False
  with assms show ?thesis
    by (auto simp: perform_def privileged_actions_def raise_def bindM_def acquire_lock_def)
qed

text \<open>C19: A service action either leaves the host alone, with 400 for an action that is not one of the three and 409 when
  another request keeps the lock for more than five seconds, or runs exactly one command, the whitelisted one with
  its timeout of 35 seconds; success is answered only when that command returned 0, every other end is an
  error, and on every path, an unexpected exception included, the lock has been released.\<close>

theorem service_action_contract:
  assumes "\<not> lock_ours s" and "perform run action by s = (r, t)"
  shows "\<not> lock_ours t \<and>
    (if action \<notin> {''start'', ''stop'', ''restart''} then r = Inl (HTTPException 400) \<and> t = s
     else if busy_until s > sv_clock s + 5000 then r = Inl (HTTPException 409) \<and> t = s\<lparr>sv_clock := sv_clock s + 5000\<rparr>
     else (\<exists>x d. run (fst (sudo_command action)) 35 (host s) = (x, d, host t) \<and> r = action_reply action x
        \<and> commands t = commands s @ [sudo_command action] \<and> audit_log t = audit_log s @ action_audit action by x
        \<and> sv_clock t = max (sv_clock s) (busy_until s) + d))"
  by (rule service_action_result [OF assms])

definition idle_service :: "nat service" where
  "idle_service = \<lparr>sv_clock = 0, busy_until = 0, lock_ours = False, host = 0, commands = [], audit_log = []\<rparr>"

definition stuck_runner :: "nat runner" where
  "stuck_runner args timeout h = (Inl TimeoutExpired, 1000 * timeout, h)"

lemma service_action_contract_witness:
  "fst (perform stuck_runner ''stop'' ''h'' idle_service) = Inl (HTTPException 504)
   \<and> \<not> lock_ours (snd (perform stuck_runner ''stop'' ''h'' idle_service))
   \<and> sv_clock (snd (perform stuck_runner ''stop'' ''h'' idle_service)) = 35000"
proof -
  obtain r t where run: "perform stuck_runner ''stop'' ''h'' idle_service = (r, t)" by force
  with service_action_contract [OF _ run] show ?thesis by (auto simp: idle_service_def stuck_runner_def)
qed

text \<open>A stop or a restart without its word of confirmation is refused with 422 and touches nothing; with it, and for a
  start, the reply comes within 40 seconds when \<open>subprocess.run\<close> keeps to its timeout, a stop during market
  hours is noted first, and a calendar that fails does not prevent the stop.\<close>

theorem service_routes_bounded:
  assumes timely: "\<And>args n h. fst (snd (run args n h)) \<le> 1000 * n" and free: "\<not> lock_ours s"
  shows "(confirm \<noteq> ''STOP'' \<longrightarrow> stop_endpoint run x confirm rq s = (Inl (HTTPException 422), s))
    \<and> (confirm \<noteq> ''RESTART'' \<longrightarrow> restart_endpoint run confirm rq s = (Inl (HTTPException 422), s))
    \<and> sv_clock (snd (start_endpoint run rq s)) \<le> sv_clock s + 40000
    \<and> sv_clock (snd (stop_endpoint run x confirm rq s)) \<le> sv_clock s + 40000
    \<and> sv_clock (snd (restart_endpoint run confirm rq s)) \<le> sv_clock s + 40000
    \<and> (\<exists>as. stop_endpoint run x ''STOP'' rq s = perform run ''stop'' (get_client_ip rq) (s\<lparr>audit_log := audit_log s @ as\<rparr>)
        \<and> as = (if is_market_open x (sv_clock s) None = Inr True then [Stop_while_open (get_client_ip rq)] else []))"
proof -
  have quick: "sv_clock (snd (perform run action ip u)) \<le> sv_clock u + 40000" if "\<not> lock_ours u" for action ip u
  proof -
    obtain r t where t: "perform run action ip u = (r, t)" by force
    from service_action_result [OF that t] timely [of "fst (sudo_command action)" 35 "host u"] show ?thesis
      by (auto simp: t split: if_splits)
  qed
  let ?as = "if is_market_open x (sv_clock s) None = Inr True then [Stop_while_open (get_client_ip rq)] else []"
  have stop: "stop_endpoint run x ''STOP'' rq s = perform run ''stop'' (get_client_ip rq) (s\<lparr>audit_log := audit_log s @ ?as\<rparr>)"
    by (cases "is_market_open x (sv_clock s) None")
       (auto simp: stop_endpoint_def thenM_def bindM_def gets_def liftR_def try_except_def note_audit_def modifyM_def ret_def)
  have refused: "confirm \<noteq> ''STOP'' \<Longrightarrow> stop_endpoint run x confirm rq s = (Inl (HTTPException 422), s)"
    "confirm \<noteq> ''RESTART'' \<Longrightarrow> restart_endpoint run confirm rq s = (Inl (HTTPException 422), s)"
    by (simp_all add: stop_endpoint_def restart_endpoint_def raise_def)
  have "sv_clock (snd (stop_endpoint run x confirm rq s)) \<le> sv_clock s + 40000"
    using quick [of "s\<lparr>audit_log := audit_log s @ ?as\<rparr>" "''stop''"] free stop refused(1)
    by (cases "confirm = ''STOP''") auto
  moreover have "sv_clock (snd (restart_endpoint run confirm rq s)) \<le> sv_clock s + 40000"
    using quick [of s "''restart''"] free refused(2) by (cases "confirm = ''RESTART''") (auto simp: restart_endpoint_def)
  moreover have "sv_clock (snd (start_endpoint run rq s)) \<le> sv_clock s + 40000"
    using quick [of s "''start''"] free by (simp add: start_endpoint_def)
  ultimately show ?thesis using stop refused by blast
qed

lemma service_routes_bounded_witness:
  "sv_clock (snd (start_endpoint stuck_runner (peer ''h'') idle_service)) \<le> 40000"
  using service_routes_bounded [of stuck_runner idle_service] by (simp add: stuck_runner_def idle_service_def)

end
