(* ===== verification/Notifier.thy ===== *)
theory Notifier
  imports Config
begin

text \<open>
  The alert notifier \<open>bot/alerts/notifier.py\<close>.  Sending goes over the network: whether the SMTP
  server or the webhook accepts an alert is the parameter \<open>deliver\<close>, an alert that is accepted
  is appended to the \<open>outbox\<close> of the world.  The shortest decimal text of a float,
  \<open>json.dumps\<close> and the text of an exception are parameters as well.  Characters outside ASCII are written as ASCII.
\<close>

record alert_env =
  float_text :: "pyfloat \<Rightarrow> string"
  json_text :: "(string \<times> pyval) list \<Rightarrow> string"
  deliver :: "alert \<Rightarrow> exc option"
  err_text :: "exc \<Rightarrow> string"

type_synonym payload = "(string \<times> pyval) list"

section \<open>Formatting\<close>

definition newline :: string where
  "newline = [CHR 0x0A]"

fun str_of :: "alert_env \<Rightarrow> pyval \<Rightarrow> string" where
  "str_of env (VStr s) = s"
| "str_of env (VInt n) = show_int n"
| "str_of env (VFloat x) = float_text env x"
| "str_of env (VBool b) = (if b then ''True'' else ''False'')"
| "str_of env VNone = ''None''"

text \<open>\<open>payload.get(key, d)\<close>.\<close>

definition payload_get :: "payload \<Rightarrow> string \<Rightarrow> pyval \<Rightarrow> pyval" where
  "payload_get p key d = (case map_of p key of Some v \<Rightarrow> v | None \<Rightarrow> d)"

text \<open>\<open>"+" if (pnl or 0) >= 0 else ""\<close>; comparing a non-empty string with 0 raises.\<close>

fun plus_sign :: "pyval \<Rightarrow> string res" where
  "plus_sign VNone = Inr ''+''"
| "plus_sign (VInt n) = Inr (if 0 \<le> n then ''+'' else '''')"
| "plus_sign (VFloat x) = Inr (if Fin 0 \<le> x then ''+'' else '''')"
| "plus_sign (VBool b) = Inr ''+''"
| "plus_sign (VStr s) = (if s = [] then Inr ''+'' else Inl TypeError)"

text \<open>\<open>payload.get("error", "")[:80]\<close>: only a string can be sliced.\<close>

fun slice_80 :: "pyval \<Rightarrow> string res" where
  "slice_80 (VStr s) = Inr (take 80 s)"
| "slice_80 v = Inl TypeError"

definition format_message :: "alert_env \<Rightarrow> string \<Rightarrow> payload \<Rightarrow> (string \<times> string) res" where
  "format_message env event_type payload = (
     let field = (\<lambda>k. str_of env (payload_get payload k (VStr '''')));
         symbol = field ''symbol''; mode = field ''trading_mode'' in
     if event_type = ''trade_opened'' then Inr (
       ''[IBKR Bot] Trade opened: '' @ symbol @ '' '' @ field ''action'' @ '' ['' @ mode @ '']'',
       ''Symbol:     '' @ symbol @ newline @
       ''Action:     '' @ field ''action'' @ newline @
       ''Shares:     '' @ field ''shares'' @ newline @
       ''Fill price: '' @ field ''fill_price'' @ newline @
       ''Target:     '' @ field ''target_price'' @ newline @
       ''Stop:       '' @ field ''stop_price'' @ newline @
       ''Mode:       '' @ mode @ newline @ newline @ field ''explanation'')
     else if event_type = ''trade_closed'' then
       (let pnl = payload_get payload ''pnl'' (VFloat (Fin 0)) in
        res_bind (plus_sign pnl) (\<lambda>sign. res_bind (format_2f pnl) (\<lambda>amount. Inr (
          ''[IBKR Bot] Trade closed: '' @ symbol @ ''  P&L '' @ sign @ amount,
          ''Symbol:     '' @ symbol @ newline @
          ''Exit price: '' @ field ''exit_price'' @ newline @
          ''P&L:        '' @ sign @ amount @ '' USD'' @ newline @
          ''Mode:       '' @ mode @ newline))))
     else if event_type = ''circuit_breaker'' then Inr (
       ''[IBKR Bot] ! Circuit breaker tripped - trading halted'',
       ''Reason: '' @ field ''reason'' @ newline @ ''Mode: '' @ mode @ newline)
     else if event_type = ''daily_summary'' then
       (let pnl = payload_get payload ''total_pnl'' (VFloat (Fin 0)) in
        res_bind (plus_sign pnl) (\<lambda>sign. res_bind (format_2f pnl) (\<lambda>amount. Inr (
          ''[IBKR Bot] Daily summary - P&L '' @ sign @ amount,
          ''Trades:       '' @ str_of env (payload_get payload ''trade_count'' (VInt 0)) @ newline @
          ''Wins:         '' @ str_of env (payload_get payload ''wins'' (VInt 0)) @ newline @
          ''Losses:       '' @ str_of env (payload_get payload ''losses'' (VInt 0)) @ newline @
          ''Total P&L:    '' @ sign @ amount @ '' USD'' @ newline))))
     else if event_type = ''eod_close_failed'' then Inr (
       ''[IBKR Bot] CRITICAL - EOD close failed, positions may remain open'',
       ''Reason: '' @ field ''reason'' @ newline @ ''Mode:   '' @ mode @ newline @ newline @
       ''IMMEDIATE ACTION REQUIRED: positions may be held overnight.'' @ newline)
     else if event_type = ''error'' then
       res_bind (slice_80 (payload_get payload ''error'' (VStr ''''))) (\<lambda>head. Inr (
         ''[IBKR Bot] Error - '' @ head,
         ''Error: '' @ field ''error'' @ newline @ ''Context: '' @ field ''context'' @ newline))
     else Inr (''[IBKR Bot] '' @ event_type, json_text env payload))"

section \<open>Dispatch\<close>

definition send_alert :: "alert_env \<Rightarrow> alert \<Rightarrow> ('ib world, unit) M" where
  "send_alert env a = (case deliver env a of
      Some e \<Rightarrow> raise e
    | None \<Rightarrow> modifyM (\<lambda>w. w\<lparr>outbox := outbox w @ [a]\<rparr>))"

definition getenv :: "string \<Rightarrow> string \<Rightarrow> ('ib world, string) M" where
  "getenv name d = gets (\<lambda>w. case environ w name of Some v \<Rightarrow> v | None \<Rightarrow> d)"

text \<open>The settings of \<open>_send_email\<close>, read in one \<open>try\<close>; \<open>None\<close> is its early return.\<close>

definition email_settings :: "('ib world, (string \<times> string) option) M" where
  "email_settings = try_except
     (bindM (get_str ''ALERTS_EMAIL_FROM'' (Some '''')) (\<lambda>from_addr.
      bindM (get_str ''ALERTS_EMAIL_TO'' (Some '''')) (\<lambda>to_addr.
      bindM (get_str ''ALERTS_SMTP_HOST'' (Some ''smtp.gmail.com'')) (\<lambda>_.
      bindM (get_int ''ALERTS_SMTP_PORT'' (Some 587)) (\<lambda>_.
        ret (Some (from_addr, to_addr)))))))
     any_exception (\<lambda>_. ret None)"

definition send_email :: "alert_env \<Rightarrow> string \<Rightarrow> string \<Rightarrow> ('ib world, unit) M" where
  "send_email env subject body = bindM email_settings (\<lambda>cfg. case cfg of
      None \<Rightarrow> ret ()
    | Some (from_addr, to_addr) \<Rightarrow>
        if from_addr = [] \<or> to_addr = [] then ret ()
        else bindM (getenv ''SMTP_PASSWORD'' '''') (\<lambda>password.
          if password = [] then ret ()
          else try_except (send_alert env (Email subject body)) any_exception (\<lambda>_. ret ())))"

definition send_webhook :: "alert_env \<Rightarrow> string \<Rightarrow> string \<Rightarrow> payload \<Rightarrow> ('ib world, unit) M" where
  "send_webhook env event_type subject payload =
     bindM (try_except (get_str ''ALERTS_WEBHOOK_URL'' (Some '''')) any_exception (\<lambda>_. ret '''')) (\<lambda>url.
       if url = [] then ret ()
       else try_except (send_alert env (Webhook url event_type subject payload)) any_exception (\<lambda>_. ret ()))"

definition alert_settings :: "('ib world, (bool \<times> bool) option) M" where
  "alert_settings = try_except
     (bindM (get_bool ''ALERTS_EMAIL_ENABLED'' (Some False)) (\<lambda>email_enabled.
      bindM (get_bool ''ALERTS_WEBHOOKS_ENABLED'' (Some False)) (\<lambda>webhook_enabled.
        ret (Some (email_enabled, webhook_enabled)))))
     any_exception (\<lambda>_. ret None)"

definition notify :: "alert_env \<Rightarrow> string \<Rightarrow> payload \<Rightarrow> ('ib world, unit) M" where
  "notify env event_type payload = bindM alert_settings (\<lambda>cfg. case cfg of
      None \<Rightarrow> ret ()
    | Some (email_enabled, webhook_enabled) \<Rightarrow>
        bindM (liftR (format_message env event_type payload)) (\<lambda>(subject, body).
          thenM (if email_enabled then send_email env subject body else ret ())
                (if webhook_enabled then send_webhook env event_type subject payload else ret ())))"

section \<open>What a notification leaves alone\<close>

lemma frame_state_send_alert [frame_rules]: "frame trading_state (send_alert env a)"
  by (auto simp: send_alert_def trading_state_def intro!: frame_rules frame_modifyM split: option.split)

lemma frame_state_email [frame_rules]: "frame trading_state (send_email env subject body)"
  by (auto simp: send_email_def email_settings_def getenv_def intro!: frame_rules)

lemma frame_state_webhook [frame_rules]: "frame trading_state (send_webhook env ev subject p)"
  by (auto simp: send_webhook_def intro!: frame_rules)

lemma frame_state_notify [frame_rules]: "frame trading_state (notify env ev p)"
  by (auto simp: notify_def alert_settings_def intro!: frame_rules)

section \<open>Exceptions\<close>

lemma send_email_returns [returns_rules]: "never_raises (send_email env subject body)"
  by (auto simp: send_email_def email_settings_def getenv_def intro!: returns_rules)

lemma send_webhook_returns [returns_rules]: "never_raises (send_webhook env ev subject p)"
  by (auto simp: send_webhook_def intro!: returns_rules)

lemma alert_settings_returns [returns_rules]: "never_raises alert_settings"
  by (auto simp: alert_settings_def intro!: returns_rules)

text \<open>A notification leaves everything trading depends on unchanged, and the only exceptions
  it lets out are those of the formatting: no failure to read a setting or to send reaches the
  caller.\<close>

theorem notify_outcome:
  "fst (notify env ev p w) = (case fst (alert_settings w) of
      Inr (Some _) \<Rightarrow> (case format_message env ev p of Inl e \<Rightarrow> Inl e | Inr _ \<Rightarrow> Inr ())
    | _ \<Rightarrow> Inr ())
   \<and> trading_state (snd (notify env ev p w)) = trading_state w"
proof
  obtain cfg u where cfg: "alert_settings w = (Inr cfg, u)"
    using alert_settings_returns by (rule never_raisesE)
  show "fst (notify env ev p w) = (case fst (alert_settings w) of
      Inr (Some _) \<Rightarrow> (case format_message env ev p of Inl e \<Rightarrow> Inl e | Inr _ \<Rightarrow> Inr ())
    | _ \<Rightarrow> Inr ())"
  proof (cases "cfg = None \<or> (\<exists>e. format_message env ev p = Inl e)")
    case True
    with cfg show ?thesis
      by (auto simp: notify_def bindM_def liftR_def ret_def split: option.split)
  next
    case False
    then obtain em wh subject body
      where "cfg = Some (em, wh)" and "format_message env ev p = Inr (subject, body)"
      by (metis option.exhaust surj_pair sum.exhaust)
    moreover have "never_raises (thenM (if em then send_email env subject body else ret ())
        (if wh then send_webhook env ev subject p else ret ()))"
      by (intro returns_rules)
    ultimately show ?thesis
      using cfg by (auto simp: notify_def bindM_def liftR_def elim: never_raisesE [where s = u])
  qed
  show "trading_state (snd (notify env ev p w)) = trading_state w"
    using frame_state_notify unfolding frame_def by blast
qed

text \<open>The alert for a position closed at the end of the day carries no profit or loss.  As soon
  as the alert settings can be read it raises a \<open>TypeError\<close>, whether or not any channel is
  enabled, and no alert is sent.\<close>

theorem trade_closed_without_pnl_raises:
  assumes "fst (alert_settings w) \<noteq> Inr None" and "map_of p ''pnl'' = Some VNone"
  shows "fst (notify env ''trade_closed'' p w) = Inl TypeError
    \<and> outbox (snd (notify env ''trade_closed'' p w)) = outbox w"
proof -
  obtain cfg u where cfg: "alert_settings w = (Inr cfg, u)"
    using alert_settings_returns by (rule never_raisesE)
  then obtain em wh where "cfg = Some (em, wh)" using assms(1) by (cases cfg) auto
  moreover have "frame outbox alert_settings"
    by (auto simp: alert_settings_def intro!: frame_rules)
  then have "outbox u = outbox w" using cfg by (rule frameD)
  moreover have "format_message env ''trade_closed'' p = Inl TypeError"
    using assms(2) by (simp add: format_message_def payload_get_def)
  ultimately show ?thesis using cfg by (simp add: notify_def bindM_def liftR_def)
qed

text \<open>An environment that accepts every alert.\<close>

definition plain_env :: alert_env where
  "plain_env = \<lparr>float_text = show_fixed 2, json_text = (\<lambda>_. ''{}''), deliver = (\<lambda>_. None),
     err_text = (\<lambda>_. ''error'')\<rparr>"

lemma trade_closed_without_pnl_raises_witness:
  "fst (notify plain_env ''trade_closed'' [(''symbol'', VStr ''AAPL''), (''pnl'', VNone)] (boot_world ()))
     = Inl TypeError"
proof -
  have "fst (alert_settings (boot_world ())) = Inr (Some (False, False))"
    by (simp add: alert_settings_def get_bool_def get_setting_def refresh_result boot_world_def
        monad_defs cache_fresh_def table_value_def empty_db_def)
  then show ?thesis
    using trade_closed_without_pnl_raises [of "boot_world ()" "[(''symbol'', VStr ''AAPL''), (''pnl'', VNone)]" plain_env]
    by simp
qed

end
