(* ===== verification/Signal.thy ===== *)
theory Signal
  imports Py_Str
begin

text \<open>The signal record of \<open>bot/signals/generator.py\<close> and the sentinel of its early exits.\<close>

record signal =
  g_symbol :: string
  g_action :: string
  g_entry :: pyfloat
  g_target :: pyfloat
  g_stop :: pyfloat
  g_confidence :: pyfloat
  g_explanation :: string
  g_ml_label :: string
  g_ml_prob :: pyfloat
  g_confirmed :: bool
  g_indicators :: "(string \<times> pyfloat option) list"

definition no_signal :: signal where
  "no_signal = \<lparr>g_symbol = '''', g_action = ''no_trade'', g_entry = Fin 0, g_target = Fin 0,
     g_stop = Fin 0, g_confidence = Fin 0, g_explanation = ''No signal.'', g_ml_label = ''no_trade'',
     g_ml_prob = Fin 0, g_confirmed = False, g_indicators = []\<rparr>"

end
