(* ===== verification/Risk.thy ===== *)
theory Risk
  imports Notifier Signal
begin

text \<open>
  The risk manager \<open>bot/risk/manager.py\<close>: the circuit breaker, the sizing methods and the cap on
  the size of a position.  The strings of the model are the reasons the code gives.
\<close>

record decision =
  d_approved :: bool
  d_shares :: int
  d_dollar_value :: pyfloat
  d_stop :: pyfloat
  d_target :: pyfloat
  d_reason :: string

definition rejected :: "signal \<Rightarrow> string \<Rightarrow> decision" where
  "rejected sig reason = \<lparr>d_approved = False, d_shares = 0, d_dollar_value = Fin 0,
     d_stop = g_stop sig, d_target = g_target sig, d_reason = reason\<rparr>"

section \<open>Today's statistics\<close>

text \<open>\<open>ORDER BY closed_at DESC\<close>: rows without a closing time come last.\<close>

definition newest_first :: "('r \<Rightarrow> int option) \<Rightarrow> 'r list \<Rightarrow> 'r list" where
  "newest_first stamp rs = sort_key (\<lambda>r. - the (stamp r)) (filter (\<lambda>r. stamp r \<noteq> None) rs)
     @ filter (\<lambda>r. stamp r = None) rs"

definition closed_rows :: "db \<Rightarrow> (pyfloat option \<times> int option) list" where
  "closed_rows d = map (\<lambda>t. (t_pnl t, t_closed_at t))
     (newest_first t_closed_at (filter (\<lambda>t. t_status t = ''closed'') (rows (trades d))))"

definition closed_on :: "int \<Rightarrow> int option \<Rightarrow> bool" where
  "closed_on today closed_at \<longleftrightarrow> (case closed_at of None \<Rightarrow> False | Some c \<Rightarrow> day_of c = today)"

fun stats_loop :: "int \<Rightarrow> (pyfloat option \<times> int option) list \<Rightarrow> pyfloat \<Rightarrow> int \<Rightarrow> bool \<Rightarrow> pyfloat \<times> int" where
  "stats_loop today [] today_pnl consecutive streak_active = (today_pnl, consecutive)"
| "stats_loop today ((None, closed_at) # rs) today_pnl consecutive streak_active =
     stats_loop today rs today_pnl consecutive streak_active"
| "stats_loop today ((Some pnl, closed_at) # rs) today_pnl consecutive streak_active =
     (let is_today = closed_on today closed_at;
          today_pnl' = (if is_today then today_pnl + pnl else today_pnl) in
      if streak_active then
        if \<not> is_today then stats_loop today rs today_pnl' consecutive False
        else if pnl < Fin 0 then stats_loop today rs today_pnl' (consecutive + 1) True
        else stats_loop today rs today_pnl' consecutive False
      else stats_loop today rs today_pnl' consecutive False)"

definition query_today_stats :: "int \<Rightarrow> ('ib world, pyfloat \<times> int) M" where
  "query_today_stats today = bindM (query closed_rows) (\<lambda>rs. ret (stats_loop today rs (Fin 0) 0 True))"

section \<open>The circuit breaker\<close>

definition loss_percent :: "pyfloat \<Rightarrow> pyfloat \<Rightarrow> pyfloat res" where
  "loss_percent daily_pnl portfolio_value =
     (if daily_pnl < Fin 0
      then res_bind (fdiv (- daily_pnl) portfolio_value) (\<lambda>q. Inr (q * Fin 100))
      else Inr (Fin 0))"

definition streak_check :: "int \<Rightarrow> int \<Rightarrow> string option" where
  "streak_check consecutive max_consecutive =
     (if max_consecutive \<le> consecutive
      then Some (''Consecutive losing trades ('' @ show_int consecutive @ '') reached limit (''
        @ show_int max_consecutive @ '').'')
      else None)"

definition breaker_verdict :: "pyfloat \<Rightarrow> pyfloat \<Rightarrow> int \<Rightarrow> pyfloat \<times> int \<Rightarrow> string option res" where
  "breaker_verdict portfolio_value daily_loss_pct max_consecutive stats = (case stats of (daily_pnl, consecutive) \<Rightarrow>
     if Fin 0 < portfolio_value then
       res_bind (loss_percent daily_pnl portfolio_value) (\<lambda>loss_pct.
         if daily_loss_pct \<le> loss_pct
         then Inr (Some (''Daily loss '' @ show_fixed 2 loss_pct @ ''% exceeds limit ''
           @ show_fixed 2 daily_loss_pct @ ''%.''))
         else Inr (streak_check consecutive max_consecutive))
     else Inr (streak_check consecutive max_consecutive))"

definition breaker_settings :: "('ib world, (pyfloat \<times> int) option) M" where
  "breaker_settings = try_except
     (bindM (get_float ''CIRCUIT_BREAKER_DAILY_LOSS_PCT'' (Some (Fin 3))) (\<lambda>daily_loss_pct.
      bindM (get_int ''CIRCUIT_BREAKER_CONSECUTIVE_LOSSES'' (Some 5)) (\<lambda>max_consecutive.
        ret (Some (daily_loss_pct, max_consecutive)))))
     any_exception (\<lambda>_. ret None)"

definition circuit_breaker_check :: "pyfloat \<Rightarrow> ('ib world, string option) M" where
  "circuit_breaker_check portfolio_value = bindM breaker_settings (\<lambda>cfg. case cfg of
      None \<Rightarrow> ret (Some ''Circuit breaker settings unreadable - halting trades as a safety measure.'')
    | Some (daily_loss_pct, max_consecutive) \<Rightarrow>
        bindM (gets local_today) (\<lambda>today.
        bindM (try_except (bindM (query_today_stats today) (\<lambda>st. ret (Some st)))
                 any_exception (\<lambda>_. ret None)) (\<lambda>stats. case stats of
            None \<Rightarrow> ret (Some ''Cannot verify daily P&L - halting trades as a safety measure.'')
          | Some st \<Rightarrow> liftR (breaker_verdict portfolio_value daily_loss_pct max_consecutive st))))"

section \<open>Sizing\<close>

definition kelly_amount :: "pyfloat \<Rightarrow> pyfloat \<Rightarrow> pyfloat" where
  "kelly_amount ml_probability portfolio_value = (
     let p = py_max (Fin 0) (py_min (Fin 1) ml_probability);
         q = Fin 1 - p;
         kelly = p - fdiv_lit q 2;
         half_kelly = py_max (Fin 0) (fdiv_lit kelly 2)
     in portfolio_value * half_kelly)"

definition sizing_amount :: "signal \<Rightarrow> pyfloat \<Rightarrow> string \<Rightarrow> ('ib world, pyfloat) M" where
  "sizing_amount sig portfolio_value sizing =
     (if sizing = ''fixed_amount'' then get_float ''POSITION_SIZE_AMOUNT'' (Some (Fin 5000))
      else if sizing = ''kelly'' then ret (kelly_amount (g_ml_prob sig) portfolio_value)
      else bindM (get_float ''POSITION_SIZE_PCT'' (Some (Fin 2))) (\<lambda>pct.
             ret (fdiv_lit (portfolio_value * pct) 100)))"

definition shares_for :: "pyfloat \<Rightarrow> pyfloat \<Rightarrow> pyfloat \<Rightarrow> pyfloat \<Rightarrow> int res" where
  "shares_for amount portfolio_value max_pct entry =
     res_bind (fdiv (py_min amount (fdiv_lit (portfolio_value * max_pct) 100)) entry) py_int"

definition size_position :: "signal \<Rightarrow> pyfloat \<Rightarrow> ('ib world, decision) M" where
  "size_position sig portfolio_value =
     (let entry = g_entry sig in
      if entry \<le> Fin 0 then ret (rejected sig ''Entry price is zero or negative.'')
      else
        bindM (get_str ''POSITION_SIZING_METHOD'' (Some ''fixed_pct'')) (\<lambda>sizing.
        bindM (get_float ''POSITION_MAX_PCT'' (Some (Fin 5))) (\<lambda>max_pct.
        bindM (sizing_amount sig portfolio_value sizing) (\<lambda>amount.
        bindM (liftR (shares_for amount portfolio_value max_pct entry)) (\<lambda>shares.
          if shares \<le> 0
          then ret (rejected sig (''Position size rounds to 0 shares (amount=''
            @ show_fixed 2 (py_min amount (fdiv_lit (portfolio_value * max_pct) 100))
            @ '', entry='' @ show_fixed 2 entry @ '').''))
          else ret \<lparr>d_approved = True, d_shares = shares,
            d_dollar_value = fround 2 (Fin (of_int shares) * entry),
            d_stop = g_stop sig, d_target = g_target sig, d_reason = ''Approved.''\<rparr>)))))"

section \<open>The check\<close>

definition check :: "alert_env \<Rightarrow> signal \<Rightarrow> pyfloat \<Rightarrow> string \<Rightarrow> ('ib world, decision) M" where
  "check env sig portfolio_value trading_mode =
     (if g_action sig = ''no_trade'' then ret (rejected sig ''Signal action is no_trade.'')
      else if portfolio_value \<le> Fin 0 then ret (rejected sig ''Portfolio value is zero or negative.'')
      else if trading_mode \<noteq> ''dryrun'' then
        bindM (circuit_breaker_check portfolio_value) (\<lambda>cb. case cb of
            Some (ch # chs) \<Rightarrow>
              thenM (try_except (notify env ''circuit_breaker''
                       [(''reason'', VStr (ch # chs)), (''symbol'', VStr (g_symbol sig)),
                        (''trading_mode'', VStr trading_mode)])
                     any_exception (\<lambda>_. ret ()))
                (ret (rejected sig (ch # chs)))
          | _ \<Rightarrow> size_position sig portfolio_value)
      else size_position sig portfolio_value)"

section \<open>What the check leaves alone\<close>

lemma frame_state_query: "frame trading_state (query f)"
  by (auto simp: trading_state_def intro!: frame_query)

lemma frame_state_breaker [frame_rules]: "frame trading_state (circuit_breaker_check v)"
  by (auto simp: circuit_breaker_check_def breaker_settings_def query_today_stats_def
      intro!: frame_rules frame_state_query)

lemma frame_state_size [frame_rules]: "frame trading_state (size_position sig v)"
  by (auto simp: size_position_def sizing_amount_def Let_def intro!: frame_rules)

lemma frame_state_check [frame_rules]: "frame trading_state (check env sig v mode)"
  by (auto simp: check_def intro!: frame_rules split: list.split option.split)

section \<open>Settings read from a fresh cache\<close>

text \<open>While the cache is fresh a read is a function of it and changes nothing.\<close>

lemma fresh_get_setting:
  assumes "cache_fresh w"
  shows "get_setting key dflt c w = (fst (get_setting key dflt c w), w)"
  using assms by (auto simp: get_setting_def bindM_def refresh_result gets_def liftR_def raise_def
      split: option.split)

definition fresh_str :: "'ib world \<Rightarrow> string \<Rightarrow> string option \<Rightarrow> string res" where
  "fresh_str w key d = fst (get_str key d w)"

definition fresh_float :: "'ib world \<Rightarrow> string \<Rightarrow> pyfloat option \<Rightarrow> pyfloat res" where
  "fresh_float w key d = fst (get_float key d w)"

definition fresh_int :: "'ib world \<Rightarrow> string \<Rightarrow> int option \<Rightarrow> int res" where
  "fresh_int w key d = fst (get_int key d w)"

lemma snd_bind_liftR: "snd (bindM m (\<lambda>v. liftR (f v)) w) = snd (m w)"
  by (simp add: bindM_def liftR_def split: prod.split sum.split)

lemma fresh_reads:
  assumes "cache_fresh w"
  shows "get_str key sd w = (fresh_str w key sd, w)" and "get_float key fd w = (fresh_float w key fd, w)"
    and "get_int key idf w = (fresh_int w key idf, w)"
  using fresh_get_setting [OF assms]
  by (simp_all add: prod_eq_iff typed_get_defs fresh_str_def fresh_float_def fresh_int_def snd_bind_liftR)

section \<open>Sizing\<close>

lemma shares_for_le:
  assumes "shares_for amount (Fin v) (Fin m) (Fin e) = Inr n" and "0 < e" and "0 < n"
  shows "of_int n * e \<le> v * m / 100"
proof -
  define cap where "cap = v * m / 100"
  have n: "res_bind (fdiv (py_min amount (Fin cap)) (Fin e)) py_int = Inr n"
    using assms(1) by (simp add: shares_for_def cap_def)
  have "(\<exists>a. a \<le> cap \<and> py_min amount (Fin cap) = Fin a)
      \<or> py_min amount (Fin cap) = NInf \<or> py_min amount (Fin cap) = NaN"
    by (cases amount) (auto simp: py_min_def)
  then obtain a where "a \<le> cap" and "n = trunc_real (a / e)"
    using n assms(2) by (auto simp: fdiv_def)
  then have "of_int n \<le> a / e" using assms(3) trunc_real_pos by blast
  then have "of_int n * e \<le> a" using assms(2) by (simp add: pos_le_divide_eq)
  with \<open>a \<le> cap\<close> show ?thesis by (simp add: cap_def)
qed

lemma size_position_approved:
  assumes "cache_fresh w" and "size_position sig v w = (Inr d, w')" and "d_approved d"
  obtains amount m where "fresh_float w ''POSITION_MAX_PCT'' (Some (Fin 5)) = Inr m"
    and "shares_for amount v m (g_entry sig) = Inr (d_shares d)" and "0 < d_shares d"
    and "\<not> g_entry sig \<le> Fin 0"
    and "d_dollar_value d = fround 2 (Fin (of_int (d_shares d)) * g_entry sig)"
  using assms(2,3)
  unfolding size_position_def Let_def
  by (auto simp: rejected_def ret_def fresh_reads [OF assms(1)] liftR_def elim!: bindM_InrE
      split: if_splits)

lemma cache_fresh_db_calls [simp]: "cache_fresh (w\<lparr>db_calls := n\<rparr>) = cache_fresh w"
  by (simp add: cache_fresh_def split: option.split)

lemma fresh_db_calls:
  assumes "cache_fresh w"
  shows "fresh_float (w\<lparr>db_calls := n\<rparr>) key fd = fresh_float w key fd"
  using assms
  by (simp add: fresh_float_def get_float_def bindM_def get_setting_def refresh_result gets_def
      liftR_def raise_def split: option.split)

lemma absent_reads:
  assumes "cache_fresh w" and "cfg_cache w key = None"
  shows "get_str key (Some s) w = (Inr s, w)" and "get_float key (Some x) w = (Inr x, w)"
    and "get_int key (Some k) w = (Inr k, w)" and "get_bool key (Some b) w = (Inr b, w)"
  using assms
  by (simp_all add: typed_get_defs get_setting_def bindM_def refresh_result gets_def liftR_def)

section \<open>The statistics against their specification\<close>

definition known_pnls :: "(pyfloat option \<times> int option) list \<Rightarrow> (pyfloat \<times> int option) list" where
  "known_pnls rs = map (\<lambda>(p, c). (the p, c)) (filter (\<lambda>(p, _). p \<noteq> None) rs)"

text \<open>The profit of the day, and the losing streak at the end of the day's trades.\<close>

definition day_pnl :: "int \<Rightarrow> (pyfloat option \<times> int option) list \<Rightarrow> pyfloat" where
  "day_pnl today rs = sum_list (map fst (filter (\<lambda>(_, c). closed_on today c) (known_pnls rs)))"

definition losing_streak :: "int \<Rightarrow> (pyfloat option \<times> int option) list \<Rightarrow> nat" where
  "losing_streak today rs = length (takeWhile (\<lambda>(p, c). closed_on today c \<and> p < Fin 0) (known_pnls rs))"

lemma stats_loop_general:
  "stats_loop today rs pnl k active = (pnl + day_pnl today rs,
     k + (if active then int (losing_streak today rs) else 0))"
proof (induction today rs pnl k active rule: stats_loop.induct)
  case (1 today pnl k active)
  then show ?case by (cases pnl) (simp_all add: day_pnl_def losing_streak_def known_pnls_def zero_pyfloat_def)
next
  case (2 today c rs pnl k active)
  then show ?case by (simp add: day_pnl_def losing_streak_def known_pnls_def)
next
  case (3 today p c rs pnl k active)
  then show ?case
    by (auto simp: Let_def day_pnl_def losing_streak_def known_pnls_def add.assoc)
qed

lemma circuit_breaker_fresh:
  assumes "cache_fresh w"
  shows "\<exists>n. snd (circuit_breaker_check v w) = w\<lparr>db_calls := n\<rparr>"
proof -
  have "snd (breaker_settings w) = w"
    by (simp add: breaker_settings_def try_except_def bindM_def fresh_reads [OF assms] ret_def
        split: sum.split)
  moreover have "never_raises breaker_settings"
    unfolding breaker_settings_def by (intro returns_rules)
  ultimately obtain cfg where "breaker_settings w = (Inr cfg, w)"
    by (metis never_raisesE snd_conv)
  then show ?thesis
    by (cases cfg)
       (auto simp: circuit_breaker_check_def bindM_def gets_def try_except_def query_today_stats_def
          query_apply ret_def liftR_def intro: exI [of _ "db_calls w"])
qed

text \<open>C30: the profit of the day and the number of consecutive losses that the circuit breaker
  reads are those of their specification: the sum over the trades closed today, and the length
  of the run of losses that starts at the trade closed last, within today.\<close>

theorem today_stats_correct:
  "fst (query_today_stats today w) = (if db_up w (db_calls w)
     then Inr (day_pnl today (closed_rows (db w)), int (losing_streak today (closed_rows (db w))))
     else Inl DbError)"
  by (simp add: query_today_stats_def bindM_def query_apply ret_def stats_loop_general)
     (simp flip: zero_pyfloat_def)

text \<open>How an approval came about: the sizing approved it, and outside dry runs the circuit breaker
  had read its statistics and was clear.\<close>

lemma check_approvedE:
  assumes "cache_fresh w" and "check env sig v mode w = (Inr d, w')" and "d_approved d"
  obtains n where "size_position sig v (w\<lparr>db_calls := n\<rparr>) = (Inr d, w')"
    and "mode \<noteq> ''dryrun'' \<Longrightarrow> fst (circuit_breaker_check v w) = Inr None
           \<or> fst (circuit_breaker_check v w) = Inr (Some [])"
proof (cases "mode = ''dryrun''")
  case True
  with assms that [of "db_calls w"] show ?thesis
    by (auto simp: check_def rejected_def ret_def split: if_splits)
next
  case False
  from circuit_breaker_fresh [OF assms(1)] obtain r n
    where cb: "circuit_breaker_check v w = (r, w\<lparr>db_calls := n\<rparr>)" by (metis prod.collapse)
  have "r = Inr None \<or> r = Inr (Some [])" and "size_position sig v (w\<lparr>db_calls := n\<rparr>) = (Inr d, w')"
    using assms(2,3) False cb
    by (auto simp: check_def rejected_def ret_def bindM_def elim!: thenM_InrE
        split: if_splits sum.splits option.splits list.splits)
  with cb that show ?thesis by auto
qed


text \<open>The verdict of the breaker, written over finite numbers.\<close>

definition breaker_clear :: "pyfloat \<Rightarrow> pyfloat \<Rightarrow> int \<Rightarrow> pyfloat \<Rightarrow> nat \<Rightarrow> bool" where
  "breaker_clear v limit max_consecutive pnl streak \<longleftrightarrow>
     int streak < max_consecutive
   \<and> (\<forall>x l p. v = Fin x \<and> limit = Fin l \<and> pnl = Fin p \<longrightarrow> (if p < 0 then - p / x * 100 else 0) < l)"

lemma breaker_verdict_clear:
  assumes "breaker_verdict v limit k (pnl, int n) = Inr None \<or> breaker_verdict v limit k (pnl, int n) = Inr (Some [])"
    and "\<not> v \<le> Fin 0"
  shows "breaker_clear v limit k pnl n"
  using assms
  by (auto simp: breaker_verdict_def breaker_clear_def loss_percent_def streak_check_def res_bind_Inr_iff
      split: if_splits)

text \<open>C4: the circuit breaker fails closed.  When a signal is approved for an order in paper or live
  mode, the breaker's settings were readable, the day's trades had been read from the database,
  the loss of the day was below its limit and the losing streak below its own.\<close>

theorem approved_breaker_clear:
  assumes "cache_fresh w" and "check env sig v mode w = (Inr d, w')" and "d_approved d"
    and "mode \<noteq> ''dryrun''"
  shows "db_up w (db_calls w) \<and> (\<exists>limit k.
      fresh_float w ''CIRCUIT_BREAKER_DAILY_LOSS_PCT'' (Some (Fin 3)) = Inr limit
    \<and> fresh_int w ''CIRCUIT_BREAKER_CONSECUTIVE_LOSSES'' (Some 5) = Inr k
    \<and> breaker_clear v limit k (day_pnl (local_today w) (closed_rows (db w)))
        (losing_streak (local_today w) (closed_rows (db w))))"
proof -
  have pos: "\<not> v \<le> Fin 0"
    using assms(2,3) by (auto simp: check_def rejected_def ret_def split: if_splits)
  have cb: "fst (circuit_breaker_check v w) = Inr None \<or> fst (circuit_breaker_check v w) = Inr (Some [])"
    using assms by (blast elim: check_approvedE)
  obtain limit k where lk:
    "fresh_float w ''CIRCUIT_BREAKER_DAILY_LOSS_PCT'' (Some (Fin 3)) = Inr limit"
    "fresh_int w ''CIRCUIT_BREAKER_CONSECUTIVE_LOSSES'' (Some 5) = Inr k"
    using cb
    by (auto simp: circuit_breaker_check_def breaker_settings_def bindM_def try_except_def ret_def
        fresh_reads [OF assms(1)] split: sum.splits)
  then have settings: "breaker_settings w = (Inr (Some (limit, k)), w)"
    by (simp add: breaker_settings_def try_except_def bindM_def ret_def fresh_reads [OF assms(1)])
  have up: "db_up w (db_calls w)"
    using cb settings
    by (auto simp: circuit_breaker_check_def bindM_def gets_def try_except_def query_today_stats_def
        query_apply ret_def split: if_splits)
  then have "fst (circuit_breaker_check v w) = breaker_verdict v limit k
      (day_pnl (local_today w) (closed_rows (db w)), int (losing_streak (local_today w) (closed_rows (db w))))"
    using settings today_stats_correct [of "local_today w" w]
    by (cases "query_today_stats (local_today w) w")
       (auto simp: circuit_breaker_check_def bindM_def gets_def try_except_def ret_def liftR_def)
  with cb pos lk up show ?thesis
    using breaker_verdict_clear by (metis (no_types, lifting))
qed

text \<open>Half-Kelly sizing never stakes more than half of the portfolio and never a negative
  amount, and stakes nothing exactly when the probability is at most one third.\<close>

theorem kelly_bounds:
  "\<exists>a. kelly_amount p (Fin v) = Fin a \<and> (0 \<le> v \<longrightarrow> 0 \<le> a \<and> a \<le> v / 2)
     \<and> (0 < v \<and> is_fin p \<longrightarrow> (a = 0) = (p \<le> Fin (1/3)))"
proof -
  obtain c where c: "py_max (Fin 0) (py_min (Fin 1) p) = Fin c" "0 \<le> c" "c \<le> 1"
    using clamp_unit_interval [of 0 1 p] by auto
  define k where "k = (c - (1 - c) / 2) / 2"
  have "k \<le> 1 / 2" and "max 0 k = 0 \<longleftrightarrow> c \<le> 1 / 3" using c by (auto simp: k_def field_simps max_def)
  then have half: "0 \<le> max 0 k" "max 0 k \<le> 1 / 2" by simp_all
  have "kelly_amount p (Fin v) = Fin (v * max 0 k)"
    unfolding kelly_amount_def Let_def by (simp add: c k_def)
  moreover have "0 \<le> v \<Longrightarrow> 0 \<le> v * max 0 k \<and> v * max 0 k \<le> v / 2"
    using half mult_left_mono [OF half(2), of v] by simp
  moreover have "(v * max 0 k = 0) = (p \<le> Fin (1/3))" if "0 < v" "is_fin p"
  proof -
    from that(2) obtain r where "p = Fin r" by (auto simp: is_fin_iff)
    with c have "c \<le> 1 / 3 \<longleftrightarrow> p \<le> Fin (1/3)" by (auto simp: max_def min_def split: if_splits)
    with that(1) \<open>max 0 k = 0 \<longleftrightarrow> c \<le> 1 / 3\<close> show ?thesis by auto
  qed
  ultimately show ?thesis by blast
qed

section \<open>A concrete approval\<close>

definition demo_world :: "unit world" where
  "demo_world = (boot_world ())\<lparr>cfg_loaded := Some 0\<rparr>"

definition demo_signal :: signal where
  "demo_signal = no_signal\<lparr>g_symbol := ''AAPL'', g_action := ''long'', g_entry := Fin 100,
     g_target := Fin 104, g_stop := Fin 98, g_ml_prob := Fin (1/2)\<rparr>"

definition demo_decision :: decision where
  "demo_decision = \<lparr>d_approved = True, d_shares = 20, d_dollar_value = Fin 2000, d_stop = Fin 98,
     d_target = Fin 104, d_reason = ''Approved.''\<rparr>"

lemma demo_fresh: "cache_fresh demo_world"
  by (simp add: demo_world_def boot_world_def cache_fresh_def)

lemma demo_no_settings: "cfg_cache demo_world = Map.empty"
  by (simp add: demo_world_def boot_world_def)

lemmas demo_reads = absent_reads [OF demo_fresh, simplified demo_no_settings, OF refl]

lemma demo_size: 
  assumes "w = demo_world\<lparr>db_calls := n\<rparr>"
  shows "fst (size_position demo_signal (Fin 100000) w) = Inr demo_decision"
proof -
  have "get_str key (Some s) w = (Inr s, w)" "get_float key (Some x) w = (Inr x, w)" for key s x
    by (simp_all add: assms absent_reads demo_fresh demo_no_settings)
  moreover have "round_real 2 2000 = 2000"
    using round_half_even_of_int [of 200000] by (simp add: round_real_def)
  ultimately show ?thesis
    by (simp add: size_position_def sizing_amount_def shares_for_def bindM_def liftR_def ret_def
        demo_signal_def demo_decision_def no_signal_def trunc_real_def Let_def)
qed

lemma demo_check: "fst (check plain_env demo_signal (Fin 100000) ''paper'' demo_world) = Inr demo_decision"
proof -
  have "circuit_breaker_check (Fin 100000) demo_world = (Inr None, demo_world\<lparr>db_calls := 1\<rparr>)"
    by (simp add: circuit_breaker_check_def breaker_settings_def bindM_def demo_reads try_except_def
        ret_def gets_def query_today_stats_def query_apply liftR_def breaker_verdict_def
        streak_check_def loss_percent_def)
       (simp add: demo_world_def boot_world_def empty_db_def empty_table_def closed_rows_def newest_first_def
        streak_check_def)
  then show ?thesis
    using demo_size [OF refl, of 1]
    by (simp add: check_def demo_signal_def no_signal_def bindM_def)
qed


lemma approved_breaker_clear_witness:
  "db_up demo_world 0 \<and> breaker_clear (Fin 100000) (Fin 3) 5 (Fin 0) 0"
proof -
  obtain w' where c: "check plain_env demo_signal (Fin 100000) ''paper'' demo_world = (Inr demo_decision, w')"
    using demo_check by (metis prod.collapse)
  have "fresh_float demo_world ''CIRCUIT_BREAKER_DAILY_LOSS_PCT'' (Some (Fin 3)) = Inr (Fin 3)"
    "fresh_int demo_world ''CIRCUIT_BREAKER_CONSECUTIVE_LOSSES'' (Some 5) = Inr 5"
    by (simp_all add: fresh_float_def fresh_int_def demo_reads)
  moreover have "closed_rows (db demo_world) = []" "db_calls demo_world = 0"
    by (simp_all add: closed_rows_def demo_world_def boot_world_def empty_db_def empty_table_def newest_first_def)
  ultimately show ?thesis
    using approved_breaker_clear [OF demo_fresh c]
    by (simp add: demo_decision_def day_pnl_def losing_streak_def known_pnls_def zero_pyfloat_def)
qed

lemma kelly_bounds_witness:
  "\<exists>a. kelly_amount (Fin (3/5)) (Fin 1000) = Fin a \<and> 0 < a \<and> a \<le> 500"
  using kelly_bounds [of "Fin (3/5)" 1000] by (auto simp: order_less_le)

end
