(* ===== verification/Executor.thy ===== *)
theory Executor
  imports Broker Risk
begin

text \<open>
  The order executor \<open>bot/orders/executor.py\<close>: the trade record, the limit order, the polling
  for its fill, and the market order that follows when it is not filled in time.  The clients of
  a broker are proved in the locale \<open>order_broker\<close> and hold for \<open>IBKRConnection\<close> through its
  interpretation.
\<close>

record order_result =
  o_success :: bool
  o_trade_id :: "int option"
  o_order_id :: "int option"
  o_fill :: "pyfloat option"
  o_shares :: int
  o_symbol :: string
  o_action :: string
  o_reason :: string

definition poll_interval_ms :: int where
  "poll_interval_ms = 2000"

section \<open>Polling for a fill\<close>

text \<open>\<open>time.monotonic()\<close> never goes back, so a call does not end before it began.\<close>

definition timed :: "('ib world, 'a) M \<Rightarrow> ('ib world, 'a) M" where
  "timed m = (\<lambda>w. case m w of (r, u) \<Rightarrow> (r, u\<lparr>clock := max (clock w) (clock u)\<rparr>))"

lemma timed_clock: "timed m w = (r, u) \<Longrightarrow> clock w \<le> clock u"
  by (auto simp: timed_def split: prod.splits)

lemma wait_stop_returns [returns_rules]: "never_raises (wait_stop d)"
  by (auto simp: never_raises_def wait_stop_def split: option.split)

lemma wait_stop_clock: "wait_stop d w = (Inr False, u) \<Longrightarrow> clock u = clock w + d"
  by (auto simp: wait_stop_def split: option.splits if_splits)

text \<open>The three ways one round of the loop ends.\<close>

datatype poll_step = Filled_at pyfloat | Given_up | Keep_polling

definition poll_verdict :: "(string \<times> pyfloat option) res \<Rightarrow> poll_step" where
  "poll_verdict r = (case r of
      Inl _ \<Rightarrow> Keep_polling
    | Inr (status, fill_price) \<Rightarrow>
        (case (status = ''Filled'', fill_price) of
           (True, Some p) \<Rightarrow> Filled_at p
         | _ \<Rightarrow> if status \<in> {''Cancelled'', ''Inactive''} then Given_up else Keep_polling))"

function poll_fill :: "'ib broker_ops \<Rightarrow> int \<Rightarrow> int \<Rightarrow> ('ib world, pyfloat option) M" where
  "poll_fill B order_id deadline w =
     (if clock w < deadline then
        (case timed (b_status B order_id) w of (r, u) \<Rightarrow>
          (case poll_verdict r of
             Filled_at p \<Rightarrow> (Inr (Some p), u)
           | Given_up \<Rightarrow> (Inr None, u)
           | Keep_polling \<Rightarrow> (case wait_stop poll_interval_ms u of
               (Inr False, v) \<Rightarrow> poll_fill B order_id deadline v
             | (_, v) \<Rightarrow> (Inr None, v))))
      else (Inr None, w))"
  by pat_completeness auto
termination
  by (relation "measure (\<lambda>(B, i, deadline, w). nat (deadline - clock w))")
     (auto dest!: timed_clock [OF sym] wait_stop_clock [OF sym] simp: poll_interval_ms_def)

declare poll_fill.simps [simp del]

definition wait_for_fill :: "'ib broker_ops \<Rightarrow> int \<Rightarrow> int \<Rightarrow> ('ib world, pyfloat option) M" where
  "wait_for_fill B order_id timeout = (\<lambda>w. poll_fill B order_id (clock w + 1000 * timeout) w)"

section \<open>The trade record\<close>

definition trade_of :: "signal \<Rightarrow> decision \<Rightarrow> string \<Rightarrow> int \<Rightarrow> trade" where
  "trade_of sig dec trading_mode now = \<lparr>t_id = 0, t_symbol = g_symbol sig, t_action = g_action sig,
     t_mode = trading_mode, t_status = ''pending'', t_shares = d_shares dec, t_entry = g_entry sig,
     t_target = g_target sig, t_stop = g_stop sig, t_fill = None, t_exit = None, t_pnl = None,
     t_order_id = None, t_ml_label = g_ml_label sig, t_ml_prob = g_ml_prob sig,
     t_confirmed = g_confirmed sig,
     t_explanation = (if g_explanation sig = [] then None else Some (take 500 (g_explanation sig))),
     t_created = now, t_filled_at = None, t_closed_at = None\<rparr>"

definition create_trade_record :: "signal \<Rightarrow> decision \<Rightarrow> string \<Rightarrow> ('ib world, int option) M" where
  "create_trade_record sig dec trading_mode = bindM (gets clock) (\<lambda>now.
     try_except
       (with_session (\<lambda>d. case insert_row (\<lambda>i t. t\<lparr>t_id := i\<rparr>) (trade_of sig dec trading_mode now) (trades d) of
          (i, ts) \<Rightarrow> (Inr (Some i), d\<lparr>trades := ts\<rparr>)))
       any_exception (\<lambda>_. ret None))"

text \<open>\<open>_update_trade(trade_id, **kwargs)\<close>; the keywords are the update of the row.\<close>

definition update_trade :: "int option \<Rightarrow> (trade \<Rightarrow> trade) \<Rightarrow> ('ib world, unit) M" where
  "update_trade trade_id kwargs = (case trade_id of
      None \<Rightarrow> ret ()
    | Some i \<Rightarrow> try_except
        (execute_update (\<lambda>d. d\<lparr>trades := update_row t_id i kwargs (trades d)\<rparr>))
        any_exception (\<lambda>_. ret ()))"

section \<open>Executing a decision\<close>

definition result_of :: "signal \<Rightarrow> decision \<Rightarrow> bool \<Rightarrow> int option \<Rightarrow> int option \<Rightarrow> pyfloat option \<Rightarrow> string \<Rightarrow>
    order_result" where
  "result_of sig dec success trade_id order_id fill reason = \<lparr>o_success = success,
     o_trade_id = trade_id, o_order_id = order_id, o_fill = fill, o_shares = d_shares dec,
     o_symbol = g_symbol sig, o_action = g_action sig, o_reason = reason\<rparr>"

definition fill_timeout :: "('ib world, int) M" where
  "fill_timeout = try_except (get_int ''ORDER_FILL_TIMEOUT_SECONDS'' (Some 60)) any_exception (\<lambda>_. ret 60)"

text \<open>From the placed limit order to the end: the lines after \<open>_update_trade(.., status="open")\<close>.
  The market order is tried once, in its own \<open>try\<close>.\<close>

definition market_fallback :: "'ib broker_ops \<Rightarrow> signal \<Rightarrow> decision \<Rightarrow> string \<Rightarrow>
    ('ib world, pyfloat option \<times> int option) M" where
  "market_fallback B sig dec ibkr_action = try_except
     (bindM (b_place B (g_symbol sig) ibkr_action (d_shares dec) ''MKT'' None) (\<lambda>mkt_order_id.
      bindM (wait_for_fill B mkt_order_id 15) (\<lambda>fill_price. ret (fill_price, Some mkt_order_id))))
     any_exception (\<lambda>_. ret (None, None))"

definition report_fill :: "signal \<Rightarrow> decision \<Rightarrow> int option \<Rightarrow> (trade \<Rightarrow> trade) \<Rightarrow> int option \<Rightarrow> pyfloat \<Rightarrow>
    string \<Rightarrow> ('ib world, order_result) M" where
  "report_fill sig dec trade_id ids order_id p reason =
     bindM (gets clock) (\<lambda>now.
     thenM (update_trade trade_id (\<lambda>t. (ids t)\<lparr>t_status := ''filled'', t_fill := Some p, t_filled_at := Some now\<rparr>))
       (ret (result_of sig dec True trade_id order_id (Some p) reason)))"

definition after_timeout :: "'ib broker_ops \<Rightarrow> signal \<Rightarrow> decision \<Rightarrow> int option \<Rightarrow> string \<Rightarrow> int \<Rightarrow>
    ('ib world, order_result) M" where
  "after_timeout B sig dec trade_id ibkr_action order_id =
     thenM (try_except (b_cancel B order_id) any_exception (\<lambda>_. ret ()))
     (bindM (market_fallback B sig dec ibkr_action) (\<lambda>(mkt_fill, mkt_order_id). case mkt_fill of
        Some p \<Rightarrow> report_fill sig dec trade_id (\<lambda>t. t\<lparr>t_order_id := mkt_order_id\<rparr>) mkt_order_id p
          ''Filled via market order after limit timeout.''
      | None \<Rightarrow>
          thenM (update_trade trade_id (\<lambda>t. t\<lparr>t_status := ''error''\<rparr>))
            (ret (result_of sig dec False trade_id None None
                    ''Order unfilled after limit timeout and market fallback.''))))"

definition monitor_order :: "'ib broker_ops \<Rightarrow> signal \<Rightarrow> decision \<Rightarrow> int option \<Rightarrow> string \<Rightarrow> int \<Rightarrow>
    ('ib world, order_result) M" where
  "monitor_order B sig dec trade_id ibkr_action order_id =
     bindM fill_timeout (\<lambda>timeout.
     bindM (wait_for_fill B order_id timeout) (\<lambda>fill_price. case fill_price of
       Some p \<Rightarrow> report_fill sig dec trade_id (\<lambda>t. t) (Some order_id) p ''Filled.''
     | None \<Rightarrow> after_timeout B sig dec trade_id ibkr_action order_id))"

definition place_limit :: "'ib broker_ops \<Rightarrow> signal \<Rightarrow> decision \<Rightarrow> string \<Rightarrow> ('ib world, exc + int) M" where
  "place_limit B sig dec ibkr_action = try_except
     (bindM (b_place B (g_symbol sig) ibkr_action (d_shares dec) ''LMT'' (Some (g_entry sig)))
        (\<lambda>order_id. ret (Inr order_id)))
     any_exception (\<lambda>e. ret (Inl e))"

definition send_order :: "alert_env \<Rightarrow> signal \<Rightarrow> decision \<Rightarrow> int option \<Rightarrow> 'ib broker_ops \<Rightarrow>
    ('ib world, order_result) M" where
  "send_order env sig dec trade_id B =
     (let ibkr_action = (if g_action sig = ''long'' then ''BUY'' else ''SELL'') in
      bindM (place_limit B sig dec ibkr_action) (\<lambda>placed. case placed of
        Inl e \<Rightarrow>
          thenM (update_trade trade_id (\<lambda>t. t\<lparr>t_status := ''error''\<rparr>))
            (ret (result_of sig dec False trade_id None None (''Place order failed: '' @ err_text env e)))
      | Inr order_id \<Rightarrow>
          thenM (update_trade trade_id (\<lambda>t. t\<lparr>t_status := ''open'', t_order_id := Some order_id\<rparr>))
            (monitor_order B sig dec trade_id ibkr_action order_id)))"

definition execute :: "alert_env \<Rightarrow> signal \<Rightarrow> decision \<Rightarrow> string \<Rightarrow> 'ib broker_ops option \<Rightarrow>
    ('ib world, order_result) M" where
  "execute env sig dec trading_mode broker =
     (if \<not> d_approved dec
      then ret (result_of sig (dec\<lparr>d_shares := 0\<rparr>) False None None None ''Risk decision not approved.'')
      else bindM (create_trade_record sig dec trading_mode) (\<lambda>trade_id.
        if trade_id = None
        then ret (result_of sig dec False None None None ''Trade record creation failed - order aborted.'')
        else if trading_mode = ''dryrun'' then
          thenM (update_trade trade_id (\<lambda>t. t\<lparr>t_status := ''dryrun'', t_fill := Some (g_entry sig)\<rparr>))
            (ret (result_of sig dec True trade_id None (Some (g_entry sig)) ''Dryrun - order logged.''))
        else (case broker of
          None \<Rightarrow>
            thenM (update_trade trade_id (\<lambda>t. t\<lparr>t_status := ''error''\<rparr>))
              (ret (result_of sig dec False trade_id None None ''No broker configured.''))
        | Some B \<Rightarrow> send_order env sig dec trade_id B)))"

section \<open>Polling returns, and in time\<close>

text \<open>One rule for every property of the loop: what holds of its exits and is kept by a round.\<close>

lemma poll_fill_rule:
  assumes expired: "\<And>w. deadline \<le> clock w \<Longrightarrow> P w None w"
    and filled: "\<And>w s p u. clock w < deadline \<Longrightarrow> timed (b_status B i) w = (s, u) \<Longrightarrow>
      poll_verdict s = Filled_at p \<Longrightarrow> P w (Some p) u"
    and given_up: "\<And>w s u. clock w < deadline \<Longrightarrow> timed (b_status B i) w = (s, u) \<Longrightarrow>
      poll_verdict s = Given_up \<Longrightarrow> P w None u"
    and interrupted: "\<And>w s u v. clock w < deadline \<Longrightarrow> timed (b_status B i) w = (s, u) \<Longrightarrow>
      wait_stop poll_interval_ms u = (Inr True, v) \<Longrightarrow> P w None v"
    and again: "\<And>w s u v x y. clock w < deadline \<Longrightarrow> timed (b_status B i) w = (s, u) \<Longrightarrow>
      wait_stop poll_interval_ms u = (Inr False, v) \<Longrightarrow> P v x y \<Longrightarrow> P w x y"
  shows "\<exists>x u. poll_fill B i deadline w = (Inr x, u) \<and> P w x u"
proof (induction "nat (deadline - clock w)" arbitrary: w rule: less_induct)
  case less
  show ?case
  proof (cases "clock w < deadline")
    case False
    with expired show ?thesis by (simp add: poll_fill.simps)
  next
    case True
    obtain s u where s: "timed (b_status B i) w = (s, u)" by force
    obtain stop v where q: "wait_stop poll_interval_ms u = (Inr stop, v)"
      using wait_stop_returns by (rule never_raisesE)
    note unfold = poll_fill.simps [of B i deadline w]
    show ?thesis
    proof (cases "poll_verdict s")
      case (Filled_at p)
      with True s filled show ?thesis by (simp add: unfold)
    next
      case Given_up
      with True s given_up show ?thesis by (simp add: unfold)
    next
      case Keep_polling
      show ?thesis
      proof (cases stop)
        case stopped: True
        with True s q Keep_polling interrupted show ?thesis by (simp add: unfold)
      next
        case False
        with q have "wait_stop poll_interval_ms u = (Inr False, v)" by simp
        with timed_clock [OF s] True have "nat (deadline - clock v) < nat (deadline - clock w)"
          by (auto dest: wait_stop_clock simp: poll_interval_ms_def)
        from less [OF this] obtain x y where "poll_fill B i deadline v = (Inr x, y)" "P v x y" by blast
        with True s q False Keep_polling again show ?thesis by (simp add: unfold)
      qed
    qed
  qed
qed

lemma wait_for_fill_returns [returns_rules]: "never_raises (wait_for_fill B i timeout)"
  using poll_fill_rule [where P = "\<lambda>_ _ _. True"] by (fastforce simp: never_raises_def wait_for_fill_def)

lemma takes_timed: "takes m d \<Longrightarrow> 0 \<le> d \<Longrightarrow> timed m w = (r, u) \<Longrightarrow> clock u \<le> clock w + d"
  by (auto simp: timed_def dest: costD split: prod.splits)

lemma wait_stop_bound: "wait_stop d u = (r, v) \<Longrightarrow> 0 \<le> d \<Longrightarrow> clock v \<le> clock u + d
    \<and> clock u \<le> clock v \<and> stop_at v = stop_at u"
  by (auto simp: wait_stop_def split: option.splits if_splits)

lemma wait_stop_true: "wait_stop d u = (Inr True, v) \<Longrightarrow> \<exists>t. stop_at u = Some t \<and> clock v = max (clock u) t"
  by (auto simp: wait_stop_def split: option.splits if_splits)

lemma wait_stop_false: "wait_stop d u = (Inr False, v) \<Longrightarrow> stop_at u = Some t \<Longrightarrow> clock v < t"
  by (auto simp: wait_stop_def split: option.splits if_splits)

lemma frame_timed:
  assumes "frame book m"
  shows "frame book (timed m)"
proof (rule frameI)
  fix s :: "'a world" and r u assume "timed m s = (r, u)"
  then obtain v where "m s = (r, v)" "u = v\<lparr>clock := max (clock s) (clock v)\<rparr>"
    by (auto simp: timed_def split: prod.splits)
  with frameD [OF assms] show "book u = book s" by (simp add: book_def)
qed

lemma frame_wait_stop [frame_rules]: "frame book (wait_stop d)"
  by (auto simp: frame_def wait_stop_def book_def split: option.splits)

lemma poll_fill_bound:
  assumes "takes (b_status B i) lat" and "0 \<le> lat"
  shows "\<exists>x u. poll_fill B i deadline w = (Inr x, u) \<and> clock u \<le> max (clock w) (deadline + lat + poll_interval_ms)"
  by (rule poll_fill_rule [where P = "\<lambda>w x u. clock u \<le> max (clock w) (deadline + lat + poll_interval_ms)"])
     (auto simp: poll_interval_ms_def dest!: takes_timed [OF assms] wait_stop_bound)

lemma poll_fill_stops:
  assumes "takes (b_status B i) lat" and "0 \<le> lat" and "frame book (b_status B i)"
  shows "\<exists>x u. poll_fill B i deadline w = (Inr x, u) \<and>
    (\<forall>t. stop_at w = Some t \<longrightarrow> clock u \<le> max (clock w) t + lat)"
proof (rule poll_fill_rule [where P = "\<lambda>w x u. \<forall>t. stop_at w = Some t \<longrightarrow> clock u \<le> max (clock w) t + lat"])
  have stop: "stop_at u = stop_at w" if "timed (b_status B i) w = (s, u)" for w s u
    using frame_timed [OF assms(3)] that by (rule book_frames [THEN frameD])
  note late = takes_timed [OF assms(1,2)]
  show "\<forall>t. stop_at w = Some t \<longrightarrow> clock v \<le> max (clock w) t + lat"
    if "timed (b_status B i) w = (s, u)" "wait_stop poll_interval_ms u = (Inr True, v)" for w s u v
    using late [OF that(1)] wait_stop_true [OF that(2)] stop [OF that(1)] assms(2) by auto
  show "\<forall>t. stop_at w = Some t \<longrightarrow> clock y \<le> max (clock w) t + lat"
    if "timed (b_status B i) w = (s, u)" "wait_stop poll_interval_ms u = (Inr False, v)"
      and "\<forall>t. stop_at v = Some t \<longrightarrow> clock y \<le> max (clock v) t + lat" for w s u v y
    using that(3) wait_stop_false [OF that(2)] wait_stop_bound [OF that(2)] stop [OF that(1)]
    by (auto simp: poll_interval_ms_def)
qed (use assms(2) takes_timed [OF assms(1,2)] in \<open>force+\<close>)

section \<open>The executor as a client of a broker\<close>

lemma update_trade_returns [returns_rules]: "never_raises (update_trade i f)"
  by (auto simp: update_trade_def intro!: returns_rules)

lemma create_trade_returns [returns_rules]: "never_raises (create_trade_record sig dec mode)"
  by (auto simp: create_trade_record_def intro!: returns_rules)

lemma monitor_order_returns [returns_rules]: "never_raises (monitor_order B sig dec tid side i)"
  by (auto simp: monitor_order_def after_timeout_def report_fill_def market_fallback_def fill_timeout_def
      intro!: returns_rules)

text \<open>The state while an order of trade \<open>i\<close> is worked: the database answers, the row of the trade
  is \<open>r\<close>, and every other row is as it was in \<open>d\<close>.\<close>

definition trade_row :: "int \<Rightarrow> trade \<Rightarrow> db \<Rightarrow> 'ib world \<Rightarrow> bool" where
  "trade_row i r d w \<longleftrightarrow> db_reliable w \<and> table_ok t_id (trades (db w))
     \<and> lookup_row t_id i (trades (db w)) = Some r
     \<and> (\<forall>j. j \<noteq> i \<longrightarrow> lookup_row t_id j (trades (db w)) = lookup_row t_id j (trades d))"

lemma trade_row_keep: "trade_row i r d w \<Longrightarrow> db u = db w \<Longrightarrow> db_up u = db_up w \<Longrightarrow> trade_row i r d u"
  by (simp add: trade_row_def db_reliable_def)

lemma trade_row_book: "frame book m \<Longrightarrow> m w = (x, u) \<Longrightarrow> trade_row i r d w \<Longrightarrow> trade_row i r d u"
  by (erule trade_row_keep) (auto dest: frameD simp: book_def)

lemma trade_row_setting: "frame trading_state m \<Longrightarrow> m w = (x, u) \<Longrightarrow> trade_row i r d w \<Longrightarrow> trade_row i r d u"
  by (erule trade_row_keep) (auto dest: frameD simp: trading_state_def)

lemma trade_row_gets: "gets f w = (x, u) \<Longrightarrow> trade_row i r d w \<Longrightarrow> trade_row i r d u \<and> x = Inr (f w)"
  by (auto simp: gets_def)

lemma trade_row_update:
  assumes "update_trade (Some i) f w = (x, u)" and "trade_row i r d w" and "\<And>r. t_id (f r) = t_id r"
  shows "trade_row i (f r) d u"
  using assms trade_tab.update_ok [of "trades (db w)" f i] trade_tab.lookup_update [of f _ i "trades (db w)"]
  by (auto simp: trade_row_def db_reliable_def update_trade_def execute_update_apply try_except_def
      option.map_ident)

lemma trade_row_create:
  assumes "create_trade_record sig dec mode w = (x, u)" and "db_reliable w"
    and "table_ok t_id (trades (db w))"
  obtains i where "x = Inr (Some i)" and "lookup_row t_id i (trades (db w)) = None"
    and "trade_row i ((trade_of sig dec mode (clock w))\<lparr>t_id := i\<rparr>) (db w) u"
proof -
  obtain i ts where ins: "insert_row (\<lambda>i t. t\<lparr>t_id := i\<rparr>) (trade_of sig dec mode (clock w)) (trades (db w)) = (i, ts)"
    by force
  note facts = trade_tab.insert_ok [OF assms(3) ins] trade_tab.insert_fresh [OF assms(3) ins]
    trade_tab.lookup_insert [OF assms(3) ins] trade_tab.lookup_insert_other [OF ins]
  with assms(1,2) ins that show ?thesis
    by (auto simp: create_trade_record_def bindM_def gets_def try_except_def with_session_def Let_def
        db_reliable_def trade_row_def)
qed

definition order_outcome :: "signal \<Rightarrow> decision \<Rightarrow> string \<Rightarrow> int \<Rightarrow> order_result \<Rightarrow> trade \<Rightarrow> bool" where
  "order_outcome sig dec mode i res r \<longleftrightarrow> o_trade_id res = Some i
     \<and> t_symbol r = g_symbol sig \<and> t_action r = g_action sig \<and> t_shares r = d_shares dec \<and> t_mode r = mode
     \<and> (if o_success res
        then t_status r = (if mode = ''dryrun'' then ''dryrun'' else ''filled'')
           \<and> t_fill r = o_fill res \<and> o_fill res \<noteq> None
        else t_status r = ''error'' \<and> t_fill r = None \<and> o_fill res = None)"

definition row_of :: "signal \<Rightarrow> decision \<Rightarrow> string \<Rightarrow> trade \<Rightarrow> bool" where
  "row_of sig dec mode r \<longleftrightarrow> t_symbol r = g_symbol sig \<and> t_action r = g_action sig
     \<and> t_shares r = d_shares dec \<and> t_mode r = mode \<and> t_fill r = None"

context order_broker
begin

lemma wait_book: "frame book (wait_for_fill B i timeout)"
proof (rule frameI)
  fix w u :: "'ib world" and r assume "wait_for_fill B i timeout w = (r, u)"
  moreover have "\<exists>x v. poll_fill B i (clock w + 1000 * timeout) w = (Inr x, v) \<and> book v = book w"
    by (rule poll_fill_rule [where P = "\<lambda>w _ u. book u = book w"])
       (metis frameD frame_timed frame_wait_stop status_book)+
  ultimately show "book u = book w" by (auto simp: wait_for_fill_def)
qed

lemma fallback_book: "frame book (market_fallback B sig dec side)"
  by (auto simp: market_fallback_def intro!: frame_rules wait_book place_book)

lemma place_limit_book: "frame book (place_limit B sig dec side)"
  by (auto simp: place_limit_def intro!: frame_rules place_book)

lemma cancel_try_book: "frame book (try_except (b_cancel B i) any_exception (\<lambda>_. ret ()))"
  by (intro frame_rules cancel_book)

lemma report_fill_outcome:
  assumes "report_fill sig dec (Some i) ids oid p reason w = (Inr res, u)" and "trade_row i r d w"
    and "row_of sig dec mode r" and "mode \<noteq> ''dryrun''"
    and "\<And>r. row_of sig dec mode (ids r) = row_of sig dec mode r" and "\<And>r. t_id (ids r) = t_id r"
  shows "\<exists>r'. trade_row i r' d u \<and> order_outcome sig dec mode i res r'"
proof -
  obtain now x w1 where up: "update_trade (Some i) (\<lambda>t. (ids t)\<lparr>t_status := ''filled'', t_fill := Some p,
      t_filled_at := Some now\<rparr>) w = (x, w1)" and res: "res = result_of sig dec True (Some i) oid (Some p) reason" "u = w1"
    using assms(1) unfolding report_fill_def gets_def
    by (auto elim!: bindM_InrE thenM_InrE simp: ret_def)
  from trade_row_update [OF up assms(2)] assms(3-6) show ?thesis
    by (force simp: res result_of_def order_outcome_def row_of_def)
qed

lemma monitor_outcome:
  assumes "monitor_order B sig dec (Some i) side oid w = (Inr res, u)" and "trade_row i r d w"
    and "row_of sig dec mode r" and "mode \<noteq> ''dryrun''"
  shows "\<exists>r'. trade_row i r' d u \<and> order_outcome sig dec mode i res r'"
proof -
  have timeout: "frame trading_state fill_timeout"
    unfolding fill_timeout_def by (intro frame_rules)
  obtain n w1 fill w2 where w1: "fill_timeout w = (Inr n, w1)" and w2: "wait_for_fill B oid n w1 = (Inr fill, w2)"
    and rest: "(case fill of Some p \<Rightarrow> report_fill sig dec (Some i) (\<lambda>t. t) (Some oid) p ''Filled.''
       | None \<Rightarrow> after_timeout B sig dec (Some i) side oid) w2 = (Inr res, u)"
    using assms(1) unfolding monitor_order_def by (elim bindM_InrE)
  have row: "trade_row i r d w2"
    by (rule trade_row_book [OF wait_book w2 trade_row_setting [OF timeout w1 assms(2)]])
  show ?thesis
  proof (cases fill)
    case (Some p)
    with rest row assms(3,4) show ?thesis by (auto dest!: report_fill_outcome)
  next
    case None
    then obtain x w3 m w4 where w3: "try_except (b_cancel B oid) any_exception (\<lambda>_. ret ()) w2 = (Inr x, w3)"
      and w4: "market_fallback B sig dec side w3 = (Inr m, w4)"
      and rest2: "(case m of (Some p, mo) \<Rightarrow> report_fill sig dec (Some i) (\<lambda>t. t\<lparr>t_order_id := mo\<rparr>) mo p
            ''Filled via market order after limit timeout.''
        | (None, mo) \<Rightarrow> thenM (update_trade (Some i) (\<lambda>t. t\<lparr>t_status := ''error''\<rparr>))
            (ret (result_of sig dec False (Some i) None None
                    ''Order unfilled after limit timeout and market fallback.''))) w4 = (Inr res, u)"
      using rest unfolding after_timeout_def by (auto elim!: bindM_InrE thenM_InrE)
    have row4: "trade_row i r d w4"
      by (rule trade_row_book [OF fallback_book w4 trade_row_book [OF cancel_try_book w3 row]])
    show ?thesis
    proof (cases "fst m")
      case (Some p)
      then obtain mo where "m = (Some p, mo)" by (metis prod.collapse)
      with rest2 have "report_fill sig dec (Some i) (\<lambda>t. t\<lparr>t_order_id := mo\<rparr>) mo p
          ''Filled via market order after limit timeout.'' w4 = (Inr res, u)" by simp
      from report_fill_outcome [OF this row4 assms(3,4)] show ?thesis by (simp add: row_of_def)
    next
      case None
      then obtain mo where "m = (None, mo)" by (metis prod.collapse)
      with rest2 obtain y v where "update_trade (Some i) (\<lambda>t. t\<lparr>t_status := ''error''\<rparr>) w4 = (y, v)"
        and "res = result_of sig dec False (Some i) None None
              ''Order unfilled after limit timeout and market fallback.''" "u = v"
        by (auto elim!: thenM_InrE simp: ret_def)
      with trade_row_update [OF this(1) row4] assms(3,4) show ?thesis
        by (force simp: result_of_def order_outcome_def row_of_def)
    qed
  qed
qed

lemma execute_outcome:
  assumes "execute env sig dec mode broker w = (Inr res, u)" and "d_approved dec"
    and "db_reliable w" and "table_ok t_id (trades (db w))" and "broker = Some B \<or> broker = None"
  shows "\<exists>i r. lookup_row t_id i (trades (db w)) = None \<and> trade_row i r (db w) u
    \<and> order_outcome sig dec mode i res r"
proof -
  obtain x w1 where create: "create_trade_record sig dec mode w = (x, w1)" by force
  from trade_row_create [OF create assms(3,4)] obtain i where x: "x = Inr (Some i)"
    and fresh: "lookup_row t_id i (trades (db w)) = None"
    and row: "trade_row i ((trade_of sig dec mode (clock w))\<lparr>t_id := i\<rparr>) (db w) w1"
    by blast
  define r where "r = (trade_of sig dec mode (clock w))\<lparr>t_id := i\<rparr>"
  have r: "row_of sig dec mode r" "trade_row i r (db w) w1"
    using row by (simp_all add: row_of_def trade_of_def r_def)
  have err: "\<exists>r'. trade_row i r' (db w) u \<and> order_outcome sig dec mode i res r'"
    if "thenM (update_trade (Some i) (\<lambda>t. t\<lparr>t_status := ''error''\<rparr>))
         (ret (result_of sig dec False (Some i) None None reason)) v = (Inr res, u)"
      and "trade_row i r (db w) v" for reason v
    using that(1) trade_row_update [OF _ that(2)] r(1)
    by (force elim!: thenM_InrE simp: ret_def result_of_def order_outcome_def row_of_def)
  show ?thesis
  proof (cases "mode = ''dryrun''")
    case True
    with assms(1,2) create x obtain y where
      up: "update_trade (Some i) (\<lambda>t. t\<lparr>t_status := ''dryrun'', t_fill := Some (g_entry sig)\<rparr>) w1 = (y, u)"
      and "res = result_of sig dec True (Some i) None (Some (g_entry sig)) ''Dryrun - order logged.''"
      by (auto simp: execute_def bindM_def ret_def elim!: thenM_InrE)
    with trade_row_update [OF up r(2)] r(1) True fresh show ?thesis
      by (force simp: result_of_def order_outcome_def row_of_def)
  next
    case live: False
    show ?thesis
    proof (cases broker)
      case None
      with assms(1,2) create x live err [OF _ r(2)] fresh show ?thesis
        by (force simp: execute_def bindM_def)
    next
      case (Some B')
      then have B: "broker = Some B" using assms(5) by simp
      define side where "side = (if g_action sig = ''long'' then ''BUY'' else ''SELL'')"
      obtain placed w2 where place: "place_limit B sig dec side w1 = (placed, w2)" by force
      have row2: "trade_row i r (db w) w2" by (rule trade_row_book [OF place_limit_book place r(2)])
      have "never_raises (place_limit B sig dec side)"
        unfolding place_limit_def by (intro returns_rules)
      with place obtain p where p: "placed = Inr p" by (metis Pair_inject never_raisesE)
      have run: "send_order env sig dec (Some i) B w1 = (Inr res, u)"
        using assms(1,2) create x live B by (simp add: execute_def bindM_def)
      show ?thesis
      proof (cases p)
        case (Inl e)
        with run place p err [OF _ row2] fresh show ?thesis
          by (auto simp: send_order_def bindM_def side_def [symmetric] Let_def)
      next
        case (Inr oid)
        obtain y w3 where up: "update_trade (Some i) (\<lambda>t. t\<lparr>t_status := ''open'', t_order_id := Some oid\<rparr>) w2 = (y, w3)"
          by force
        have run3: "monitor_order B sig dec (Some i) side oid w3 = (Inr res, u)"
          using run place p Inr up
          by (cases y) (auto simp: send_order_def bindM_def thenM_def side_def [symmetric] Let_def)
        have "row_of sig dec mode (r\<lparr>t_status := ''open'', t_order_id := Some oid\<rparr>)"
          using r(1) by (simp add: row_of_def)
        from monitor_outcome [OF run3 trade_row_update [OF up row2] this live] fresh show ?thesis
          by auto
      qed
    qed
  qed
qed

end

lemma execute_returns [returns_rules]: "never_raises (execute env sig dec mode broker)"
  by (auto simp: execute_def send_order_def place_limit_def Let_def
      intro!: returns_rules split: option.split sum.split)

section \<open>How many orders are sent\<close>

text \<open>A count of the orders the client library has been given: placing one adds at most one, no
  other call adds any.\<close>

definition counts_orders :: "'ib ib_api \<Rightarrow> ('ib \<Rightarrow> nat) \<Rightarrow> bool" where
  "counts_orders api n \<longleftrightarrow>
     (\<forall>k ord t s. n (snd (snd (ib_place api k ord t s))) \<le> n s + 1)
   \<and> (\<forall>c t s. n (snd (snd (ib_connect api c t s))) \<le> n s)
   \<and> (\<forall>t s. n (snd (snd (ib_pump api t s))) \<le> n s)
   \<and> (\<forall>symbol t s. n (snd (snd (ib_qualify api symbol t s))) \<le> n s)
   \<and> (\<forall>t s. n (snd (snd (ib_trades api t s))) \<le> n s)
   \<and> (\<forall>i t s. n (snd (snd (ib_cancel api i t s))) \<le> n s)
   \<and> (\<forall>t s. n (snd (snd (ib_positions api t s))) \<le> n s)"

abbreviation sends :: "('ib \<Rightarrow> nat) \<Rightarrow> ('ib world, 'a) M \<Rightarrow> int \<Rightarrow> bool" where
  "sends n \<equiv> cost (\<lambda>w. int (n (ib w)))"

lemma sends_ib_call:
  assumes "\<And>t s. n (snd (snd (f t s))) \<le> n s + d"
  shows "sends n (ib_call f) (int d)"
  using assms by (auto simp: cost_def ib_call_def case_prod_beta simp flip: of_nat_add)

lemmas sends_none = sends_ib_call [where d = 0, simplified]
lemmas sends_one = sends_ib_call [where d = 1, simplified]

lemma sends_thenM: "sends n m a \<Longrightarrow> sends n k b \<Longrightarrow> 0 \<le> b \<Longrightarrow> a + b = c \<Longrightarrow> sends n (thenM m k) c"
  using cost_thenM by blast

lemma sends_bindM: "sends n m a \<Longrightarrow> (\<And>x. sends n (f x) b) \<Longrightarrow> 0 \<le> b \<Longrightarrow> a + b = c \<Longrightarrow> sends n (bindM m f) c"
  using cost_bindM by blast

lemma sends_try: "sends n m a \<Longrightarrow> (\<And>e. sends n (h e) b) \<Longrightarrow> 0 \<le> b \<Longrightarrow> a + b = c \<Longrightarrow> sends n (try_except m P h) c"
  using cost_try_except by blast

lemma sends_sleep: "sends n (sleep d) 0"
  by (simp add: cost_def sleep_def modifyM_def)

lemma sends_contracts: "sends n (modifyM (\<lambda>w. w\<lparr>contracts := g w\<rparr>)) 0"
  by (simp add: cost_def modifyM_def)

lemmas quiet_thenM = sends_thenM [where a = 0 and b = 0 and c = 0, simplified]
lemmas quiet_bindM = sends_bindM [where a = 0 and b = 0 and c = 0, simplified]
lemmas quiet_try = sends_try [where a = 0 and b = 0 and c = 0, simplified]
lemmas quiet_rules = quiet_thenM quiet_bindM quiet_try sends_none sends_sleep sends_contracts
  cost_raise cost_ret cost_gets

lemma sends_reconnect: "counts_orders api n \<Longrightarrow> sends n (reconnect api c a k) 0"
  by (induction k arbitrary: a) (auto intro!: quiet_rules simp: counts_orders_def)

lemma sends_ensure: "counts_orders api n \<Longrightarrow> sends n (ensure_connected api c) 0"
  unfolding ensure_connected_def is_connected_def
  by (auto intro!: quiet_rules sends_reconnect simp: counts_orders_def)

lemma sends_contract: "counts_orders api n \<Longrightarrow> sends n (get_contract api symbol) 0"
  unfolding get_contract_def
  by (auto intro!: quiet_rules simp: counts_orders_def split: option.split list.split)

lemma sends_place:
  assumes "counts_orders api n"
  shows "sends n (place_order api c symbol side k ty price) 1"
  unfolding place_order_def
proof (rule sends_thenM [OF sends_ensure [OF assms]], rule sends_bindM [OF sends_contract [OF assms]])
  show "sends n (if ty = ''LMT'' then (case price of None \<Rightarrow> raise ValueError
      | Some p \<Rightarrow> ib_call (ib_place api kk (LimitOrder side k p)))
    else ib_call (ib_place api kk (MarketOrder side k))) 1" for kk
    using assms by (auto intro!: sends_one cost_raise simp: counts_orders_def split: option.split)
qed auto

lemma sends_status: "counts_orders api n \<Longrightarrow> sends n (get_order_status api c i) 0"
  unfolding get_order_status_def
  by (auto intro!: quiet_rules sends_ensure simp: counts_orders_def split: option.split)

lemma sends_cancel: "counts_orders api n \<Longrightarrow> sends n (cancel_order api c i) 0"
  unfolding cancel_order_def
  by (auto intro!: quiet_rules sends_ensure simp: counts_orders_def split: option.split)

lemma sends_wait:
  assumes "counts_orders api n"
  shows "sends n (wait_for_fill (ibkr_broker api c) i timeout) 0"
proof -
  have status: "n (ib u) \<le> n (ib w)" if "timed (b_status (ibkr_broker api c) i) w = (s, u)" for w s u
    using sends_status [OF assms, of c i] that
    by (auto simp: timed_def ibkr_broker_def cost_def split: prod.splits) (metis snd_conv)
  have stop: "ib v = ib u" if "wait_stop d u = (s, v)" for d s and u v :: "'a world"
    using that by (auto simp: wait_stop_def split: option.splits if_splits)
  have "\<exists>x u. poll_fill (ibkr_broker api c) i deadline w = (Inr x, u) \<and> n (ib u) \<le> n (ib w)" for deadline w
    by (rule poll_fill_rule [where P = "\<lambda>w _ u. n (ib u) \<le> n (ib w)"])
       (auto dest!: status stop)
  from this [of "clock w + 1000 * timeout" w for w] show ?thesis
    unfolding cost_def wait_for_fill_def by (metis of_nat_le_iff add.right_neutral snd_conv)
qed

lemma sends_frame_ib: "frame ib m \<Longrightarrow> sends n m 0"
  by (simp add: cost_def frame_def)

lemma frame_ib_update_trade [frame_rules]: "frame ib (update_trade i f)"
  by (auto simp: update_trade_def intro!: frame_rules)

lemma frame_ib_create_trade [frame_rules]: "frame ib (create_trade_record sig dec mode)"
  by (auto simp: create_trade_record_def intro!: frame_rules)

lemmas sends_update_trade = sends_frame_ib [OF frame_ib_update_trade]
lemmas sends_create_trade = sends_frame_ib [OF frame_ib_create_trade]

lemma sends_execute:
  assumes "counts_orders api n"
  shows "sends n (execute env sig dec mode (Some (ibkr_broker api c))) 2"
proof -
  note quiet = quiet_rules sends_update_trade sends_create_trade
  note wait = sends_wait [OF assms]
  have place: "sends n (b_place (ibkr_broker api c) symbol side k ty price) 1" for symbol side k ty price
    using sends_place [OF assms] by (simp add: ibkr_broker_def)
  have cancel: "sends n (try_except (b_cancel (ibkr_broker api c) i) any_exception (\<lambda>_. ret ())) 0" for i
    using sends_cancel [OF assms] by (auto simp: ibkr_broker_def intro!: quiet)
  have fallback: "sends n (market_fallback (ibkr_broker api c) sig dec side) 1" for side
    unfolding market_fallback_def
    by (rule sends_try [where a = 1 and b = 0], rule sends_bindM [OF place, where b = 0])
       (auto intro!: quiet wait)
  have report: "sends n (report_fill sig dec tid ids oid p reason) 0" for tid ids oid p reason
    unfolding report_fill_def by (intro quiet) simp_all
  have after: "sends n (after_timeout (ibkr_broker api c) sig dec tid side oid) 1" for tid side oid
    unfolding after_timeout_def
    by (rule sends_thenM [OF cancel, where b = 1], rule sends_bindM [OF fallback, where b = 0])
       (auto intro!: quiet report split: option.split)
  have timeout: "sends n fill_timeout 0"
    unfolding fill_timeout_def by (intro sends_frame_ib state_frames(2) frame_rules)
  have monitor: "sends n (monitor_order (ibkr_broker api c) sig dec tid side oid) 1" for tid side oid
    unfolding monitor_order_def
    by (rule sends_bindM [OF timeout, where b = 1], rule sends_bindM [OF wait, where b = 1])
       (auto intro: cost_mono [OF report] after split: option.split)
  have limit: "sends n (place_limit (ibkr_broker api c) sig dec side) 1" for side
    unfolding place_limit_def
    by (rule sends_try [where a = 1 and b = 0], rule sends_bindM [OF place, where b = 0])
       (auto intro!: quiet)
  have send: "sends n (send_order env sig dec tid (ibkr_broker api c)) 2" for tid
    unfolding send_order_def Let_def
    by (rule sends_bindM [OF limit, where b = 1])
       (auto intro!: sends_thenM [OF sends_update_trade, where b = 0]
          sends_thenM [OF sends_update_trade, where b = 1] monitor cost_ret
          intro: cost_mono [where a = 0] split: sum.split)
  have logged: "sends n (thenM (update_trade tid f) (ret x)) 2" for tid f and x :: order_result
    by (rule sends_thenM [OF sends_update_trade, where b = 2]) (auto intro: cost_ret)
  show ?thesis
    unfolding execute_def
    by (auto intro!: cost_ret sends_bindM [OF sends_create_trade, where b = 2] send logged)
qed

section \<open>Properties\<close>

text \<open>C1: executing an approved decision always returns a result, and when the database answers the
  result agrees with the trade table: one new row holds the order, \<open>filled\<close> (or \<open>dryrun\<close>) at the
  reported price when the result is a success and \<open>error\<close> without a price otherwise, and no
  other row has changed.\<close>

theorem execute_records_outcome:
  assumes "d_approved dec" and "db_reliable w" and "table_ok t_id (trades (db w))"
  shows "\<exists>res u i r. execute env sig dec mode (Some (ibkr_broker api c)) w = (Inr res, u)
    \<and> lookup_row t_id i (trades (db w)) = None \<and> trade_row i r (db w) u
    \<and> order_outcome sig dec mode i res r"
proof -
  obtain res u where run: "execute env sig dec mode (Some (ibkr_broker api c)) w = (Inr res, u)"
    using execute_returns by (rule never_raisesE)
  with ibkr.execute_outcome [OF run assms] show ?thesis by blast
qed

text \<open>C5: nothing is sent to IBKR when the decision is not approved, in dry runs, without a broker,
  and when the trade record cannot be written first (fail closed).\<close>

theorem execute_sends_nothing:
  assumes "\<not> d_approved dec \<or> mode = ''dryrun'' \<or> broker = None \<or> \<not> db_up w (db_calls w)"
  shows "ib (snd (execute env sig dec mode broker w)) = ib w"
proof (cases "d_approved dec \<and> \<not> db_up w (db_calls w)")
  case True
  then have "fst (create_trade_record sig dec mode w) = Inr None"
    by (simp add: create_trade_record_def bindM_def gets_def try_except_def with_session_def Let_def ret_def)
  moreover have "ib (snd (create_trade_record sig dec mode w)) = ib w"
    using frame_ib_create_trade by (metis frame_def)
  ultimately show ?thesis
    using True by (cases "create_trade_record sig dec mode w") (simp add: execute_def bindM_def ret_def)
next
  case False
  with assms consider "\<not> d_approved dec" | "mode = ''dryrun''" | "broker = None" by blast
  then have "frame ib (execute env sig dec mode broker)"
    by cases (simp_all add: execute_def frame_rules cong: if_cong)
  then show ?thesis by (simp add: frame_def)
qed

text \<open>C24: one decision sends at most two orders, the limit order and the market order that follows
  it, whatever IBKR answers, loses or rejects.\<close>

theorem execute_at_most_two_orders:
  assumes "counts_orders api n"
  shows "n (ib (snd (execute env sig dec mode (Some (ibkr_broker api c)) w))) \<le> n (ib w) + 2"
  using sends_execute [OF assms] unfolding cost_def
  by (metis of_nat_add of_nat_le_iff of_nat_numeral)

text \<open>C28: waiting for a fill always returns, at most one polling interval and one status query
  after its deadline, and on shutdown within one status query of the signal; a status query
  takes at most three connection attempts and the pauses between them.\<close>

theorem wait_for_fill_bounded:
  assumes "prompt_api api c" and "0 \<le> timeout"
  shows "\<exists>p u. wait_for_fill (ibkr_broker api c) i timeout w = (Inr p, u)
    \<and> clock u \<le> clock w + 1000 * timeout + 2000 + (3000 * c_timeout c + 6000)
    \<and> (\<forall>t. stop_at w = Some t \<longrightarrow> clock u \<le> max (clock w) t + (3000 * c_timeout c + 6000))"
proof -
  let ?lat = "3000 * c_timeout c + 6000"
  have lat: "takes (b_status (ibkr_broker api c) i) ?lat" "0 \<le> ?lat"
    using takes_order_status [OF assms(1)] assms(1) by (simp_all add: ibkr_broker_def prompt_api_def)
  from poll_fill_bound [OF lat, of "clock w + 1000 * timeout" w] poll_fill_stops [OF lat ibkr.status_book]
  obtain p u where "poll_fill (ibkr_broker api c) i (clock w + 1000 * timeout) w = (Inr p, u)"
    and "clock u \<le> max (clock w) (clock w + 1000 * timeout + ?lat + poll_interval_ms)"
    and "\<forall>t. stop_at w = Some t \<longrightarrow> clock u \<le> max (clock w) t + ?lat"
    by (metis Pair_inject)
  with assms(2) lat(2) show ?thesis
    by (intro exI [of _ p] exI [of _ u]) (auto simp: wait_for_fill_def poll_interval_ms_def)
qed

section \<open>A concrete client library\<close>

text \<open>Its state is the number of orders placed; every order is filled at 100 dollars.\<close>

definition paper_api :: "nat ib_api" where
  "paper_api = \<lparr>ib_connected = (\<lambda>_. True), ib_connect = (\<lambda>_ _ s. (Inr (), 0, s)),
     ib_disconnect = (\<lambda>_ s. (Inr (), 0, s)), ib_pump = (\<lambda>_ s. (Inr (), 0, s)),
     ib_qualify = (\<lambda>_ _ s. (Inr [1], 0, s)), ib_history = (\<lambda>_ _ _ _ s. (Inr [], 0, s)),
     ib_place = (\<lambda>_ _ _ s. (Inr (int (Suc s)), 0, Suc s)),
     ib_trades = (\<lambda>_ s. (Inr (map (\<lambda>i. \<lparr>it_order_id = int i, it_status = ''Filled'', it_avg_fill = Fin 100\<rparr>)
        [1..<Suc s]), 0, s)),
     ib_cancel = (\<lambda>_ _ s. (Inr (), 0, s)), ib_positions = (\<lambda>_ s. (Inr [], 0, s)),
     ib_summary = (\<lambda>_ s. (Inr [(''NetLiquidation'', ''100000'')], 0, s))\<rparr>"

definition paper_conn :: conn where
  "paper_conn = \<lparr>c_host = ''127.0.0.1'', c_port = 7497, c_client_id = 1, c_timeout = 30\<rparr>"

lemma paper_api_laws: "prompt_api paper_api paper_conn" "counts_orders paper_api (\<lambda>s. s)"
  by (simp_all add: prompt_api_def counts_orders_def paper_api_def paper_conn_def)

lemma execute_records_outcome_witness:
  "\<exists>res u i r. execute plain_env demo_signal demo_decision ''paper'' (Some (ibkr_broker paper_api paper_conn))
      (boot_world 0) = (Inr res, u)
    \<and> lookup_row t_id i (trades empty_db) = None \<and> trade_row i r empty_db u
    \<and> order_outcome demo_signal demo_decision ''paper'' i res r"
  using execute_records_outcome [of demo_decision "boot_world 0" plain_env demo_signal "''paper''" paper_api paper_conn]
  by (simp add: demo_decision_def boot_world_def db_reliable_def empty_db_def table_ok_empty)

lemma execute_sends_nothing_witness:
  "ib (snd (execute plain_env demo_signal demo_decision ''dryrun'' (Some (ibkr_broker paper_api paper_conn))
     (boot_world 0))) = 0"
  using execute_sends_nothing [of demo_decision "''dryrun''" "Some (ibkr_broker paper_api paper_conn)" "boot_world 0"]
  by (simp add: boot_world_def)

lemma execute_at_most_two_orders_witness:
  "ib (snd (execute plain_env demo_signal demo_decision ''paper'' (Some (ibkr_broker paper_api paper_conn))
     (boot_world 0))) \<le> 2"
  using execute_at_most_two_orders [OF paper_api_laws(2), of plain_env demo_signal demo_decision "''paper''" paper_conn
      "boot_world 0"]
  by (simp add: boot_world_def)

lemma wait_for_fill_bounded_witness:
  "\<exists>p u. wait_for_fill (ibkr_broker paper_api paper_conn) 1 60 (boot_world 0) = (Inr p, u) \<and> clock u \<le> 158000"
  using wait_for_fill_bounded [OF paper_api_laws(1), of 60 1 "boot_world 0"]
  by (auto simp: boot_world_def paper_conn_def)

end
