(* ===== verification/Eod_Close.thy ===== *)
theory Eod_Close
  imports Executor "HOL-Library.Sublist"
begin

text \<open>
  The end-of-day close \<open>bot/orders/eod_close.py\<close>: a market order for every open position, and
  the trade rows marked as closed.
\<close>

record close_result =
  x_symbol :: string
  x_action :: string
  x_shares :: int
  x_success :: bool
  x_fill :: "pyfloat option"
  x_reason :: string

section \<open>The trade row\<close>

text \<open>\<open>exit_price and row.fill_price\<close>: both present and different from zero.\<close>

definition close_pnl :: "trade \<Rightarrow> pyfloat option \<Rightarrow> pyfloat option" where
  "close_pnl row exit_price = (case (exit_price, t_fill row) of
      (Some ex, Some fill) \<Rightarrow>
        if ftrue ex \<and> ftrue fill
        then Some (if t_action row = ''long''
                   then (ex - fill) * Fin (of_int (t_shares row))
                   else (fill - ex) * Fin (of_int (t_shares row)))
        else None
    | _ \<Rightarrow> None)"

text \<open>\<open>ORDER BY created_at DESC LIMIT 1\<close>.\<close>

definition open_trade :: "string \<Rightarrow> db \<Rightarrow> trade option" where
  "open_trade symbol d =
     (case sort_key (\<lambda>t. - t_created t)
        (filter (\<lambda>t. t_symbol t = symbol \<and> t_status t \<in> {''open'', ''filled''}) (rows (trades d))) of
        [] \<Rightarrow> None | t # _ \<Rightarrow> Some t)"

definition closed_trade :: "pyfloat option \<Rightarrow> int \<Rightarrow> trade \<Rightarrow> trade" where
  "closed_trade exit_price now t = t\<lparr>t_status := ''closed'', t_exit := exit_price,
     t_pnl := close_pnl t exit_price, t_closed_at := Some now\<rparr>"

definition mark_trade_closed :: "string \<Rightarrow> pyfloat option \<Rightarrow> ('ib world, unit) M" where
  "mark_trade_closed symbol exit_price = bindM (gets clock) (\<lambda>now.
     try_except
       (execute_update (\<lambda>d. case open_trade symbol d of
           None \<Rightarrow> d
         | Some row \<Rightarrow> d\<lparr>trades := update_row t_id (t_id row) (closed_trade exit_price now) (trades d)\<rparr>))
       any_exception (\<lambda>_. ret ()))"

section \<open>Closing the positions\<close>

definition make_close_result :: "string \<Rightarrow> string \<Rightarrow> int \<Rightarrow> bool \<Rightarrow> pyfloat option \<Rightarrow> string \<Rightarrow> close_result" where
  "make_close_result symbol action shares success fill reason = \<lparr>x_symbol = symbol, x_action = action,
     x_shares = shares, x_success = success, x_fill = fill, x_reason = reason\<rparr>"

definition close_side :: "position \<Rightarrow> string" where
  "close_side pos = (if p_action pos = ''long'' then ''SELL'' else ''BUY'')"

text \<open>After the order of a position has been placed.\<close>

definition await_close :: "alert_env \<Rightarrow> 'ib broker_ops \<Rightarrow> string \<Rightarrow> string \<Rightarrow> int \<Rightarrow> int \<Rightarrow> ('ib world, close_result) M" where
  "await_close env B symbol side shares order_id =
     bindM (wait_for_fill B order_id 30) (\<lambda>fill_price.
     thenM (mark_trade_closed symbol fill_price)
     (case fill_price of
        Some p \<Rightarrow> ret (make_close_result symbol side shares True (Some p) ''Closed at EOD.'')
      | None \<Rightarrow>
          thenM (try_except (notify env ''eod_close_failed''
                   [(''reason'', VStr (''Fill timeout for '' @ symbol @ '' ('' @ side @ '' '' @ show_int shares
                       @ '' shares). Position may remain open overnight.'')),
                    (''symbol'', VStr symbol), (''side'', VStr side), (''shares'', VInt shares)])
                 any_exception (\<lambda>_. ret ()))
            (ret (make_close_result symbol side shares False None ''Fill timeout at EOD.''))))"

definition close_position :: "alert_env \<Rightarrow> 'ib broker_ops \<Rightarrow> position \<Rightarrow> ('ib world, close_result list) M" where
  "close_position env B pos =
     (let symbol = p_symbol pos; shares = \<bar>p_shares pos\<bar>; side = close_side pos in
      if shares \<le> 0 then ret []
      else bindM (try_except (bindM (b_place B symbol side shares ''MKT'' None) (\<lambda>i. ret (Inr i)))
                    any_exception (\<lambda>e. ret (Inl e))) (\<lambda>placed. case placed of
          Inl e \<Rightarrow> ret [make_close_result symbol side shares False None (err_text env e)]
        | Inr order_id \<Rightarrow> bindM (await_close env B symbol side shares order_id) (\<lambda>r. ret [r])))"

fun close_each :: "alert_env \<Rightarrow> 'ib broker_ops \<Rightarrow> position list \<Rightarrow> ('ib world, close_result list) M" where
  "close_each env B [] = ret []"
| "close_each env B (pos # rest) = bindM (close_position env B pos) (\<lambda>rs.
     bindM (close_each env B rest) (\<lambda>more. ret (rs @ more)))"

definition close_all_positions :: "alert_env \<Rightarrow> 'ib broker_ops option \<Rightarrow> string \<Rightarrow> ('ib world, close_result list) M" where
  "close_all_positions env broker trading_mode =
     (if trading_mode = ''dryrun'' then ret []
      else case broker of
        None \<Rightarrow>
          thenM (try_except (notify env ''eod_close_failed''
                   [(''reason'', VStr ''No broker connection available at EOD close. Positions may remain open overnight.''),
                    (''trading_mode'', VStr trading_mode)])
                 any_exception (\<lambda>_. ret ()))
            (ret [])
      | Some B \<Rightarrow>
          bindM (try_except (b_positions B) any_exception (\<lambda>_. ret [])) (\<lambda>positions.
            close_each env B positions))"

section \<open>Frames and totality\<close>

lemma mark_closed_returns [returns_rules]: "never_raises (mark_trade_closed symbol p)"
  by (auto simp: mark_trade_closed_def intro!: returns_rules)

lemma close_position_returns [returns_rules]: "never_raises (close_position env B pos)"
  by (auto simp: close_position_def await_close_def Let_def
      intro!: returns_rules split: sum.split option.split)

lemma close_each_returns [returns_rules]: "never_raises (close_each env B ps)"
  by (induction ps) (auto intro!: returns_rules)

lemma close_all_returns [returns_rules]: "never_raises (close_all_positions env broker mode)"
  by (auto simp: close_all_positions_def intro!: returns_rules split: option.split)

lemma frame_ib_mark_closed [frame_rules]: "frame ib (mark_trade_closed symbol p)"
  by (auto simp: mark_trade_closed_def intro!: frame_rules)

section \<open>Results\<close>

definition result_for :: "position \<Rightarrow> close_result \<Rightarrow> bool" where
  "result_for pos r \<longleftrightarrow> x_symbol r = p_symbol pos \<and> x_shares r = \<bar>p_shares pos\<bar>
     \<and> x_action r = (if p_action pos = ''long'' then ''SELL'' else ''BUY'') \<and> (x_success r \<longleftrightarrow> x_fill r \<noteq> None)"

lemma close_position_result:
  assumes "close_position env B pos w = (Inr rs, u)"
  shows "if p_shares pos = 0 then rs = [] else \<exists>r. rs = [r] \<and> result_for pos r"
  using assms
  by (auto simp: close_position_def Let_def ret_def await_close_def make_close_result_def
      result_for_def [folded close_side_def]
      elim!: bindM_InrE thenM_InrE split: sum.splits option.splits if_splits)

lemma close_each_results:
  "close_each env B ps w = (Inr rs, u) \<Longrightarrow>
     list_all2 result_for (filter (\<lambda>pos. p_shares pos \<noteq> 0) ps) rs"
proof (induction ps arbitrary: w rs)
  case Nil
  then show ?case by (simp add: ret_def)
next
  case (Cons pos ps)
  then obtain as v bs where "close_position env B pos w = (Inr as, v)" and "close_each env B ps v = (Inr bs, u)"
    and "rs = as @ bs"
    by (auto elim!: bindM_InrE simp: ret_def)
  with Cons.IH close_position_result [of env B pos w as v] show ?case
    by (auto split: if_splits)
qed

section \<open>The orders sent\<close>

text \<open>A ledger of the orders the client library has been given, each with its contract: placing an order
  may append it, no other call changes the ledger.\<close>

definition logs_orders :: "'ib ib_api \<Rightarrow> ('ib \<Rightarrow> (int \<times> ib_order) list) \<Rightarrow> bool" where
  "logs_orders api ledger \<longleftrightarrow>
     (\<forall>k ord t s. ledger (snd (snd (ib_place api k ord t s))) \<in> {ledger s, ledger s @ [(k, ord)]})
   \<and> (\<forall>c t s. ledger (snd (snd (ib_connect api c t s))) = ledger s)
   \<and> (\<forall>t s. ledger (snd (snd (ib_pump api t s))) = ledger s)
   \<and> (\<forall>symbol t s. ledger (snd (snd (ib_qualify api symbol t s))) = ledger s)
   \<and> (\<forall>t s. ledger (snd (snd (ib_trades api t s))) = ledger s)
   \<and> (\<forall>i t s. ledger (snd (snd (ib_cancel api i t s))) = ledger s)
   \<and> (\<forall>t s. ledger (snd (snd (ib_positions api t s))) = ledger s)"

text \<open>\<open>emits ledger os m\<close>: the orders \<open>m\<close> appends to the ledger are a subsequence of those listed.\<close>

definition emits :: "('ib \<Rightarrow> (int \<times> ib_order) list) \<Rightarrow> ib_order list \<Rightarrow> ('ib world, 'a) M \<Rightarrow> bool" where
  "emits ledger os m \<longleftrightarrow> (\<forall>w. \<exists>new. ledger (ib (snd (m w))) = ledger (ib w) @ new \<and> subseq (map snd new) os)"

lemma emits_frame: "frame (\<lambda>w. ledger (ib w)) m \<Longrightarrow> emits ledger os m"
  by (auto simp: emits_def frame_def)

lemma emitsE:
  assumes "emits ledger os m" and "m w = (r, u)"
  obtains new where "ledger (ib u) = ledger (ib w) @ new" and "subseq (map snd new) os"
  using assms unfolding emits_def by (metis snd_conv)

lemma emits_bindM:
  assumes m: "emits ledger as m" and f: "\<And>x. emits ledger bs (f x)"
  shows "emits ledger (as @ bs) (bindM m f)"
  unfolding emits_def
proof
  fix w
  obtain r u where run: "m w = (r, u)" by force
  from m run obtain n1 where n1: "ledger (ib u) = ledger (ib w) @ n1" "subseq (map snd n1) as" by (rule emitsE)
  show "\<exists>new. ledger (ib (snd (bindM m f w))) = ledger (ib w) @ new \<and> subseq (map snd new) (as @ bs)"
  proof (cases r)
    case (Inl e)
    with run n1 show ?thesis by (auto simp: bindM_def intro: subseq_rev_drop_many)
  next
    case (Inr x)
    obtain r2 v where run2: "f x u = (r2, v)" by force
    from f run2 obtain n2 where "ledger (ib v) = ledger (ib u) @ n2" "subseq (map snd n2) bs" by (rule emitsE)
    with run run2 n1 Inr show ?thesis
      by (intro exI [of _ "n1 @ n2"]) (auto simp: bindM_def intro: list_emb_append_mono)
  qed
qed

lemma emits_thenM: "emits ledger as m \<Longrightarrow> emits ledger bs k \<Longrightarrow> emits ledger (as @ bs) (thenM m k)"
  by (simp add: thenM_def emits_bindM)

lemma emits_try: "emits ledger as m \<Longrightarrow> (\<And>e. frame (\<lambda>w. ledger (ib w)) (h e)) \<Longrightarrow> emits ledger as (try_except m P h)"
  unfolding emits_def
proof
  fix w
  assume m: "\<forall>w. \<exists>new. ledger (ib (snd (m w))) = ledger (ib w) @ new \<and> subseq (map snd new) as"
    and h: "\<And>e. frame (\<lambda>w. ledger (ib w)) (h e)"
  have "ledger (ib (snd (try_except m P h w))) = ledger (ib (snd (m w)))"
    using h by (cases "m w"; cases "fst (m w)") (auto simp: try_except_def frame_def)
  with m show "\<exists>new. ledger (ib (snd (try_except m P h w))) = ledger (ib w) @ new \<and> subseq (map snd new) as"
    by metis
qed

lemma frame_log_ib: "frame ib m \<Longrightarrow> frame (\<lambda>w. ledger (ib w)) m"
  by (simp add: frame_def)

lemma frame_log_call: "(\<And>t s. ledger (snd (snd (f t s))) = ledger s) \<Longrightarrow> frame (\<lambda>w. ledger (ib w)) (ib_call f)"
  by (simp add: frame_def ib_call_def case_prod_beta)

lemma frame_log_state: "(\<And>w. ib (g w) = ib w) \<Longrightarrow> frame (\<lambda>w. ledger (ib w)) (modifyM g)"
  by (simp add: frame_def modifyM_def)

lemma log_reconnect: "logs_orders api ledger \<Longrightarrow> frame (\<lambda>w. ledger (ib w)) (reconnect api c a k)"
  by (induction k arbitrary: a)
     (auto simp: logs_orders_def sleep_def intro!: frame_rules frame_log_call frame_log_state)

lemma log_ensure: "logs_orders api ledger \<Longrightarrow> frame (\<lambda>w. ledger (ib w)) (ensure_connected api c)"
  unfolding ensure_connected_def is_connected_def
  by (auto intro!: frame_rules log_reconnect frame_log_call simp: logs_orders_def)

lemma log_contract: "logs_orders api ledger \<Longrightarrow> frame (\<lambda>w. ledger (ib w)) (get_contract api symbol)"
  unfolding get_contract_def
  by (auto intro!: frame_rules frame_log_call frame_log_state simp: logs_orders_def split: list.split)

lemma log_positions: "logs_orders api ledger \<Longrightarrow> frame (\<lambda>w. ledger (ib w)) (get_positions api c)"
  unfolding get_positions_def
  by (auto intro!: frame_rules log_ensure frame_log_call simp: logs_orders_def)

lemma log_status: "logs_orders api ledger \<Longrightarrow> frame (\<lambda>w. ledger (ib w)) (get_order_status api c i)"
  unfolding get_order_status_def
  by (auto intro!: frame_rules log_ensure frame_log_call simp: logs_orders_def)

lemma emits_place:
  assumes "logs_orders api ledger"
  shows "emits ledger [MarketOrder side n] (place_order api c symbol side n ''MKT'' None)"
proof -
  have "emits ledger [MarketOrder side n] (ib_call (ib_place api k (MarketOrder side n)))" for k
  proof -
    have "ledger (snd (snd (ib_place api k (MarketOrder side n) t s))) \<in> {ledger s, ledger s @ [(k, MarketOrder side n)]}" for t s
      using assms by (simp add: logs_orders_def)
    then have "ledger (ib (snd (ib_call (ib_place api k (MarketOrder side n)) w)))
        \<in> {ledger (ib w), ledger (ib w) @ [(k, MarketOrder side n)]}" for w :: "'a world"
      by (simp add: ib_call_def case_prod_beta)
    then show ?thesis unfolding emits_def by (metis (no_types, lifting) append_Nil2 empty_iff insert_iff
          list.simps(8,9) list_emb_Nil snd_conv subseq_order.order_refl)
  qed
  from emits_thenM [OF emits_frame [OF log_ensure [OF assms]]
      emits_bindM [OF emits_frame [OF log_contract [OF assms]] this], of "[]" "[]"]
  show ?thesis by (simp add: place_order_def)
qed

lemma log_wait:
  assumes "logs_orders api ledger"
  shows "frame (\<lambda>w. ledger (ib w)) (wait_for_fill (ibkr_broker api c) i timeout)"
proof -
  have status: "ledger (ib u) = ledger (ib w)" if "timed (b_status (ibkr_broker api c) i) w = (s, u)" for w s u
    using log_status [OF assms, of c i] that
    by (auto simp: timed_def ibkr_broker_def split: prod.splits dest: frameD)
  have stop: "ib v = ib u" if "wait_stop d u = (s, v)" for d s and u v :: "'a world"
    using that by (auto simp: wait_stop_def split: option.splits if_splits)
  have "\<exists>x u. poll_fill (ibkr_broker api c) i deadline w = (Inr x, u) \<and> ledger (ib u) = ledger (ib w)" for deadline w
    by (rule poll_fill_rule [where P = "\<lambda>w _ u. ledger (ib u) = ledger (ib w)"])
       (auto dest!: status stop)
  from this [of "clock w + 1000 * timeout" w for w] show ?thesis
    unfolding frame_def wait_for_fill_def by (metis snd_conv)
qed

definition close_order :: "position \<Rightarrow> ib_order" where
  "close_order pos = MarketOrder (if p_action pos = ''long'' then ''SELL'' else ''BUY'') \<bar>p_shares pos\<bar>"

lemma emits_close_position:
  assumes "logs_orders api ledger"
  shows "emits ledger [close_order pos] (close_position env (ibkr_broker api c) pos)"
proof -
  have await: "frame (\<lambda>w. ledger (ib w)) (await_close env (ibkr_broker api c) symbol side n i)" for symbol side n i
    unfolding await_close_def
    by (auto intro!: frame_rules log_wait assms frame_log_ib [OF frame_ib_mark_closed]
        frame_log_ib [OF state_frames(2) [OF frame_state_notify]])
  have place: "emits ledger [close_order pos] (try_except
      (bindM (b_place (ibkr_broker api c) (p_symbol pos) (close_side pos) \<bar>p_shares pos\<bar> ''MKT'' None) (\<lambda>i. ret (Inr i)))
      any_exception (\<lambda>e. ret (Inl e)))"
    using emits_bindM [OF emits_place [OF assms], where bs = "[]", OF emits_frame [OF frame_ret]]
    by (intro emits_try) (simp_all add: ibkr_broker_def close_order_def [folded close_side_def] frame_rules)
  have "emits ledger ([close_order pos] @ []) (bindM (try_except
      (bindM (b_place (ibkr_broker api c) (p_symbol pos) (close_side pos) \<bar>p_shares pos\<bar> ''MKT'' None) (\<lambda>i. ret (Inr i)))
      any_exception (\<lambda>e. ret (Inl e))) (\<lambda>placed. case placed of
          Inl e \<Rightarrow> ret [make_close_result (p_symbol pos) (close_side pos) \<bar>p_shares pos\<bar> False None (err_text env e)]
        | Inr order_id \<Rightarrow> bindM (await_close env (ibkr_broker api c) (p_symbol pos) (close_side pos) \<bar>p_shares pos\<bar> order_id)
            (\<lambda>r. ret [r])))"
    by (rule emits_bindM [OF place]) (auto intro!: emits_frame frame_rules await split: sum.split)
  then show ?thesis
    by (simp add: close_position_def Let_def emits_frame frame_ret)
qed

lemma emits_close_each:
  assumes "logs_orders api ledger"
  shows "emits ledger (map close_order ps) (close_each env (ibkr_broker api c) ps)"
proof (induction ps)
  case Nil
  then show ?case by (simp add: emits_frame frame_ret)
next
  case (Cons pos ps)
  have "emits ledger (map close_order ps @ []) (bindM (close_each env (ibkr_broker api c) ps) (\<lambda>more. ret (rs @ more)))" for rs
    by (rule emits_bindM [OF Cons.IH]) (simp add: emits_frame frame_ret)
  from emits_bindM [OF emits_close_position [OF assms] this, of pos] show ?case by simp
qed

section \<open>Properties\<close>

lemma positions_nonzero: "convert_positions ps = Inr qs \<Longrightarrow> q \<in> set qs \<Longrightarrow> p_shares q \<noteq> 0"
  by (induction ps arbitrary: qs) (auto simp: res_bind_Inr_iff split: if_splits)

lemma get_positions_nonzero:
  "get_positions api c w = (Inr ps, v) \<Longrightarrow> q \<in> set ps \<Longrightarrow> p_shares q \<noteq> 0"
  unfolding get_positions_def
  by (auto elim!: thenM_InrE bindM_InrE simp: liftR_def dest: positions_nonzero)


lemma open_trade_in:
  assumes "open_trade symbol d = Some t"
  shows "t \<in> set (rows (trades d)) \<and> t_symbol t = symbol \<and> t_status t \<in> {''open'', ''filled''}"
proof -
  define xs where "xs = sort_key (\<lambda>t. - t_created t)
    (filter (\<lambda>t. t_symbol t = symbol \<and> t_status t \<in> {''open'', ''filled''}) (rows (trades d)))"
  have "t \<in> set xs"
    using assms unfolding open_trade_def xs_def [symmetric] by (cases xs) auto
  then show ?thesis by (simp add: xs_def)
qed

text \<open>After a closing order the newest open or filled row of the symbol is marked \<open>closed\<close> whether or
  not the order was filled: on a timeout the row is closed without an exit price and without a
  profit, although the position may still be held.\<close>

theorem trade_closed_even_on_timeout:
  assumes "db_reliable w" and "table_ok t_id (trades (db w))" and "open_trade symbol (db w) = Some row"
  shows "\<exists>r u now. await_close env (ibkr_broker api c) symbol side n i w = (Inr r, u)
    \<and> lookup_row t_id (t_id row) (trades (db u)) = Some (closed_trade (x_fill r) now row)
    \<and> t_status (closed_trade (x_fill r) now row) = ''closed''
    \<and> (x_success r \<longleftrightarrow> x_fill r \<noteq> None)"
proof -
  obtain p w1 where wait: "wait_for_fill (ibkr_broker api c) i 30 w = (Inr p, w1)"
    using wait_for_fill_returns by (rule never_raisesE)
  then have "book w1 = book w" using ibkr.wait_book by (rule frameD [rotated])
  then have w1: "db w1 = db w" "db_up w1 = db_up w" by (simp_all add: book_def)
  have look: "lookup_row t_id (t_id row) (trades (db w)) = Some row"
    using trade_tab.lookup_iff_member [OF assms(2)] open_trade_in [OF assms(3)] by simp
  define w2 where "w2 = w1\<lparr>db_calls := Suc (db_calls w1), db := (db w)\<lparr>trades :=
      update_row t_id (t_id row) (closed_trade p (clock w1)) (trades (db w))\<rparr>\<rparr>"
  have mark: "mark_trade_closed symbol p w1 = (Inr (), w2)"
    using assms(1,3) w1
    by (simp add: mark_trade_closed_def bindM_def gets_def try_except_def execute_update_apply db_reliable_def w2_def)
  have row: "lookup_row t_id (t_id row) (trades (db w2)) = Some (closed_trade p (clock w1) row)"
    using trade_tab.lookup_update [of "closed_trade p (clock w1)" "t_id row" "t_id row" "trades (db w)"] look
    by (simp add: w2_def closed_trade_def)
  obtain r u where run: "await_close env (ibkr_broker api c) symbol side n i w = (Inr r, u)"
    and "x_fill r = p" and "x_success r \<longleftrightarrow> p \<noteq> None" and "db u = db w2"
  proof (cases p)
    case None
    define alert :: "('a world, unit) M" where "alert = try_except (notify env ''eod_close_failed''
                   [(''reason'', VStr (''Fill timeout for '' @ symbol @ '' ('' @ side @ '' '' @ show_int n
                       @ '' shares). Position may remain open overnight.'')),
                    (''symbol'', VStr symbol), (''side'', VStr side), (''shares'', VInt n)])
                 any_exception (\<lambda>_. ret ())"
    have "never_raises alert" unfolding alert_def by (intro returns_rules)
    then obtain y u where y: "alert w2 = (Inr y, u)" by (rule never_raisesE)
    have "frame db alert" unfolding alert_def using state_frames(1) [OF frame_state_notify] by (intro frame_rules)
    with y have "db u = db w2" by (rule frameD [rotated])
    moreover have "await_close env (ibkr_broker api c) symbol side n i w
        = (Inr (make_close_result symbol side n False None ''Fill timeout at EOD.''), u)"
      using wait mark None y unfolding await_close_def alert_def [symmetric]
      by (simp add: bindM_def thenM_def ret_def)
    ultimately show ?thesis using that None by (simp add: make_close_result_def)
  next
    case (Some x)
    with wait mark that show ?thesis
      by (simp add: await_close_def bindM_def thenM_def ret_def make_close_result_def)
  qed
  with row show ?thesis by (auto simp: closed_trade_def)
qed

section \<open>A concrete end of day\<close>

text \<open>A client library whose state is the list of orders placed, holding ten shares.\<close>

definition ledger_api :: "(int \<times> ib_order) list ib_api" where
  "ledger_api = \<lparr>ib_connected = (\<lambda>_. True), ib_connect = (\<lambda>_ _ s. (Inr (), 0, s)),
     ib_disconnect = (\<lambda>_ s. (Inr (), 0, s)), ib_pump = (\<lambda>_ s. (Inr (), 0, s)),
     ib_qualify = (\<lambda>_ _ s. (Inr [1], 0, s)), ib_history = (\<lambda>_ _ _ _ s. (Inr [], 0, s)),
     ib_place = (\<lambda>k ord _ s. (Inr (int (length s)), 0, s @ [(k, ord)])),
     ib_trades = (\<lambda>_ s. (Inr [], 0, s)), ib_cancel = (\<lambda>_ _ s. (Inr (), 0, s)),
     ib_positions = (\<lambda>_ s. (Inr [\<lparr>ip_symbol = ''AAPL'', ip_position = Fin 10, ip_avg_cost = Fin 100\<rparr>], 0, s)),
     ib_summary = (\<lambda>_ s. (Inr [], 0, s))\<rparr>"

definition demo_position :: position where
  "demo_position = \<lparr>p_symbol = ''AAPL'', p_shares = 10, p_avg_cost = Fin 100, p_action = ''long''\<rparr>"

lemma ledger_api_law: "logs_orders ledger_api (\<lambda>s. s)"
  by (simp add: logs_orders_def ledger_api_def)

lemma ledger_positions: "get_positions ledger_api paper_conn (boot_world []) = (Inr [demo_position], boot_world [])"
  by (simp add: get_positions_def ensure_connected_def is_connected_def ib_call_def ledger_api_def
      monad_defs boot_world_def demo_position_def trunc_real_def)


definition demo_trade :: trade where
  "demo_trade = (trade_of demo_signal demo_decision ''paper'' 0)\<lparr>t_id := 1, t_status := ''filled'',
     t_fill := Some (Fin 100)\<rparr>"

definition demo_day :: "(int \<times> ib_order) list world" where
  "demo_day = (boot_world [])\<lparr>db := empty_db\<lparr>trades := \<lparr>rows = [demo_trade], next_id = 2\<rparr>\<rparr>\<rparr>"

lemma trade_closed_even_on_timeout_witness:
  "\<exists>r u now. await_close plain_env (ibkr_broker ledger_api paper_conn) ''AAPL'' ''SELL'' 20 7 demo_day = (Inr r, u)
    \<and> lookup_row t_id 1 (trades (db u)) = Some (closed_trade (x_fill r) now demo_trade)"
proof -
  have "db_reliable demo_day" "table_ok t_id (trades (db demo_day))"
    "open_trade ''AAPL'' (db demo_day) = Some demo_trade"
    by (simp_all add: db_reliable_def table_ok_def open_trade_def demo_day_def boot_world_def demo_trade_def
        trade_of_def demo_signal_def no_signal_def)
  from trade_closed_even_on_timeout [OF this, of plain_env ledger_api paper_conn "''SELL''" 20 7]
  show ?thesis by (auto simp: demo_trade_def)
qed

end
