(* ===== verification/Sentiment.thy ===== *)
theory Sentiment
  imports Notifier
begin

text \<open>
  News sentiment: the two clients \<open>bot/sentiment/alpaca.py\<close> and \<open>finnhub.py\<close> and the scorer
  \<open>scorer.py\<close>.  The HTTP requests are parameters: the decoded body, or nothing for what
  \<open>requests.RequestException\<close> covers.  \<open>read_iso\<close> is \<open>datetime.fromisoformat\<close>: the moment and
  whether the text carried a time zone.
\<close>

record news_lib =
  alpaca_get :: "string \<Rightarrow> int \<Rightarrow> json option"
  finnhub_get :: "string \<Rightarrow> int \<Rightarrow> int \<Rightarrow> json option"
  read_iso :: "string \<Rightarrow> (real \<times> bool) option"
  news_repr :: "json \<Rightarrow> string"

record article =
  a_title :: json
  a_summary :: json
  a_created_at :: json
  a_source :: json

section \<open>The news clients\<close>

definition read_article :: "string \<Rightarrow> string \<Rightarrow> json \<Rightarrow> article res" where
  "read_article date_key source item =
     res_bind (json_get item ''headline'' (JStr '''')) (\<lambda>title.
     res_bind (json_get item ''summary'' (JStr '''')) (\<lambda>summary.
     res_bind (json_get item date_key (JStr '''')) (\<lambda>created_at.
     res_bind (json_get item ''source'' (JStr source)) (\<lambda>src.
       Inr \<lparr>a_title = title, a_summary = summary, a_created_at = created_at, a_source = src\<rparr>))))"

fun read_articles :: "string \<Rightarrow> string \<Rightarrow> json list \<Rightarrow> article list res" where
  "read_articles date_key source [] = Inr []"
| "read_articles date_key source (item # items) = res_bind (read_article date_key source item) (\<lambda>a.
     res_bind (read_articles date_key source items) (\<lambda>as. Inr (a # as)))"

definition alpaca_fetch :: "news_lib \<Rightarrow> string \<Rightarrow> ('ib world, article list) M" where
  "alpaca_fetch lib symbol =
     bindM (getenv ''ALPACA_API_KEY'' '''') (\<lambda>api_key.
     bindM (getenv ''ALPACA_API_SECRET'' '''') (\<lambda>api_secret.
       if api_key = [] \<or> api_secret = [] then ret []
       else bindM (gets clock) (\<lambda>now.
         case alpaca_get lib (py_upper symbol) (now - 24 * 3600000) of
           None \<Rightarrow> ret []
         | Some data \<Rightarrow> liftR (res_bind (json_get data ''news'' (JArr [])) (\<lambda>news.
             res_bind (json_iter news) (read_articles ''created_at'' ''alpaca''))))))"

definition finnhub_fetch :: "news_lib \<Rightarrow> string \<Rightarrow> ('ib world, article list) M" where
  "finnhub_fetch lib symbol =
     bindM (getenv ''FINNHUB_API_KEY'' '''') (\<lambda>api_key.
       if api_key = [] then ret []
       else bindM (gets local_today) (\<lambda>today.
         case finnhub_get lib (py_upper symbol) (today - 1) today of
           Some (JArr items) \<Rightarrow> liftR (read_articles ''datetime'' ''finnhub'' (take 20 items))
         | _ \<Rightarrow> ret []))"

section \<open>Scoring\<close>

definition bullish_keywords :: "(string \<times> real) list" where
  "bullish_keywords = [(''beat'', 3/10), (''beats'', 3/10), (''exceeded'', 3/10), (''surpass'', 3/10),
     (''upgrade'', 4/10), (''upgraded'', 4/10), (''bullish'', 5/10), (''rally'', 3/10), (''surge'', 4/10),
     (''soar'', 4/10), (''record high'', 5/10), (''all-time high'', 5/10), (''strong earnings'', 4/10),
     (''revenue growth'', 3/10), (''outperform'', 3/10), (''buy rating'', 4/10), (''positive'', 2/10),
     (''momentum'', 2/10), (''breakout'', 3/10), (''profit'', 2/10), (''growth'', 2/10), (''optimism'', 3/10),
     (''gain'', 2/10), (''rise'', 2/10), (''up '', 1/10)]"

definition bearish_keywords :: "(string \<times> real) list" where
  "bearish_keywords = [(''miss'', 3/10), (''misses'', 3/10), (''downgrade'', 4/10), (''downgraded'', 4/10),
     (''bearish'', 5/10), (''plunge'', 4/10), (''crash'', 5/10), (''sell-off'', 4/10), (''selloff'', 4/10),
     (''decline'', 3/10), (''warning'', 3/10), (''weak earnings'', 4/10), (''revenue miss'', 4/10),
     (''underperform'', 3/10), (''sell rating'', 4/10), (''negative'', 2/10), (''loss'', 2/10), (''cut'', 2/10),
     (''drop'', 2/10), (''fall'', 2/10), (''down '', 1/10), (''layoff'', 3/10), (''lawsuit'', 2/10),
     (''investigation'', 2/10), (''recall'', 3/10), (''bankruptcy'', 5/10), (''default'', 4/10)]"

definition keyword_score :: "(string \<times> real) list \<Rightarrow> string \<Rightarrow> real" where
  "keyword_score kws txt = (\<Sum>(kw, weight)\<leftarrow>kws. if contains kw txt then weight else 0)"

definition score_article :: "news_lib \<Rightarrow> json \<Rightarrow> json \<Rightarrow> real" where
  "score_article lib title summary =
     (let txt = py_lower (json_str (news_repr lib) title @ '' '' @ json_str (news_repr lib) summary);
          bull = keyword_score bullish_keywords txt; bear = keyword_score bearish_keywords txt;
          total = bull + bear
      in if total = 0 then 0 else max (- 1) (min 1 ((bull - bear) / total)))"

fun json_true :: "json \<Rightarrow> bool" where
  "json_true JNull = False"
| "json_true (JBool b) = b"
| "json_true (JInt n) = (n \<noteq> 0)"
| "json_true (JNum x) = ftrue x"
| "json_true (JStr s) = (s \<noteq> [])"
| "json_true (JArr xs) = (xs \<noteq> [])"
| "json_true (JObj kvs) = (kvs \<noteq> [])"

text \<open>\<open>datetime.fromtimestamp(x, tz=utc)\<close>, in seconds: years 1 to 9999.\<close>

fun from_timestamp :: "pyfloat \<Rightarrow> real res" where
  "from_timestamp (Fin x) = (if - 62135596800 \<le> x \<and> x < 253402300800 then Inr x
     else if \<bar>x\<bar> < 2 ^ 63 then Inl ValueError else Inl OverflowError)"
| "from_timestamp NaN = Inl ValueError"
| "from_timestamp _ = Inl OverflowError"

text \<open>\<open>str(created_at).replace("Z", "+00:00")\<close>.\<close>

definition iso_zulu :: "string \<Rightarrow> string" where
  "iso_zulu s = concat (map (\<lambda>c. if c = CHR ''Z'' then ''+00:00'' else [c]) s)"

text \<open>The age in seconds; subtracting a moment without a time zone is a \<open>TypeError\<close>.\<close>

definition article_time :: "news_lib \<Rightarrow> json \<Rightarrow> real res" where
  "article_time lib created_at = (case created_at of
      JInt n \<Rightarrow> from_timestamp (Fin (of_int n))
    | JNum x \<Rightarrow> from_timestamp x
    | JBool b \<Rightarrow> from_timestamp (Fin (if b then 1 else 0))
    | v \<Rightarrow> (case read_iso lib (iso_zulu (json_str (news_repr lib) v)) of
        None \<Rightarrow> Inl ValueError
      | Some (ts, aware) \<Rightarrow> if aware then Inr ts else Inl TypeError))"

definition caught_date_error :: "exc \<Rightarrow> bool" where
  "caught_date_error e \<longleftrightarrow> is_value_or_type_error e \<or> e = OSErr"

definition recency_weight :: "news_lib \<Rightarrow> json \<Rightarrow> int \<Rightarrow> real res" where
  "recency_weight lib created_at now =
     (if \<not> json_true created_at then Inr 0
      else case article_time lib created_at of
          Inr ts \<Rightarrow> (let hours_ago = max 0 ((of_int now / 1000 - ts) / 3600);
                         weight = 2 powr (- hours_ago / 6)
                     in Inr (max (1/10) (min 1 weight)))
        | Inl e \<Rightarrow> if caught_date_error e then Inr 0 else Inl e)"

fun weigh_articles :: "news_lib \<Rightarrow> int \<Rightarrow> article list \<Rightarrow> real \<times> real \<Rightarrow> (real \<times> real) res" where
  "weigh_articles lib now [] acc = Inr acc"
| "weigh_articles lib now (a # as) (weighted_sum, total_weight) =
     res_bind (recency_weight lib (a_created_at a) now) (\<lambda>rw.
       weigh_articles lib now as
         (weighted_sum + score_article lib (a_title a) (a_summary a) * rw, total_weight + rw))"

definition score_articles :: "news_lib \<Rightarrow> int \<Rightarrow> article list \<Rightarrow> real res" where
  "score_articles lib now articles =
     (if articles = [] then Inr 0
      else res_bind (weigh_articles lib now articles (0, 0)) (\<lambda>(weighted_sum, total_weight).
        if total_weight = 0 then Inr 0
        else Inr (max (- 1) (min 1 (weighted_sum / total_weight)))))"

definition get_sentiment :: "news_lib \<Rightarrow> string \<Rightarrow> ('ib world, pyfloat) M" where
  "get_sentiment lib symbol =
     bindM (alpaca_fetch lib symbol) (\<lambda>first.
     bindM (if first = [] then finnhub_fetch lib symbol else ret first) (\<lambda>articles.
       if articles = [] then ret (Fin 0)
       else bindM (gets clock) (\<lambda>now. bindM (liftR (score_articles lib now articles)) (\<lambda>s. ret (Fin s)))))"

section \<open>Properties\<close>

lemma score_article_range: "\<bar>score_article lib t s\<bar> \<le> 1"
  by (auto simp: score_article_def Let_def)

lemma recency_weight_range: "recency_weight lib c now = Inr rw \<Longrightarrow> rw = 0 \<or> 1/10 \<le> rw \<and> rw \<le> 1"
  by (auto simp: recency_weight_def Let_def split: if_splits sum.splits)

lemma weigh_articles_bound:
  assumes "weigh_articles lib now as (s, t) = Inr (s', t')" and "\<bar>s\<bar> \<le> t"
  shows "\<bar>s'\<bar> \<le> t'"
  using assms
proof (induction as arbitrary: s t)
  case (Cons a as)
  then obtain rw where rw: "recency_weight lib (a_created_at a) now = Inr rw"
    and rest: "weigh_articles lib now as (s + score_article lib (a_title a) (a_summary a) * rw, t + rw) = Inr (s', t')"
    by (auto simp: res_bind_Inr_iff)
  have "0 \<le> rw" using recency_weight_range [OF rw] by auto
  then have "\<bar>score_article lib (a_title a) (a_summary a) * rw\<bar> \<le> rw"
    using mult_right_mono [OF score_article_range [of lib "a_title a" "a_summary a"], of rw]
    by (simp add: abs_mult)
  with Cons.prems(2) have "\<bar>s + score_article lib (a_title a) (a_summary a) * rw\<bar> \<le> t + rw" by linarith
  with rest show ?case by (rule Cons.IH)
qed simp

text \<open>The score is the weighted mean of the article scores and lies between -1 and 1 without any
  clamping, and an article of unknown age weighs nothing: leaving it out leaves the score as it is.\<close>

theorem sentiment_weighted_mean:
  "(case weigh_articles lib now as (0, 0) of Inl _ \<Rightarrow> True | Inr (s, t) \<Rightarrow> \<bar>s\<bar> \<le> t
      \<and> score_articles lib now as = Inr (if t = 0 then 0 else s / t) \<and> \<bar>if t = 0 then 0 else s / t\<bar> \<le> 1)
   \<and> (if recency_weight lib (a_created_at a) now = Inr 0
      then weigh_articles lib now (a # as) (0, 0) = weigh_articles lib now as (0, 0) else True)"
proof -
  have "\<bar>s\<bar> \<le> t \<and> score_articles lib now as = Inr (if t = 0 then 0 else s / t)
      \<and> \<bar>if t = 0 then 0 else s / t\<bar> \<le> 1"
    if w: "weigh_articles lib now as (0, 0) = Inr (s, t)" for s t
  proof -
    have bound: "\<bar>s\<bar> \<le> t" using weigh_articles_bound [OF w] by simp
    then have "0 \<le> t" by linarith
    with bound have "t \<noteq> 0 \<Longrightarrow> - 1 \<le> s / t \<and> s / t \<le> 1"
      by (auto simp: le_divide_eq divide_le_eq)
    with bound w show ?thesis by (auto simp: score_articles_def max_absorb2 min_absorb2)
  qed
  then show ?thesis by (auto split: sum.split)
qed

end
