(* ===== verification/Criteria.thy ===== *)
theory Criteria
  imports Frame
begin

text \<open>
  The scoring of one symbol, \<open>bot/universe/criteria.py\<close>.  The moving averages of the package
  \<open>ta\<close> come from the parameter \<open>ta_lib\<close>; everything computed from them is modelled.
\<close>

definition min_bars :: nat where
  "min_bars = 210"

record criteria_config =
  k_ema9_period :: int
  k_sma50_period :: int
  k_sma200_period :: int
  k_volume_ma_period :: int
  k_hh_hl_lookback :: int
  k_body_ratio_min :: pyfloat
  k_wick_ratio_max :: pyfloat
  k_strong_candle_min_ratio :: pyfloat
  k_candle_lookback :: int
  k_near_resistance_pct :: pyfloat
  k_momentum_gap_pct :: pyfloat
  k_momentum_5d_return_pct :: pyfloat

definition default_criteria :: criteria_config where
  "default_criteria = \<lparr>k_ema9_period = 9, k_sma50_period = 50, k_sma200_period = 200,
     k_volume_ma_period = 20, k_hh_hl_lookback = 20, k_body_ratio_min = Fin (60/100),
     k_wick_ratio_max = Fin (30/100), k_strong_candle_min_ratio = Fin (60/100),
     k_candle_lookback = 5, k_near_resistance_pct = Fin 2, k_momentum_gap_pct = Fin (1/2),
     k_momentum_5d_return_pct = Fin 5\<rparr>"

record criteria_result =
  cr_symbol :: string
  cr_score :: pyfloat
  cr_passes_all :: bool
  cr_price_above_ema9 :: bool
  cr_price_above_sma50 :: bool
  cr_price_above_sma200 :: bool
  cr_ema9_rising :: bool
  cr_sma50_rising :: bool
  cr_higher_highs_lows :: bool
  cr_volume_confirms :: bool
  cr_strong_candles :: bool
  cr_small_wicks :: bool
  cr_pullback_above_ema9 :: bool
  cr_near_resistance :: bool
  cr_has_momentum :: bool
  cr_last_price :: pyfloat
  cr_avg_volume :: pyfloat

definition empty_result :: "string \<Rightarrow> criteria_result" where
  "empty_result symbol = \<lparr>cr_symbol = symbol, cr_score = Fin 0, cr_passes_all = False,
     cr_price_above_ema9 = False, cr_price_above_sma50 = False, cr_price_above_sma200 = False,
     cr_ema9_rising = False, cr_sma50_rising = False, cr_higher_highs_lows = False,
     cr_volume_confirms = False, cr_strong_candles = False, cr_small_wicks = False,
     cr_pullback_above_ema9 = False, cr_near_resistance = False, cr_has_momentum = False,
     cr_last_price = Fin 0, cr_avg_volume = Fin 0\<rparr>"

definition normalise :: "frame \<Rightarrow> frame option" where
  "normalise df = (let df' = lower_cols df in if has_ohlcv df' then Some df' else None)"

section \<open>The single criteria\<close>

definition check_higher_highs_lows :: "series \<Rightarrow> series \<Rightarrow> int \<Rightarrow> bool" where
  "check_higher_highs_lows high low lookback =
     (if int (length high) < lookback then False
      else let window = (if lookback mod 2 = 0 then lookback else lookback + 1);
               recent = slice_from (- window) high;
               half = length recent div 2;
               older_h = s_max (take half recent); newer_h = s_max (drop half recent);
               low_window = slice_from (- window) low;
               older_l = s_min (take half low_window); newer_l = s_min (drop half low_window)
           in older_h < newer_h \<and> older_l < newer_l)"

definition check_volume_confirms :: "series \<Rightarrow> series \<Rightarrow> series \<Rightarrow> series \<Rightarrow> bool res" where
  "check_volume_confirms close open_p volume vol_ma =
     res_bind (nth_last 1 vol_ma) (\<lambda>long_avg_vol.
       let recent_avg_vol = s_mean (tail_n 5 volume) in
       if is_nan long_avg_vol \<or> long_avg_vol \<le> Fin 0 then Inr False
       else let above_avg = long_avg_vol \<le> recent_avg_vol;
                green_mask = map (\<lambda>(c, p). p < c) (zip (tail_n 5 close) (tail_n 5 open_p));
                vol_rising_on_green = (if True \<in> set green_mask
                  then long_avg_vol \<le> np_mean (mask_select green_mask (tail_n 5 volume)) else False)
            in Inr (above_avg \<and> vol_rising_on_green))"

text \<open>\<open>np.where(nonzero, x / safe_range, 0.0)\<close> on one candle.\<close>

definition candle_ratio :: "pyfloat \<Rightarrow> pyfloat \<Rightarrow> pyfloat" where
  "candle_ratio x rng = (let nonzero = Fin 0 < rng; safe_range = (if nonzero then rng else Fin 1) in
     if nonzero then np_div x safe_range else Fin 0)"

definition check_candle_quality :: "series \<Rightarrow> series \<Rightarrow> series \<Rightarrow> series \<Rightarrow> criteria_config \<Rightarrow> bool \<times> bool" where
  "check_candle_quality open_p high low close config =
     (let n = k_candle_lookback config;
          candles = zip (zip (tail_int n open_p) (tail_int n high)) (zip (tail_int n low) (tail_int n close));
          body_ratio = map (\<lambda>((p, h), (l, c)). candle_ratio (fabs (c - p)) (h - l)) candles;
          strong_frac = bool_mean (map (\<lambda>x. k_body_ratio_min config \<le> x) body_ratio);
          wick_ratio = map (\<lambda>((p, h), (l, c)). candle_ratio (h - np_maximum p c) (h - l)) candles;
          small_frac = bool_mean (map (\<lambda>x. x \<le> k_wick_ratio_max config) wick_ratio)
      in (k_strong_candle_min_ratio config \<le> strong_frac, k_strong_candle_min_ratio config \<le> small_frac))"

definition check_pullback_above_ema9 :: "series \<Rightarrow> series \<Rightarrow> int \<Rightarrow> bool" where
  "check_pullback_above_ema9 close ema9 lookback =
     (let valid = filter (\<lambda>(c, e). \<not> is_nan e) (zip (tail_int lookback close) (tail_int lookback ema9))
      in if valid = [] then False else list_all (\<lambda>(c, e). e \<le> c) valid)"

definition check_near_resistance :: "series \<Rightarrow> series \<Rightarrow> pyfloat \<Rightarrow> bool res" where
  "check_near_resistance close high near_pct =
     (if length high < 23 then Inr False
      else let swing_high = s_max (take 17 (tail_n 20 high)) in
        res_bind (nth_last 1 close) (\<lambda>last_close.
          let lower_bound = swing_high * (Fin 1 - fdiv_lit near_pct 100) in
          Inr (lower_bound \<le> last_close \<and> last_close \<le> swing_high * Fin (101/100))))"

definition percent_change :: "pyfloat \<Rightarrow> pyfloat \<Rightarrow> pyfloat" where
  "percent_change base x = (if Fin 0 < base then fdiv_nz (x - base) base * Fin 100 else Fin 0)"

definition check_momentum :: "series \<Rightarrow> series \<Rightarrow> pyfloat \<Rightarrow> pyfloat \<Rightarrow> bool res" where
  "check_momentum open_p close gap_pct five_day_return_pct =
     (if length close < 7 then Inr False
      else res_bind (nth_last 2 close) (\<lambda>prev_close.
           res_bind (nth_last 1 open_p) (\<lambda>last_open.
           res_bind (nth_last 6 close) (\<lambda>base.
           res_bind (nth_last 1 close) (\<lambda>lst.
             Inr (gap_pct \<le> percent_change prev_close last_open
                  \<or> five_day_return_pct \<le> percent_change base lst))))))"

section \<open>The score\<close>

definition points :: "bool \<Rightarrow> real \<Rightarrow> real" where
  "points b n = (if b then n else 0)"

definition raw_score :: "criteria_result \<Rightarrow> real" where
  "raw_score r = points (cr_price_above_ema9 r) 10 + points (cr_price_above_sma50 r) 10
     + points (cr_price_above_sma200 r) 10 + points (cr_ema9_rising r) 10 + points (cr_sma50_rising r) 10
     + points (cr_higher_highs_lows r) 15 + points (cr_volume_confirms r) 10
     + points (cr_strong_candles r) 5 + points (cr_small_wicks r) 5 + points (cr_pullback_above_ema9 r) 5
     + points (cr_near_resistance r) 10 + points (cr_has_momentum r) 10"

definition core_flags :: "criteria_result \<Rightarrow> bool list" where
  "core_flags r = [cr_price_above_ema9 r, cr_price_above_sma50 r, cr_price_above_sma200 r,
     cr_ema9_rising r, cr_sma50_rising r, cr_higher_highs_lows r, cr_volume_confirms r]"

definition with_score :: "criteria_result \<Rightarrow> criteria_result" where
  "with_score r = r\<lparr>cr_passes_all := list_all id (core_flags r),
     cr_score := fround 1 (Fin (raw_score r / 110 * 100))\<rparr>"

definition score_columns :: "ta_lib \<Rightarrow> string \<Rightarrow> criteria_config \<Rightarrow> series \<Rightarrow> series \<Rightarrow> series \<Rightarrow> series \<Rightarrow> series \<Rightarrow>
    criteria_result res" where
  "score_columns ta symbol config open_p high low close volume =
     res_bind (ta_ema ta (k_ema9_period config) close) (\<lambda>ema9.
     res_bind (ta_sma ta (k_sma50_period config) close) (\<lambda>sma50.
     res_bind (ta_sma ta (k_sma200_period config) close) (\<lambda>sma200.
     res_bind (rolling_mean (k_volume_ma_period config) volume) (\<lambda>vol_ma.
     res_bind (nth_last 1 close) (\<lambda>last_close.
     res_bind (nth_last 1 ema9) (\<lambda>last_ema9.
     res_bind (nth_last 1 sma50) (\<lambda>last_sma50.
     res_bind (nth_last 1 sma200) (\<lambda>last_sma200.
     res_bind (nth_last 1 vol_ma) (\<lambda>last_vol_ma.
       if list_ex is_nan [last_ema9, last_sma50, last_sma200, last_vol_ma] then Inr (empty_result symbol)
       else
     res_bind (nth_last 4 ema9) (\<lambda>ema9_before.
     res_bind (nth_last 6 sma50) (\<lambda>sma50_before.
     res_bind (check_volume_confirms close open_p volume vol_ma) (\<lambda>volume_confirms.
     res_bind (check_near_resistance close high (k_near_resistance_pct config)) (\<lambda>near_resistance.
     res_bind (check_momentum open_p close (k_momentum_gap_pct config) (k_momentum_5d_return_pct config)) (\<lambda>has_momentum.
       (case check_candle_quality open_p high low close config of (strong_candles, small_wicks) \<Rightarrow>
         Inr (with_score \<lparr>cr_symbol = symbol, cr_score = Fin 0, cr_passes_all = False,
           cr_price_above_ema9 = (last_ema9 < last_close),
           cr_price_above_sma50 = (last_sma50 < last_close),
           cr_price_above_sma200 = (last_sma200 < last_close),
           cr_ema9_rising = (ema9_before < last_ema9), cr_sma50_rising = (sma50_before < last_sma50),
           cr_higher_highs_lows = check_higher_highs_lows high low (k_hh_hl_lookback config),
           cr_volume_confirms = volume_confirms, cr_strong_candles = strong_candles,
           cr_small_wicks = small_wicks,
           cr_pullback_above_ema9 = check_pullback_above_ema9 close ema9 (k_candle_lookback config),
           cr_near_resistance = near_resistance, cr_has_momentum = has_momentum,
           cr_last_price = last_close, cr_avg_volume = last_vol_ma\<rparr>))))))))))))))))"

definition score_candidate :: "ta_lib \<Rightarrow> frame \<Rightarrow> string \<Rightarrow> criteria_config option \<Rightarrow> criteria_result res" where
  "score_candidate ta df symbol config = (case normalise df of
      None \<Rightarrow> Inr (empty_result symbol)
    | Some d \<Rightarrow>
        if nrows d < min_bars then Inr (empty_result symbol)
        else res_bind (get_col ''close'' d) (\<lambda>close. res_bind (get_col ''high'' d) (\<lambda>high.
             res_bind (get_col ''low'' d) (\<lambda>low. res_bind (get_col ''open'' d) (\<lambda>open_p.
             res_bind (get_col ''volume'' d) (\<lambda>volume.
               score_columns ta symbol (case config of Some k \<Rightarrow> k | None \<Rightarrow> default_criteria)
                 open_p high low close volume))))))"

section \<open>Properties\<close>

lemma raw_score_bounds: "0 \<le> raw_score r \<and> raw_score r \<le> 110"
  by (auto simp: raw_score_def points_def)

lemma raw_score_core: "list_all id (core_flags r) \<Longrightarrow> 75 \<le> raw_score r"
  by (auto simp: raw_score_def points_def core_flags_def)

lemma raw_score_not_core: "\<not> list_all id (core_flags r) \<Longrightarrow> raw_score r \<le> 100"
  by (auto simp: raw_score_def points_def core_flags_def)

lemma round_real_grid: "round_real n (of_int k / 10 ^ n) = of_int k / 10 ^ n"
  by (simp add: round_real_def)

definition score_ok :: "criteria_result \<Rightarrow> bool" where
  "score_ok r \<longleftrightarrow> (\<exists>s. cr_score r = Fin s \<and> 0 \<le> s \<and> s \<le> 100
     \<and> (if cr_passes_all r then 68.2 \<le> s \<and> list_all id (core_flags r) else s \<le> 90.9))"

lemma with_score_ok: "score_ok (with_score r)"
proof -
  define x where "x = raw_score r / 110 * 100"
  have bounds: "0 \<le> x" "x \<le> 100" using raw_score_bounds [of r] by (auto simp: x_def)
  have grid: "round_real 1 0 = 0" "round_real 1 100 = 100" "round_real 1 (750/11) = 68.2"
    "round_real 1 (1000/11) = 90.9"
    using round_real_grid [of 1 0] round_real_grid [of 1 1000]
    by (simp_all add: round_real_def round_half_even_def Let_def floor_eq_iff)
  have "round_real 1 0 \<le> round_real 1 x" "round_real 1 x \<le> round_real 1 100"
    using bounds by (simp_all only: round_real_mono)
  moreover have "round_real 1 (750/11) \<le> round_real 1 x" if "list_all id (core_flags r)"
    using raw_score_core [OF that] by (intro round_real_mono) (simp add: x_def)
  moreover have "round_real 1 x \<le> round_real 1 (1000/11)" if "\<not> list_all id (core_flags r)"
    using raw_score_not_core [OF that] by (intro round_real_mono) (simp add: x_def)
  moreover have "core_flags (with_score r) = core_flags r" by (simp add: core_flags_def with_score_def)
  ultimately show ?thesis
    unfolding score_ok_def grid by (auto simp: with_score_def x_def)
qed

lemma empty_result_ok: "score_ok (empty_result symbol) \<and> cr_symbol (empty_result symbol) = symbol"
  by (simp add: score_ok_def empty_result_def)

lemma with_score_symbol: "cr_symbol (with_score r) = cr_symbol r"
  by (simp add: with_score_def)

lemma score_columns_ok:
  "score_columns ta symbol config p h l c v = Inr r \<Longrightarrow> score_ok r \<and> cr_symbol r = symbol"
  unfolding score_columns_def
  by (cases "check_candle_quality p h l c config") (auto simp: res_bind_Inr_iff with_score_ok with_score_symbol empty_result_ok
      split: if_splits)

lemma score_candidate_range':
  "case score_candidate ta df symbol config of Inl _ \<Rightarrow> True | Inr r \<Rightarrow> score_ok r \<and> cr_symbol r = symbol"
  by (auto simp: score_candidate_def res_bind_Inr_iff empty_result_ok dest: score_columns_ok
      split: sum.split option.splits if_splits)

text \<open>Every score lies between 0 and 100; a candidate that meets all seven core criteria scores at
  least 68.2 and one that misses a core criterion at most 90.9, and the flag \<open>passes_all\<close> is only
  set when all seven hold.  This holds for every frame, setting and indicator library.\<close>

theorem score_candidate_range:
  "case score_candidate ta df symbol config of Inl _ \<Rightarrow> True | Inr r \<Rightarrow> score_ok r \<and> cr_symbol r = symbol"
  by (rule score_candidate_range')

end
