(* ===== verification/Scanner.thy ===== *)
theory Scanner
  imports Criteria Notifier "HOL-Library.Multiset"
begin

text \<open>
  The universe scanner \<open>bot/universe/scanner.py\<close>: its settings, the pool of symbols, the filters
  and the ranking.  The data provider is an argument, as in the code.
\<close>

record scan_config =
  n_min_price :: pyfloat
  n_max_price :: pyfloat
  n_min_avg_volume :: pyfloat
  n_results :: int
  n_bars_history :: int
  n_criteria :: criteria_config

text \<open>\<open>ScanConfig(..)\<close> with its \<open>__post_init__\<close>.\<close>

definition make_scan_config :: "pyfloat \<Rightarrow> pyfloat \<Rightarrow> pyfloat \<Rightarrow> int \<Rightarrow> int \<Rightarrow> criteria_config option \<Rightarrow> scan_config" where
  "make_scan_config min_price max_price min_avg_volume results bars_history criteria =
     \<lparr>n_min_price = min_price, n_max_price = max_price, n_min_avg_volume = min_avg_volume,
      n_results = results, n_bars_history = (if bars_history < int min_bars then int min_bars else bars_history),
      n_criteria = (case criteria of Some k \<Rightarrow> k | None \<Rightarrow> default_criteria)\<rparr>"

definition default_scan_config :: scan_config where
  "default_scan_config = make_scan_config (Fin 5) (Fin 500) (Fin 500000) 10 250 None"

definition default_pool :: string where
  "default_pool = ''SPY,QQQ,IWM,DIA,XLF,XLK,XLE,XLV,GLD,'' @
     ''AAPL,MSFT,NVDA,GOOGL,AMZN,META,TSLA,AMD,AVGO,QCOM,INTC,CRM,ADBE,ORCL,NFLX,'' @
     ''JPM,BAC,GS,MS,V,MA,'' @ ''JNJ,UNH,LLY,PFE,TMO,'' @ ''HD,WMT,COST,NKE,SBUX,MCD,'' @
     ''CVX,XOM,COP,'' @ ''CAT,BA,GE,HON''"

section \<open>Settings\<close>

text \<open>
  The calls pass the default in a second positional place.  \<open>call_get\<close> binds the arguments as the
  interpreter does, so what \<open>get\<close> makes of such a call is \<open>bot/utils/config.py\<close>'s affair.
\<close>

fun float_of :: "pyval \<Rightarrow> pyfloat res" where
  "float_of (VStr s) = (case parse_float s of Some x \<Rightarrow> Inr x | None \<Rightarrow> Inl ValueError)"
| "float_of (VInt n) = Inr (Fin (of_int n))"
| "float_of (VFloat x) = Inr x"
| "float_of (VBool b) = Inr (Fin (if b then 1 else 0))"
| "float_of VNone = Inl TypeError"

fun int_of_val :: "pyval \<Rightarrow> int res" where
  "int_of_val (VStr s) = (case parse_int s of Some n \<Rightarrow> Inr n | None \<Rightarrow> Inl ValueError)"
| "int_of_val (VInt n) = Inr n"
| "int_of_val (VFloat x) = py_int x"
| "int_of_val (VBool b) = Inr (if b then 1 else 0)"
| "int_of_val VNone = Inl TypeError"

definition float_setting :: "alert_env \<Rightarrow> string \<Rightarrow> pyfloat \<Rightarrow> ('ib world, pyfloat) M" where
  "float_setting env key d = try_except
     (bindM (call_get [VStr key, VStr (float_text env d)] None CStr) (\<lambda>v. liftR (float_of v)))
     is_value_or_type_error (\<lambda>_. ret d)"

definition int_setting :: "string \<Rightarrow> int \<Rightarrow> ('ib world, int) M" where
  "int_setting key d = try_except
     (bindM (call_get [VStr key, VStr (show_int d)] None CStr) (\<lambda>v. liftR (int_of_val v)))
     is_value_or_type_error (\<lambda>_. ret d)"

definition load_criteria :: "alert_env \<Rightarrow> ('ib world, criteria_config) M" where
  "load_criteria env =
     bindM (int_setting ''UNIVERSE_EMA9_PERIOD'' 9) (\<lambda>ema9.
     bindM (int_setting ''UNIVERSE_SMA50_PERIOD'' 50) (\<lambda>sma50.
     bindM (int_setting ''UNIVERSE_SMA200_PERIOD'' 200) (\<lambda>sma200.
     bindM (int_setting ''UNIVERSE_VOLUME_MA_PERIOD'' 20) (\<lambda>vol.
     bindM (int_setting ''UNIVERSE_HH_HL_LOOKBACK'' 20) (\<lambda>hh.
     bindM (float_setting env ''UNIVERSE_BODY_RATIO_MIN'' (Fin (60/100))) (\<lambda>body.
     bindM (float_setting env ''UNIVERSE_WICK_RATIO_MAX'' (Fin (30/100))) (\<lambda>wick.
     bindM (float_setting env ''UNIVERSE_NEAR_RESISTANCE_PCT'' (Fin 2)) (\<lambda>near.
     bindM (float_setting env ''UNIVERSE_MOMENTUM_GAP_PCT'' (Fin (1/2))) (\<lambda>gap.
     bindM (float_setting env ''UNIVERSE_MOMENTUM_5D_RETURN_PCT'' (Fin 5)) (\<lambda>five.
       ret (default_criteria\<lparr>k_ema9_period := ema9, k_sma50_period := sma50, k_sma200_period := sma200,
         k_volume_ma_period := vol, k_hh_hl_lookback := hh, k_body_ratio_min := body,
         k_wick_ratio_max := wick, k_near_resistance_pct := near, k_momentum_gap_pct := gap,
         k_momentum_5d_return_pct := five\<rparr>)))))))))))"

definition load_scan_config :: "alert_env \<Rightarrow> ('ib world, scan_config) M" where
  "load_scan_config env =
     bindM (load_criteria env) (\<lambda>criteria.
     bindM (float_setting env ''UNIVERSE_MIN_PRICE'' (Fin 5)) (\<lambda>min_price.
     bindM (float_setting env ''UNIVERSE_MAX_PRICE'' (Fin 500)) (\<lambda>max_price.
     bindM (float_setting env ''UNIVERSE_MIN_AVG_VOLUME'' (Fin 500000)) (\<lambda>min_avg_volume.
     bindM (int_setting ''UNIVERSE_MAX_SYMBOLS'' 10) (\<lambda>results.
     bindM (int_setting ''UNIVERSE_BARS_HISTORY'' 250) (\<lambda>bars_history.
       ret (make_scan_config min_price max_price min_avg_volume results bars_history (Some criteria))))))))"

definition split_symbols :: "string \<Rightarrow> string list" where
  "split_symbols raw = filter (\<lambda>s. s \<noteq> []) (map strip (split_on (CHR '','') raw))"

definition get_pool :: "('ib world, string list) M" where
  "get_pool = bindM (call_get [VStr ''UNIVERSE_POOL'', VStr default_pool] None CStr) (\<lambda>v.
     bindM (liftR (as_str v)) (\<lambda>raw.
       let symbols = split_symbols (strip raw) in
       ret (if symbols \<noteq> [] then symbols else split_on (CHR '','') default_pool)))"

section \<open>Scanning\<close>

type_synonym 'ib fetcher = "string \<Rightarrow> nat \<Rightarrow> ('ib world, frame option) M"

definition evaluate_bars :: "ta_lib \<Rightarrow> string \<Rightarrow> scan_config \<Rightarrow> frame \<Rightarrow> criteria_result option res" where
  "evaluate_bars ta symbol config df0 =
     (let df = lower_cols df0 in
      if \<not> has_ohlcv df then Inr None
      else res_bind (get_col ''close'' df) (\<lambda>close. res_bind (nth_last 1 close) (\<lambda>last_price.
        if \<not> (n_min_price config \<le> last_price \<and> last_price \<le> n_max_price config) then Inr None
        else res_bind (get_col ''volume'' df) (\<lambda>volume.
          if s_mean (tail_n 20 volume) < n_min_avg_volume config then Inr None
          else res_bind (score_candidate ta df symbol (Some (n_criteria config))) (\<lambda>r. Inr (Some r))))))"

text \<open>\<open>df is None or df.empty\<close>.\<close>

definition evaluate_symbol :: "ta_lib \<Rightarrow> 'ib fetcher \<Rightarrow> scan_config \<Rightarrow> string \<Rightarrow> ('ib world, criteria_result option) M" where
  "evaluate_symbol ta fetch config symbol =
     bindM (fetch symbol (nat (n_bars_history config))) (\<lambda>df. case df of
       None \<Rightarrow> ret None
     | Some d \<Rightarrow> if nrows d = 0 \<or> f_cols d = [] then ret None
                 else liftR (evaluate_bars ta symbol config d))"

fun scan_symbols :: "ta_lib \<Rightarrow> 'ib fetcher \<Rightarrow> scan_config \<Rightarrow> string list \<Rightarrow> ('ib world, criteria_result list) M" where
  "scan_symbols ta fetch config [] = ret []"
| "scan_symbols ta fetch config (symbol # rest) =
     bindM (try_except (evaluate_symbol ta fetch config symbol) any_exception (\<lambda>_. ret None)) (\<lambda>r.
     bindM (scan_symbols ta fetch config rest) (\<lambda>rs.
       ret (case r of Some x \<Rightarrow> x # rs | None \<Rightarrow> rs)))"

text \<open>\<open>results.sort(key=lambda r: r.score, reverse=True)\<close>, which keeps the order of equal scores.\<close>

fun insert_desc :: "criteria_result \<Rightarrow> criteria_result list \<Rightarrow> criteria_result list" where
  "insert_desc x [] = [x]"
| "insert_desc x (y # ys) = (if cr_score x < cr_score y then y # insert_desc x ys else x # y # ys)"

definition sort_desc :: "criteria_result list \<Rightarrow> criteria_result list" where
  "sort_desc rs = foldr insert_desc rs []"

definition scan :: "ta_lib \<Rightarrow> string list \<Rightarrow> 'ib fetcher \<Rightarrow> scan_config option \<Rightarrow> ('ib world, criteria_result list) M" where
  "scan ta symbols fetch config =
     bindM (scan_symbols ta fetch (case config of Some k \<Rightarrow> k | None \<Rightarrow> default_scan_config) symbols)
       (\<lambda>rs. ret (sort_desc rs))"

section \<open>Properties\<close>

text \<open>No \<open>UNIVERSE_*\<close> setting has any effect: every read passes its default in a positional place,
  which \<open>get\<close> does not take, so loading the scan settings returns the defaults and reading the pool
  of symbols raises a \<open>TypeError\<close>, whatever the settings table holds.\<close>

theorem universe_settings_ignored:
  "load_scan_config env w = (Inr default_scan_config, w) \<and> get_pool w = (Inl TypeError, w)"
proof
  have f: "float_setting env key d = ret d" for key d and env :: alert_env
    by (simp add: float_setting_def call_get_def try_except_def fun_eq_iff raise_def ret_def bindM_def
        is_value_or_type_error_def)
  have i: "int_setting key d = ret d" for key d
    by (simp add: int_setting_def call_get_def try_except_def fun_eq_iff raise_def ret_def bindM_def
        is_value_or_type_error_def)
  have "default_criteria\<lparr>k_ema9_period := 9, k_sma50_period := 50, k_sma200_period := 200,
         k_volume_ma_period := 20, k_hh_hl_lookback := 20, k_body_ratio_min := Fin (60/100),
         k_wick_ratio_max := Fin (30/100), k_near_resistance_pct := Fin 2, k_momentum_gap_pct := Fin (1/2),
         k_momentum_5d_return_pct := Fin 5\<rparr> = default_criteria"
    by (simp add: default_criteria_def)
  then have "load_criteria env = (ret default_criteria :: ('a world, criteria_config) M)"
    by (simp add: load_criteria_def f i)
  then have "load_scan_config env = (ret default_scan_config :: ('a world, scan_config) M)"
    by (simp add: load_scan_config_def f i default_scan_config_def make_scan_config_def)
  then show "load_scan_config env w = (Inr default_scan_config, w)"
    by (simp add: ret_apply)
  show "get_pool w = (Inl TypeError, w)"
    by (simp add: get_pool_def call_get_def raise_apply)
qed

lemma mset_insert_desc: "mset (insert_desc x xs) = add_mset x (mset xs)"
  by (induction xs) auto

lemma mset_sort_desc: "mset (sort_desc rs) = mset rs"
  by (induction rs) (simp_all add: sort_desc_def mset_insert_desc)

lemma set_sort_desc: "set (sort_desc rs) = set rs"
  by (metis mset_sort_desc set_mset_mset)

definition ranked :: "criteria_result list \<Rightarrow> bool" where
  "ranked rs \<longleftrightarrow> sorted_wrt (\<lambda>a b. cr_score b \<le> cr_score a) rs"

lemma score_fin: "score_ok r \<Longrightarrow> \<exists>s. cr_score r = Fin s"
  by (auto simp: score_ok_def)

lemma ranked_insert_desc:
  "ranked xs \<Longrightarrow> list_all score_ok (x # xs) \<Longrightarrow> ranked (insert_desc x xs)"
proof (induction xs)
  case Nil
  then show ?case by (simp add: ranked_def)
next
  case (Cons y ys)
  from Cons.prems obtain a b where ab: "cr_score x = Fin a" "cr_score y = Fin b"
    using score_fin [of x] score_fin [of y] by auto
  have set: "set (insert_desc x ys) = insert x (set ys)"
    using mset_insert_desc [of x ys] by (metis set_mset_add_mset_insert set_mset_mset)
  have below: "cr_score z \<le> Fin b" if "z \<in> set ys" for z
    using Cons.prems(1) that ab by (auto simp: ranked_def)
  show ?case
  proof (cases "a < b")
    case True
    with Cons below ab show ?thesis
      by (auto simp: ranked_def set)
  next
    case False
    have "cr_score z \<le> Fin a" if z: "z \<in> set ys" for z
    proof -
      obtain c where "cr_score z = Fin c" using Cons.prems(2) z score_fin [of z] by (auto simp: list_all_iff)
      with below [OF z] False show ?thesis by simp
    qed
    with Cons.prems False ab show ?thesis by (auto simp: ranked_def)
  qed
qed

lemma ranked_sort_desc: "list_all score_ok rs \<Longrightarrow> ranked (sort_desc rs)"
proof (induction rs)
  case Nil
  then show ?case by (simp add: sort_desc_def ranked_def)
next
  case (Cons r rs)
  then have "list_all score_ok (r # sort_desc rs)" by (simp add: list_all_iff set_sort_desc)
  with Cons show ?case using ranked_insert_desc by (simp add: sort_desc_def)
qed

lemma evaluate_symbol_result:
  assumes "evaluate_symbol ta fetch config symbol w = (Inr (Some r), u)"
  shows "score_ok r \<and> cr_symbol r = symbol"
proof -
  obtain df where "score_candidate ta df symbol (Some (n_criteria config)) = Inr r"
    using assms unfolding evaluate_symbol_def
    by (auto elim!: bindM_InrE simp: ret_def liftR_def evaluate_bars_def Let_def res_bind_Inr_iff
        split: option.splits if_splits)
  with score_candidate_range' [where ta = ta and df = df and symbol = symbol
      and config = "Some (n_criteria config)"] show ?thesis by simp
qed

lemma scan_symbols_result:
  "\<exists>rs u. scan_symbols ta fetch config symbols w = (Inr rs, u)
     \<and> list_all (\<lambda>r. score_ok r \<and> cr_symbol r \<in> set symbols) rs"
proof (induction symbols arbitrary: w)
  case Nil
  then show ?case by (simp add: ret_def)
next
  case (Cons symbol symbols)
  define step where "step = try_except (evaluate_symbol ta fetch config symbol) any_exception (\<lambda>_. ret None)"
  have "never_raises step" unfolding step_def by (intro returns_rules)
  then obtain r v where r: "step w = (Inr r, v)" by (rule never_raisesE)
  from Cons obtain rs u where rs: "scan_symbols ta fetch config symbols v = (Inr rs, u)"
    "list_all (\<lambda>r. score_ok r \<and> cr_symbol r \<in> set symbols) rs" by blast
  have "score_ok x \<and> cr_symbol x = symbol" if "r = Some x" for x
    using r that unfolding step_def
    by (auto simp: try_except_def ret_def dest: evaluate_symbol_result split: prod.splits sum.splits)
  moreover have "scan_symbols ta fetch config (symbol # symbols) w
      = (Inr (case r of Some x \<Rightarrow> x # rs | None \<Rightarrow> rs), u)"
    using r rs(1) by (simp add: step_def [symmetric] bindM_def ret_apply)
  ultimately show ?case using rs(2) by (auto simp: list_all_iff split: option.split)
qed


end
