(* ===== verification/Selector.thy ===== *)
theory Selector
  imports Scanner
begin

text \<open>
  The choice of symbols by Claude, \<open>bot/universe/selector.py\<close>.  The package \<open>anthropic\<close> is the
  parameter \<open>claude_lib\<close>: whether it is installed, and the text or the exception a message to a
  model returns.  Dashes outside ASCII in the prompt are written as hyphens.
\<close>

type_synonym claude_client = "string \<Rightarrow> nat \<Rightarrow> string \<Rightarrow> string res"

record claude_lib =
  cl_installed :: bool
  cl_message :: claude_client
  cl_repr :: "json \<Rightarrow> string"

record selection_result =
  e_mode :: string
  e_selected :: "string list"
  e_reasoning :: string
  e_analysis :: "(string \<times> string) list"
  e_all :: "criteria_result list"

definition make_client :: "claude_lib \<Rightarrow> ('ib world, claude_client option) M" where
  "make_client lib =
     (if \<not> cl_installed lib then ret None
      else bindM (getenv ''ANTHROPIC_API_KEY'' '''') (\<lambda>key.
        ret (if key = [] then None else Some (cl_message lib))))"

definition fallback :: "criteria_result list \<Rightarrow> string \<Rightarrow> selection_result" where
  "fallback candidates mode =
     (if mode = ''autonomous''
      then \<lparr>e_mode = mode, e_selected = (case candidates of [] \<Rightarrow> [] | c # _ \<Rightarrow> [cr_symbol c]),
            e_reasoning = ''Score-based selection (Claude unavailable).'', e_analysis = [], e_all = candidates\<rparr>
      else \<lparr>e_mode = mode, e_selected = map cr_symbol candidates,
            e_reasoning = ''Score-based ranking (Claude unavailable).'', e_analysis = [], e_all = candidates\<rparr>)"

section \<open>The prompt\<close>

definition pad_right :: "nat \<Rightarrow> string \<Rightarrow> string" where
  "pad_right n s = s @ replicate (n - length s) CHR '' ''"

definition join :: "string \<Rightarrow> string list \<Rightarrow> string" where
  "join sep ss = (case ss of [] \<Rightarrow> [] | s # rest \<Rightarrow> s @ concat (map (\<lambda>t. sep @ t) rest))"

definition count_true :: "bool list \<Rightarrow> int" where
  "count_true bs = int (length (filter id bs))"

definition bonus_flags :: "criteria_result \<Rightarrow> bool list" where
  "bonus_flags r = [cr_strong_candles r, cr_small_wicks r, cr_pullback_above_ema9 r, cr_near_resistance r,
     cr_has_momentum r]"

definition prompt_row :: "nat \<Rightarrow> criteria_result \<Rightarrow> string" where
  "prompt_row rank c =
     (let flags = (if cr_near_resistance c then [''near-resistance''] else [])
                @ (if cr_has_momentum c then [''momentum/gap''] else [])
                @ (if cr_pullback_above_ema9 c then [''pullback-above-EMA9''] else [])
      in show_nat rank @ ''. '' @ pad_right 6 (cr_symbol c) @ ''  score='' @ pad_left 5 CHR '' '' (show_fixed 1 (cr_score c))
         @ ''  core='' @ show_int (count_true (core_flags c)) @ ''/7  bonus='' @ show_int (count_true (bonus_flags c))
         @ ''/5  price=$'' @ show_fixed 2 (cr_last_price c) @ ''  ''
         @ (if flags = [] then ''no bonus flags'' else join ''  '' flags))"

definition quoted :: "string \<Rightarrow> string" where
  "quoted s = CHR 0x22 # s @ [CHR 0x22]"

definition prompt_instruction :: "criteria_result list \<Rightarrow> string \<Rightarrow> string" where
  "prompt_instruction candidates mode =
     (if mode = ''autonomous''
      then ''Select the SINGLE best symbol for today's intraday trading session. ''
        @ ''Prioritise symbols that pass all core criteria, are near resistance ''
        @ ''(breakout candidate), or show strong momentum. ''
        @ ''Return JSON with keys '' @ quoted ''selected'' @ '' (array with one symbol), ''
        @ quoted ''reasoning'' @ '' (2-3 sentences), and '' @ quoted ''analysis'' @ '' (object mapping each ''
        @ ''symbol to a one-sentence note).''
      else ''Rank all '' @ show_nat (length candidates) @ '' candidates for a human trader to review. ''
        @ ''Return JSON with keys '' @ quoted ''selected'' @ '' (array of ALL symbols in your ''
        @ ''recommended order, best first), '' @ quoted ''reasoning'' @ '' (2-3 sentences about ''
        @ ''the overall market picture), and '' @ quoted ''analysis'' @ '' (object mapping each ''
        @ ''symbol to a one-sentence note).'')"

definition selector_prompt :: "criteria_result list \<Rightarrow> string \<Rightarrow> string" where
  "selector_prompt candidates mode =
     (let table = join newline (map (\<lambda>(i, c). prompt_row i c) (zip [1..<Suc (length candidates)] candidates));
          passes = map cr_symbol (filter cr_passes_all candidates);
          passes_str = (if passes = [] then ''none'' else join '', '' passes)
      in ''You are a technical analysis assistant for an intraday equity trading bot.'' @ newline @ newline
       @ ''Today's universe scan produced '' @ show_nat (length candidates) @ '' candidate(s).'' @ newline
       @ ''Symbols that pass ALL core bullish criteria: '' @ passes_str @ newline @ newline
       @ ''Ranked candidates (daily timeframe):'' @ newline @ table @ newline @ newline
       @ ''Core criteria (all 7 required for a fully bullish setup):'' @ newline
       @ ''  price > EMA9, price > SMA50, price > SMA200,'' @ newline
       @ ''  EMA9 rising, SMA50 rising, higher-highs/higher-lows structure, volume confirms'' @ newline @ newline
       @ ''Bonus signals that improve ranking:'' @ newline
       @ ''  strong candles (large bodies), small upper wicks (little rejection),'' @ newline
       @ ''  pullbacks held above EMA9, near resistance (breakout imminent), gap/momentum'' @ newline @ newline
       @ ''Task: '' @ prompt_instruction candidates mode @ newline @ newline
       @ ''Respond with valid JSON only - no markdown, no prose outside the JSON object.'' @ newline)"

section \<open>The answer\<close>

definition read_answer :: "claude_lib \<Rightarrow> string \<Rightarrow> criteria_result list \<Rightarrow> string \<Rightarrow> selection_result res" where
  "read_answer lib raw candidates mode =
     res_bind (loads (strip raw)) (\<lambda>data.
     res_bind (json_get data ''selected'' (JArr [])) (\<lambda>sel.
     res_bind (json_iter sel) (\<lambda>items.
     res_bind (json_get data ''reasoning'' (JStr '''')) (\<lambda>reason.
     res_bind (json_get data ''analysis'' (JObj [])) (\<lambda>notes.
     res_bind (json_items notes) (\<lambda>kvs.
       let selected = map (\<lambda>v. py_upper (json_str (cl_repr lib) v)) items;
           valid = filter (\<lambda>s. s \<in> cr_symbol ` set candidates) selected in
       if valid = [] then Inl ValueError
       else Inr \<lparr>e_mode = mode, e_selected = valid,
              e_reasoning = strip (json_str (cl_repr lib) reason),
              e_analysis = map (\<lambda>(k, v). (py_upper k, json_str (cl_repr lib) v)) kvs,
              e_all = candidates\<rparr>))))))"

definition caught_by_parser :: "exc \<Rightarrow> bool" where
  "caught_by_parser e \<longleftrightarrow> is_value_error e \<or> e = KeyError"

definition parse_selection :: "claude_lib \<Rightarrow> string \<Rightarrow> criteria_result list \<Rightarrow> string \<Rightarrow> selection_result res" where
  "parse_selection lib raw candidates mode = (case read_answer lib raw candidates mode of
      Inl e \<Rightarrow> if caught_by_parser e then Inr (fallback candidates mode) else Inl e
    | Inr s \<Rightarrow> Inr s)"

definition ask_claude :: "claude_lib \<Rightarrow> claude_client \<Rightarrow> criteria_result list \<Rightarrow> string \<Rightarrow> selection_result" where
  "ask_claude lib client best mode =
     (case res_bind (client ''claude-sonnet-4-6'' 1024 (selector_prompt best mode))
             (\<lambda>raw. parse_selection lib raw best mode) of
        Inl e \<Rightarrow> fallback best mode
      | Inr s \<Rightarrow> s)"

definition select :: "claude_lib \<Rightarrow> criteria_result list \<Rightarrow> int \<Rightarrow> string \<Rightarrow> claude_client option \<Rightarrow>
    ('ib world, selection_result) M" where
  "select lib candidates n mode client =
     (if candidates = []
      then ret \<lparr>e_mode = mode, e_selected = [], e_reasoning = ''No candidates available.'', e_analysis = [],
                e_all = []\<rparr>
      else let best = slice_to n candidates in
        bindM (case client of Some k \<Rightarrow> ret (Some k) | None \<Rightarrow> make_client lib) (\<lambda>cl. case cl of
            None \<Rightarrow> ret (fallback best mode)
          | Some k \<Rightarrow> ret (ask_claude lib k best mode)))"

section \<open>Properties\<close>

definition chosen_from :: "criteria_result list \<Rightarrow> selection_result \<Rightarrow> bool" where
  "chosen_from best s \<longleftrightarrow> set (e_selected s) \<subseteq> cr_symbol ` set best \<and> (e_selected s = [] \<longleftrightarrow> best = [])"

lemma fallback_chosen: "chosen_from best (fallback best mode)"
  by (cases best) (auto simp: chosen_from_def fallback_def)

lemma chosen_fromI: "xs \<noteq> [] \<Longrightarrow> set xs \<subseteq> cr_symbol ` set best \<Longrightarrow> e_selected s = xs \<Longrightarrow> chosen_from best s"
  by (cases xs) (auto simp: chosen_from_def)

lemma read_answer_chosen:
  assumes "read_answer lib raw best mode = Inr s"
  shows "chosen_from best s"
proof -
  obtain sel where "e_selected s = filter (\<lambda>s. s \<in> cr_symbol ` set best) sel" "e_selected s \<noteq> []"
    using assms by (auto simp: read_answer_def res_bind_Inr_iff Let_def split: if_splits)
  then show ?thesis by (intro chosen_fromI) auto
qed

lemma parse_selection_chosen: "parse_selection lib raw best mode = Inr s \<Longrightarrow> chosen_from best s"
  by (cases "read_answer lib raw best mode")
     (auto simp: parse_selection_def fallback_chosen split: if_splits dest: read_answer_chosen)

lemma ask_claude_chosen: "chosen_from best (ask_claude lib client best mode)"
  by (auto simp: ask_claude_def res_bind_Inr_iff fallback_chosen
      split: sum.split dest: parse_selection_chosen)

text \<open>Whatever Claude answers, the selector returns symbols of the best \<open>n\<close> candidates only, and at
  least one of them when there is one: an invented symbol, an answer that is not JSON, of another
  shape, or an exception cannot put a symbol on the watch list nor empty it.  The selector
  changes nothing in the process.\<close>

theorem selection_from_candidates:
  "\<exists>s. select lib candidates n mode client w = (Inr s, w) \<and> chosen_from (slice_to n candidates) s"
proof (cases "candidates = []")
  case True
  then show ?thesis by (simp add: select_def ret_def chosen_from_def slice_to_def)
next
  case False
  then show ?thesis
    by (auto simp: select_def ret_def bindM_def make_client_def getenv_def gets_def Let_def
        fallback_chosen ask_claude_chosen split: option.split)
qed

end
