(* ===== verification/Generator.thy ===== *)
theory Generator
  imports Ml_Model Sentiment Selector Signal
begin

text \<open>
  The signal generator \<open>bot/signals/generator.py\<close>: indicators, prediction, the 15-minute
  confirmation, the suggested prices, and the question to Claude with its parsed answer.  Characters
  of the prompt outside ASCII are written as ASCII.
\<close>

record signal_libs =
  sl_ta :: ta_lib
  sl_lgb :: lgb_lib
  sl_news :: news_lib
  sl_claude :: claude_lib

definition no_signal_for :: "string \<Rightarrow> string \<Rightarrow> string \<Rightarrow> pyfloat \<Rightarrow> signal" where
  "no_signal_for symbol reason label prob = no_signal\<lparr>g_symbol := symbol, g_explanation := reason,
     g_ml_label := label, g_ml_prob := prob\<rparr>"

section \<open>Resampling to 15 minutes\<close>

text \<open>
  \<open>resample("15min")\<close> sorts the rows by time and groups them by quarters of an hour; \<open>first\<close>,
  \<open>last\<close>, \<open>max\<close>, \<open>min\<close> and \<open>sum\<close> skip NaN.  An empty quarter has no prices, so \<open>dropna\<close>
  removes it like every other incomplete candle.
\<close>

definition quarter_ms :: int where
  "quarter_ms = 900000"

definition quarters :: "int list \<Rightarrow> int list" where
  "quarters ts = remdups (sort (map (\<lambda>t. t div quarter_ms) ts))"

definition in_quarter :: "int \<Rightarrow> int list \<Rightarrow> series \<Rightarrow> series" where
  "in_quarter q ts xs = map snd (filter (\<lambda>(t, x). t div quarter_ms = q) (sort_key fst (zip ts xs)))"

definition s_first :: "series \<Rightarrow> pyfloat" where
  "s_first xs = (case present xs of [] \<Rightarrow> NaN | x # _ \<Rightarrow> x)"

definition s_last :: "series \<Rightarrow> pyfloat" where
  "s_last xs = (if present xs = [] then NaN else last (present xs))"

definition s_sum :: "series \<Rightarrow> pyfloat" where
  "s_sum xs = sum_list (present xs)"

definition candle_of :: "int list \<Rightarrow> frame \<Rightarrow> int \<Rightarrow> series" where
  "candle_of ts df q =
     [s_first (in_quarter q ts (col df ''open'')), s_max (in_quarter q ts (col df ''high'')),
      s_min (in_quarter q ts (col df ''low'')), s_last (in_quarter q ts (col df ''close'')),
      s_sum (in_quarter q ts (col df ''volume''))]"

definition resample_to_15min :: "frame \<Rightarrow> frame res" where
  "resample_to_15min df0 = (let df = lower_cols df0 in
     case f_index df of
       DatetimeIdx ts \<Rightarrow>
         if \<not> has_ohlcv df then Inl KeyError
         else (let qs = filter (\<lambda>q. list_all (\<lambda>x. \<not> is_nan x) (candle_of ts df q)) (quarters ts)
               in Inr \<lparr>f_index = DatetimeIdx (map (\<lambda>q. q * quarter_ms) qs),
                       f_cols = map (\<lambda>i. (ohlcv ! i, map (\<lambda>q. candle_of ts df q ! i) qs)) [0..<5]\<rparr>)
     | _ \<Rightarrow> Inr df)"

section \<open>The confirmation\<close>

text \<open>The value of a column in the last row, when the column exists.\<close>

definition last_value :: "string \<Rightarrow> frame \<Rightarrow> pyfloat option" where
  "last_value c df = (case map_of (f_cols df) c of
      Some xs \<Rightarrow> if xs = [] then None else Some (last xs) | None \<Rightarrow> None)"

definition confirm_15min :: "ta_lib \<Rightarrow> frame \<Rightarrow> string \<Rightarrow> bool res" where
  "confirm_15min ta bars ml_label = res_bind (resample_to_15min bars) (\<lambda>bars_15.
     if nrows bars_15 < min_rows then Inr True
     else case calculate ta bars_15 of
         Inl e \<Rightarrow> Inr False
       | Inr enriched_15 \<Rightarrow>
           if nrows enriched_15 = 0 then Inr False
           else let ema_cross = (case last_value ''ema_cross'' enriched_15 of Some x \<Rightarrow> x | None \<Rightarrow> NaN);
                    macd_hist = (case last_value ''macd_hist'' enriched_15 of Some x \<Rightarrow> x | None \<Rightarrow> NaN) in
             if is_nan ema_cross \<or> is_nan macd_hist then Inr False
             else if ml_label = ''long'' then Inr (feq ema_cross (Fin 1) \<and> Fin 0 < macd_hist)
             else if ml_label = ''short'' then Inr (feq ema_cross (Fin 0) \<and> macd_hist < Fin 0)
             else Inr False)"

section \<open>Prices and snapshot\<close>

definition atr_prices :: "pyfloat \<Rightarrow> pyfloat \<Rightarrow> string \<Rightarrow> pyfloat \<Rightarrow> pyfloat \<Rightarrow> pyfloat \<times> pyfloat \<times> pyfloat" where
  "atr_prices close atr action stop_mult target_mult =
     (if atr \<le> Fin 0 \<or> close \<le> Fin 0 then (close, close, close)
      else let (entry, target, stop) =
          (if action = ''long'' then (close, close + target_mult * atr, close - stop_mult * atr)
           else (close, close - target_mult * atr, close + stop_mult * atr))
        in (fround 4 entry, fround 4 target, fround 4 stop))"

definition snapshot_cols :: "string list" where
  "snapshot_cols = [''close'', ''open'', ''high'', ''low'', ''volume'', ''rsi'', ''macd_hist'', ''adx'',
     ''ema_cross'', ''bb_pct'', ''atr'', ''mfi'', ''vwap'', ''ema_9'', ''ema_21'']"

type_synonym snapshot = "(string \<times> pyfloat option) list"

definition indicator_snapshot :: "frame \<Rightarrow> snapshot" where
  "indicator_snapshot enriched =
     (if nrows enriched = 0 then []
      else List.map_filter (\<lambda>c. map_option (\<lambda>v. (c, if is_nan v then None else Some v))
             (last_value c enriched)) snapshot_cols)"

text \<open>\<open>snap.get(c) or 0.0\<close>.\<close>

definition snap_num :: "snapshot \<Rightarrow> string \<Rightarrow> pyfloat" where
  "snap_num snap c = (case map_of snap c of Some (Some x) \<Rightarrow> x | _ \<Rightarrow> Fin 0)"

section \<open>The prompt\<close>

text \<open>\<open>f"{x:+.nf}"\<close> and \<open>f"{x:.1%}"\<close>.\<close>

definition show_signed :: "nat \<Rightarrow> pyfloat \<Rightarrow> string" where
  "show_signed n x = (let s = show_fixed n x in if s \<noteq> [] \<and> hd s = CHR ''-'' then s else CHR ''+'' # s)"

definition show_percent :: "pyfloat \<Rightarrow> string" where
  "show_percent x = show_fixed 1 (x * Fin 100) @ ''%''"

definition sentiment_line :: "pyfloat \<Rightarrow> string" where
  "sentiment_line s =
     (let txt = (if Fin (2/10) < s then ''POSITIVE ('' @ show_signed 2 s @ '')''
                 else if s < Fin (- 2/10) then ''NEGATIVE ('' @ show_signed 2 s @ '')''
                 else ''NEUTRAL ('' @ show_signed 2 s @ '')'')
      in if feq s (Fin 0) then '''' else newline @ ''News sentiment: '' @ txt)"

definition signal_prompt :: "string \<Rightarrow> string \<Rightarrow> pyfloat \<Rightarrow> snapshot \<Rightarrow> pyfloat \<Rightarrow> pyfloat \<Rightarrow> pyfloat \<Rightarrow> pyfloat \<Rightarrow> string" where
  "signal_prompt symbol label prob snap entry target stop sentiment =
     (let ema_bias = (if map_of snap ''ema_cross'' = Some (Some (Fin 1)) then ''EMA9 > EMA21 (bullish)''
                      else ''EMA9 <= EMA21 (bearish)'')
      in ''You are a precise intraday trading assistant for an automated bot.'' @ newline @ newline
       @ ''Symbol: '' @ symbol @ newline
       @ ''Current price: $'' @ show_fixed 2 (snap_num snap ''close'') @ ''  |  VWAP: $'' @ show_fixed 2 (snap_num snap ''vwap'')
       @ ''  |  ATR: $'' @ show_fixed 4 (snap_num snap ''atr'') @ newline @ newline
       @ ''5-min indicator snapshot (latest bar):'' @ newline
       @ ''  RSI: '' @ show_fixed 1 (snap_num snap ''rsi'') @ ''  |  MACD hist: '' @ show_signed 4 (snap_num snap ''macd_hist'')
       @ ''  |  ADX: '' @ show_fixed 1 (snap_num snap ''adx'') @ newline
       @ ''  '' @ ema_bias @ ''  |  BB%: '' @ show_fixed 2 (snap_num snap ''bb_pct'')
       @ ''  |  MFI: '' @ show_fixed 1 (snap_num snap ''mfi'') @ newline @ newline
       @ ''LightGBM signal: '' @ py_upper label @ '' with '' @ show_percent prob @ '' confidence'' @ newline
       @ ''15-min confirmation: PASSED (both timeframes agree)'' @ sentiment_line sentiment @ newline @ newline
       @ ''ATR-based suggestion:'' @ newline
       @ ''  Entry: $'' @ show_fixed 2 entry @ ''  |  Target: $'' @ show_fixed 2 target @ ''  |  Stop: $''
       @ show_fixed 2 stop @ newline @ newline
       @ ''Task: Evaluate this intraday signal and return your decision as JSON with these keys:'' @ newline
       @ ''  '' @ quoted ''action'' @ '': '' @ quoted ''long'' @ '', '' @ quoted ''short'' @ '', or '' @ quoted ''no_trade'' @ newline
       @ ''  '' @ quoted ''entry'' @ '': float (limit price to enter; use current price or slightly better)'' @ newline
       @ ''  '' @ quoted ''target'' @ '': float (profit target)'' @ newline
       @ ''  '' @ quoted ''stop'' @ '': float (stop-loss price)'' @ newline
       @ ''  '' @ quoted ''confidence'' @ '': float 0.0-1.0'' @ newline
       @ ''  '' @ quoted ''explanation'' @ '': string (1-2 sentences)'' @ newline @ newline
       @ ''Rules:'' @ newline
       @ ''- Only override to '' @ quoted ''no_trade'' @ '' if there is a strong reason (e.g. RSI extreme, ADX < 15, price far from VWAP).'' @ newline
       @ ''- Keep entry/target/stop realistic relative to ATR (target >= 1.5xATR away from entry).'' @ newline
       @ ''- Respond with valid JSON only - no markdown, no text outside the JSON object.'' @ newline)"

section \<open>The answer\<close>

definition valid_actions :: "string list" where
  "valid_actions = [''long'', ''short'', ''no_trade'']"

definition read_response :: "claude_lib \<Rightarrow> string \<Rightarrow> string \<Rightarrow> string \<Rightarrow> pyfloat \<Rightarrow> bool \<Rightarrow> snapshot \<Rightarrow> signal res" where
  "read_response lib raw symbol label prob confirmed snap =
     (let close = snap_num snap ''close'' in
     res_bind (loads (strip raw)) (\<lambda>data.
     res_bind (json_get data ''action'' (JStr label)) (\<lambda>act.
       let action = strip (py_lower (json_str (cl_repr lib) act)) in
       if action \<notin> set valid_actions then Inl ValueError
       else res_bind (res_bind (json_get data ''entry'' (JNum close)) json_float) (\<lambda>entry.
            res_bind (res_bind (json_get data ''target'' (JNum close)) json_float) (\<lambda>target.
            res_bind (res_bind (json_get data ''stop'' (JNum close)) json_float) (\<lambda>stop.
            res_bind (res_bind (json_get data ''confidence'' (JNum prob)) json_float) (\<lambda>confidence.
            res_bind (json_get data ''explanation'' (JStr '''')) (\<lambda>expl.
              Inr \<lparr>g_symbol = symbol, g_action = action, g_entry = fround 4 entry, g_target = fround 4 target,
                   g_stop = fround 4 stop, g_confidence = py_min (py_max confidence (Fin 0)) (Fin 1),
                   g_explanation = strip (json_str (cl_repr lib) expl), g_ml_label = label,
                   g_ml_prob = prob, g_confirmed = confirmed, g_indicators = snap\<rparr>))))))))"

definition parse_response :: "claude_lib \<Rightarrow> string \<Rightarrow> string \<Rightarrow> string \<Rightarrow> pyfloat \<Rightarrow> bool \<Rightarrow> snapshot \<Rightarrow> signal res" where
  "parse_response lib raw symbol label prob confirmed snap =
     (case read_response lib raw symbol label prob confirmed snap of
        Inr s \<Rightarrow> Inr s
      | Inl e \<Rightarrow> if is_value_or_type_error e \<or> e = KeyError
          then Inr (no_signal_for symbol ''claude_parse_error'' label prob) else Inl e)"

definition ask_for_signal :: "signal_libs \<Rightarrow> claude_client \<Rightarrow> string \<Rightarrow> string \<Rightarrow> pyfloat \<Rightarrow> bool \<Rightarrow> snapshot \<Rightarrow>
    pyfloat \<times> pyfloat \<times> pyfloat \<Rightarrow> ('ib world, signal) M" where
  "ask_for_signal libs client symbol label prob confirmed snap prices = (case prices of (entry, target, stop) \<Rightarrow>
     bindM (try_except (get_sentiment (sl_news libs) symbol) any_exception (\<lambda>_. ret (Fin 0))) (\<lambda>sentiment.
     let prompt = signal_prompt symbol label prob snap entry target stop sentiment in
     bindM (try_except (get_str ''CLAUDE_MODEL'' (Some ''claude-sonnet-4-6'')) any_exception
         (\<lambda>_. ret ''claude-sonnet-4-6'')) (\<lambda>model.
       ret (case res_bind (client model 512 prompt)
               (\<lambda>raw. parse_response (sl_claude libs) raw symbol label prob confirmed snap) of
          Inr s \<Rightarrow> s
        | Inl e \<Rightarrow> no_signal_for symbol ''claude_api_error'' label prob))))"

section \<open>The pipeline\<close>

definition ml_signal :: "string \<Rightarrow> string \<Rightarrow> pyfloat \<Rightarrow> bool \<Rightarrow> snapshot \<Rightarrow> pyfloat \<times> pyfloat \<times> pyfloat \<Rightarrow> signal" where
  "ml_signal symbol label prob confirmed snap prices = (case prices of (entry, target, stop) \<Rightarrow>
     \<lparr>g_symbol = symbol, g_action = label, g_entry = entry, g_target = target, g_stop = stop,
      g_confidence = prob,
      g_explanation = ''ML signal ('' @ label @ '', p='' @ show_fixed 2 prob @ ''). Claude unavailable.'',
      g_ml_label = label, g_ml_prob = prob, g_confirmed = confirmed, g_indicators = snap\<rparr>)"

definition price_multipliers :: "('ib world, pyfloat \<times> pyfloat) M" where
  "price_multipliers = try_except
     (bindM (get_str ''STOP_LOSS_PCT'' (Some ''1.0'')) (\<lambda>s. bindM (liftR (float_of (VStr s))) (\<lambda>stop_mult.
      bindM (get_str ''TAKE_PROFIT_PCT'' (Some ''2.0'')) (\<lambda>t. bindM (liftR (float_of (VStr t))) (\<lambda>target_mult.
        ret (stop_mult, target_mult))))))
     any_exception (\<lambda>_. ret (Fin 1, Fin 2))"

definition decide :: "signal_libs \<Rightarrow> string \<Rightarrow> frame \<Rightarrow> string \<Rightarrow> pyfloat \<Rightarrow> bool \<Rightarrow> claude_client option \<Rightarrow>
    ('ib world, signal) M" where
  "decide libs symbol enriched label prob confirmed client =
     (let snap = indicator_snapshot enriched; atr = snap_num snap ''atr''; close = snap_num snap ''close'' in
     bindM price_multipliers (\<lambda>(stop_mult, target_mult).
       let prices = atr_prices close atr label stop_mult target_mult in
       bindM (case client of Some k \<Rightarrow> ret (Some k) | None \<Rightarrow> make_client (sl_claude libs)) (\<lambda>cl. case cl of
           None \<Rightarrow> ret (ml_signal symbol label prob confirmed snap prices)
         | Some k \<Rightarrow> ask_for_signal libs k symbol label prob confirmed snap prices)))"

text \<open>The prediction step: its first exception handler covers the features and the model.\<close>

definition last_row :: "frame \<Rightarrow> series" where
  "last_row df = map (\<lambda>(c, xs). last xs) (f_cols df)"

definition ml_step :: "lgb_lib \<Rightarrow> frame \<Rightarrow> ('ib world, string + string \<times> pyfloat) M" where
  "ml_step lgb enriched = try_except
     (bindM (liftR (build enriched)) (\<lambda>features.
        if nrows features = 0 then ret (Inl ''features_empty'')
        else bindM (predict lgb (last_row features)) (\<lambda>p. ret (Inr p))))
     any_exception (\<lambda>_. ret (Inl ''ml_error''))"

definition generate :: "signal_libs \<Rightarrow> string \<Rightarrow> frame \<Rightarrow> pyfloat \<Rightarrow> claude_client option \<Rightarrow> ('ib world, signal) M" where
  "generate libs symbol bars ml_min_probability client =
     (case calculate (sl_ta libs) bars of
        Inl e \<Rightarrow> ret (no_signal_for symbol ''indicator_error'' ''no_trade'' (Fin 0))
      | Inr enriched \<Rightarrow>
          bindM (ml_step (sl_lgb libs) enriched) (\<lambda>m. case m of
            Inl reason \<Rightarrow> ret (no_signal_for symbol reason ''no_trade'' (Fin 0))
          | Inr (label, prob) \<Rightarrow>
              if label = ''no_trade'' then ret (no_signal_for symbol ''ml_no_trade'' label prob)
              else if prob < ml_min_probability then ret (no_signal_for symbol ''ml_low_probability'' label prob)
              else bindM (liftR (confirm_15min (sl_ta libs) bars label)) (\<lambda>confirmed.
                if \<not> confirmed then ret (no_signal_for symbol ''15min_no_confirm'' label prob)
                else decide libs symbol enriched label prob confirmed client)))"

section \<open>What the pipeline returns and leaves alone\<close>

lemma returns_liftR_Inr: "never_raises (liftR (Inr x))"
  by (simp add: never_raises_def liftR_def)

lemma returns_setting:
  "never_raises (try_except m any_exception (\<lambda>_. ret d))"
  by (intro returns_rules)

lemma frame_make_client [frame_rules]: "frame f (make_client lib)"
  by (auto simp: make_client_def getenv_def intro!: frame_rules)

lemma make_client_returns [returns_rules]: "never_raises (make_client lib)"
  by (auto simp: make_client_def getenv_def intro!: returns_rules)

lemma frame_get_sentiment [frame_rules]: "frame f (get_sentiment lib symbol)"
  by (auto simp: get_sentiment_def alpaca_fetch_def finnhub_fetch_def getenv_def
      intro!: frame_rules split: option.split json.split)

lemma frame_ml_step:
  assumes "\<And>x. frame f (predict lgb x)"
  shows "frame f (ml_step lgb enriched)"
  using assms by (auto simp: ml_step_def intro!: frame_rules)

lemma ml_step_returns [returns_rules]: "never_raises (ml_step lgb enriched)"
  by (auto simp: ml_step_def intro!: returns_rules)

lemma frame_decide:
  assumes "\<And>k d. frame f (get_str k d)"
  shows "frame f (decide libs symbol enriched label prob confirmed client)"
  using assms by (auto simp: decide_def price_multipliers_def ask_for_signal_def Let_def
      intro!: frame_rules split: option.split)

lemma frame_generate:
  assumes "\<And>k d. frame f (get_str k d)" and "\<And>lgb x. frame f (predict lgb x)"
  shows "frame f (generate libs symbol bars pmin client)"
  using assms by (auto simp: generate_def intro!: frame_rules frame_ml_step frame_decide split: sum.split)

lemma frame_state_generate [frame_rules]: "frame trading_state (generate libs symbol bars pmin client)"
  by (rule frame_generate) (rule frame_rules)+

lemma frame_outbox_generate [frame_rules]: "frame outbox (generate libs symbol bars pmin client)"
  by (rule frame_generate) (rule frame_rules)+

lemma decide_returns [returns_rules]: "never_raises (decide libs symbol enriched label prob confirmed client)"
  by (auto simp: decide_def price_multipliers_def ask_for_signal_def Let_def intro!: returns_rules split: option.split)

lemma resample_returns: "has_ohlcv (lower_cols df) \<Longrightarrow> \<exists>out. resample_to_15min df = Inr out"
  by (auto simp: resample_to_15min_def Let_def split: frame_index.split)

lemma confirm_returns: "has_ohlcv (lower_cols df) \<Longrightarrow> \<exists>b. confirm_15min ta df label = Inr b"
  using resample_returns [of df] by (auto simp: confirm_15min_def Let_def split: sum.split)

lemma generate_returns [returns_rules]: "never_raises (generate libs symbol bars pmin client)"
proof (cases "calculate (sl_ta libs) bars")
  case (Inl e)
  then show ?thesis by (auto simp: generate_def intro: returns_rules)
next
  case (Inr enriched)
  then have "has_ohlcv (lower_cols bars)" using calculate_extends by blast
  then have "never_raises (liftR (confirm_15min (sl_ta libs) bars label) :: ('x world, bool) M)" for label
    using confirm_returns [of bars "sl_ta libs" label] by (auto simp: returns_liftR_Inr)
  with Inr show ?thesis by (auto simp: generate_def intro!: returns_rules split: sum.split)
qed

section \<open>The gates a signal passes\<close>

definition passed_gates :: "signal_libs \<Rightarrow> string \<Rightarrow> frame \<Rightarrow> pyfloat \<Rightarrow> signal \<Rightarrow> bool" where
  "passed_gates libs symbol bars pmin s \<longleftrightarrow>
     (g_ml_label s = ''long'' \<or> g_ml_label s = ''short'') \<and> \<not> g_ml_prob s < pmin
     \<and> confirm_15min (sl_ta libs) bars (g_ml_label s) = Inr True \<and> g_confirmed s"

definition answers_for :: "string \<Rightarrow> string \<Rightarrow> pyfloat \<Rightarrow> bool \<Rightarrow> signal \<Rightarrow> bool" where
  "answers_for symbol label prob confirmed s \<longleftrightarrow> g_symbol s = symbol \<and> g_action s \<in> set valid_actions
     \<and> g_ml_label s = label \<and> g_ml_prob s = prob \<and> (g_action s = ''no_trade'' \<or> g_confirmed s = confirmed)"

lemma answers_no_signal: "answers_for symbol label prob confirmed (no_signal_for symbol reason label prob)"
  by (simp add: answers_for_def no_signal_for_def no_signal_def valid_actions_def)

lemma parse_response_answers:
  assumes "parse_response lib raw symbol label prob confirmed snap = Inr s"
  shows "answers_for symbol label prob confirmed s"
proof (cases "read_response lib raw symbol label prob confirmed snap")
  case (Inl e)
  with assms show ?thesis by (auto simp: parse_response_def answers_no_signal split: if_splits)
next
  case (Inr r)
  with assms have "read_response lib raw symbol label prob confirmed snap = Inr s" by (simp add: parse_response_def)
  then show ?thesis
    by (auto simp: read_response_def Let_def res_bind_Inr_iff answers_for_def split: if_splits)
qed

lemma ml_signal_answers:
  "label \<in> set labels \<Longrightarrow> answers_for symbol label prob confirmed (ml_signal symbol label prob confirmed snap prices)"
  by (cases prices) (auto simp: ml_signal_def answers_for_def labels_def valid_actions_def)

lemma ask_for_signal_answers:
  assumes "ask_for_signal libs k symbol label prob confirmed snap prices v = (Inr s, u)"
  shows "answers_for symbol label prob confirmed s"
  using assms
  by (auto simp: ask_for_signal_def Let_def ret_def answers_no_signal elim!: bindM_InrE
      split: prod.splits sum.splits)
     (auto simp: res_bind_Inr_iff dest: parse_response_answers)

lemma decide_answers:
  assumes "decide libs symbol enriched label prob confirmed client w = (Inr s, u)" and "label \<in> set labels"
  shows "answers_for symbol label prob confirmed s"
  using assms by (auto simp: decide_def Let_def ret_def ml_signal_answers elim!: bindM_InrE
      dest: ask_for_signal_answers split: option.splits)

lemma ml_step_label:
  assumes "ml_step lgb enriched w = (Inr (Inr (label, prob)), u)"
  shows "label \<in> set labels"
  using assms
  by (auto simp: ml_step_def try_except_def ret_def bindM_def liftR_def dest: predict_result
      split: prod.splits sum.splits if_splits)

lemma generate_answers:
  assumes "generate libs symbol bars pmin client w = (Inr s, u)"
  shows "g_symbol s = symbol \<and> g_action s \<in> set valid_actions
    \<and> (g_action s = ''no_trade'' \<or> passed_gates libs symbol bars pmin s)"
proof (cases "calculate (sl_ta libs) bars")
  case (Inl e)
  with assms show ?thesis
    by (auto simp: generate_def ret_def no_signal_for_def no_signal_def valid_actions_def)
next
  case (Inr enriched)
  with assms obtain m v where m: "ml_step (sl_lgb libs) enriched w = (Inr m, v)"
    by (auto simp: generate_def elim: bindM_InrE)
  have none: "g_symbol (no_signal_for symbol reason l p) = symbol \<and> g_action (no_signal_for symbol reason l p) = ''no_trade''"
    for reason l p by (simp add: no_signal_for_def no_signal_def)
  show ?thesis
  proof (cases m)
    case (Inl reason)
    with assms Inr m none show ?thesis by (auto simp: generate_def bindM_def ret_def valid_actions_def)
  next
    case r: (Inr lp)
    obtain label prob where lp: "lp = (label, prob)" by force
    have known: "label \<in> set labels" using m r lp by (auto dest: ml_step_label)
    consider (quiet) "g_symbol s = symbol" "g_action s = ''no_trade''"
      | (decided) "label \<noteq> ''no_trade''" "\<not> prob < pmin" "confirm_15min (sl_ta libs) bars label = Inr True"
          "decide libs symbol enriched label prob True client v = (Inr s, u)"
      using assms Inr m r lp none
      by (auto simp: generate_def bindM_def ret_def liftR_def split: if_splits sum.splits)
    then show ?thesis
    proof cases
      case quiet
      then show ?thesis by (simp add: valid_actions_def)
    next
      case decided
      with known have "answers_for symbol label prob True s" by (auto dest: decide_answers)
      with decided known show ?thesis by (auto simp: answers_for_def passed_gates_def labels_def)
    qed
  qed
qed

section \<open>Properties\<close>

text \<open>C9: the pipeline always returns a signal, never raises and changes nothing trading depends on; the
  signal is about the symbol asked for and names a known action.  An action other than
  \<open>no_trade\<close> implies every gate: the model predicted a direction with a probability not below the threshold,
  and the 15-minute chart confirmed that direction.  Every failure on the way is \<open>no_trade\<close>.\<close>

theorem generate_fail_closed:
  "\<exists>s u. generate libs symbol bars pmin client w = (Inr s, u)
     \<and> trading_state u = trading_state w \<and> outbox u = outbox w
     \<and> g_symbol s = symbol \<and> g_action s \<in> {''long'', ''short'', ''no_trade''}
     \<and> (g_action s = ''no_trade'' \<or> passed_gates libs symbol bars pmin s)"
proof -
  obtain s u where run: "generate libs symbol bars pmin client w = (Inr s, u)"
    using generate_returns by (rule never_raisesE)
  then have "trading_state u = trading_state w" "outbox u = outbox w"
    using frameD [OF frame_state_generate] frameD [OF frame_outbox_generate] by blast+
  with run generate_answers [OF run] show ?thesis by (auto simp: valid_actions_def)
qed

text \<open>Once there are 50 candles of 15 minutes, the confirmation is exclusive: no chart confirms both
  directions, and none confirms a label that is not a direction.\<close>

theorem confirmation_exclusive:
  assumes "resample_to_15min bars = Inr candles" and "min_rows \<le> nrows candles"
  shows "\<not> (confirm_15min ta bars ''long'' = Inr True \<and> confirm_15min ta bars ''short'' = Inr True)
    \<and> confirm_15min ta bars ''no_trade'' = Inr False"
  using assms by (auto simp: confirm_15min_def Let_def split: sum.splits)

definition flat_bars :: frame where
  "flat_bars = \<lparr>f_index = RangeIdx 50, f_cols = map (\<lambda>c. (c, replicate 50 (Fin 10))) ohlcv\<rparr>"

definition steady_ta :: ta_lib where
  "steady_ta = \<lparr>ta_ema = (\<lambda>_ xs. Inr xs), ta_sma = (\<lambda>_ xs. Inr xs), ta_macd = (\<lambda>c. Inr (c, c, c)),
     ta_adx = (\<lambda>h l c. Inr (c, h, l)), ta_rsi = Inr, ta_stoch = (\<lambda>h l c. Inr (h, l)), ta_atr = (\<lambda>h l c. Inr h),
     ta_bollinger = (\<lambda>c. Inr (c, c, c, c)), ta_obv = (\<lambda>c v. Inr v), ta_mfi = (\<lambda>h l c v. Inr v),
     ta_vwap = (\<lambda>h l c v. Inr c)\<rparr>"

lemma confirmation_exclusive_witness:
  "\<not> (confirm_15min steady_ta flat_bars ''long'' = Inr True \<and> confirm_15min steady_ta flat_bars ''short'' = Inr True)
    \<and> confirm_15min steady_ta flat_bars ''no_trade'' = Inr False"
  using confirmation_exclusive [of flat_bars "lower_cols flat_bars"]
  by (simp add: resample_to_15min_def flat_bars_def min_rows_def nrows_def lower_cols_def)

text \<open>The suggested prices are on the right sides of the entry.  For a positive price and range and
  multipliers that are not negative, a long position has its stop at or below and its target at or
  above the entry, a short one the other way round; each price is within half a unit of the
  fourth decimal of what the multiplier says.\<close>

theorem atr_prices_ordered:
  assumes "0 < atr" "0 < close" "0 \<le> sm" "0 \<le> tm"
  shows "(\<exists>e t s. atr_prices (Fin close) (Fin atr) ''long'' (Fin sm) (Fin tm) = (Fin e, Fin t, Fin s)
      \<and> s \<le> e \<and> e \<le> t \<and> \<bar>e - close\<bar> \<le> 1/20000 \<and> \<bar>t - (close + tm * atr)\<bar> \<le> 1/20000
      \<and> \<bar>s - (close - sm * atr)\<bar> \<le> 1/20000)
    \<and> (\<exists>e t s. atr_prices (Fin close) (Fin atr) ''short'' (Fin sm) (Fin tm) = (Fin e, Fin t, Fin s)
      \<and> t \<le> e \<and> e \<le> s)"
proof -
  have near: "\<bar>round_real 4 x - x\<bar> \<le> 1/20000" for x
    using round_real_error [of 4 x] by simp
  have "0 \<le> tm * atr" "0 \<le> sm * atr" using assms by simp_all
  then have "close - sm * atr \<le> close" "close \<le> close + tm * atr" "close - tm * atr \<le> close" "close \<le> close + sm * atr"
    by simp_all
  then have "round_real 4 (close - sm * atr) \<le> round_real 4 close" "round_real 4 close \<le> round_real 4 (close + tm * atr)"
    "round_real 4 (close - tm * atr) \<le> round_real 4 close" "round_real 4 close \<le> round_real 4 (close + sm * atr)"
    by (simp_all only: round_real_mono)
  with assms near show ?thesis by (simp add: atr_prices_def)
qed

lemma atr_prices_ordered_witness:
  "\<exists>e t s. atr_prices (Fin 100) (Fin 2) ''long'' (Fin 1) (Fin 2) = (Fin e, Fin t, Fin s) \<and> s \<le> e \<and> e \<le> t"
  using atr_prices_ordered [of 2 100 1 2] by auto

text \<open>Claude's answer is not held to the direction that was predicted and confirmed, nor to the prices
  suggested: an answer that only says \<open>short\<close> turns a confirmed long prediction into a short signal
  whose entry, target and stop are all the last close, and it still counts as confirmed.\<close>

theorem answer_may_reverse:
  "parse_response lib (''{'' @ quoted ''action'' @ '': '' @ quoted ''short'' @ ''}'') symbol ''long'' (Fin p) True
       [(''close'', Some (Fin x))]
     = Inr \<lparr>g_symbol = symbol, g_action = ''short'', g_entry = Fin (round_real 4 x), g_target = Fin (round_real 4 x),
         g_stop = Fin (round_real 4 x), g_confidence = Fin (min (max p 0) 1), g_explanation = '''', g_ml_label = ''long'',
         g_ml_prob = Fin p, g_confirmed = True, g_indicators = [(''close'', Some (Fin x))]\<rparr>"
proof -
  have answer: "loads (strip (''{'' @ quoted ''action'' @ '': '' @ quoted ''short'' @ ''}''))
      = Inr (JObj [(''action'', JStr ''short'')])"
    by code_simp
  have act: "strip (py_lower ''short'') = ''short''" by code_simp
  have empty: "strip [] = []" by (simp add: strip_def)
  show ?thesis
    unfolding parse_response_def read_response_def answer
    by (simp add: Let_def obj_get_def valid_actions_def act empty snap_num_def)
qed

end
