(* ===== verification/Engine.thy ===== *)
theory Engine
  imports Calendar Eod_Close Generator
begin

text \<open>
  The trading engine \<open>bot/core/engine.py\<close>: the object \<open>TradingEngine\<close> is a record whose last field is
  the process it runs in, and each method is a state transformer on it.  The provider of market data
  is a record of operations; the connection of \<open>bot/core/broker.py\<close> is the one production uses.
\<close>

section \<open>State\<close>

record 'ib provider =
  p_daily :: "string \<Rightarrow> nat \<Rightarrow> ('ib world, frame option) M"
  p_intraday :: "string \<Rightarrow> nat \<Rightarrow> ('ib world, frame option) M"
  p_broker :: "'ib broker_ops option"
  p_connect :: "('ib world, unit) M"
  p_disconnect :: "('ib world, unit) M option"

definition ibkr_provider :: "'ib ib_api \<Rightarrow> conn \<Rightarrow> 'ib provider" where
  "ibkr_provider api c = \<lparr>p_daily = fetch_daily_bars api c,
     p_intraday = (\<lambda>symbol n. fetch_intraday_bars api c symbol n ''5 mins''),
     p_broker = Some (ibkr_broker api c), p_connect = connect api c, p_disconnect = Some (disconnect api)\<rparr>"

record 'ib engine =
  trading_mode :: string
  data_provider :: "'ib provider option"
  last_scan_date :: "int option"
  watchlist :: "string list"
  process :: "'ib world"

text \<open>What the engine is constructed with and the modules it calls; \<open>ee_tick\<close> is in seconds.\<close>

record 'ib engine_env =
  ee_exchange :: exchange
  ee_alerts :: alert_env
  ee_libs :: signal_libs
  ee_factory :: "('ib world, 'ib provider option) M option"
  ee_tick :: int
  ee_detached :: "selection \<Rightarrow> selection res"

definition on_process :: "('ib world, 'a) M \<Rightarrow> ('ib engine, 'a) M" where
  "on_process m = (\<lambda>s. case m (process s) of (r, w) \<Rightarrow> (r, s\<lparr>process := w\<rparr>))"

definition new_engine :: "string \<Rightarrow> int \<Rightarrow> 'ib provider option \<Rightarrow> 'ib world \<Rightarrow> 'ib engine res" where
  "new_engine mode tick_interval provider w =
     (if tick_interval < 0 then Inl ValueError
      else Inr \<lparr>trading_mode = mode, data_provider = provider, last_scan_date = None, watchlist = [], process = w\<rparr>)"

text \<open>
  The names a method can see besides its own: the globals of the module.  \<open>get\<close> is not one of them:
  the methods that use it import it locally.
\<close>

definition module_globals :: "string list" where
  "module_globals = [''annotations'', ''threading'', ''date'', ''datetime'', ''timezone'', ''Any'', ''get_logger'',
     ''log'', ''_shutdown_event'', ''request_shutdown'', ''TradingEngine'']"

definition call_global :: "string \<Rightarrow> ('s, 'a) M \<Rightarrow> ('s, 'a) M" where
  "call_global name m = (if name \<in> set module_globals then m else raise NameError)"

section \<open>Closing positions and the portfolio\<close>

definition engine_broker :: "'ib engine \<Rightarrow> 'ib broker_ops option" where
  "engine_broker s = (case data_provider s of None \<Rightarrow> None | Some P \<Rightarrow> p_broker P)"

definition closed_payload :: "string \<Rightarrow> close_result \<Rightarrow> payload" where
  "closed_payload mode r = [(''symbol'', VStr (x_symbol r)),
     (''exit_price'', case x_fill r of Some p \<Rightarrow> VFloat p | None \<Rightarrow> VNone),
     (''pnl'', VNone), (''trading_mode'', VStr mode)]"

definition eod_close :: "'ib engine_env \<Rightarrow> ('ib engine, unit) M" where
  "eod_close env = bindM (gets (\<lambda>s. (engine_broker s, trading_mode s))) (\<lambda>(broker, mode).
     on_process (bindM (close_all_positions (ee_alerts env) broker mode) (\<lambda>results.
       for_each results (\<lambda>r.
         if x_success r then notify (ee_alerts env) ''trade_closed'' (closed_payload mode r) else ret ()))))"

definition portfolio_value :: "('ib engine, pyfloat option) M" where
  "portfolio_value = bindM (gets engine_broker) (\<lambda>broker. on_process (try_except
     (case broker of
        Some B \<Rightarrow> (case b_portfolio B of Some m \<Rightarrow> bindM m (\<lambda>v. ret (Some v)) | None \<Rightarrow> ret None)
      | None \<Rightarrow> ret None)
     any_exception (\<lambda>_. ret None)))"

section \<open>The selection of the day\<close>

definition candidate_json :: "selection_result \<Rightarrow> criteria_result \<Rightarrow> json" where
  "candidate_json selection c = JObj [(''symbol'', JStr (cr_symbol c)), (''score'', JNum (cr_score c)),
     (''passes_all_core'', JBool (cr_passes_all c)), (''near_resistance'', JBool (cr_near_resistance c)),
     (''has_momentum'', JBool (cr_has_momentum c)), (''pullback_above_ema9'', JBool (cr_pullback_above_ema9 c)),
     (''analysis'', JStr (case map_of (rev (e_analysis selection)) (cr_symbol c) of Some t \<Rightarrow> t | None \<Rightarrow> ''''))]"

definition selection_row :: "selection_result \<Rightarrow> criteria_result list \<Rightarrow> string \<Rightarrow> int \<Rightarrow> int \<Rightarrow> selection" where
  "selection_row sel candidates status today now =
     \<lparr>u_id = 0, u_date = today, u_candidates = map (candidate_json sel) candidates,
      u_selected = (if status = ''autonomous'' \<and> e_selected sel \<noteq> [] then Some (hd (e_selected sel)) else None),
      u_status = status, u_reasoning = Some (e_reasoning sel), u_created = now,
      u_decided_at = None, u_decided_by = None\<rparr>"

text \<open>A row a user has decided is not overwritten.\<close>

definition undecided :: "string list" where
  "undecided = [''pending_approval'', ''autonomous'']"

definition overwrite_row :: "selection \<Rightarrow> selection \<Rightarrow> selection" where
  "overwrite_row new row = (if u_status row \<in> set undecided
     then row\<lparr>u_candidates := u_candidates new, u_selected := u_selected new, u_status := u_status new,
              u_reasoning := u_reasoning new, u_created := u_created new\<rparr>
     else row)"

definition row_of_day :: "int \<Rightarrow> db \<Rightarrow> selection option" where
  "row_of_day today d = List.find (\<lambda>r. u_date r = today) (rows (selections d))"

definition store_selection :: "selection \<Rightarrow> db \<Rightarrow> db" where
  "store_selection new d = (case row_of_day (u_date new) d of
      None \<Rightarrow> d\<lparr>selections := snd (insert_row (\<lambda>i r. r\<lparr>u_id := i\<rparr>) new (selections d))\<rparr>
    | Some row \<Rightarrow> d\<lparr>selections := update_row u_id (u_id row) (overwrite_row new) (selections d)\<rparr>)"

definition persist_selection :: "selection_result \<Rightarrow> criteria_result list \<Rightarrow> string \<Rightarrow> ('ib world, unit) M" where
  "persist_selection sel candidates status =
     bindM (gets (\<lambda>w. (local_today w, clock w))) (\<lambda>(today, now).
       try_except (execute_update (store_selection (selection_row sel candidates status today now)))
         any_exception (\<lambda>_. ret ()))"

text \<open>The attributes of the row are read after the session has ended.\<close>

definition load_approved_selection :: "(selection \<Rightarrow> selection res) \<Rightarrow> ('ib world, string option) M" where
  "load_approved_selection detached = bindM (gets local_today) (\<lambda>today.
     try_except
       (bindM (query (row_of_day today)) (\<lambda>row. case row of
          None \<Rightarrow> ret None
        | Some r \<Rightarrow> bindM (liftR (detached r)) (\<lambda>r.
            ret (if u_status r = ''approved'' then
                   (case u_selected r of Some (ch # chs) \<Rightarrow> Some (ch # chs) | _ \<Rightarrow> None) else None))))
       any_exception (\<lambda>_. ret None))"

section \<open>The universe scan\<close>

definition set_watchlist :: "string list \<Rightarrow> ('ib engine, unit) M" where
  "set_watchlist ss = modifyM (\<lambda>s. s\<lparr>watchlist := ss\<rparr>)"

definition scan_dryrun :: "('ib engine, unit) M" where
  "scan_dryrun =
     bindM (on_process (get_str ''DRYRUN_WATCHLIST'' (Some ''''))) (\<lambda>raw.
     bindM (gets data_provider) (\<lambda>provider.
       let symbols = split_symbols raw in
       set_watchlist (if symbols \<noteq> [] \<and> provider \<noteq> None then symbols else [])))"

text \<open>\<open>get("UNIVERSE_APPROVAL_MODE", "autonomous")\<close>.\<close>

definition approval_setting :: "('ib world, string) M" where
  "approval_setting = bindM (call_get [VStr ''UNIVERSE_APPROVAL_MODE'', VStr ''autonomous''] None CStr)
     (\<lambda>v. liftR (as_str v))"

definition run_scan :: "'ib engine_env \<Rightarrow> 'ib provider \<Rightarrow> string list \<Rightarrow>
    ('ib world, (scan_config \<times> criteria_result list) option) M" where
  "run_scan env P symbols = try_except
     (bindM (load_scan_config (ee_alerts env)) (\<lambda>config.
      bindM (scan (sl_ta (ee_libs env)) symbols (p_daily P) (Some config)) (\<lambda>candidates.
        ret (Some (config, candidates)))))
     any_exception (\<lambda>_. ret None)"

definition adopt_selection :: "criteria_result list \<Rightarrow> string \<Rightarrow> selection_result \<Rightarrow> ('ib engine, unit) M" where
  "adopt_selection candidates mode sel =
     (if mode = ''approval''
      then thenM (on_process (persist_selection sel candidates ''pending_approval'')) (set_watchlist [])
      else thenM (set_watchlist (e_selected sel))
             (on_process (persist_selection sel candidates ''autonomous'')))"

definition scan_universe :: "'ib engine_env \<Rightarrow> ('ib engine, unit) M" where
  "scan_universe env = bindM (gets (\<lambda>s. (trading_mode s, data_provider s))) (\<lambda>(current, provider).
     if current = ''dryrun'' then scan_dryrun
     else case provider of
       None \<Rightarrow> set_watchlist []
     | Some P \<Rightarrow>
         bindM (on_process get_pool) (\<lambda>symbols.
         bindM (on_process (run_scan env P symbols)) (\<lambda>scanned. case scanned of
             None \<Rightarrow> set_watchlist []
           | Some (config, candidates) \<Rightarrow>
               let n = n_results config in
               bindM (on_process approval_setting) (\<lambda>mode.
               bindM (on_process (try_except
                   (bindM (select (sl_claude (ee_libs env)) candidates n mode None) (\<lambda>sel. ret (Some sel)))
                   any_exception (\<lambda>_. ret None))) (\<lambda>selected. case selected of
                   None \<Rightarrow> set_watchlist (map cr_symbol (slice_to n candidates))
                 | Some sel \<Rightarrow> adopt_selection candidates mode sel)))))"

section \<open>The signal pipeline of one symbol\<close>

definition has_open_position :: "string \<Rightarrow> ('ib world, bool) M" where
  "has_open_position symbol = bindM (gets local_today) (\<lambda>today.
     try_except
       (query (\<lambda>d. \<exists>t \<in> set (rows (trades d)). t_symbol t = symbol
          \<and> t_status t \<in> {''pending'', ''open'', ''filled'', ''dryrun''} \<and> day_start today \<le> t_created t))
       any_exception (\<lambda>_. ret True))"

text \<open>\<open>float(get("GAP_FILTER_MAX_PCT", default="3.0"))\<close> in \<open>_run_signal_for_symbol\<close>, which does not import
  \<open>get\<close>; only \<open>ValueError\<close> and \<open>TypeError\<close> are caught.\<close>

definition gap_setting :: "('ib world, pyfloat) M" where
  "gap_setting = try_except
     (bindM (call_global ''get'' (call_get [VStr ''GAP_FILTER_MAX_PCT''] (Some (VStr ''3.0'')) CStr))
        (\<lambda>v. liftR (float_of v)))
     is_value_or_type_error (\<lambda>_. ret (Fin 3))"

definition gap_exceeded :: "pyfloat \<Rightarrow> frame \<Rightarrow> bool res" where
  "gap_exceeded gap_max bars = (case f_index bars of
      DatetimeIdx ts \<Rightarrow>
        if \<not> (Fin 0 < gap_max \<and> 2 \<le> length ts) then Inr False
        else (let dates = map day_of ts; today = last dates;
                  prev_mask = map (\<lambda>d. d < today) dates; today_mask = map (\<lambda>d. d = today) dates in
          if \<not> (True \<in> set prev_mask \<and> True \<in> set today_mask) then Inr False
          else res_bind (res_bind (loc_col prev_mask ''close'' bars) last_of) (\<lambda>prev_close.
               res_bind (res_bind (loc_col today_mask ''open'' bars) first_of) (\<lambda>today_open.
                 Inr (Fin 0 < prev_close
                   \<and> gap_max < fdiv_nz (fabs (today_open - prev_close)) prev_close * Fin 100))))
    | _ \<Rightarrow> Inr False)"

definition opened_payload :: "string \<Rightarrow> string \<Rightarrow> signal \<Rightarrow> decision \<Rightarrow> order_result \<Rightarrow> payload" where
  "opened_payload mode symbol sig dec result = [(''symbol'', VStr symbol), (''action'', VStr (g_action sig)),
     (''shares'', VInt (d_shares dec)), (''fill_price'', case o_fill result of Some p \<Rightarrow> VFloat p | None \<Rightarrow> VNone),
     (''target_price'', VFloat (g_target sig)), (''stop_price'', VFloat (g_stop sig)),
     (''trading_mode'', VStr mode), (''explanation'', VStr (g_explanation sig))]"

text \<open>From the generated signal to the alert.\<close>

definition act_on_signal :: "'ib engine_env \<Rightarrow> 'ib provider \<Rightarrow> string \<Rightarrow> string \<Rightarrow> pyfloat \<Rightarrow> signal \<Rightarrow> ('ib world, unit) M" where
  "act_on_signal env P mode symbol pv sig =
     (if g_action sig = ''no_trade'' then ret ()
      else bindM (check (ee_alerts env) sig pv mode) (\<lambda>dec.
        if \<not> d_approved dec then ret ()
        else bindM (execute (ee_alerts env) sig dec mode (p_broker P)) (\<lambda>result.
          if o_success result
          then notify (ee_alerts env) ''trade_opened'' (opened_payload mode symbol sig dec result)
          else ret ())))"

definition run_signal_for_symbol :: "'ib engine_env \<Rightarrow> string \<Rightarrow> 'ib provider option \<Rightarrow> pyfloat \<Rightarrow> pyfloat \<Rightarrow> string \<Rightarrow>
    ('ib world, unit) M" where
  "run_signal_for_symbol env mode provider ml_min_prob pv symbol =
     bindM (has_open_position symbol) (\<lambda>busy.
       if busy then ret ()
       else case provider of
         None \<Rightarrow> ret ()
       | Some P \<Rightarrow> bindM (p_intraday P symbol 200) (\<lambda>fetched. case fetched of
             None \<Rightarrow> ret ()
           | Some bars \<Rightarrow>
               if nrows bars = 0 then ret ()
               else bindM gap_setting (\<lambda>gap_max.
                    bindM (liftR (gap_exceeded gap_max bars)) (\<lambda>skip.
                      if skip then ret ()
                      else bindM (generate (ee_libs env) symbol bars ml_min_prob None) (\<lambda>sig.
                        act_on_signal env P mode symbol pv sig)))))"

definition run_signals :: "'ib engine_env \<Rightarrow> ('ib engine, unit) M" where
  "run_signals env = bindM (gets watchlist) (\<lambda>symbols.
     if symbols = [] then ret ()
     else bindM (on_process (try_except (get_float ''ML_MIN_PROBABILITY'' (Some (Fin (55/100))))
            any_exception (\<lambda>_. ret (Fin (55/100))))) (\<lambda>ml_min_prob.
       bindM portfolio_value (\<lambda>pv. case pv of
           None \<Rightarrow> ret ()
         | Some v \<Rightarrow> bindM (gets (\<lambda>s. (trading_mode s, data_provider s))) (\<lambda>(current, provider).
             for_each symbols (\<lambda>symbol. on_process (try_except
               (run_signal_for_symbol env current provider ml_min_prob v symbol) any_exception (\<lambda>_. ret ())))))))"

section \<open>Changing the mode\<close>

definition disconnect_provider :: "('ib engine, unit) M" where
  "disconnect_provider = bindM (gets data_provider) (\<lambda>provider. case provider of
      None \<Rightarrow> ret ()
    | Some P \<Rightarrow> (case p_disconnect P of
          None \<Rightarrow> ret ()
        | Some m \<Rightarrow> thenM (on_process (try_except m any_exception (\<lambda>_. ret ())))
                          (modifyM (\<lambda>s. s\<lparr>data_provider := None\<rparr>))))"

text \<open>\<open>broker = factory(); broker.connect()\<close>; a factory may return \<open>None\<close>, which has no \<open>connect\<close>.\<close>

definition make_broker :: "('ib world, 'ib provider option) M \<Rightarrow> ('ib world, 'ib provider option) M" where
  "make_broker factory = try_except
     (bindM factory (\<lambda>made. case made of
        None \<Rightarrow> raise AttributeError
      | Some P \<Rightarrow> thenM (p_connect P) (ret (Some P))))
     any_exception (\<lambda>_. ret None)"

definition live_modes :: "string list" where
  "live_modes = [''paper'', ''live'']"

definition connect_for_mode :: "'ib engine_env \<Rightarrow> string \<Rightarrow> ('ib engine, string) M" where
  "connect_for_mode env new_mode = (case ee_factory env of
      None \<Rightarrow> ret (if new_mode \<in> set live_modes then ''dryrun'' else new_mode)
    | Some factory \<Rightarrow>
        if new_mode \<in> set live_modes \<or> new_mode = ''dryrun''
        then bindM (on_process (make_broker factory)) (\<lambda>made.
               thenM (modifyM (\<lambda>s. s\<lparr>data_provider := made\<rparr>))
                 (ret (if made = None then ''dryrun'' else new_mode)))
        else ret new_mode)"

definition handle_mode_change :: "'ib engine_env \<Rightarrow> string \<Rightarrow> ('ib engine, unit) M" where
  "handle_mode_change env new_mode = bindM (gets trading_mode) (\<lambda>old_mode.
     thenM (if old_mode \<in> set live_modes then eod_close env else ret ())
    (thenM disconnect_provider
    (bindM (connect_for_mode env new_mode) (\<lambda>mode.
       modifyM (\<lambda>s. s\<lparr>trading_mode := mode, watchlist := [], last_scan_date := None\<rparr>)))))"

section \<open>The tick\<close>

definition valid_modes :: "string list" where
  "valid_modes = [''paper'', ''live'', ''dryrun'']"

definition reload_mode :: "'ib engine_env \<Rightarrow> ('ib engine, unit) M" where
  "reload_mode env = try_except
     (bindM (on_process (get_str ''TRADING_MODE'' (Some ''dryrun''))) (\<lambda>current_mode.
      bindM (gets trading_mode) (\<lambda>old_mode.
        if current_mode \<in> set valid_modes \<and> current_mode \<noteq> old_mode
        then handle_mode_change env current_mode else ret ())))
     any_exception (\<lambda>_. ret ())"

definition daily_scan :: "'ib engine_env \<Rightarrow> int \<Rightarrow> ('ib engine, unit) M" where
  "daily_scan env today = bindM (gets last_scan_date) (\<lambda>scanned.
     if scanned = Some today then ret ()
     else thenM (scan_universe env) (modifyM (\<lambda>s. s\<lparr>last_scan_date := Some today\<rparr>)))"

text \<open>\<open>int(get(..))\<close> with a fallback for \<open>ValueError\<close> and \<open>TypeError\<close> only.\<close>

definition int_of_setting :: "string \<Rightarrow> string option \<Rightarrow> int \<Rightarrow> ('ib world, int) M" where
  "int_of_setting key d fallback_value = try_except
     (bindM (get_str key d) (\<lambda>raw. liftR (int_of_val (VStr raw))))
     is_value_or_type_error (\<lambda>_. ret fallback_value)"

text \<open>Still inside the buffer after the opening bell; \<open>now\<close> is the moment the tick began.\<close>

definition in_open_buffer :: "'ib engine_env \<Rightarrow> int \<Rightarrow> ('ib world, bool) M" where
  "in_open_buffer env now =
     bindM (int_of_setting ''MARKET_OPEN_BUFFER_MINUTES'' (Some ''5'') 5) (\<lambda>buffer_min.
       if 0 < buffer_min
       then bindM (gets clock) (\<lambda>t. bindM (liftR (market_open (ee_exchange env) t Today)) (\<lambda>open_time.
              ret (now - open_time < 60000 * buffer_min)))
       else ret False)"

text \<open>The part of the tick after the end-of-day window.\<close>

definition trade_watchlist :: "'ib engine_env \<Rightarrow> ('ib engine, unit) M" where
  "trade_watchlist env =
     bindM (on_process approval_setting) (\<lambda>approval_mode.
     bindM (gets watchlist) (\<lambda>symbols.
       if approval_mode = ''approval'' \<and> symbols = []
       then bindM (on_process (load_approved_selection (ee_detached env))) (\<lambda>approved. case approved of
             Some symbol \<Rightarrow> thenM (set_watchlist [symbol]) (run_signals env)
           | None \<Rightarrow> ret ())
       else run_signals env))"

definition market_tick :: "'ib engine_env \<Rightarrow> int \<Rightarrow> int \<Rightarrow> ('ib engine, unit) M" where
  "market_tick env now eod_minutes =
     bindM (on_process (bindM (gets clock) (\<lambda>t. liftR (is_market_open (ee_exchange env) t None)))) (\<lambda>is_open.
       if \<not> is_open then ret ()
       else bindM (on_process (in_open_buffer env now)) (\<lambda>early.
         if early then ret ()
         else bindM (on_process (bindM (gets clock) (\<lambda>t. liftR (minutes_until_close (ee_exchange env) t None)))) (\<lambda>mins_left.
           if mins_left \<le> eod_minutes then eod_close env else trade_watchlist env)))"

definition tick :: "'ib engine_env \<Rightarrow> ('ib engine, unit) M" where
  "tick env =
     thenM (reload_mode env)
     (bindM (gets (\<lambda>s. clock (process s))) (\<lambda>now.
       if \<not> is_trading_day (ee_exchange env) now Today then ret ()
       else thenM (daily_scan env (day_of now))
         (bindM (on_process (int_of_setting ''EOD_CLOSE_MINUTES'' None 15)) (\<lambda>eod_minutes.
            market_tick env now eod_minutes))))"

section \<open>Shutdown\<close>

definition closed_pnls :: "int \<Rightarrow> db \<Rightarrow> pyfloat option list" where
  "closed_pnls since d = map t_pnl (filter (\<lambda>t. t_status t = ''closed''
     \<and> (case t_closed_at t of Some c \<Rightarrow> since \<le> c | None \<Rightarrow> False)) (rows (trades d)))"

definition known :: "'a option list \<Rightarrow> 'a list" where
  "known xs = List.map_filter (\<lambda>x. x) xs"

definition summary_payload :: "string \<Rightarrow> pyfloat list \<Rightarrow> payload" where
  "summary_payload mode pnls = [(''trade_count'', VInt (int (length pnls))),
     (''wins'', VInt (int (length (filter (\<lambda>p. Fin 0 < p) pnls)))),
     (''losses'', VInt (int (length (filter (\<lambda>p. p \<le> Fin 0) pnls)))),
     (''total_pnl'', VFloat (fround 2 (sum_list pnls))), (''trading_mode'', VStr mode)]"

definition send_daily_summary :: "'ib engine_env \<Rightarrow> ('ib engine, unit) M" where
  "send_daily_summary env = bindM (gets trading_mode) (\<lambda>mode. on_process (try_except
     (bindM (gets local_today) (\<lambda>today.
      bindM (query (closed_pnls (day_start today))) (\<lambda>rs.
        if known rs = [] then ret ()
        else notify (ee_alerts env) ''daily_summary'' (summary_payload mode (known rs)))))
     any_exception (\<lambda>_. ret ())))"

definition on_shutdown :: "'ib engine_env \<Rightarrow> ('ib engine, unit) M" where
  "on_shutdown env = bindM (gets trading_mode) (\<lambda>mode.
     thenM (if mode \<noteq> ''dryrun'' then eod_close env else ret ()) (send_daily_summary env))"

section \<open>The loop\<close>

definition shutdown_set :: "'ib engine \<Rightarrow> bool" where
  "shutdown_set s \<longleftrightarrow> (case stop_at (process s) of Some t \<Rightarrow> t \<le> clock (process s) | None \<Rightarrow> False)"

text \<open>One round of the loop: the tick, whose exceptions are logged, and the wait.\<close>

definition loop_round :: "'ib engine_env \<Rightarrow> ('ib engine, unit) M" where
  "loop_round env = thenM (try_except (tick env) any_exception (\<lambda>_. ret ()))
     (thenM (on_process (wait_stop (1000 * ee_tick env))) (ret ()))"

text \<open>The loop runs until the shutdown signal, so it has fuel: \<open>None\<close> when \<open>n\<close> rounds did not end it.\<close>

fun run_loop :: "'ib engine_env \<Rightarrow> nat \<Rightarrow> 'ib engine \<Rightarrow> 'ib engine option" where
  "run_loop env n s = (if shutdown_set s then Some s
     else case n of 0 \<Rightarrow> None | Suc k \<Rightarrow> run_loop env k (snd (loop_round env s)))"

declare run_loop.simps [simp del]

definition run :: "'ib engine_env \<Rightarrow> nat \<Rightarrow> 'ib engine \<Rightarrow> (unit res \<times> 'ib engine) option" where
  "run env n s = map_option (on_shutdown env) (run_loop env n s)"

section \<open>The contract of a data provider\<close>

locale market_provider =
  fixes P :: "'ib provider"
  assumes daily_book: "frame book (p_daily P symbol n)" and daily_later: "later (p_daily P symbol n)"
    and intraday_book: "frame book (p_intraday P symbol n)" and intraday_later: "later (p_intraday P symbol n)"
    and connect_book: "frame book (p_connect P)" and connect_later: "later (p_connect P)"
    and disconnect_book: "p_disconnect P = Some m \<Longrightarrow> frame book m"
    and disconnect_later: "p_disconnect P = Some m \<Longrightarrow> later m"
    and broker_laws: "p_broker P = Some B \<Longrightarrow> order_broker B"

interpretation ibkr_data: market_provider "ibkr_provider api c" for api c
  by unfold_locales
     (auto simp: ibkr_provider_def ibkr_broker_def later_def intro!: frame_rules keeps_rules)

section \<open>What a tick cannot do\<close>

text \<open>The trades on record, the moment of the shutdown signal, and time passing.\<close>

definition steady :: "int list \<Rightarrow> int option \<Rightarrow> int \<Rightarrow> 'ib world \<Rightarrow> bool" where
  "steady ids stop t w \<longleftrightarrow> map t_id (rows (trades (db w))) = ids \<and> stop_at w = stop \<and> t \<le> clock w"

lemma steady_state: "frame trading_state m \<Longrightarrow> keeps (steady ids stop t) m"
  by (rule keepsI) (auto simp: steady_def trading_state_def dest: frameD)

lemma steady_book: "frame book m \<Longrightarrow> later m \<Longrightarrow> keeps (steady ids stop t) m"
  by (rule keepsI) (fastforce simp: steady_def book_def dest: frameD laterD)

lemma steady_notify [keeps_rules]: "keeps (steady ids stop t) (notify env ev p)"
  by (rule steady_state) (rule frame_rules)

lemma later_wait: "later (wait_for_fill B i timeout)"
  unfolding later_def
proof (intro allI keepsI)
  fix t :: int and s :: "'a world" and r u assume run: "wait_for_fill B i timeout s = (r, u)" and "t \<le> clock s"
  have "\<exists>x v. poll_fill B i (clock s + 1000 * timeout) s = (Inr x, v) \<and> clock s \<le> clock v"
    by (rule poll_fill_rule [where P = "\<lambda>w x u. clock w \<le> clock u"])
       (auto dest!: timed_clock wait_stop_bound simp: poll_interval_ms_def)
  with run \<open>t \<le> clock s\<close> show "t \<le> clock u" by (auto simp: wait_for_fill_def)
qed

lemma steady_mark_closed [keeps_rules]: "keeps (steady ids stop t) (mark_trade_closed symbol p)"
proof -
  have "map t_id (rows (update_row t_id i (closed_trade p now) ts)) = map t_id (rows ts)" for i now ts
    by (simp add: rows_update_row map_update_where closed_trade_def)
  then show ?thesis
    by (auto simp: mark_trade_closed_def execute_update_def steady_def intro!: keeps_rules keeps_with_session
        split: option.splits)
qed

context order_broker
begin

lemma steady_wait [keeps_rules]: "keeps (steady ids stop t) (wait_for_fill B i timeout)"
  by (rule steady_book [OF wait_book later_wait])

lemma steady_close_position: "keeps (steady ids stop t) (close_position env B pos)"
  by (auto simp: close_position_def await_close_def Let_def
      intro!: keeps_rules steady_wait steady_book [OF place_book place_later] split: sum.split)

lemma steady_close_each: "keeps (steady ids stop t) (close_each env B ps)"
  by (induction ps) (auto intro!: keeps_rules steady_close_position)

lemma steady_close_all: "keeps (steady ids stop t) (close_all_positions env (Some B) mode)"
  by (auto simp: close_all_positions_def
      intro!: keeps_rules steady_close_each steady_book [OF positions_book positions_later])

end

lemma steady_close_none: "keeps (steady ids stop t) (close_all_positions env None mode)"
  by (auto simp: close_all_positions_def intro!: keeps_rules)

text \<open>The same for the engine, whose provider keeps its contract.\<close>

definition calm :: "int list \<Rightarrow> int option \<Rightarrow> int \<Rightarrow> 'ib engine \<Rightarrow> bool" where
  "calm ids stop t s \<longleftrightarrow> (\<forall>P. data_provider s = Some P \<longrightarrow> market_provider P) \<and> steady ids stop t (process s)"

definition lawful_factory :: "'ib engine_env \<Rightarrow> bool" where
  "lawful_factory env \<longleftrightarrow> (\<forall>f. ee_factory env = Some f \<longrightarrow> frame book f \<and> later f
     \<and> (\<forall>w P u. f w = (Inr (Some P), u) \<longrightarrow> market_provider P))"

lemma on_process_apply: "m (process s) = (r, w) \<Longrightarrow> on_process m s = (r, s\<lparr>process := w\<rparr>)"
  by (simp add: on_process_def)

lemma calm_on_process: "keeps (steady ids stop t) m \<Longrightarrow> keeps (calm ids stop t) (on_process m)"
  by (rule keepsI) (auto simp: on_process_def calm_def dest: keepsD split: prod.splits)

lemma calm_eod_close: "keeps (calm ids stop t) (eod_close env)"
proof (rule keepsI)
  fix s :: "'a engine" and r u
  assume run: "eod_close env s = (r, u)" and calm: "calm ids stop t s"
  have "keeps (steady ids stop t) (close_all_positions (ee_alerts env) (engine_broker s) mode)" for mode
  proof (cases "engine_broker s")
    case None
    then show ?thesis by (simp add: steady_close_none)
  next
    case (Some B)
    with calm have "order_broker B"
      by (auto simp: engine_broker_def calm_def dest: market_provider.broker_laws split: option.splits)
    with Some show ?thesis by (simp add: order_broker.steady_close_all)
  qed
  then have "keeps (calm ids stop t) (on_process (bindM (close_all_positions (ee_alerts env) (engine_broker s) mode)
      (\<lambda>results. for_each results (\<lambda>r.
         if x_success r then notify (ee_alerts env) ''trade_closed'' (closed_payload mode r) else ret ()))))" for mode
    by (auto intro!: calm_on_process keeps_rules)
  with run calm show "calm ids stop t u"
    by (auto simp: eod_close_def bindM_def gets_def dest: keepsD)
qed

lemma calm_setting: "keeps (calm ids stop t) (on_process (get_str k d))"
  by (rule calm_on_process, rule steady_state) (rule frame_rules)

lemma calm_engine: "(\<And>s. data_provider (g s) = data_provider s \<and> process (g s) = process s) \<Longrightarrow> keeps (calm ids stop t) (modifyM g)"
  by (auto simp: calm_def intro!: keeps_modifyM)

lemma calm_disconnect: "keeps (calm ids stop t) disconnect_provider"
proof (rule keepsI)
  fix s :: "'a engine" and r u
  assume run: "disconnect_provider s = (r, u)" and calm: "calm ids stop t s"
  show "calm ids stop t u"
  proof (cases "\<exists>P m. data_provider s = Some P \<and> p_disconnect P = Some m")
    case False
    with run calm show ?thesis
      by (auto simp: disconnect_provider_def bindM_def gets_def ret_def split: option.splits)
  next
    case True
    then obtain P m where P: "data_provider s = Some P" and m: "p_disconnect P = Some m" by blast
    with calm have "market_provider P" by (simp add: calm_def)
    then have "keeps (steady ids stop t) m"
      using m by (auto intro: steady_book market_provider.disconnect_book market_provider.disconnect_later)
    then have "keeps (calm ids stop t) (thenM (on_process (try_except m any_exception (\<lambda>_. ret ())))
        (modifyM (\<lambda>s. s\<lparr>data_provider := None\<rparr>)))"
      by (auto simp: calm_def intro!: keeps_rules calm_on_process keeps_modifyM)
    with run calm P m show ?thesis
      by (auto simp: disconnect_provider_def bindM_def gets_def dest: keepsD)
  qed
qed

lemma make_broker_laws:
  assumes "frame book f" "later f" and law: "\<forall>w P u. f w = (Inr (Some P), u) \<longrightarrow> market_provider P"
    and run: "make_broker f w = (r, u)"
  shows "(steady ids stop t w \<longrightarrow> steady ids stop t u) \<and> (\<exists>made. r = Inr made \<and> (\<forall>P. made = Some P \<longrightarrow> market_provider P))"
proof -
  obtain x v where f: "f w = (x, v)" by force
  have v: "steady ids stop t w \<Longrightarrow> steady ids stop t v"
    using keepsD [OF steady_book [OF assms(1,2)] f] .
  show ?thesis
  proof (cases "\<exists>P. x = Inr (Some P)")
    case False
    with run f v show ?thesis
      by (auto simp: make_broker_def try_except_def bindM_def raise_def ret_def split: sum.splits option.splits)
  next
    case True
    then obtain P where P: "x = Inr (Some P)" by blast
    with f law have laws: "market_provider P" by blast
    obtain y z where c: "p_connect P v = (y, z)" by force
    have "steady ids stop t v \<Longrightarrow> steady ids stop t z"
      using keepsD [OF steady_book [OF market_provider.connect_book [OF laws] market_provider.connect_later [OF laws]] c] .
    with run f v P c laws show ?thesis
      by (cases y) (auto simp: make_broker_def try_except_def bindM_def thenM_def ret_def)
  qed
qed

lemma calm_connect: 
  assumes "lawful_factory env"
  shows "keeps (calm ids stop t) (connect_for_mode env m)"
proof (rule keepsI)
  fix s :: "'a engine" and r u
  assume run: "connect_for_mode env m s = (r, u)" and calm: "calm ids stop t s"
  show "calm ids stop t u"
  proof (cases "ee_factory env")
    case None
    with run calm show ?thesis by (auto simp: connect_for_mode_def ret_def)
  next
    case (Some f)
    with assms have f: "frame book f" "later f" "\<forall>w P u. f w = (Inr (Some P), u) \<longrightarrow> market_provider P"
      by (auto simp: lawful_factory_def)
    obtain x w where broker: "make_broker f (process s) = (x, w)" by force
    with make_broker_laws [OF f broker] obtain made where "x = Inr made" "\<forall>P. made = Some P \<longrightarrow> market_provider P" by blast
    moreover have "steady ids stop t w" using make_broker_laws [OF f broker] calm by (auto simp: calm_def)
    ultimately show ?thesis using broker calm run Some
      by (auto simp: connect_for_mode_def calm_def bindM_def thenM_def modifyM_def ret_def on_process_apply
          split: if_splits)
  qed
qed

lemma calm_mode_change: "lawful_factory env \<Longrightarrow> keeps (calm ids stop t) (handle_mode_change env m)"
  by (auto simp: handle_mode_change_def
      intro!: keeps_rules calm_eod_close calm_disconnect calm_connect calm_engine)

lemma calm_reload: "lawful_factory env \<Longrightarrow> keeps (calm ids stop t) (reload_mode env)"
  by (auto simp: reload_mode_def intro!: keeps_rules calm_mode_change calm_setting)

text \<open>The calls with a positional default never get past the call.\<close>

lemma get_pool_raises: "get_pool = raise TypeError"
  by (simp add: get_pool_def call_get_def)

lemma approval_raises: "approval_setting = raise TypeError"
  by (simp add: approval_setting_def call_get_def)

lemma on_process_raise [simp]: "on_process (raise e) = raise e"
  by (simp add: on_process_def raise_def)

lemma trade_watchlist_raises: "trade_watchlist env = raise TypeError"
  by (simp add: trade_watchlist_def approval_raises)

lemma get_not_in_scope: "call_global ''get'' m = raise NameError"
  by (simp add: call_global_def module_globals_def)

lemma try_except_raise: "\<not> P e \<Longrightarrow> try_except (raise e) P h = raise e"
  by (simp add: try_except_def raise_def)

lemma gap_setting_raises: "gap_setting = raise NameError"
  by (simp add: gap_setting_def get_not_in_scope try_except_raise is_value_or_type_error_def is_value_error_def)

lemma bindM_gets: "bindM (gets f) g s = g (f s) s"
  by (simp add: bindM_def gets_def)

lemma scan_universe_cases:
  "scan_universe env s = (if trading_mode s = ''dryrun'' then scan_dryrun s
     else if data_provider s = None then set_watchlist [] s else (Inl TypeError, s))"
  by (auto simp: scan_universe_def bindM_gets get_pool_raises raise_apply)

lemma calm_scan: "keeps (calm ids stop t) (scan_universe env)"
proof -
  have "keeps (calm ids stop t) (set_watchlist ss)" for ss
    by (auto simp: set_watchlist_def intro!: calm_engine)
  moreover from this have "keeps (calm ids stop t) scan_dryrun"
    by (auto simp: scan_dryrun_def Let_def intro!: keeps_rules calm_setting)
  ultimately show ?thesis unfolding keeps_def scan_universe_cases by auto
qed

lemma steady_int_of_setting: "keeps (steady ids stop t) (int_of_setting k d v)"
  by (auto simp: int_of_setting_def intro!: keeps_rules steady_state frame_rules)

lemma calm_market_tick: "keeps (calm ids stop t) (market_tick env now n)"
  by (auto simp: market_tick_def in_open_buffer_def trade_watchlist_raises
      intro!: keeps_rules calm_on_process calm_eod_close steady_int_of_setting)

lemma calm_tick: "lawful_factory env \<Longrightarrow> keeps (calm ids stop t) (tick env)"
  by (auto simp: tick_def daily_scan_def intro!: keeps_rules calm_reload calm_scan calm_engine
      calm_on_process steady_int_of_setting calm_market_tick)

lemma steady_wait_stop: "0 \<le> d \<Longrightarrow> keeps (steady ids stop t) (wait_stop d)"
  by (rule keepsI) (fastforce simp: steady_def dest: wait_stop_bound frameD [OF frame_wait_stop] simp: book_def)

lemma calm_round: "lawful_factory env \<Longrightarrow> 0 \<le> ee_tick env \<Longrightarrow> keeps (calm ids stop t) (loop_round env)"
  by (auto simp: loop_round_def intro!: keeps_rules calm_tick calm_on_process steady_wait_stop)

section \<open>Rounds of the loop\<close>

lemma calm_process: "calm ids stop t s \<Longrightarrow> stop_at (process s) = stop \<and> t \<le> clock (process s)"
  by (simp add: calm_def steady_def)

lemma wait_stop_progress:
  assumes "wait_stop d w = (r, u)" and "stop_at w = Some t"
  shows "t \<le> clock u \<or> clock u = clock w + d"
  using assms by (auto simp: wait_stop_def split: if_splits)

lemma loop_round_progress:
  assumes "lawful_factory env" and "0 \<le> ee_tick env" and "calm ids (Some t) c s"
  shows "calm ids (Some t) c (snd (loop_round env s))
    \<and> (t \<le> clock (process (snd (loop_round env s)))
       \<or> clock (process s) + 1000 * ee_tick env \<le> clock (process (snd (loop_round env s))))"
proof -
  obtain u where u: "try_except (tick env) any_exception (\<lambda>_. ret ()) s = (Inr (), u)"
    by (cases "tick env s"; cases "fst (tick env s)") (auto simp: try_except_def ret_def)
  have "keeps (calm ids (Some t) c') (try_except (tick env) any_exception (\<lambda>_. ret ()))" for c'
    using assms(1) by (intro keeps_rules calm_tick)
  from keepsD [OF this u] have calm_u: "calm ids (Some t) c' s \<Longrightarrow> calm ids (Some t) c' u" for c' .
  obtain stopped v where v: "wait_stop (1000 * ee_tick env) (process u) = (Inr stopped, v)"
    using wait_stop_returns by (rule never_raisesE)
  have round: "loop_round env s = (Inr (), u\<lparr>process := v\<rparr>)"
    using u v by (simp add: loop_round_def thenM_def bindM_def on_process_def ret_def)
  have "calm ids (Some t) (clock (process s)) s" using assms(3) by (simp add: calm_def steady_def)
  with calm_u have "clock (process s) \<le> clock (process u)" "stop_at (process u) = Some t"
    by (blast dest: calm_process)+
  with wait_stop_progress [OF v] round keepsD [OF calm_round [OF assms(1,2)] round assms(3)]
  show ?thesis by auto
qed

lemma rounds_reach:
  fixes t c d :: int
  assumes "0 < d"
  shows "t \<le> c + d * int (nat ((t - c) div d + 1))"
proof -
  have "(t - c) mod d < d" using assms by (rule pos_mod_bound)
  moreover have "t - c = d * ((t - c) div d) + (t - c) mod d" by (rule mult_div_mod_eq [symmetric])
  ultimately have below: "t - c < d * ((t - c) div d + 1)" unfolding distrib_left by linarith
  show ?thesis
  proof (cases "0 \<le> (t - c) div d + 1")
    case False
    with assms have "d * ((t - c) div d + 1) < 0" by (simp add: mult_less_0_iff)
    with below False show ?thesis by simp
  qed (use below in simp)
qed

lemma run_loop_ends:
  assumes "lawful_factory env" and "0 < ee_tick env"
  shows "calm ids (Some t) c s \<Longrightarrow> t \<le> clock (process s) + 1000 * ee_tick env * int n \<Longrightarrow>
    \<exists>s'. run_loop env n s = Some s' \<and> calm ids (Some t) c s' \<and> t \<le> clock (process s')"
proof (induction n arbitrary: s)
  case 0
  then have "shutdown_set s" by (simp add: shutdown_set_def calm_process)
  with 0 show ?case by (simp add: run_loop.simps)
next
  case (Suc n)
  show ?case
  proof (cases "shutdown_set s")
    case True
    with Suc.prems(1) show ?thesis by (auto simp: run_loop.simps shutdown_set_def dest: calm_process)
  next
    case False
    let ?s = "snd (loop_round env s)"
    have progress: "calm ids (Some t) c ?s"
      "t \<le> clock (process ?s) \<or> clock (process s) + 1000 * ee_tick env \<le> clock (process ?s)"
      using loop_round_progress [OF assms(1) _ Suc.prems(1)] assms(2) by auto
    have "0 \<le> 1000 * ee_tick env * int n" using assms(2) by simp
    with progress(2) Suc.prems(2) have "t \<le> clock (process ?s) + 1000 * ee_tick env * int n"
      by (auto simp: algebra_simps)
    from Suc.IH [OF progress(1) this] False show ?thesis by (simp add: run_loop.simps [of env "Suc n"])
  qed
qed

section \<open>The status of a selection\<close>

interpretation selection_status: lifecycle "\<lambda>a b. \<exists>new. b = overwrite_row new a" "\<lambda>r. u_status r \<notin> set undecided"
  by unfold_locales (auto simp: overwrite_row_def)

lemma store_selection_keeps:
  assumes "r \<in> set (rows (selections d))" and "u_status r \<notin> set undecided"
  shows "r \<in> set (rows (selections (store_selection new d)))"
proof -
  have "overwrite_row new r = r" using selection_status.final_stays [OF assms(2)] by blast
  then have kept: "r \<in> set (update_where P (overwrite_row new) (rows (selections d)))" for P
    unfolding in_update_where by (intro bexI [OF _ assms(1)]) (cases "P r", simp_all)
  show ?thesis
    using assms(1) kept by (cases "row_of_day (u_date new) d") (simp_all add: store_selection_def insert_row_def rows_update_row)
qed

section \<open>Demonstration\<close>

definition silent_libs :: signal_libs where
  "silent_libs = \<lparr>sl_ta = steady_ta, sl_lgb = \<lparr>lgb_load = (\<lambda>_. Inl FileNotFoundErr), lgb_predict = (\<lambda>_ _. Inl ApiError)\<rparr>,
     sl_news = \<lparr>alpaca_get = (\<lambda>_ _. None), finnhub_get = (\<lambda>_ _ _. None), read_iso = (\<lambda>_. None), news_repr = (\<lambda>_. '''')\<rparr>,
     sl_claude = \<lparr>cl_installed = False, cl_message = (\<lambda>_ _ _. Inl ApiError), cl_repr = (\<lambda>_. '''')\<rparr>\<rparr>"

definition demo_env :: "'ib engine_env" where
  "demo_env = \<lparr>ee_exchange = weekday_exchange, ee_alerts = plain_env, ee_libs = silent_libs, ee_factory = None,
     ee_tick = 60, ee_detached = Inr\<rparr>"

text \<open>An engine in paper mode on a Thursday, with one trade on record.\<close>

definition paper_setting :: setting where
  "paper_setting = \<lparr>s_key = ''TRADING_MODE'', s_value = ''paper'', s_description = None, s_updated = 0\<rparr>"

definition demo_engine :: "(int \<times> ib_order) list engine" where
  "demo_engine = \<lparr>trading_mode = ''paper'', data_provider = Some (ibkr_provider ledger_api paper_conn),
     last_scan_date = None, watchlist = [],
     process = demo_day\<lparr>db := (db demo_day)\<lparr>settings := [paper_setting]\<rparr>, stop_at := Some 100000\<rparr>\<rparr>"

lemma demo_lawful: "lawful_factory demo_env"
  by (simp add: lawful_factory_def demo_env_def)

lemma demo_provider: "data_provider demo_engine = Some P \<Longrightarrow> market_provider P"
  using ibkr_data.market_provider_axioms by (auto simp: demo_engine_def)

section \<open>Properties\<close>


text \<open>An engine in paper or live mode with a connection that has not scanned today is stuck.  As long as
  the mode setting stays, every tick of a trading day raises a \<open>TypeError\<close> in the universe scan: the
  scan date is not set, nothing is traded, and no position is closed at the end of the day; on other
  days the tick does nothing.\<close>

theorem live_engine_stuck:
  assumes "trading_mode s \<noteq> ''dryrun''" and "data_provider s = Some P"
    and "last_scan_date s \<noteq> Some (day_of (clock (process s)))"
    and "fst (get_str ''TRADING_MODE'' (Some ''dryrun'') (process s)) = Inr (trading_mode s)"
  shows "\<exists>w. tick env s = (if is_session (ee_exchange env) (day_of (clock (process s)))
       then Inl TypeError else Inr (), s\<lparr>process := w\<rparr>)
     \<and> trading_state w = trading_state (process s) \<and> outbox w = outbox (process s)"
proof -
  obtain w where w: "get_str ''TRADING_MODE'' (Some ''dryrun'') (process s) = (Inr (trading_mode s), w)"
    using assms(4) by (metis prod.collapse)
  have same: "trading_state w = trading_state (process s)" "outbox w = outbox (process s)"
    using frameD [OF str_setting.state_frame w] frameD [OF str_setting.alerts_frame w] by auto
  then have clock: "clock w = clock (process s)" by (simp add: trading_state_def)
  have "on_process (get_str ''TRADING_MODE'' (Some ''dryrun'')) s = (Inr (trading_mode s), s\<lparr>process := w\<rparr>)"
    by (simp add: on_process_def w)
  then have reload: "reload_mode env s = (Inr (), s\<lparr>process := w\<rparr>)"
    by (simp add: reload_mode_def try_except_def bindM_def gets_def ret_def)
  have scan: "scan_universe env (s\<lparr>process := w\<rparr>) = (Inl TypeError, s\<lparr>process := w\<rparr>)"
    using assms(1,2) by (simp add: scan_universe_cases)
  have "tick env s = (if is_session (ee_exchange env) (day_of (clock (process s)))
       then Inl TypeError else Inr (), s\<lparr>process := w\<rparr>)"
    using assms(3) scan
    by (simp add: tick_def reload gets_def daily_scan_def
        is_trading_day_def clock ret_def thenM_def bindM_def)
  with same show ?thesis by blast
qed


lemma live_engine_stuck_witness:
  "\<exists>w. tick demo_env demo_engine = (Inl TypeError, demo_engine\<lparr>process := w\<rparr>) \<and> ib w = []"
proof -
  have "fst (get_str ''TRADING_MODE'' (Some ''dryrun'') (process demo_engine)) = Inr (trading_mode demo_engine)"
    by (simp add: demo_engine_def demo_day_def get_str_def get_setting_def refresh_result boot_world_def
        monad_defs cache_fresh_def table_value_def paper_setting_def)
  from live_engine_stuck [OF _ _ _ this, of "ibkr_provider ledger_api paper_conn" demo_env]
  show ?thesis
    by (auto simp: demo_engine_def demo_day_def boot_world_def demo_env_def weekday_exchange_def day_of_def
        trading_state_def)
qed

text \<open>The loop ends after a shutdown signal.  Whatever happens in the ticks, the engine leaves its loop at
  the latest after the number of rounds whose waits alone would reach the moment of the signal.\<close>

theorem loop_ends_after_signal:
  assumes "lawful_factory env" and "0 < ee_tick env"
    and "\<And>P. data_provider s = Some P \<Longrightarrow> market_provider P" and "stop_at (process s) = Some t"
  shows "\<exists>s'. run_loop env (nat ((t - clock (process s)) div (1000 * ee_tick env) + 1)) s = Some s'
    \<and> t \<le> clock (process s') \<and> run env (nat ((t - clock (process s)) div (1000 * ee_tick env) + 1)) s
      = Some (on_shutdown env s')"
proof -
  define d q where "d = 1000 * ee_tick env" and "q = (t - clock (process s)) div d"
  have start: "calm (map t_id (rows (trades (db (process s))))) (Some t) (clock (process s)) s"
    using assms(3,4) by (simp add: calm_def steady_def)
  have reached: "t \<le> clock (process s) + d * int (nat (q + 1))"
    unfolding q_def by (rule rounds_reach) (simp add: d_def assms(2))
  obtain s' where "run_loop env (nat (q + 1)) s = Some s'" "t \<le> clock (process s')"
    using run_loop_ends [OF assms(1,2) start reached [unfolded d_def]] by blast
  then show ?thesis by (simp add: run_def q_def d_def)
qed

lemma loop_ends_after_signal_witness:
  "\<exists>s'. run_loop demo_env 2 demo_engine = Some s' \<and> 100000 \<le> clock (process s')"
proof -
  have "0 < ee_tick (demo_env :: (int \<times> ib_order) list engine_env)" "stop_at (process demo_engine) = Some 100000"
    by (simp_all add: demo_env_def demo_engine_def)
  note ends = loop_ends_after_signal [OF demo_lawful this(1) demo_provider this(2)]
  have "nat ((100000 - clock (process demo_engine)) div (1000 * ee_tick (demo_env :: (int \<times> ib_order) list engine_env)) + 1) = 2"
    by (simp add: demo_env_def demo_engine_def demo_day_def boot_world_def)
  with ends show ?thesis by auto
qed

text \<open>C31: a change of mode either happens completely or not at all.  If it returns, the watch list is empty, the
  scan is due again, and the engine is in the mode asked for with a connected provider or in dryrun
  mode; if closing the positions raises, the engine is as it was.\<close>

theorem mode_change_outcome:
  assumes "m \<in> set valid_modes" and "handle_mode_change env m s = (r, s')"
  shows "case r of
      Inr _ \<Rightarrow> watchlist s' = [] \<and> last_scan_date s' = None
        \<and> (trading_mode s' = ''dryrun'' \<or> (trading_mode s' = m \<and> data_provider s' \<noteq> None))
    | Inl e \<Rightarrow> trading_mode s \<in> set live_modes \<and> s' = s\<lparr>process := process s'\<rparr>"
proof -
  have eod: "\<exists>x w. eod_close env s = (x, s\<lparr>process := w\<rparr>)"
    by (auto simp: eod_close_def bindM_gets on_process_def split: prod.split)
  have disc: "\<exists>u. disconnect_provider v = (Inr (), u)" for v :: "'a engine"
    by (auto simp: disconnect_provider_def gets_def thenM_def bindM_def on_process_def try_except_def ret_def
        modifyM_def split: option.split prod.split sum.split)
  have conn: "\<exists>made u. connect_for_mode env m v = (Inr made, u)
      \<and> (made = ''dryrun'' \<or> (made = m \<and> data_provider u \<noteq> None))" for v :: "'a engine"
    using assms(1)
    by (auto simp: connect_for_mode_def valid_modes_def live_modes_def make_broker_def bindM_def on_process_def
        try_except_def ret_def thenM_def modifyM_def split: option.split prod.split sum.split)
  show ?thesis
  proof (cases "\<exists>e w. (if trading_mode s \<in> set live_modes then eod_close env else ret ()) s = (Inl e, w)")
    case True
    then obtain e w where live: "trading_mode s \<in> set live_modes" and "eod_close env s = (Inl e, w)"
      by (auto simp: ret_def split: if_splits)
    with eod obtain v where v: "eod_close env s = (Inl e, s\<lparr>process := v\<rparr>)" by (metis prod.inject)
    have "handle_mode_change env m s = (Inl e, s\<lparr>process := v\<rparr>)"
      by (simp add: handle_mode_change_def gets_def thenM_def bindM_def live v)
    with assms(2) have "r = Inl e" "s' = s\<lparr>process := v\<rparr>" by simp_all
    then show ?thesis using live by simp
  next
    case False
    obtain x a where "(if trading_mode s \<in> set live_modes then eod_close env else ret ()) s = (x, a)" by fastforce
    with False have a: "(if trading_mode s \<in> set live_modes then eod_close env else ret ()) s = (Inr (), a)"
      by (cases x) auto
    obtain b where b: "disconnect_provider a = (Inr (), b)" using disc by blast
    obtain made k where "connect_for_mode env m b = (Inr made, k)"
      "made = ''dryrun'' \<or> (made = m \<and> data_provider k \<noteq> None)" using conn by blast
    moreover from this a b have "handle_mode_change env m s
        = (Inr (), k\<lparr>trading_mode := made, watchlist := [], last_scan_date := None\<rparr>)"
      by (simp add: handle_mode_change_def gets_def thenM_def bindM_def modifyM_def)
    with assms(2) have "r = Inr ()" "s' = k\<lparr>trading_mode := made, watchlist := [], last_scan_date := None\<rparr>"
      by simp_all
    ultimately show ?thesis by auto
  qed
qed

lemma mode_change_outcome_witness:
  "watchlist (snd (handle_mode_change demo_env ''live'' (demo_engine\<lparr>trading_mode := ''dryrun''\<rparr>))) = []"
proof -
  define s where "s = demo_engine\<lparr>trading_mode := ''dryrun''\<rparr>"
  have "''live'' \<in> set valid_modes" "trading_mode s \<notin> set live_modes"
    by (simp_all add: valid_modes_def live_modes_def s_def)
  with mode_change_outcome [OF this(1), of demo_env s "fst (handle_mode_change demo_env ''live'' s)"
      "snd (handle_mode_change demo_env ''live'' s)"]
  show ?thesis unfolding s_def [symmetric] by (simp split: sum.splits)
qed

text \<open>C17: the decision of a user stands.  Storing the result of a scan leaves every selection that is neither
  pending nor autonomous exactly as it was, and when the database does not answer it changes nothing.\<close>

theorem decided_selection_kept:
  assumes "r \<in> set (rows (selections (db w)))" and "u_status r \<noteq> ''pending_approval''" and "u_status r \<noteq> ''autonomous''"
  shows "r \<in> set (rows (selections (db (snd (persist_selection sel candidates status w)))))
    \<and> fst (persist_selection sel candidates status w) = Inr ()"
  using assms store_selection_keeps [of r "db w"]
  by (auto simp: persist_selection_def bindM_gets try_except_def execute_update_apply ret_def undecided_def)

definition decided_row :: selection where
  "decided_row = \<lparr>u_id = 1, u_date = 0, u_candidates = [], u_selected = Some ''AAPL'', u_status = ''approved'',
     u_reasoning = None, u_created = 0, u_decided_at = Some 0, u_decided_by = Some ''web''\<rparr>"

definition decided_world :: "unit world" where
  "decided_world = (boot_world ())\<lparr>db := empty_db\<lparr>selections := \<lparr>rows = [decided_row], next_id = 2\<rparr>\<rparr>\<rparr>"

lemma decided_selection_kept_witness:
  "decided_row \<in> set (rows (selections (db (snd (persist_selection (fallback [] ''approval'') [] ''pending_approval'' decided_world)))))"
  using decided_selection_kept [of decided_row decided_world]
  by (simp add: decided_world_def decided_row_def)

text \<open>An approved selection is traded only if the object survives its session.  With the default of
  SQLAlchemy, whose objects expire on commit, the engine finds no approved symbol whatever the user
  decided; with objects that keep their attributes it finds the one of today's approved row.\<close>

theorem approval_needs_live_row:
  assumes "expires_on_commit d" and "keeps_on_commit d'"
    and "db_up w (db_calls w)" and "row_of_day (local_today w) (db w) = Some r"
    and "u_status r = ''approved''" and "u_selected r = Some symbol" and "symbol \<noteq> []"
  shows "fst (load_approved_selection d w) = Inr None
    \<and> fst (load_approved_selection d' w) = Inr (Some symbol)"
  using assms
  by (cases symbol) (simp_all add: load_approved_selection_def gets_def try_except_def query_apply bindM_def
      liftR_def ret_def expires_on_commit_def keeps_on_commit_def)

lemma approval_needs_live_row_witness:
  "fst (load_approved_selection (\<lambda>_. Inl DetachedInstanceError) decided_world) = Inr None
    \<and> fst (load_approved_selection Inr decided_world) = Inr (Some ''AAPL'')"
  using approval_needs_live_row [of "\<lambda>_. Inl DetachedInstanceError" Inr decided_world decided_row "''AAPL''"]
  by (simp add: expires_on_commit_def keeps_on_commit_def decided_world_def decided_row_def boot_world_def row_of_day_def
      local_today_def day_of_def)

end
