(* ===== verification/Bot_Main.thy ===== *)
theory Bot_Main
  imports Engine
begin

text \<open>
  The entry point of the bot process, \<open>bot/core/__main__.py\<close>: the mode and the connection it starts
  with, the engine it runs, and how it ends.  \<open>sys.exit\<close> is an exit code; the signal handler is the
  moment \<open>stop_at\<close> of the process state, at which both events are set.
\<close>

section \<open>Starting\<close>

definition int_env :: "string \<Rightarrow> ('ib world, int) M" where
  "int_env s = liftR (case parse_int s of Some n \<Rightarrow> Inr n | None \<Rightarrow> Inl ValueError)"

definition port_text :: "string \<Rightarrow> ('ib world, string) M" where
  "port_text dflt = gets (\<lambda>w. case environ w ''IBKR_PORT'' of Some s \<Rightarrow> s | None \<Rightarrow> dflt)"

text \<open>\<open>broker = IBKRConnection(port=port); broker.connect()\<close>; the handler of the caller says what is
  returned when the connection fails.\<close>

definition open_broker :: "'ib ib_api \<Rightarrow> 'ib \<Rightarrow> int \<Rightarrow> (int + 'ib provider option) \<Rightarrow> ('ib world, int + 'ib provider option) M" where
  "open_broker api fresh port failed =
     thenM (new_connection fresh)
       (try_except (thenM (connect api (default_conn port)) (ret (Inr (Some (ibkr_provider api (default_conn port))))))
          any_exception (\<lambda>_. ret failed))"

definition first_broker :: "'ib ib_api \<Rightarrow> 'ib \<Rightarrow> string \<Rightarrow> ('ib world, int + 'ib provider option) M" where
  "first_broker api fresh mode =
    (if mode \<in> set live_modes
     then bindM (port_text ''7497'') (\<lambda>s. bindM (int_env s) (\<lambda>port. open_broker api fresh port (Inl 1)))
     else bindM (port_text '''') (\<lambda>s. if s = [] then ret (Inr None)
       else bindM (int_env s) (\<lambda>port. open_broker api fresh port (Inr None))))"

text \<open>The factory for changes of mode, when a port is set.\<close>

definition broker_factory :: "'ib ib_api \<Rightarrow> 'ib \<Rightarrow> int \<Rightarrow> ('ib world, 'ib provider option) M" where
  "broker_factory api fresh port = thenM (new_connection fresh) (ret (Some (ibkr_provider api (default_conn port))))"

definition factory_of_env :: "'ib ib_api \<Rightarrow> 'ib \<Rightarrow> ('ib world, ('ib world, 'ib provider option) M option) M" where
  "factory_of_env api fresh = bindM (port_text '''') (\<lambda>s. if s = [] then ret None
     else bindM (int_env s) (\<lambda>port. ret (Some (broker_factory api fresh port))))"

definition default_tick :: int where
  "default_tick = 60"

text \<open>What the process starts the engine with: an exit code, or the mode, the connection and the factory.\<close>

definition startup :: "'ib ib_api \<Rightarrow> 'ib \<Rightarrow>
    ('ib world, int + string \<times> 'ib provider option \<times> ('ib world, 'ib provider option) M option) M" where
  "startup api fresh =
     bindM (try_except (bindM (get_str ''TRADING_MODE'' (Some ''dryrun'')) (\<lambda>m. ret (Inr m)))
              is_config_error (\<lambda>_. ret (Inl 1))) (\<lambda>got. case got of
        Inl n \<Rightarrow> ret (Inl n)
      | Inr mode \<Rightarrow>
          if mode \<notin> set valid_modes then ret (Inl 1)
          else bindM (first_broker api fresh mode) (\<lambda>opened. case opened of
              Inl n \<Rightarrow> ret (Inl n)
            | Inr broker \<Rightarrow> bindM (factory_of_env api fresh) (\<lambda>factory. ret (Inr (mode, broker, factory)))))"

section \<open>Running\<close>

text \<open>The clean-up of \<open>main\<close>: whatever provider the engine holds is disconnected, errors are ignored.\<close>

definition release_provider :: "('ib engine, unit) M" where
  "release_provider = bindM (gets data_provider) (\<lambda>provider.
     case (case provider of Some P \<Rightarrow> p_disconnect P | None \<Rightarrow> None) of
       Some m \<Rightarrow> on_process (try_except m any_exception (\<lambda>_. ret ()))
     | None \<Rightarrow> ret ())"

text \<open>The whole process, with \<open>n\<close> rounds of the engine's loop as fuel: the exit code, or the exception that
  ends it.\<close>

definition main :: "'ib engine_env \<Rightarrow> 'ib ib_api \<Rightarrow> 'ib \<Rightarrow> nat \<Rightarrow> 'ib world \<Rightarrow> (int res \<times> 'ib world) option" where
  "main E api fresh n w = (case startup api fresh w of
      (Inl e, u) \<Rightarrow> Some (Inl e, u)
    | (Inr (Inl k), u) \<Rightarrow> Some (Inr k, u)
    | (Inr (Inr (mode, broker, factory)), u) \<Rightarrow>
        (case new_engine mode default_tick broker u of
           Inl e \<Rightarrow> Some (Inl e, u)
         | Inr s \<Rightarrow> (case run (E\<lparr>ee_tick := default_tick, ee_factory := factory\<rparr>) n s of
               None \<Rightarrow> None
             | Some (r, s') \<Rightarrow> (case try_finally (\<lambda>_. (r, s')) release_provider s' of
                   (Inl e, s'') \<Rightarrow> Some (Inl e, process s'')
                 | (Inr _, s'') \<Rightarrow> Some (Inr 0, process s'')))))"

section \<open>What starting leaves alone\<close>

lemma book_int_env [frame_rules]: "frame f (int_env s)"
  by (simp add: int_env_def frame_rules)

lemma frame_port_text [frame_rules]: "frame f (port_text d)"
  by (simp add: port_text_def frame_rules)

lemma frame_book_new_connection [frame_rules]: "frame book (new_connection fresh)"
  by (auto simp: new_connection_def book_def intro!: frame_modifyM)

lemma keeps_clock_new_connection [keeps_rules]: "keeps (\<lambda>w. t \<le> clock w) (new_connection fresh)"
  by (auto simp: new_connection_def intro!: keeps_modifyM)

lemma factory_lawful:
  assumes "factory_of_env api fresh w = (Inr factory, u)"
  shows "lawful_factory (E\<lparr>ee_factory := factory\<rparr>)"
proof -
  have "frame book (broker_factory api fresh port)" "later (broker_factory api fresh port)" for port
    by (auto simp: broker_factory_def later_def intro!: frame_rules keeps_rules)
  moreover have "market_provider P" if "broker_factory api fresh port w = (Inr (Some P), u)" for port w P u
    using that ibkr_data.market_provider_axioms
    by (auto simp: broker_factory_def thenM_def bindM_def new_connection_def modifyM_def ret_def)
  ultimately show ?thesis
    using assms
    by (auto simp: factory_of_env_def lawful_factory_def bindM_def port_text_def gets_def ret_def int_env_def liftR_def
        split: if_splits option.splits)
qed

lemma broker_lawful: "first_broker api fresh mode w = (Inr (Inr (Some P)), u) \<Longrightarrow> market_provider P"
  using ibkr_data.market_provider_axioms
  by (auto simp: first_broker_def open_broker_def port_text_def int_env_def monad_defs split: if_splits option.splits prod.splits sum.splits)

lemma frame_startup:
  "frame db (startup api fresh)" "frame outbox (startup api fresh)" "keeps (steady ids stop t) (startup api fresh)"
proof -
  have book: "frame book (first_broker api fresh mode)" "later (first_broker api fresh mode)" for mode
    by (auto simp: first_broker_def open_broker_def port_text_def int_env_def later_def intro!: frame_rules keeps_rules)
  have factory: "frame f (factory_of_env api fresh)" for f :: "'a world \<Rightarrow> 'c"
    by (auto simp: factory_of_env_def intro!: frame_rules)
  have "keeps (steady ids stop t) (first_broker api fresh mode)" for mode
    by (rule steady_book) (rule book)+
  moreover have "keeps (steady ids stop t) (factory_of_env api fresh)"
    by (rule steady_state) (rule factory)
  moreover have "keeps (steady ids stop t) (get_str k d)" for k d
    by (rule steady_state) (rule frame_rules)
  ultimately show "keeps (steady ids stop t) (startup api fresh)"
    by (auto simp: startup_def intro!: keeps_rules split: sum.split)
  show "frame db (startup api fresh)" "frame outbox (startup api fresh)"
    by (auto simp: startup_def intro!: frame_rules factory book_frames [OF book(1)] split: sum.split)
qed

lemma startup_started:
  assumes "startup api fresh w = (Inr (Inr (mode, broker, factory)), u)"
  shows "mode \<in> set valid_modes \<and> (\<forall>P. broker = Some P \<longrightarrow> market_provider P)
    \<and> lawful_factory (E\<lparr>ee_factory := factory\<rparr>)
    \<and> (mode \<in> set live_modes \<longrightarrow> (\<exists>port v v'. broker = Some (ibkr_provider api (default_conn port))
        \<and> connect api (default_conn port) v = (Inr (), v') \<and> ib u = ib v'))"
proof -
  obtain v v' where mode: "mode \<in> set valid_modes" and b: "first_broker api fresh mode v = (Inr (Inr broker), v')"
    and f: "factory_of_env api fresh v' = (Inr factory, u)"
    using assms by (auto simp: startup_def ret_def elim!: bindM_InrE split: sum.splits if_splits)
  have "ib u = ib v'" using f by (auto simp: factory_of_env_def port_text_def int_env_def monad_defs split: if_splits option.splits)
  moreover have "\<exists>port x. broker = Some (ibkr_provider api (default_conn port))
      \<and> connect api (default_conn port) x = (Inr (), v')" if "mode \<in> set live_modes"
    using b that
    by (auto simp: first_broker_def open_broker_def port_text_def int_env_def thenM_def liftR_def bindM_def gets_def ret_def
        try_except_def split: option.splits prod.splits sum.splits if_splits)
  moreover have "market_provider P" if "broker = Some P" for P
    using b that by (auto intro: broker_lawful)
  moreover have "lawful_factory (E\<lparr>ee_factory := factory\<rparr>)" by (rule factory_lawful [OF f])
  ultimately show ?thesis using mode by blast
qed

lemma calm_release: "keeps (calm ids stop t) release_provider"
proof (rule keepsI)
  fix s :: "'a engine" and r u
  assume run: "release_provider s = (r, u)" and calm: "calm ids stop t s"
  show "calm ids stop t u"
  proof (cases "case data_provider s of Some P \<Rightarrow> p_disconnect P | None \<Rightarrow> None")
    case None
    with run calm show ?thesis by (simp add: release_provider_def bindM_def gets_def ret_def)
  next
    case (Some m)
    then obtain P where "data_provider s = Some P" "p_disconnect P = Some m" by (auto split: option.splits)
    with calm have "keeps (steady ids stop t) m"
      by (auto simp: calm_def intro: steady_book market_provider.disconnect_book market_provider.disconnect_later)
    then have "keeps (calm ids stop t) (on_process (try_except m any_exception (\<lambda>_. ret ())))"
      by (intro calm_on_process keeps_rules)
    with run calm Some show ?thesis by (auto simp: release_provider_def bindM_def gets_def dest: keepsD)
  qed
qed

lemma calm_shutdown: "keeps (calm ids stop t) (on_shutdown env)"
proof -
  have "keeps (steady ids stop t) (query f)" for f :: "db \<Rightarrow> 'b"
    by (auto simp: query_def steady_def intro!: keeps_with_session)
  then show ?thesis
    by (auto simp: on_shutdown_def send_daily_summary_def intro!: keeps_rules calm_eod_close calm_on_process)
qed

section \<open>Properties\<close>

text \<open>C11: the bot process as it is shipped ends when it is told to.  Whatever the settings, the connection and
  the database do, a process that is sent the shutdown signal at the moment \<open>t\<close> returns at the latest
  after the rounds of its loop whose waits of 60 seconds would reach \<open>t\<close>; it never adds or removes a
  trade.\<close>

theorem bot_process_ends:
  assumes "stop_at w = Some t"
  shows "\<exists>r u. main E api fresh (nat ((t - clock w) div 60000 + 1)) w = Some (r, u)
    \<and> map t_id (rows (trades (db u))) = map t_id (rows (trades (db w)))"
proof -
  define n where "n = nat ((t - clock w) div 60000 + 1)"
  let ?ids = "map t_id (rows (trades (db w)))"
  obtain x v where start: "startup api fresh w = (x, v)" by force
  have v: "steady ?ids (Some t) (clock w) v"
    by (rule keepsD [OF frame_startup(3) start]) (simp add: steady_def assms)
  then have ids: "map t_id (rows (trades (db v))) = ?ids" by (simp add: steady_def)
  show ?thesis
  proof (cases "\<exists>mode broker factory. x = Inr (Inr (mode, broker, factory))")
    case False
    with start ids show ?thesis by (auto simp: main_def split: sum.splits)
  next
    case True
    then obtain mode broker factory where x: "x = Inr (Inr (mode, broker, factory))" by blast
    define env where "env = E\<lparr>ee_tick := default_tick, ee_factory := factory\<rparr>"
    note ok = startup_started [OF start [unfolded x], of "E\<lparr>ee_tick := default_tick\<rparr>"]
    then have providers: "\<forall>P. broker = Some P \<longrightarrow> market_provider P" and law: "lawful_factory env"
      by (simp_all add: env_def)
    define s where "s = \<lparr>trading_mode = mode, data_provider = broker, last_scan_date = None, watchlist = [], process = v\<rparr>"
    have s: "data_provider s = broker" "process s = v" by (simp_all add: s_def)
    have calm: "calm ?ids (Some t) (clock w) s" unfolding calm_def s using providers v by blast
    have "t \<le> clock w + 60000 * int n" unfolding n_def by (rule rounds_reach) simp
    moreover have "clock w \<le> clock (process s)" using calm_process [OF calm] ..
    ultimately have "t \<le> clock (process s) + 60000 * int n" by linarith
    then have "t \<le> clock (process s) + 1000 * ee_tick env * int n" by (simp add: env_def default_tick_def)
    moreover have "0 < ee_tick env" by (simp add: env_def default_tick_def)
    ultimately obtain s' where loop: "run_loop env n s = Some s'" "calm ?ids (Some t) (clock w) s'"
      using run_loop_ends [OF law _ calm] by blast
    obtain r s1 where down: "on_shutdown env s' = (r, s1)" by force
    obtain y s2 where rel: "release_provider s1 = (y, s2)" by force
    have "calm ?ids (Some t) (clock w) s2"
      using keepsD [OF calm_release rel] keepsD [OF calm_shutdown down] loop(2) by blast
    then have "map t_id (rows (trades (db (process s2)))) = ?ids" by (simp add: calm_def steady_def)
    moreover have "\<exists>k. main E api fresh n w = Some (k, process s2)"
      using start x loop(1) down rel
      by (cases r; cases y) (simp_all add: main_def new_engine_def default_tick_def run_def env_def s_def try_finally_def)
    ultimately show ?thesis unfolding n_def by blast
  qed
qed

text \<open>C10: the process refuses to trade on a bad start.  It starts its engine only in one of the three modes, and
  in paper and live mode only with a connection that has just connected; otherwise it ends with exit code 1
  or an exception, and whatever happens, starting changes nothing in the database and sends no alert.\<close>

theorem bot_start_fail_closed:
  assumes "startup api fresh w = (r, u)"
  shows "db u = db w \<and> outbox u = outbox w
    \<and> (case r of
         Inr (Inr (mode, broker, factory)) \<Rightarrow> mode \<in> {''paper'', ''live'', ''dryrun''}
           \<and> (mode \<in> {''paper'', ''live''} \<longrightarrow> (\<exists>port v v'. broker = Some (ibkr_provider api (default_conn port))
                \<and> connect api (default_conn port) v = (Inr (), v') \<and> ib u = ib v'))
       | Inr (Inl k) \<Rightarrow> k = 1 \<and> main E api fresh n w = Some (Inr 1, u)
       | Inl e \<Rightarrow> main E api fresh n w = Some (Inl e, u))"
proof -
  have code: "k = 1" if "r = Inr (Inl k)" for k
  proof -
    have "k = 1" if "first_broker api fresh mode v = (Inr (Inl k), u)" for mode v u
      using that by (auto simp: first_broker_def open_broker_def port_text_def int_env_def thenM_def liftR_def bindM_def gets_def
          ret_def try_except_def split: option.splits prod.splits sum.splits if_splits)
    with assms that show ?thesis
      by (auto simp: startup_def ret_def try_except_def bindM_def split: sum.splits if_splits prod.splits)
  qed
  have started: "case x of (mode, broker, factory) \<Rightarrow> mode \<in> {''paper'', ''live'', ''dryrun''}
      \<and> (mode \<in> {''paper'', ''live''} \<longrightarrow> (\<exists>port v v'. broker = Some (ibkr_provider api (default_conn port))
        \<and> connect api (default_conn port) v = (Inr (), v') \<and> ib u = ib v'))" if "r = Inr (Inr x)" for x
  proof -
    obtain mode broker factory where x: "x = (mode, broker, factory)" by (metis prod_cases3)
    from startup_started [of api fresh w mode broker factory u] assms that x show ?thesis
      by (simp add: valid_modes_def live_modes_def)
  qed
  show ?thesis
    using assms frameD [OF frame_startup(1) assms] frameD [OF frame_startup(2) assms] code started
    by (auto simp: main_def split: sum.split)
qed

lemma bot_process_ends_witness:
  "\<exists>r u. main demo_env paper_api 0 3 ((boot_world 0)\<lparr>stop_at := Some 130000\<rparr>) = Some (r, u)
     \<and> rows (trades (db u)) = []"
  using bot_process_ends [of "(boot_world 0)\<lparr>stop_at := Some 130000\<rparr>" 130000 demo_env paper_api 0]
  by (simp add: boot_world_def empty_db_def empty_table_def)

definition live_world :: "nat world" where
  "live_world = (boot_world 0)\<lparr>db := empty_db\<lparr>settings := [\<lparr>s_key = ''TRADING_MODE'', s_value = ''Live'',
     s_description = None, s_updated = 0\<rparr>]\<rparr>\<rparr>"

lemma bot_start_fail_closed_witness:
  "db (snd (startup paper_api 0 live_world)) = db live_world \<and> outbox (snd (startup paper_api 0 live_world)) = []"
proof -
  obtain r u where run: "startup paper_api 0 live_world = (r, u)" by force
  from bot_start_fail_closed [OF run] run show ?thesis by (simp add: live_world_def boot_world_def)
qed

end
