(* ===== verification/Seed.thy ===== *)
theory Seed
  imports Bot_Main
begin

text \<open>
  The default settings and the script that stores them, \<open>db/seed.py\<close>.  In the descriptions the signs
  for "at least", "at most", "times" and the dashes are written in ASCII.
\<close>

section \<open>The defaults\<close>

definition mode_defaults :: "(string \<times> string \<times> string) list" where
  "mode_defaults =
    [(''TRADING_MODE'', ''dryrun'',
      ''Trading mode: 'dryrun' (log only), 'paper' (IBKR paper account), or 'live'.''),
     (''DRYRUN_WATCHLIST'', ''SPY,AAPL,MSFT,NVDA,TSLA'',
      ''Comma-separated watchlist for dryrun mode (replaces the universe scan). Leave empty to'' @
      '' skip signal generation in dryrun.'')]"

definition timing_defaults :: "(string \<times> string \<times> string) list" where
  "timing_defaults =
    [(''EOD_CLOSE_MINUTES'', ''15'',
      ''Minutes before market close to start closing all open positions.''),
     (''MARKET_OPEN_BUFFER_MINUTES'', ''5'',
      ''Minutes after market open to wait before entering new positions (avoids opening-bell '' @
      ''volatility).'')]"

definition universe_defaults :: "(string \<times> string \<times> string) list" where
  "universe_defaults =
    [(''UNIVERSE_MAX_SYMBOLS'', ''10'',
      ''Watchlist size: number of symbols returned by the daily universe scan. In autonomous '' @
      ''mode only the top-1 is traded; in approval mode the user picks from this list.''),
     (''UNIVERSE_APPROVAL_MODE'', ''autonomous'',
      ''Universe selection mode: 'autonomous' (bot trades the highest-scored symbol '' @
      ''automatically) or 'approval' (user picks from the watchlist via the web dashboard '' @
      ''before trading starts).''),
     (''UNIVERSE_MIN_AVG_VOLUME'', ''500000'',
      ''Minimum 20-day average daily volume for a symbol to enter the universe.''),
     (''UNIVERSE_MIN_PRICE'', ''5.0'',
      ''Minimum share price (USD) for universe inclusion.''),
     (''UNIVERSE_MAX_PRICE'', ''500.0'',
      ''Maximum share price (USD) for universe inclusion.''),
     (''UNIVERSE_POOL'', ''SPY,QQQ,IWM,DIA,XLF,XLK,XLE,XLV,GLD,AAPL,MSFT,NVDA,GOOGL,AMZN,META,TSLA,AMD,AVGO,QCOM,'' @
      ''INTC,CRM,ADBE,ORCL,NFLX,JPM,BAC,GS,MS,V,MA,JNJ,UNH,LLY,PFE,TMO,HD,WMT,COST,NKE,SBUX,MC'' @
      ''D,CVX,XOM,COP,CAT,BA,GE,HON'',
      ''Comma-separated list of candidate symbols scanned daily by the universe scanner. Edit '' @
      ''via the web dashboard to customise the opportunity set.''),
     (''UNIVERSE_BARS_HISTORY'', ''250'',
      ''Number of daily bars fetched per symbol. Must be >= 210 (SMA-200 needs 200 bars plus a'' @
      '' safety margin).'')]"

definition criteria_defaults :: "(string \<times> string \<times> string) list" where
  "criteria_defaults =
    [(''UNIVERSE_EMA9_PERIOD'', ''9'',
      ''Period for the short-term EMA (price momentum indicator).''),
     (''UNIVERSE_SMA50_PERIOD'', ''50'',
      ''Period for the medium-term SMA (trend confirmation).''),
     (''UNIVERSE_SMA200_PERIOD'', ''200'',
      ''Period for the long-term SMA (macro trend filter).''),
     (''UNIVERSE_VOLUME_MA_PERIOD'', ''20'',
      ''Period for the volume moving average used as the 'average volume' baseline.''),
     (''UNIVERSE_HH_HL_LOOKBACK'', ''20'',
      ''Number of daily bars used to detect higher-highs / higher-lows structure.''),
     (''UNIVERSE_BODY_RATIO_MIN'', ''0.60'',
      ''Minimum candle body-to-range ratio to classify a candle as 'strong bullish'. Range '' @
      ''0-1; default 0.60 means body >= 60 % of the high-low range.''),
     (''UNIVERSE_WICK_RATIO_MAX'', ''0.30'',
      ''Maximum upper-wick-to-range ratio to classify a candle as having 'small rejection'. '' @
      ''Range 0-1; default 0.30 means upper wick <= 30 % of range.''),
     (''UNIVERSE_NEAR_RESISTANCE_PCT'', ''2.0'',
      ''A symbol is 'near resistance' when its last close is within this many percent below '' @
      ''the most recent swing-high (breakout candidate signal).''),
     (''UNIVERSE_MOMENTUM_GAP_PCT'', ''0.5'',
      ''Minimum gap-up percentage (today open vs. prior close) that counts as a momentum / '' @
      ''pre-market signal.''),
     (''UNIVERSE_MOMENTUM_5D_RETURN_PCT'', ''5.0'',
      ''Minimum 5-day price return (%) that counts as strong momentum, in addition to the gap-'' @
      ''up check.'')]"

definition claude_defaults :: "(string \<times> string \<times> string) list" where
  "claude_defaults =
    [(''CLAUDE_MODEL'', ''claude-sonnet-4-6'',
      ''Claude model used for signal confirmation and universe selection. Change to a '' @
      ''different model ID (e.g. 'claude-haiku-4-5-20251001') to reduce cost or latency.'')]"

definition ml_defaults :: "(string \<times> string \<times> string) list" where
  "ml_defaults =
    [(''ML_FORWARD_BARS'', ''6'',
      ''Number of 5-min bars ahead used to compute the training label (6 bars = 30 min forward'' @
      '' return).''),
     (''ML_LONG_THRESHOLD_PCT'', ''0.3'',
      ''Minimum forward return (%) to assign the 'long' label during training.''),
     (''ML_SHORT_THRESHOLD_PCT'', ''0.3'',
      ''Minimum forward drop (%) to assign the 'short' label during training.''),
     (''ML_MIN_PROBABILITY'', ''0.55'',
      ''Minimum predicted class probability required to act on a LightGBM signal. Predictions '' @
      ''below this threshold are treated as 'no_trade'.'')]"

definition sizing_defaults :: "(string \<times> string \<times> string) list" where
  "sizing_defaults =
    [(''POSITION_SIZING_METHOD'', ''fixed_pct'',
      ''Position sizing method: 'fixed_pct', 'fixed_amount', or 'kelly'.''),
     (''POSITION_SIZE_PCT'', ''2.0'',
      ''Capital allocated per trade as a percentage of total portfolio value. Used when '' @
      ''POSITION_SIZING_METHOD is 'fixed_pct'.''),
     (''POSITION_SIZE_AMOUNT'', ''5000.0'',
      ''Fixed dollar amount per trade. Used when POSITION_SIZING_METHOD is 'fixed_amount'.''),
     (''POSITION_MAX_PCT'', ''5.0'',
      ''Hard cap: maximum capital in a single position as a percentage of portfolio value, '' @
      ''regardless of sizing method.'')]"

definition risk_defaults :: "(string \<times> string \<times> string) list" where
  "risk_defaults =
    [(''CIRCUIT_BREAKER_DAILY_LOSS_PCT'', ''3.0'',
      ''Halt all trading for the day when daily P&L loss exceeds this percentage of portfolio '' @
      ''value.''),
     (''CIRCUIT_BREAKER_CONSECUTIVE_LOSSES'', ''5'',
      ''Halt all trading for the day after this many consecutive losing trades.''),
     (''STOP_LOSS_PCT'', ''1.0'',
      ''ATR multiplier for stop-loss distance (e.g. 1.0 = 1x ATR below entry for longs, above '' @
      ''entry for shorts).''),
     (''TAKE_PROFIT_PCT'', ''2.0'',
      ''ATR multiplier for take-profit distance (e.g. 2.0 = 2x ATR above entry for longs, '' @
      ''below entry for shorts).'')]"

definition gap_defaults :: "(string \<times> string \<times> string) list" where
  "gap_defaults =
    [(''GAP_FILTER_MAX_PCT'', ''3.0'',
      ''Exclude symbols with an expected opening gap larger than this percentage (earnings, '' @
      ''news events, etc.).'')]"

definition order_defaults :: "(string \<times> string \<times> string) list" where
  "order_defaults =
    [(''ORDER_FILL_TIMEOUT_SECONDS'', ''60'',
      ''Cancel or convert to market order if a limit order is unfilled after this many '' @
      ''seconds.'')]"

definition alert_defaults :: "(string \<times> string \<times> string) list" where
  "alert_defaults =
    [(''ALERTS_EMAIL_ENABLED'', ''false'',
      ''Send email alerts for circuit breaker trips, connection loss, and daily P&L summaries.''),
     (''ALERTS_EMAIL_FROM'', '''',
      ''Sender address for email alerts.''),
     (''ALERTS_EMAIL_TO'', '''',
      ''Recipient address for email alerts.''),
     (''ALERTS_SMTP_HOST'', ''smtp.gmail.com'',
      ''SMTP server hostname.''),
     (''ALERTS_SMTP_PORT'', ''587'',
      ''SMTP server port.''),
     (''ALERTS_WEBHOOKS_ENABLED'', ''false'',
      ''Enable HTTP webhook dispatch for trade events.''),
     (''ALERTS_WEBHOOK_URL'', '''',
      ''HTTP endpoint that receives POST requests for trade events. Only used when '' @
      ''ALERTS_WEBHOOKS_ENABLED is true.'')]"

definition defaults :: "(string \<times> string \<times> string) list" where
  "defaults = mode_defaults @ timing_defaults @ universe_defaults @ criteria_defaults @ claude_defaults @ ml_defaults @
     sizing_defaults @ risk_defaults @ gap_defaults @ order_defaults @ alert_defaults"

section \<open>Seeding\<close>

definition default_row :: "int \<Rightarrow> string \<times> string \<times> string \<Rightarrow> setting" where
  "default_row now e = (case e of (key, value, descr) \<Rightarrow>
     \<lparr>s_key = key, s_value = value, s_description = Some descr, s_updated = now\<rparr>)"

text \<open>The rows that are missing; the keys there are read once, before the loop.\<close>

definition missing_rows :: "int \<Rightarrow> setting list \<Rightarrow> setting list" where
  "missing_rows now ss = map (default_row now) (filter (\<lambda>e. fst e \<notin> s_key ` set ss) defaults)"

text \<open>The numbers of inserted and skipped settings; the commit fails when two rows have the same key.\<close>

definition seed :: "('ib world, nat \<times> nat) M" where
  "seed = bindM (gets clock) (\<lambda>now. with_session (\<lambda>d.
     let new = missing_rows now (settings d) in
     if distinct (map s_key new)
     then (Inr (length new, length defaults - length new), d\<lparr>settings := settings d @ new\<rparr>)
     else (Inl DbError, d)))"

section \<open>Properties\<close>

lemma distinct_defaults: "distinct (map fst defaults)"
  by code_simp

lemma length_defaults: "length defaults = 43"
  by code_simp

lemma key_default_row [simp]: "s_key (default_row now e) = fst e"
  by (cases e) (simp add: default_row_def)

lemma keys_missing: "map s_key (missing_rows now ss) = filter (\<lambda>k. k \<notin> s_key ` set ss) (map fst defaults)"
  by (simp add: missing_rows_def comp_def filter_map case_prod_beta)

lemma distinct_missing: "distinct (map s_key (missing_rows now ss))"
  unfolding keys_missing using distinct_defaults by (rule distinct_filter)

lemma seed_runs:
  assumes "db_up w (db_calls w)"
  shows "seed w = (Inr (length (missing_rows (clock w) (settings (db w))), length defaults - length (missing_rows (clock w) (settings (db w)))),
    w\<lparr>db_calls := Suc (db_calls w), db := (db w)\<lparr>settings := settings (db w) @ missing_rows (clock w) (settings (db w))\<rparr>\<rparr>)"
  using assms distinct_missing by (simp add: seed_def bindM_def gets_def with_session_def Let_def)

text \<open>Seeding adds a row with its default for every key that is not in the table and leaves every row
  that is there as it is, also when its value differs from the default; a second run adds nothing.\<close>

theorem seed_idempotent:
  assumes "db_reliable w"
  shows "\<exists>n u. seed w = (Inr (n, 43 - n), u)
    \<and> (\<exists>new. settings (db u) = settings (db w) @ new \<and> length new = n
         \<and> map s_key new = filter (\<lambda>k. k \<notin> s_key ` set (settings (db w))) (map fst defaults)
         \<and> (\<forall>s \<in> set new. map_of defaults (s_key s) = Some (s_value s, the (s_description s))))
    \<and> set (map fst defaults) \<subseteq> s_key ` set (settings (db u))
    \<and> (\<exists>v. seed u = (Inr (0, 43), v) \<and> db v = db u)"
proof -
  let ?new = "missing_rows (clock w) (settings (db w))"
  let ?u = "w\<lparr>db_calls := Suc (db_calls w), db := (db w)\<lparr>settings := settings (db w) @ ?new\<rparr>\<rparr>"
  have run: "seed w = (Inr (length ?new, 43 - length ?new), ?u)"
    using seed_runs [of w] assms by (simp add: db_reliable_def length_defaults)
  have rows: "map_of defaults (s_key s) = Some (s_value s, the (s_description s))" if "s \<in> set ?new" for s
    using that map_of_is_SomeI [OF distinct_defaults] by (auto simp: missing_rows_def default_row_def)
  have keys: "s_key ` set ?new = {k \<in> set (map fst defaults). k \<notin> s_key ` set (settings (db w))}"
    using arg_cong [OF keys_missing [of "clock w" "settings (db w)"], of set] by simp
  then have all: "set (map fst defaults) \<subseteq> s_key ` set (settings (db ?u))" by auto
  then have "filter (\<lambda>k. k \<notin> s_key ` set (settings (db ?u))) (map fst defaults) = []"
    unfolding filter_empty_conv by blast
  then have none: "missing_rows (clock ?u) (settings (db ?u)) = []"
    using keys_missing [of "clock ?u" "settings (db ?u)"] by simp
  have "seed ?u = (Inr (0, 43), ?u\<lparr>db_calls := Suc (db_calls ?u)\<rparr>)"
    using seed_runs [of ?u] none assms by (simp add: db_reliable_def length_defaults)
  with run rows all show ?thesis
    by (intro exI [of _ "length ?new"] exI [of _ ?u]) (auto simp: keys_missing)
qed

text \<open>What the components fall back to when a key is not in the table, as their calls pass it.\<close>

definition trading_fallbacks :: "(string \<times> cast \<times> pyval) list" where
  "trading_fallbacks = [(''TRADING_MODE'', CStr, VStr ''dryrun''), (''EOD_CLOSE_MINUTES'', CInt, VInt 15),
     (''MARKET_OPEN_BUFFER_MINUTES'', CInt, VInt 5), (''ORDER_FILL_TIMEOUT_SECONDS'', CInt, VInt 60),
     (''ML_MIN_PROBABILITY'', CFloat, VFloat (Fin (55/100))), (''ML_FORWARD_BARS'', CStr, VStr ''6''),
     (''ML_LONG_THRESHOLD_PCT'', CStr, VStr ''0.3''), (''ML_SHORT_THRESHOLD_PCT'', CStr, VStr ''0.3''),
     (''CLAUDE_MODEL'', CStr, VStr ''claude-sonnet-4-6''), (''STOP_LOSS_PCT'', CStr, VStr ''1.0''),
     (''TAKE_PROFIT_PCT'', CStr, VStr ''2.0''), (''GAP_FILTER_MAX_PCT'', CStr, VStr ''3.0'')]"

definition risk_fallbacks :: "(string \<times> cast \<times> pyval) list" where
  "risk_fallbacks = [(''POSITION_SIZING_METHOD'', CStr, VStr ''fixed_pct''), (''POSITION_SIZE_PCT'', CFloat, VFloat (Fin 2)),
     (''POSITION_SIZE_AMOUNT'', CFloat, VFloat (Fin 5000)), (''POSITION_MAX_PCT'', CFloat, VFloat (Fin 5)),
     (''CIRCUIT_BREAKER_DAILY_LOSS_PCT'', CFloat, VFloat (Fin 3)), (''CIRCUIT_BREAKER_CONSECUTIVE_LOSSES'', CInt, VInt 5),
     (''ALERTS_EMAIL_ENABLED'', CBool, VBool False), (''ALERTS_WEBHOOKS_ENABLED'', CBool, VBool False),
     (''ALERTS_EMAIL_FROM'', CStr, VStr ''''), (''ALERTS_EMAIL_TO'', CStr, VStr ''''),
     (''ALERTS_SMTP_HOST'', CStr, VStr ''smtp.gmail.com''), (''ALERTS_SMTP_PORT'', CInt, VInt 587),
     (''ALERTS_WEBHOOK_URL'', CStr, VStr '''')]"

definition scan_fallbacks :: "(string \<times> cast \<times> pyval) list" where
  "scan_fallbacks = [(''UNIVERSE_POOL'', CStr, VStr default_pool), (''UNIVERSE_APPROVAL_MODE'', CStr, VStr ''autonomous''),
     (''UNIVERSE_MIN_PRICE'', CFloat, VFloat (n_min_price default_scan_config)),
     (''UNIVERSE_MAX_PRICE'', CFloat, VFloat (n_max_price default_scan_config)),
     (''UNIVERSE_MIN_AVG_VOLUME'', CFloat, VFloat (n_min_avg_volume default_scan_config)),
     (''UNIVERSE_MAX_SYMBOLS'', CInt, VInt (n_results default_scan_config)),
     (''UNIVERSE_BARS_HISTORY'', CInt, VInt (n_bars_history default_scan_config))]"

definition criteria_fallbacks :: "(string \<times> cast \<times> pyval) list" where
  "criteria_fallbacks = [(''UNIVERSE_EMA9_PERIOD'', CInt, VInt (k_ema9_period default_criteria)),
     (''UNIVERSE_SMA50_PERIOD'', CInt, VInt (k_sma50_period default_criteria)),
     (''UNIVERSE_SMA200_PERIOD'', CInt, VInt (k_sma200_period default_criteria)),
     (''UNIVERSE_VOLUME_MA_PERIOD'', CInt, VInt (k_volume_ma_period default_criteria)),
     (''UNIVERSE_HH_HL_LOOKBACK'', CInt, VInt (k_hh_hl_lookback default_criteria)),
     (''UNIVERSE_BODY_RATIO_MIN'', CFloat, VFloat (k_body_ratio_min default_criteria)),
     (''UNIVERSE_WICK_RATIO_MAX'', CFloat, VFloat (k_wick_ratio_max default_criteria)),
     (''UNIVERSE_NEAR_RESISTANCE_PCT'', CFloat, VFloat (k_near_resistance_pct default_criteria)),
     (''UNIVERSE_MOMENTUM_GAP_PCT'', CFloat, VFloat (k_momentum_gap_pct default_criteria)),
     (''UNIVERSE_MOMENTUM_5D_RETURN_PCT'', CFloat, VFloat (k_momentum_5d_return_pct default_criteria))]"

definition code_fallbacks :: "(string \<times> cast \<times> pyval) list" where
  "code_fallbacks = trading_fallbacks @ risk_fallbacks @ scan_fallbacks @ criteria_fallbacks"

definition default_values :: "(string \<times> string) list" where
  "default_values = map (\<lambda>e. (fst e, fst (snd e))) defaults"

definition fallback_seeded :: "string \<times> cast \<times> pyval \<Rightarrow> bool" where
  "fallback_seeded e = (case e of (key, c, d) \<Rightarrow>
     (case map_of default_values key of Some raw \<Rightarrow> cast_value raw c = Inr d | None \<Rightarrow> False))"

lemmas default_values_list = default_values_def [unfolded defaults_def mode_defaults_def timing_defaults_def universe_defaults_def
  criteria_defaults_def claude_defaults_def ml_defaults_def sizing_defaults_def risk_defaults_def gap_defaults_def
  order_defaults_def alert_defaults_def, simplified]

lemmas parse_defs = parse_float_def strip_def is_space_def py_lower_def lower_char_def sign_of_def parse_decimal_def
  parse_exponent_def is_digit_def digit_val_def pow10_def parse_int_def bool_true_def

lemma trading_seeded: "list_all fallback_seeded trading_fallbacks"
  by (simp add: trading_fallbacks_def default_values_list parse_defs fallback_seeded_def)

lemma risk_seeded: "list_all fallback_seeded risk_fallbacks"
  by (simp add: risk_fallbacks_def default_values_list parse_defs fallback_seeded_def)

lemma scan_seeded: "list_all fallback_seeded scan_fallbacks"
  by (simp add: scan_fallbacks_def default_values_list parse_defs fallback_seeded_def default_pool_def default_scan_config_def
      make_scan_config_def min_bars_def)

lemma criteria_seeded: "list_all fallback_seeded criteria_fallbacks"
  by (simp add: criteria_fallbacks_def default_values_list parse_defs fallback_seeded_def default_criteria_def)

lemma table_value_seeded: "table_value (d\<lparr>settings := missing_rows now []\<rparr>) = map_of default_values"
proof -
  have "map (\<lambda>s. (s_key s, s_value s)) (missing_rows now []) = default_values"
    by (auto simp: missing_rows_def default_row_def default_values_def)
  moreover have "distinct (map fst default_values)"
    using distinct_defaults by (simp add: default_values_def comp_def)
  then have "map_of (rev default_values) = map_of default_values"
    by (subst map_of_inject_set) (simp_all add: rev_map [symmetric])
  ultimately show ?thesis by (simp add: table_value_def)
qed


lemma seed_idempotent_witness:
  "\<exists>n u. seed live_world = (Inr (n, 43 - n), u) \<and> hd (settings (db u)) = hd (settings (db live_world))"
proof -
  have "db_reliable live_world" by (simp add: db_reliable_def live_world_def boot_world_def)
  from seed_idempotent [OF this] show ?thesis by (auto simp: live_world_def)
qed


end
