(* ===== verification/Session.thy ===== *)
theory Session
  imports World
begin

text \<open>
  The connection data of \<open>db/session.py\<close> and \<open>db/migrations/env.py\<close>, and the session factory that is
  created on first use.  Several threads may ask for it at the same time; what each of them does between
  two accesses to the shared variables is one step of the relation \<open>factory_step\<close>.
\<close>

section \<open>The database URL\<close>

record db_url =
  url_user :: string
  url_password :: string
  url_host :: string
  url_port :: int
  url_database :: string

definition env_or :: "(string \<Rightarrow> string option) \<Rightarrow> string \<Rightarrow> string \<Rightarrow> string" where
  "env_or env k dflt = (case env k of Some v \<Rightarrow> v | None \<Rightarrow> dflt)"

definition parse_port :: "(string \<Rightarrow> string option) \<Rightarrow> int" where
  "parse_port env = (case parse_int (env_or env ''DB_PORT'' ''3306'') of Some n \<Rightarrow> n | None \<Rightarrow> 3306)"

definition url_with_port :: "(string \<Rightarrow> string option) \<Rightarrow> int \<Rightarrow> db_url" where
  "url_with_port env port = \<lparr>url_user = env_or env ''DB_USER'' ''ibkr_trader'', url_password = env_or env ''DB_PASSWORD'' '''',
     url_host = env_or env ''DB_HOST'' ''localhost'', url_port = port, url_database = env_or env ''DB_NAME'' ''ibkr_trader''\<rparr>"

definition build_url :: "(string \<Rightarrow> string option) \<Rightarrow> db_url" where
  "build_url env = url_with_port env (parse_port env)"

text \<open>
  The migrations build the URL themselves and hand Alembic its text; \<open>render hide url\<close> stands for
  SQLAlchemy's \<open>render_as_string(hide_password=hide)\<close>.
\<close>

definition migration_url :: "(bool \<Rightarrow> db_url \<Rightarrow> string) \<Rightarrow> (string \<Rightarrow> string option) \<Rightarrow> string res" where
  "migration_url render env = (case parse_int (env_or env ''DB_PORT'' ''3306'') of
       None \<Rightarrow> Inl ValueError
     | Some n \<Rightarrow> Inr (render True (url_with_port env n)))"

text \<open>What the option is documented to do: the password is replaced by a fixed mask.\<close>

definition masks_password :: "(bool \<Rightarrow> db_url \<Rightarrow> string) \<Rightarrow> bool" where
  "masks_password render \<longleftrightarrow> (\<forall>u p. render True (u\<lparr>url_password := p\<rparr>) = render True u)"

text \<open>The migrations cannot log in with the configured password: the text they connect with is the same for every
  \<open>DB_PASSWORD\<close>, while the URL of the bot carries it.  They also reject a \<open>DB_PORT\<close> that is not a
  number, for which the bot falls back to 3306.\<close>

theorem migration_url_masks_password:
  assumes "masks_password render"
  shows "migration_url render (env(''DB_PASSWORD'' \<mapsto> p)) = migration_url render env
    \<and> url_password (build_url (env(''DB_PASSWORD'' \<mapsto> p))) = p
    \<and> (parse_int (env_or env ''DB_PORT'' ''3306'') = None \<longrightarrow>
        migration_url render env = Inl ValueError \<and> url_port (build_url env) = 3306)
    \<and> (\<forall>n. parse_int (env_or env ''DB_PORT'' ''3306'') = Some n \<longrightarrow>
        migration_url render env = Inr (render True (build_url env)))"
proof -
  let ?env = "env(''DB_PASSWORD'' \<mapsto> p)"
  have same: "env_or ?env k d = env_or env k d" if "k \<noteq> ''DB_PASSWORD''" for k d using that by (simp add: env_or_def)
  have "url_with_port ?env n = (url_with_port env n)\<lparr>url_password := p\<rparr>" for n
    by (simp add: url_with_port_def same) (simp add: env_or_def)
  then have "render True (url_with_port ?env n) = render True (url_with_port env n)" for n
    using assms by (simp add: masks_password_def)
  then have "migration_url render ?env = migration_url render env" by (simp add: migration_url_def same split: option.split)
  moreover have "url_password (build_url ?env) = p" by (simp add: build_url_def url_with_port_def env_or_def)
  ultimately show ?thesis by (auto simp: migration_url_def build_url_def parse_port_def url_with_port_def)
qed

definition render_demo :: "bool \<Rightarrow> db_url \<Rightarrow> string" where
  "render_demo hide u = url_user u @ '':'' @ (if hide then ''***'' else url_password u) @ ''@'' @ url_host u"

lemma migration_url_masks_password_witness:
  "migration_url render_demo [''DB_PASSWORD'' \<mapsto> ''secret''] = migration_url render_demo (\<lambda>_. None)
   \<and> url_password (build_url [''DB_PASSWORD'' \<mapsto> ''secret'']) = ''secret''"
  using migration_url_masks_password [of render_demo "\<lambda>_. None" "''secret''"]
  by (simp add: masks_password_def render_demo_def)

section \<open>The session factory\<close>

text \<open>Where a thread is within \<open>_get_session_factory\<close>.  A factory is the number of its creation.\<close>

datatype factory_pc =
    Entering | Waiting | Locked | Creating | Created nat | Leaving | Returned nat | Raised exc

record factory =
  made :: nat
  session_local :: "nat option"
  lock_owner :: "nat option"
  thread_pc :: "nat \<Rightarrow> factory_pc"

definition fresh_factory :: factory where
  "fresh_factory = \<lparr>made = 0, session_local = None, lock_owner = None, thread_pc = (\<lambda>_. Entering)\<rparr>"

definition goto :: "nat \<Rightarrow> factory_pc \<Rightarrow> factory \<Rightarrow> factory" where
  "goto t p s = s\<lparr>thread_pc := (thread_pc s)(t := p)\<rparr>"

text \<open>\<open>create_engine\<close> may raise; \<open>with _lock\<close> releases the lock then, too.\<close>

inductive factory_step :: "nat \<Rightarrow> factory \<Rightarrow> factory \<Rightarrow> bool" where
  fast: "thread_pc s t = Entering \<Longrightarrow> session_local s = Some f \<Longrightarrow> factory_step t s (goto t (Returned f) s)"
| slow: "thread_pc s t = Entering \<Longrightarrow> session_local s = None \<Longrightarrow> factory_step t s (goto t Waiting s)"
| acquire: "thread_pc s t = Waiting \<Longrightarrow> lock_owner s = None \<Longrightarrow>
    factory_step t s (goto t Locked (s\<lparr>lock_owner := Some t\<rparr>))"
| present: "thread_pc s t = Locked \<Longrightarrow> session_local s = Some f \<Longrightarrow> factory_step t s (goto t Leaving s)"
| missing: "thread_pc s t = Locked \<Longrightarrow> session_local s = None \<Longrightarrow> factory_step t s (goto t Creating s)"
| create: "thread_pc s t = Creating \<Longrightarrow>
    factory_step t s (goto t (Created (made s)) (s\<lparr>made := Suc (made s)\<rparr>))"
| raises: "thread_pc s t = Creating \<Longrightarrow> factory_step t s (goto t (Raised e) (s\<lparr>lock_owner := None\<rparr>))"
| publish: "thread_pc s t = Created f \<Longrightarrow> factory_step t s (goto t Leaving (s\<lparr>session_local := Some f\<rparr>))"
| leave: "thread_pc s t = Leaving \<Longrightarrow> session_local s = Some f \<Longrightarrow>
    factory_step t s (goto t (Returned f) (s\<lparr>lock_owner := None\<rparr>))"

inductive factory_run :: "factory \<Rightarrow> bool" where
  init: "factory_run fresh_factory"
| step: "factory_run s \<Longrightarrow> factory_step t s u \<Longrightarrow> factory_run u"

fun inside :: "factory_pc \<Rightarrow> bool" where
  "inside Locked = True"
| "inside Creating = True"
| "inside (Created _) = True"
| "inside Leaving = True"
| "inside _ = False"

text \<open>The lock is held by the one thread inside, and a factory that exists is the first one.\<close>

definition pc_ok :: "factory \<Rightarrow> factory_pc \<Rightarrow> bool" where
  "pc_ok s p \<longleftrightarrow> (case p of
       Creating \<Rightarrow> session_local s = None \<and> made s = 0
     | Created f \<Rightarrow> session_local s = None \<and> f = 0 \<and> made s = 1
     | Leaving \<Rightarrow> session_local s = Some 0
     | Returned f \<Rightarrow> session_local s = Some f
     | _ \<Rightarrow> True)"

definition globals_ok :: "factory \<Rightarrow> bool" where
  "globals_ok s \<longleftrightarrow> (session_local s = None \<or> session_local s = Some 0 \<and> made s = 1)
     \<and> (session_local s = None \<and> made s \<noteq> 0 \<longrightarrow> (\<exists>t f. thread_pc s t = Created f))"

definition factory_inv :: "factory \<Rightarrow> bool" where
  "factory_inv s \<longleftrightarrow> (\<forall>t. inside (thread_pc s t) \<longleftrightarrow> lock_owner s = Some t) \<and> (\<forall>t. pc_ok s (thread_pc s t)) \<and> globals_ok s"

lemma pc_goto [simp]: "thread_pc (goto t p s) v = (if v = t then p else thread_pc s v)" "made (goto t p s) = made s"
    "session_local (goto t p s) = session_local s" "lock_owner (goto t p s) = lock_owner s"
  by (simp_all add: goto_def)

lemma pc_ok_goto [simp]: "pc_ok (goto t p s) q = pc_ok s q" "pc_ok (s\<lparr>lock_owner := l\<rparr>) q = pc_ok s q"
  by (simp_all add: pc_ok_def split: factory_pc.split)

text \<open>A step of the thread that holds the lock.\<close>

lemma inside_step_inv:
  assumes inv: "factory_inv s" and t: "inside (thread_pc s t)" and pcs: "thread_pc u = thread_pc s"
    and lock: "lock_owner u = (if inside p then Some t else None)" and p: "pc_ok u p"
    and keep: "\<And>f. session_local s = Some f \<Longrightarrow> session_local u = Some f"
    and globals: "globals_ok (goto t p u)"
  shows "factory_inv (goto t p u)"
proof -
  have out: "\<not> inside (thread_pc s v)" if "v \<noteq> t" for v using inv t that by (auto simp: factory_inv_def)
  have "pc_ok u (thread_pc s v)" if "v \<noteq> t" for v
  proof -
    have "pc_ok s (thread_pc s v)" using inv by (simp add: factory_inv_def)
    with out [OF that] keep show ?thesis by (cases "thread_pc s v") (simp_all add: pc_ok_def)
  qed
  with out p lock globals show ?thesis by (simp add: factory_inv_def pcs)
qed

text \<open>A step of a thread that does not, and that touches nothing shared.\<close>

lemma outside_step_inv:
  assumes inv: "factory_inv s" and "\<not> inside (thread_pc s t)" "\<not> inside p" "pc_ok s p"
  shows "factory_inv (goto t p s)"
proof -
  have "globals_ok (goto t p s)" using assms by (auto simp: factory_inv_def globals_ok_def) (metis inside.simps(3))
  with assms show ?thesis by (simp add: factory_inv_def)
qed

lemma factory_step_inv: "factory_step t s u \<Longrightarrow> factory_inv s \<Longrightarrow> factory_inv u"
proof (induction rule: factory_step.induct)
  case (fast s t f)
  then show ?case by (intro outside_step_inv) (simp_all add: pc_ok_def)
next
  case (slow s t)
  then show ?case by (intro outside_step_inv) (simp_all add: pc_ok_def)
next
  case (acquire s t)
  then have "globals_ok (goto t Locked (s\<lparr>lock_owner := Some t\<rparr>))"
    by (auto simp: factory_inv_def globals_ok_def) (metis inside.simps(3))
  moreover have "pc_ok s Locked" by (simp add: pc_ok_def)
  ultimately show ?case using acquire by (simp add: factory_inv_def)
next
  case (present s t f)
  then have ok: "lock_owner s = Some t" "globals_ok s" by (auto simp: factory_inv_def)
  with present show ?case by (intro inside_step_inv) (auto simp: pc_ok_def globals_ok_def)
next
  case (missing s t)
  have owner: "lock_owner s = Some v" if "inside (thread_pc s v)" for v using missing that by (simp add: factory_inv_def)
  have "thread_pc s v \<noteq> Created f" for v f using owner [of t] owner [of v] missing(1) by auto
  then have "made s = 0" using missing by (auto simp: factory_inv_def globals_ok_def)
  with missing owner [of t] show ?case by (intro inside_step_inv [of s]) (auto simp: pc_ok_def globals_ok_def)
next
  case (create s t)
  then have "lock_owner s = Some t" "session_local s = None" "made s = 0"
    by (auto simp: factory_inv_def pc_ok_def split: factory_pc.splits dest!: spec [of _ t])
  with create show ?case by (intro inside_step_inv [of s]) (auto simp: pc_ok_def globals_ok_def)
next
  case (raises s t e)
  then have "session_local s = None" "made s = 0"
    by (auto simp: factory_inv_def pc_ok_def split: factory_pc.splits dest!: spec [of _ t])
  with raises show ?case by (intro inside_step_inv [of s]) (auto simp: pc_ok_def globals_ok_def)
next
  case (publish s t f)
  then have "lock_owner s = Some t" "session_local s = None" "made s = 1" "f = 0"
    by (auto simp: factory_inv_def pc_ok_def split: factory_pc.splits dest!: spec [of _ t])
  with publish show ?case by (intro inside_step_inv [of s]) (auto simp: pc_ok_def globals_ok_def)
next
  case (leave s t f)
  then have "globals_ok s" by (simp add: factory_inv_def)
  with leave show ?case by (intro inside_step_inv [of s]) (auto simp: pc_ok_def globals_ok_def)
qed

lemma factory_run_inv: "factory_run s \<Longrightarrow> factory_inv s"
proof (induction rule: factory_run.induct)
  case init
  then show ?case by (simp add: factory_inv_def pc_ok_def globals_ok_def fresh_factory_def)
qed (rule factory_step_inv)

definition finished_pc :: "factory_pc \<Rightarrow> bool" where
  "finished_pc p \<longleftrightarrow> (case p of Returned _ \<Rightarrow> True | Raised _ \<Rightarrow> True | _ \<Rightarrow> False)"

text \<open>A thread that is inside can go on.\<close>

lemma inside_steps:
  assumes "factory_inv s" and "inside (thread_pc s t)"
  shows "\<exists>u. factory_step t s u"
proof (cases "thread_pc s t")
  case Locked
  then show ?thesis by (cases "session_local s") (blast intro: factory_step.present factory_step.missing)+
next
  case Leaving
  with assms(1) have "session_local s = Some 0" by (auto simp: factory_inv_def globals_ok_def pc_ok_def split: factory_pc.splits dest: spec [of _ t])
  with Leaving show ?thesis by (blast intro: factory_step.leave)
qed (use assms in \<open>auto intro: factory_step.create factory_step.publish\<close>)

text \<open>C16: However the threads of the process interleave, the double-checked lock creates at most one engine, every
  thread that returns returns the same factory, and as long as some thread has neither returned nor raised
  some thread can take a step: nobody waits for ever behind a lock that is not released.\<close>

theorem factory_created_once:
  assumes "factory_run s"
  shows "made s \<le> 1
    \<and> (\<forall>t u f g. thread_pc s t = Returned f \<and> thread_pc s u = Returned g \<longrightarrow> f = g)
    \<and> ((\<exists>t. \<not> finished_pc (thread_pc s t)) \<longrightarrow> (\<exists>t u. \<not> finished_pc (thread_pc s t) \<and> factory_step t s u))"
proof -
  have inv: "factory_inv s" using assms by (rule factory_run_inv)
  have ret: "session_local s = Some f" if "thread_pc s t = Returned f" for t f
    using inv that by (auto simp: factory_inv_def globals_ok_def pc_ok_def split: factory_pc.splits dest: spec [of _ t])
  have "made s \<le> 1"
  proof (cases "session_local s")
    case None
    show ?thesis
    proof (rule ccontr)
      assume "\<not> made s \<le> 1"
      then obtain t f where "thread_pc s t = Created f" using inv None by (auto simp: factory_inv_def globals_ok_def)
      with inv \<open>\<not> made s \<le> 1\<close> show False by (auto simp: factory_inv_def globals_ok_def pc_ok_def split: factory_pc.splits dest: spec [of _ t])
    qed
  qed (use inv in \<open>auto simp: factory_inv_def globals_ok_def\<close>)
  moreover have "\<exists>t u. \<not> finished_pc (thread_pc s t) \<and> factory_step t s u" if busy: "\<not> finished_pc (thread_pc s t)" for t
  proof (cases "\<exists>v. inside (thread_pc s v)")
    case True
    then obtain v where v: "inside (thread_pc s v)" by blast
    then have "\<not> finished_pc (thread_pc s v)" by (cases "thread_pc s v") (auto simp: finished_pc_def)
    with inside_steps [OF inv v] show ?thesis by blast
  next
    case False
    then have "lock_owner s = None" using inv by (auto simp: factory_inv_def)
    moreover have "\<not> inside (thread_pc s t)" using False by blast
    ultimately have "\<exists>u. factory_step t s u" using busy
      by (cases "thread_pc s t"; cases "session_local s")
         (auto simp: finished_pc_def intro: factory_step.fast factory_step.slow factory_step.acquire)
    with busy show ?thesis by blast
  qed
  ultimately show ?thesis using ret by (metis option.inject)
qed

lemma two_waiting: "factory_run (goto 1 Waiting (goto 0 Waiting fresh_factory))"
  by (intro factory_run.step [OF factory_run.step [OF factory_run.init factory_step.slow] factory_step.slow])
     (simp_all add: fresh_factory_def goto_def)

lemma factory_created_once_witness:
  "\<exists>t u. factory_step t (goto 1 Waiting (goto 0 Waiting fresh_factory)) u"
proof -
  have "\<not> finished_pc (thread_pc (goto 1 Waiting (goto 0 Waiting fresh_factory)) 0)"
    by (simp add: finished_pc_def goto_def)
  with factory_created_once [OF two_waiting] show ?thesis by blast
qed

end
