(* ===== verification/Schema.thy ===== *)
theory Schema
  imports World
begin

text \<open>
  The database schema twice: as the classes of \<open>db/models.py\<close> declare it and as the migrations of
  \<open>db/migrations/versions\<close> build it.  A migration is its list of \<open>op\<close> calls, run one by one on a schema
  the way a database server runs the statements: creating what exists and dropping what does not fail.
\<close>

section \<open>Schemas\<close>

datatype col_type = SaInteger | SaString nat | SaText | SaFloat | SaBoolean | SaDateTime | SaDate | SaJson

record column =
  c_name :: string
  c_type :: col_type
  c_nullable :: bool
  c_auto :: bool

record index =
  x_name :: string
  x_columns :: "string list"
  x_unique :: bool

record table_def =
  td_columns :: "column list"
  td_key :: "string list"
  td_unique :: "string list list"
  td_indexes :: "index list"

type_synonym schema = "string \<Rightarrow> table_def option"

abbreviation required :: "string \<Rightarrow> col_type \<Rightarrow> column" where
  "required n t \<equiv> \<lparr>c_name = n, c_type = t, c_nullable = False, c_auto = False\<rparr>"

abbreviation nullable :: "string \<Rightarrow> col_type \<Rightarrow> column" where
  "nullable n t \<equiv> \<lparr>c_name = n, c_type = t, c_nullable = True, c_auto = False\<rparr>"

abbreviation auto_id :: column where
  "auto_id \<equiv> \<lparr>c_name = ''id'', c_type = SaInteger, c_nullable = False, c_auto = True\<rparr>"

section \<open>The classes\<close>

text \<open>A mapped column: the column, and whether it is a key, indexed or unique.\<close>

record mapped =
  m_column :: column
  m_key :: bool
  m_index :: bool
  m_unique :: bool

abbreviation plain :: "column \<Rightarrow> mapped" where
  "plain c \<equiv> \<lparr>m_column = c, m_key = False, m_index = False, m_unique = False\<rparr>"

abbreviation key :: "column \<Rightarrow> mapped" where
  "key c \<equiv> \<lparr>m_column = c, m_key = True, m_index = False, m_unique = False\<rparr>"

abbreviation indexed :: "column \<Rightarrow> mapped" where
  "indexed c \<equiv> \<lparr>m_column = c, m_key = False, m_index = True, m_unique = False\<rparr>"

definition log_entry_class :: "mapped list" where
  "log_entry_class = [key auto_id, indexed (required ''timestamp'' SaDateTime), indexed (required ''level'' (SaString 10)),
     indexed (required ''category'' (SaString 20)), plain (required ''module'' (SaString 100)),
     plain (required ''funcName'' (SaString 100)), plain (required ''lineno'' SaInteger),
     plain (required ''message'' SaText), plain (nullable ''extra'' SaJson)]"

definition setting_class :: "mapped list" where
  "setting_class = [key (required ''key'' (SaString 100)), plain (required ''value'' SaText),
     plain (nullable ''description'' SaText), plain (required ''updated_at'' SaDateTime)]"

definition trade_class :: "mapped list" where
  "trade_class = [key auto_id, indexed (required ''symbol'' (SaString 20)), plain (required ''action'' (SaString 10)),
     plain (required ''trading_mode'' (SaString 10)), indexed (required ''status'' (SaString 20)),
     plain (required ''shares'' SaInteger), plain (required ''entry_price'' SaFloat), plain (required ''target_price'' SaFloat),
     plain (required ''stop_price'' SaFloat), plain (nullable ''fill_price'' SaFloat), plain (nullable ''exit_price'' SaFloat),
     plain (nullable ''pnl'' SaFloat), plain (nullable ''ibkr_order_id'' SaInteger), plain (required ''ml_label'' (SaString 20)),
     plain (required ''ml_probability'' SaFloat), plain (required ''confirmed_15min'' SaBoolean),
     plain (nullable ''explanation'' SaText), indexed (required ''created_at'' SaDateTime),
     plain (nullable ''filled_at'' SaDateTime), plain (nullable ''closed_at'' SaDateTime)]"

definition ml_job_class :: "mapped list" where
  "ml_job_class = [key auto_id, plain (required ''job_type'' (SaString 20)), indexed (required ''status'' (SaString 20)),
     plain (required ''started_at'' SaDateTime), plain (nullable ''finished_at'' SaDateTime),
     plain (nullable ''version'' (SaString 40)), plain (nullable ''metrics'' SaJson), plain (nullable ''error'' SaText),
     plain (nullable ''params'' SaJson), plain (nullable ''requested_by'' (SaString 80))]"

definition selection_class :: "mapped list" where
  "selection_class = [key auto_id,
     \<lparr>m_column = required ''scan_date'' SaDate, m_key = False, m_index = True, m_unique = True\<rparr>,
     plain (required ''candidates'' SaJson), plain (nullable ''selected_symbol'' (SaString 20)),
     indexed (required ''status'' (SaString 20)), plain (nullable ''reasoning'' SaText),
     plain (required ''created_at'' SaDateTime), plain (nullable ''decided_at'' SaDateTime),
     plain (nullable ''decided_by'' (SaString 80))]"

text \<open>The table SQLAlchemy derives from a class: an indexed column gets an index named after table and column,
  which is unique when the column is.\<close>

definition table_of :: "string \<Rightarrow> mapped list \<Rightarrow> table_def" where
  "table_of t ms = \<lparr>td_columns = map m_column ms, td_key = map (c_name \<circ> m_column) (filter m_key ms),
     td_unique = map (\<lambda>m. [c_name (m_column m)]) (filter (\<lambda>m. m_unique m \<and> \<not> m_index m) ms),
     td_indexes = map (\<lambda>m. \<lparr>x_name = ''ix_'' @ t @ ''_'' @ c_name (m_column m), x_columns = [c_name (m_column m)],
        x_unique = m_unique m\<rparr>) (filter m_index ms)\<rparr>"

definition classes :: "(string \<times> mapped list) list" where
  "classes = [(''log_entries'', log_entry_class), (''settings'', setting_class), (''trades'', trade_class),
     (''ml_jobs'', ml_job_class), (''universe_selections'', selection_class)]"

definition models_schema :: schema where
  "models_schema t = map_option (table_of t) (map_of classes t)"

section \<open>The migrations\<close>

datatype ddl =
    Create_table string "column list" "string list" "string list list"
  | Create_index string string "string list"
  | Drop_index string string
  | Drop_table string

fun run_ddl :: "ddl \<Rightarrow> schema \<Rightarrow> schema res" where
  "run_ddl (Create_table t cs k us) s =
     (if s t \<noteq> None then Inl DbError
      else Inr (s(t \<mapsto> \<lparr>td_columns = cs, td_key = k, td_unique = us, td_indexes = []\<rparr>)))"
| "run_ddl (Create_index i t cols) s = (case s t of
      None \<Rightarrow> Inl DbError
    | Some d \<Rightarrow> if i \<in> set (map x_name (td_indexes d)) \<or> \<not> set cols \<subseteq> set (map c_name (td_columns d)) then Inl DbError
        else Inr (s(t \<mapsto> d\<lparr>td_indexes := td_indexes d @ [\<lparr>x_name = i, x_columns = cols, x_unique = False\<rparr>]\<rparr>)))"
| "run_ddl (Drop_index i t) s = (case s t of
      None \<Rightarrow> Inl DbError
    | Some d \<Rightarrow> if i \<in> set (map x_name (td_indexes d))
        then Inr (s(t \<mapsto> d\<lparr>td_indexes := filter (\<lambda>x. x_name x \<noteq> i) (td_indexes d)\<rparr>)) else Inl DbError)"
| "run_ddl (Drop_table t) s = (if s t = None then Inl DbError else Inr (s(t := None)))"

fun run_all :: "ddl list \<Rightarrow> schema \<Rightarrow> schema res" where
  "run_all [] s = Inr s"
| "run_all (d # ds) s = res_bind (run_ddl d s) (run_all ds)"

record migration =
  revision :: string
  down_revision :: "string option"
  upgrade :: "ddl list"
  downgrade :: "ddl list"

definition initial_schema :: migration where
  "initial_schema = \<lparr>revision = ''0001'', down_revision = None,
     upgrade =
      [Create_table ''log_entries'' [auto_id, required ''timestamp'' SaDateTime, required ''level'' (SaString 10),
         required ''category'' (SaString 20), required ''module'' (SaString 100), required ''funcName'' (SaString 100),
         required ''lineno'' SaInteger, required ''message'' SaText, nullable ''extra'' SaJson] [''id''] [],
       Create_index ''ix_log_entries_timestamp'' ''log_entries'' [''timestamp''],
       Create_index ''ix_log_entries_level'' ''log_entries'' [''level''],
       Create_index ''ix_log_entries_category'' ''log_entries'' [''category''],
       Create_table ''settings'' [required ''key'' (SaString 100), required ''value'' SaText, nullable ''description'' SaText,
         required ''updated_at'' SaDateTime] [''key''] []],
     downgrade =
      [Drop_table ''settings'', Drop_index ''ix_log_entries_category'' ''log_entries'',
       Drop_index ''ix_log_entries_level'' ''log_entries'', Drop_index ''ix_log_entries_timestamp'' ''log_entries'',
       Drop_table ''log_entries'']\<rparr>"

definition add_trades :: migration where
  "add_trades = \<lparr>revision = ''0002'', down_revision = Some ''0001'',
     upgrade =
      [Create_table ''trades'' [auto_id, required ''symbol'' (SaString 20), required ''action'' (SaString 10),
         required ''trading_mode'' (SaString 10), required ''status'' (SaString 20), required ''shares'' SaInteger,
         required ''entry_price'' SaFloat, required ''target_price'' SaFloat, required ''stop_price'' SaFloat,
         nullable ''fill_price'' SaFloat, nullable ''exit_price'' SaFloat, nullable ''pnl'' SaFloat,
         nullable ''ibkr_order_id'' SaInteger, required ''ml_label'' (SaString 20), required ''ml_probability'' SaFloat,
         required ''confirmed_15min'' SaBoolean, nullable ''explanation'' SaText, required ''created_at'' SaDateTime,
         nullable ''filled_at'' SaDateTime, nullable ''closed_at'' SaDateTime] [''id''] [],
       Create_index ''ix_trades_symbol'' ''trades'' [''symbol''], Create_index ''ix_trades_status'' ''trades'' [''status''],
       Create_index ''ix_trades_created_at'' ''trades'' [''created_at'']],
     downgrade =
      [Drop_index ''ix_trades_created_at'' ''trades'', Drop_index ''ix_trades_status'' ''trades'',
       Drop_index ''ix_trades_symbol'' ''trades'', Drop_table ''trades'']\<rparr>"

definition add_ml_job :: migration where
  "add_ml_job = \<lparr>revision = ''0003'', down_revision = Some ''0002'',
     upgrade =
      [Create_table ''ml_jobs'' [auto_id, required ''job_type'' (SaString 20), required ''status'' (SaString 20),
         required ''started_at'' SaDateTime, nullable ''finished_at'' SaDateTime, nullable ''version'' (SaString 40),
         nullable ''metrics'' SaJson, nullable ''error'' SaText, nullable ''params'' SaJson,
         nullable ''requested_by'' (SaString 80)] [''id''] [],
       Create_index ''ix_ml_jobs_status'' ''ml_jobs'' [''status'']],
     downgrade = [Drop_index ''ix_ml_jobs_status'' ''ml_jobs'', Drop_table ''ml_jobs'']\<rparr>"

definition add_universe_selection :: migration where
  "add_universe_selection = \<lparr>revision = ''0004'', down_revision = Some ''0003'',
     upgrade =
      [Create_table ''universe_selections'' [auto_id, required ''scan_date'' SaDate, required ''candidates'' SaJson,
         nullable ''selected_symbol'' (SaString 20), required ''status'' (SaString 20), nullable ''reasoning'' SaText,
         required ''created_at'' SaDateTime, nullable ''decided_at'' SaDateTime, nullable ''decided_by'' (SaString 80)]
         [''id''] [[''scan_date'']],
       Create_index ''ix_universe_selections_scan_date'' ''universe_selections'' [''scan_date''],
       Create_index ''ix_universe_selections_status'' ''universe_selections'' [''status'']],
     downgrade =
      [Drop_index ''ix_universe_selections_status'' ''universe_selections'',
       Drop_index ''ix_universe_selections_scan_date'' ''universe_selections'', Drop_table ''universe_selections'']\<rparr>"

definition history :: "migration list" where
  "history = [initial_schema, add_trades, add_ml_job, add_universe_selection]"

definition migrate :: "migration list \<Rightarrow> schema \<Rightarrow> schema res" where
  "migrate ms s = run_all (concat (map upgrade ms)) s"

section \<open>Both schemas agree\<close>

text \<open>The column combinations a table keeps unique, beside its key.\<close>

definition kept_unique :: "table_def \<Rightarrow> string list set" where
  "kept_unique d = set (td_unique d) \<union> set (map x_columns (filter x_unique (td_indexes d)))"

definition table_view :: "table_def \<Rightarrow> column list \<times> string list \<times> string list set \<times> (string \<times> string list) list" where
  "table_view d = (td_columns d, td_key d, kept_unique d, map (\<lambda>x. (x_name x, x_columns x)) (td_indexes d))"

lemmas class_defs = log_entry_class_def setting_class_def trade_class_def ml_job_class_def selection_class_def
lemmas history_defs = history_def initial_schema_def add_trades_def add_ml_job_def add_universe_selection_def

lemma run_all_append: "run_all (xs @ ys) s = res_bind (run_all xs s) (run_all ys)"
proof (induction xs arbitrary: s)
  case (Cons x xs)
  then show ?case by (cases "run_ddl x s") simp_all
qed simp

text \<open>What each migration builds where its tables do not exist.\<close>

definition built_selections :: table_def where
  "built_selections = (table_of ''universe_selections'' selection_class)\<lparr>td_unique := [[''scan_date'']],
     td_indexes := map (\<lambda>x. x\<lparr>x_unique := False\<rparr>) (td_indexes (table_of ''universe_selections'' selection_class))\<rparr>"

lemma upgrade_initial:
  assumes "s ''log_entries'' = None" and "s ''settings'' = None"
  shows "run_all (upgrade initial_schema) s
    = Inr (s(''log_entries'' \<mapsto> table_of ''log_entries'' log_entry_class, ''settings'' \<mapsto> table_of ''settings'' setting_class))"
  using assms by (simp add: initial_schema_def class_defs table_of_def)

lemma upgrade_trades:
  assumes "s ''trades'' = None"
  shows "run_all (upgrade add_trades) s = Inr (s(''trades'' \<mapsto> table_of ''trades'' trade_class))"
  using assms by (simp add: add_trades_def class_defs table_of_def)

lemma upgrade_ml_job:
  assumes "s ''ml_jobs'' = None"
  shows "run_all (upgrade add_ml_job) s = Inr (s(''ml_jobs'' \<mapsto> table_of ''ml_jobs'' ml_job_class))"
  using assms by (simp add: add_ml_job_def class_defs table_of_def)

lemma upgrade_selection:
  assumes "s ''universe_selections'' = None"
  shows "run_all (upgrade add_universe_selection) s = Inr (s(''universe_selections'' \<mapsto> built_selections))"
  using assms by (simp add: add_universe_selection_def built_selections_def class_defs table_of_def)

lemma undo_initial:
  assumes "s ''log_entries'' = None" and "s ''settings'' = None"
  shows "run_all (downgrade initial_schema) (s(''log_entries'' \<mapsto> table_of ''log_entries'' log_entry_class,
    ''settings'' \<mapsto> table_of ''settings'' setting_class)) = Inr s"
  using assms by (simp add: initial_schema_def class_defs table_of_def) (simp add: fun_eq_iff)

lemma undo_trades:
  "s ''trades'' = None \<Longrightarrow> run_all (downgrade add_trades) (s(''trades'' \<mapsto> table_of ''trades'' trade_class)) = Inr s"
  by (simp add: add_trades_def class_defs table_of_def) (simp add: fun_eq_iff)

lemma undo_ml_job:
  "s ''ml_jobs'' = None \<Longrightarrow> run_all (downgrade add_ml_job) (s(''ml_jobs'' \<mapsto> table_of ''ml_jobs'' ml_job_class)) = Inr s"
  by (simp add: add_ml_job_def class_defs table_of_def) (simp add: fun_eq_iff)

lemma undo_selection:
  "s ''universe_selections'' = None \<Longrightarrow>
    run_all (downgrade add_universe_selection) (s(''universe_selections'' \<mapsto> built_selections)) = Inr s"
  by (simp add: add_universe_selection_def built_selections_def class_defs table_of_def) (simp add: fun_eq_iff)

text \<open>A migration that succeeds found no table of its own.\<close>

lemma upgrade_needs:
  "run_all (upgrade initial_schema) s = Inr t \<Longrightarrow> s ''log_entries'' = None \<and> s ''settings'' = None"
  "run_all (upgrade add_trades) s = Inr t \<Longrightarrow> s ''trades'' = None"
  "run_all (upgrade add_ml_job) s = Inr t \<Longrightarrow> s ''ml_jobs'' = None"
  "run_all (upgrade add_universe_selection) s = Inr t \<Longrightarrow> s ''universe_selections'' = None"
  by (cases "s ''settings''"; auto simp: history_defs split: if_splits)
     (auto simp: history_defs split: if_splits)

lemma views_differ: "table_view built_selections = table_view (table_of ''universe_selections'' selection_class)"
    "built_selections \<noteq> table_of ''universe_selections'' selection_class"
  by (auto simp: built_selections_def table_view_def kept_unique_def class_defs table_of_def)

text \<open>C23: Running the four migrations on an empty database builds exactly the tables of the model classes: the same
  columns with their types and nullability, the same keys, the same indexes, and the same uniqueness.  The
  schemas still differ in how the date of a selection is kept unique: by a constraint beside a plain index
  in the migration, by a unique index in the class.\<close>

theorem migrations_build_models:
  "map down_revision history = None # map Some (butlast (map revision history))
   \<and> (\<exists>s. migrate history Map.empty = Inr s
      \<and> (\<forall>t. map_option table_view (s t) = map_option table_view (models_schema t))
      \<and> {t. s t \<noteq> models_schema t} = {''universe_selections''})"
proof -
  let ?s = "[''log_entries'' \<mapsto> table_of ''log_entries'' log_entry_class, ''settings'' \<mapsto> table_of ''settings'' setting_class,
    ''trades'' \<mapsto> table_of ''trades'' trade_class, ''ml_jobs'' \<mapsto> table_of ''ml_jobs'' ml_job_class,
    ''universe_selections'' \<mapsto> built_selections]"
  have "migrate history Map.empty = Inr ?s"
    by (simp add: migrate_def history_def run_all_append upgrade_initial upgrade_trades upgrade_ml_job upgrade_selection)
  moreover have "?s t = models_schema t" if "t \<noteq> ''universe_selections''" for t
    using that by (simp add: models_schema_def classes_def)
  moreover have "models_schema ''universe_selections'' = Some (table_of ''universe_selections'' selection_class)"
    by (simp add: models_schema_def classes_def)
  moreover have "map down_revision history = None # map Some (butlast (map revision history))"
    by (simp add: history_defs)
  ultimately show ?thesis using views_differ by (intro conjI exI [of _ ?s]) auto
qed

text \<open>Each migration can be undone: whatever the schema it was run on, running its downgrade restores that schema.\<close>

theorem migrations_undone:
  assumes "m \<in> set history" and "run_all (upgrade m) s = Inr t"
  shows "run_all (downgrade m) t = Inr s"
proof -
  consider "m = initial_schema" | "m = add_trades" | "m = add_ml_job" | "m = add_universe_selection"
    using assms(1) by (auto simp: history_def)
  then show ?thesis
  proof cases
    case 1
    with assms(2) upgrade_needs(1) have "s ''log_entries'' = None" "s ''settings'' = None" by blast+
    with 1 assms(2) show ?thesis by (auto simp: upgrade_initial undo_initial)
  next
    case 2
    with assms(2) upgrade_needs(2) have "s ''trades'' = None" by blast
    with 2 assms(2) show ?thesis by (auto simp: upgrade_trades undo_trades)
  next
    case 3
    with assms(2) upgrade_needs(3) have "s ''ml_jobs'' = None" by blast
    with 3 assms(2) show ?thesis by (auto simp: upgrade_ml_job undo_ml_job)
  next
    case 4
    with assms(2) upgrade_needs(4) have "s ''universe_selections'' = None" by blast
    with 4 assms(2) show ?thesis by (auto simp: upgrade_selection undo_selection)
  qed
qed

lemma migrations_undone_witness:
  "run_all (downgrade add_trades) [''trades'' \<mapsto> table_of ''trades'' trade_class] = Inr Map.empty"
  using migrations_undone [of add_trades Map.empty] upgrade_trades [of Map.empty] by (simp add: history_def)

end
