(* ===== verification/Trade_Lifecycle.thy ===== *)
theory Trade_Lifecycle
  imports Eod_Close
begin

text \<open>
  The life of a trade row.  \<open>db/models.py\<close> documents it as a state machine of the column \<open>status\<close>; here that
  machine is a relation on rows, and the executor and the end-of-day close are shown to refine it, whatever the
  broker answers and whichever accesses to the database fail.
\<close>

section \<open>The state machine\<close>

text \<open>A row may skip a state whose update failed.\<close>

definition trade_edges :: "(string \<times> string) list" where
  "trade_edges = [(''pending'', ''open''), (''pending'', ''filled''), (''pending'', ''error''), (''pending'', ''dryrun''),
     (''open'', ''filled''), (''open'', ''error''), (''open'', ''closed''), (''filled'', ''closed'')]"

text \<open>What a row says about the order never changes.\<close>

definition order_of :: "trade \<Rightarrow> int \<times> string \<times> string \<times> string \<times> int \<times> pyfloat \<times> pyfloat \<times> pyfloat \<times> int" where
  "order_of t = (t_id t, t_symbol t, t_action t, t_mode t, t_shares t, t_entry t, t_target t, t_stop t, t_created t)"

definition trade_step :: "trade \<Rightarrow> trade \<Rightarrow> bool" where
  "trade_step a b \<longleftrightarrow> (t_status a, t_status b) \<in> set trade_edges \<and> order_of a = order_of b
     \<and> (t_status b \<in> {''filled'', ''dryrun''} \<or> t_fill b = t_fill a)
     \<and> (t_status b = ''closed'' \<or> t_exit b = t_exit a \<and> t_pnl b = t_pnl a)"

definition terminal :: "trade \<Rightarrow> bool" where
  "terminal t \<longleftrightarrow> t_status t \<in> {''closed'', ''error'', ''dryrun''}"

interpretation trade_life: lifecycle trade_step terminal
  by unfold_locales (auto simp: trade_step_def terminal_def trade_edges_def)

text \<open>A new row is pending and has neither fill nor result.\<close>

definition unborn :: "trade \<Rightarrow> bool" where
  "unborn t \<longleftrightarrow> t_status t = ''pending'' \<and> t_fill t = None \<and> t_exit t = None \<and> t_pnl t = None"

section \<open>Tables that evolve\<close>

definition grown :: "trade option \<Rightarrow> trade \<Rightarrow> bool" where
  "grown x s \<longleftrightarrow> (case x of Some r \<Rightarrow> trade_step\<^sup>*\<^sup>* r s | None \<Rightarrow> \<exists>r. unborn r \<and> trade_step\<^sup>*\<^sup>* r s)"

definition evolves :: "trade table \<Rightarrow> trade table \<Rightarrow> bool" where
  "evolves a b \<longleftrightarrow> (\<forall>i s. lookup_row t_id i b = Some s \<longrightarrow> grown (lookup_row t_id i a) s)
     \<and> (\<forall>i. lookup_row t_id i b = None \<longrightarrow> lookup_row t_id i a = None)"

lemma grown_trans: "grown x m \<Longrightarrow> trade_step\<^sup>*\<^sup>* m s \<Longrightarrow> grown x s"
  by (cases x) (auto simp: grown_def intro: rtranclp_trans)

lemma evolves_refl [simp]: "evolves a a"
  by (simp add: evolves_def grown_def)

lemma evolves_trans:
  assumes "evolves a b" and "evolves b c"
  shows "evolves a c"
  unfolding evolves_def
proof (intro conjI allI impI)
  fix i s assume s: "lookup_row t_id i c = Some s"
  show "grown (lookup_row t_id i a) s"
  proof (cases "lookup_row t_id i b")
    case None
    with assms s show ?thesis by (metis evolves_def)
  next
    case (Some m)
    have "grown (lookup_row t_id i b) s" using assms(2) s by (simp add: evolves_def)
    with Some have "trade_step\<^sup>*\<^sup>* m s" by (simp add: grown_def)
    moreover have "grown (lookup_row t_id i a) m" using assms(1) Some by (simp add: evolves_def)
    ultimately show ?thesis by (rule grown_trans [rotated])
  qed
next
  fix i assume "lookup_row t_id i c = None"
  with assms show "lookup_row t_id i a = None" by (simp add: evolves_def)
qed

lemma evolves_update:
  assumes "\<And>r. t_id (f r) = t_id r" and "\<And>r. lookup_row t_id i a = Some r \<Longrightarrow> trade_step r (f r)"
  shows "evolves a (update_row t_id i f a)"
  using assms(2) unfolding evolves_def
  by (auto simp: grown_def trade_tab.lookup_update [OF assms(1)] split: option.splits if_splits)

lemma evolves_insert:
  assumes "table_ok t_id a" and "insert_row (\<lambda>i t. t\<lparr>t_id := i\<rparr>) r a = (i, b)" and "unborn (r\<lparr>t_id := i\<rparr>)"
  shows "evolves a b"
proof -
  have "lookup_row t_id j b = (if j = i then Some (r\<lparr>t_id := i\<rparr>) else lookup_row t_id j a)" for j
    using trade_tab.lookup_insert [OF assms(1,2)] trade_tab.lookup_insert_other [OF assms(2)] by simp
  with trade_tab.insert_fresh [OF assms(1,2)] assms(3) show ?thesis
    unfolding evolves_def by (auto simp: grown_def split: option.split if_splits)
qed

section \<open>Operations that lead from one condition on the table to another\<close>

definition leads :: "(trade table \<Rightarrow> bool) \<Rightarrow> ('ib world, 'a) M \<Rightarrow> ('a \<Rightarrow> trade table \<Rightarrow> bool) \<Rightarrow> bool" where
  "leads P m Q \<longleftrightarrow> (\<forall>w x u. P (trades (db w)) \<longrightarrow> m w = (Inr x, u) \<longrightarrow> Q x (trades (db u)))"

named_theorems leads_rules \<open>rules for the conditions an operation leads to\<close>

lemma leads_bindM: "leads P m R \<Longrightarrow> (\<And>x. leads (R x) (f x) Q) \<Longrightarrow> leads P (bindM m f) Q"
  unfolding leads_def by (blast elim: bindM_InrE)

lemma leads_thenM: "leads P m (\<lambda>_. R) \<Longrightarrow> leads R n Q \<Longrightarrow> leads P (thenM m n) Q"
  unfolding leads_def by (blast elim: thenM_InrE)

lemma leads_ret: "(\<And>a. P a \<Longrightarrow> Q x a) \<Longrightarrow> leads P (ret x) Q"
  by (simp add: leads_def ret_def)

lemma leads_frame: "frame db m \<Longrightarrow> leads P m (\<lambda>_. P)"
  by (auto simp: leads_def dest: frameD)

lemma leads_weaken: "leads P m Q \<Longrightarrow> (\<And>x a. Q x a \<Longrightarrow> R x a) \<Longrightarrow> leads P m R"
  unfolding leads_def by blast

text \<open>The conditions used: \<open>since a\<close> says that the table has evolved from \<open>a\<close>; \<open>working a i\<close> that the row \<open>i\<close> is still open to
  a fill.\<close>

definition since :: "trade table \<Rightarrow> trade table \<Rightarrow> bool" where
  "since a b \<longleftrightarrow> table_ok t_id b \<and> evolves a b"

definition working :: "trade table \<Rightarrow> int \<Rightarrow> trade table \<Rightarrow> bool" where
  "working a i b \<longleftrightarrow> since a b \<and> (\<forall>r. lookup_row t_id i b = Some r \<longrightarrow> t_status r \<in> {''pending'', ''open''})"

lemma working_since: "working a i b \<Longrightarrow> since a b"
  by (simp add: working_def)

lemma since_update:
  assumes "since a b" and "\<And>r. t_id (f r) = t_id r" and "\<And>r. lookup_row t_id i b = Some r \<Longrightarrow> trade_step r (f r)"
  shows "since a (update_row t_id i f b)"
  using assms(1) evolves_update [OF assms(2,3)] trade_tab.update_ok [OF _ assms(2)] unfolding since_def
  by (blast intro: evolves_trans)

lemma update_trade_table:
  assumes "update_trade (Some i) f w = (x, u)"
  shows "trades (db u) = trades (db w) \<or> trades (db u) = update_row t_id i f (trades (db w))"
  using assms by (auto simp: update_trade_def execute_update_apply try_except_def ret_def split: if_splits)

text \<open>The last update of the executor, and the one to \<open>open\<close>.\<close>

lemma leads_settle:
  assumes "\<And>r. order_of (f r) = order_of r" and "\<And>r. t_exit (f r) = t_exit r" and "\<And>r. t_pnl (f r) = t_pnl r"
    and "\<And>r. t_status (f r) = st" and "st = ''filled'' \<or> st = ''error'' \<and> (\<forall>r. t_fill (f r) = t_fill r)"
  shows "leads (working a i) (update_trade (Some i) f) (\<lambda>_. since a)"
  unfolding leads_def
proof (intro allI impI)
  fix w :: "'a world" and x u
  assume work: "working a i (trades (db w))" and run: "update_trade (Some i) f w = (Inr x, u)"
  have id: "t_id (f r) = t_id r" for r using assms(1) [of r] by (simp add: order_of_def)
  have "trade_step r (f r)" if "lookup_row t_id i (trades (db w)) = Some r" for r
    using work that assms by (auto simp: working_def trade_step_def trade_edges_def)
  from since_update [OF working_since [OF work] id this] update_trade_table [OF run] working_since [OF work]
  show "since a (trades (db u))" by auto
qed

lemma leads_open:
  "leads (\<lambda>b. working a i b \<and> (\<forall>r. lookup_row t_id i b = Some r \<longrightarrow> t_status r = ''pending''))
     (update_trade (Some i) (\<lambda>t. t\<lparr>t_status := ''open'', t_order_id := oid\<rparr>)) (\<lambda>_. working a i)"
  unfolding leads_def
proof (intro allI impI)
  let ?f = "\<lambda>t :: trade. t\<lparr>t_status := ''open'', t_order_id := oid\<rparr>"
  fix w :: "'a world" and x u
  assume pre: "working a i (trades (db w)) \<and> (\<forall>r. lookup_row t_id i (trades (db w)) = Some r \<longrightarrow> t_status r = ''pending'')"
    and run: "update_trade (Some i) ?f w = (Inr x, u)"
  have "since a (update_row t_id i ?f (trades (db w)))"
    using pre by (intro since_update) (auto simp: working_def trade_step_def trade_edges_def order_of_def)
  moreover have "t_status r = ''open''" if "lookup_row t_id i (update_row t_id i ?f (trades (db w))) = Some r" for r
    using that by (auto simp: trade_tab.lookup_update)
  ultimately show "working a i (trades (db u))"
    using pre update_trade_table [OF run] by (auto simp: working_def)
qed

section \<open>The executor refines the machine\<close>

text \<open>What the executor does between two updates of the row leaves the database alone.\<close>

context order_broker
begin

lemma leads_wait: "leads P (wait_for_fill B j timeout) (\<lambda>_. P)"
  by (rule leads_frame [OF book_frames(1) [OF wait_book]])

lemma leads_report:
  assumes "\<And>r. order_of (ids r) = order_of r" "\<And>r. t_exit (ids r) = t_exit r" "\<And>r. t_pnl (ids r) = t_pnl r"
  shows "leads (working a i) (report_fill sig dec (Some i) ids oid p reason) (\<lambda>_. since a)"
  unfolding report_fill_def
proof (rule leads_bindM [OF leads_frame])
  fix now
  have "order_of (f (ids r)) = order_of r" if "\<And>s. order_of (f s) = order_of s" for f r using that assms(1) by simp
  show "leads (working a i) (thenM (update_trade (Some i) (\<lambda>t. (ids t)\<lparr>t_status := ''filled'', t_fill := Some p,
      t_filled_at := Some now\<rparr>)) (ret (result_of sig dec True (Some i) oid (Some p) reason))) (\<lambda>_. since a)"
    using assms by (intro leads_thenM [OF leads_settle leads_ret]) (auto simp: order_of_def)
qed (simp add: frame_rules)

lemma leads_failed: "leads (working a i) (thenM (update_trade (Some i) (\<lambda>t. t\<lparr>t_status := ''error''\<rparr>)) (ret res)) (\<lambda>_. since a)"
  by (intro leads_thenM [OF leads_settle leads_ret]) (auto simp: order_of_def)

lemma leads_monitor: "leads (working a i) (monitor_order B sig dec (Some i) side oid) (\<lambda>_. since a)"
proof -
  have timeout: "leads P fill_timeout (\<lambda>_. P)" for P
    by (rule leads_frame, rule state_frames(1)) (auto simp: fill_timeout_def intro!: frame_rules)
  have cancel: "leads P (try_except (b_cancel B oid) any_exception (\<lambda>_. ret ())) (\<lambda>_. P)" for P
    by (rule leads_frame [OF book_frames(1) [OF cancel_try_book]])
  have market: "leads P (market_fallback B sig dec side) (\<lambda>_. P)" for P
    by (rule leads_frame [OF book_frames(1) [OF fallback_book]])
  have "leads (working a i) (after_timeout B sig dec (Some i) side oid) (\<lambda>_. since a)"
    unfolding after_timeout_def
  proof (intro leads_thenM [OF cancel] leads_bindM [OF market])
    fix m show "leads (working a i) (case m of (mkt_fill, mkt_order_id) \<Rightarrow> case mkt_fill of
        None \<Rightarrow> thenM (update_trade (Some i) (\<lambda>t. t\<lparr>t_status := ''error''\<rparr>))
          (ret (result_of sig dec False (Some i) None None ''Order unfilled after limit timeout and market fallback.''))
      | Some p \<Rightarrow> report_fill sig dec (Some i) (\<lambda>t. t\<lparr>t_order_id := mkt_order_id\<rparr>) mkt_order_id p
          ''Filled via market order after limit timeout.'') (\<lambda>_. since a)"
      by (auto split: prod.split option.split intro!: leads_failed leads_report simp: order_of_def)
  qed
  then show ?thesis
    unfolding monitor_order_def
    by (intro leads_bindM [OF timeout] leads_bindM [OF leads_wait]) (auto split: option.split intro!: leads_report)
qed

end

text \<open>A row that has just been created is pending.\<close>

definition created :: "trade table \<Rightarrow> int option \<Rightarrow> trade table \<Rightarrow> bool" where
  "created a x b \<longleftrightarrow> since a b \<and> (\<forall>i. x = Some i \<longrightarrow> (\<forall>r. lookup_row t_id i b = Some r \<longrightarrow> t_status r = ''pending''))"

lemma created_working: "created a (Some i) b \<Longrightarrow>
    working a i b \<and> (\<forall>r. lookup_row t_id i b = Some r \<longrightarrow> t_status r = ''pending'')"
  by (auto simp: created_def working_def)

lemma leads_create: "leads (since a) (create_trade_record sig dec mode) (created a)"
  unfolding leads_def
proof (intro allI impI)
  fix w :: "'a world" and x u
  assume since: "since a (trades (db w))" and run: "create_trade_record sig dec mode w = (Inr x, u)"
  obtain i ts where ins: "insert_row (\<lambda>i t. t\<lparr>t_id := i\<rparr>) (trade_of sig dec mode (clock w)) (trades (db w)) = (i, ts)" by force
  have ok: "table_ok t_id (trades (db w))" using since by (simp add: since_def)
  have "evolves (trades (db w)) ts" by (rule evolves_insert [OF ok ins]) (simp add: unborn_def trade_of_def)
  with since trade_tab.insert_ok [OF ok ins] have grown: "since a ts" unfolding since_def by (blast intro: evolves_trans)
  have new: "lookup_row t_id i ts = Some ((trade_of sig dec mode (clock w))\<lparr>t_id := i\<rparr>)"
    by (rule trade_tab.lookup_insert [OF ok ins])
  from run ins have "x = None \<and> trades (db u) = trades (db w) \<or> x = Some i \<and> trades (db u) = ts"
    by (auto simp: create_trade_record_def bindM_def gets_def try_except_def with_session_def Let_def ret_def split: if_splits)
  with since grown new show "created a x (trades (db u))" by (auto simp: created_def trade_of_def)
qed

lemma leads_pre: "leads P m Q \<Longrightarrow> (\<And>a. P' a \<Longrightarrow> P a) \<Longrightarrow> leads P' m Q"
  unfolding leads_def by blast

lemma leads_dryrun: "leads (created a (Some i)) (update_trade (Some i) (\<lambda>t. t\<lparr>t_status := ''dryrun'', t_fill := p\<rparr>)) (\<lambda>_. since a)"
  unfolding leads_def
proof (intro allI impI)
  fix w :: "'a world" and x u
  assume "created a (Some i) (trades (db w))" and "update_trade (Some i) (\<lambda>t. t\<lparr>t_status := ''dryrun'', t_fill := p\<rparr>) w = (Inr x, u)"
  then show "since a (trades (db u))"
    using since_update [of a "trades (db w)" "\<lambda>t. t\<lparr>t_status := ''dryrun'', t_fill := p\<rparr>" i] update_trade_table
    by (fastforce simp: created_def trade_step_def trade_edges_def order_of_def)
qed

context order_broker
begin

lemma leads_send: "leads (created a (Some i)) (send_order env sig dec (Some i) B) (\<lambda>_. since a)"
proof -
  have place: "leads P (place_limit B sig dec side) (\<lambda>_. P)" for P side
    by (rule leads_frame [OF book_frames(1) [OF place_limit_book]])
  have "leads (created a (Some i)) (thenM (update_trade (Some i) (\<lambda>t. t\<lparr>t_status := ''open'', t_order_id := oid\<rparr>))
      (monitor_order B sig dec (Some i) side j)) (\<lambda>_. since a)" for oid side j
    by (rule leads_pre [OF leads_thenM [OF leads_open leads_monitor] created_working])
  moreover have "leads (created a (Some i)) (thenM (update_trade (Some i) (\<lambda>t. t\<lparr>t_status := ''error''\<rparr>)) (ret res)) (\<lambda>_. since a)"
    for res using created_working by (blast intro: leads_pre [OF leads_failed])
  ultimately show ?thesis
    unfolding send_order_def Let_def by (intro leads_bindM [OF place]) (auto split: sum.split)
qed

lemma leads_execute: "leads (since a) (execute env sig dec mode (Some B)) (\<lambda>_. since a)"
proof (cases "d_approved dec")
  case True
  then show ?thesis
    unfolding execute_def
  proof (simp only: not_True_eq_False if_False, intro leads_bindM [OF leads_create])
    fix x
    show "leads (created a x) (if x = None then ret (result_of sig dec False None None None ''Trade record creation failed - order aborted.'')
        else if mode = ''dryrun'' then thenM (update_trade x (\<lambda>t. t\<lparr>t_status := ''dryrun'', t_fill := Some (g_entry sig)\<rparr>))
          (ret (result_of sig dec True x None (Some (g_entry sig)) ''Dryrun - order logged.''))
        else (case Some B of
          None \<Rightarrow> thenM (update_trade x (\<lambda>t. t\<lparr>t_status := ''error''\<rparr>))
            (ret (result_of sig dec False x None None ''No broker configured.''))
        | Some B \<Rightarrow> send_order env sig dec x B)) (\<lambda>_. since a)"
      by (cases x) (auto intro!: leads_ret leads_send leads_thenM [OF leads_dryrun leads_ret] simp: created_def)
  qed
qed (simp add: execute_def leads_ret)

end

text \<open>Without a broker.\<close>

lemma leads_execute_none: "leads (since a) (execute env sig dec mode None) (\<lambda>_. since a)"
proof (cases "d_approved dec")
  case True
  have failed: "leads (created a (Some i)) (thenM (update_trade (Some i) (\<lambda>t. t\<lparr>t_status := ''error''\<rparr>)) (ret res)) (\<lambda>_. since a)"
    for i res
    by (rule leads_pre [of "working a i"], intro leads_thenM [OF leads_settle leads_ret])
       (auto simp: order_of_def dest: created_working)
  from True show ?thesis
    unfolding execute_def
  proof (simp only: not_True_eq_False if_False, intro leads_bindM [OF leads_create])
    fix x
    show "leads (created a x) (if x = None then ret (result_of sig dec False None None None ''Trade record creation failed - order aborted.'')
        else if mode = ''dryrun'' then thenM (update_trade x (\<lambda>t. t\<lparr>t_status := ''dryrun'', t_fill := Some (g_entry sig)\<rparr>))
          (ret (result_of sig dec True x None (Some (g_entry sig)) ''Dryrun - order logged.''))
        else (case None of
          None \<Rightarrow> thenM (update_trade x (\<lambda>t. t\<lparr>t_status := ''error''\<rparr>))
            (ret (result_of sig dec False x None None ''No broker configured.''))
        | Some B \<Rightarrow> send_order env sig dec x B)) (\<lambda>_. since a)"
      by (cases x) (auto intro!: leads_ret failed leads_thenM [OF leads_dryrun leads_ret] simp: created_def)
  qed
qed (simp add: execute_def leads_ret)

section \<open>The end-of-day close refines it, too\<close>

lemma mark_closed_since: "leads (since a) (mark_trade_closed symbol p) (\<lambda>_. since a)"
  unfolding leads_def
proof (intro allI impI)
  fix w :: "'a world" and x u
  assume since: "since a (trades (db w))" and run: "mark_trade_closed symbol p w = (Inr x, u)"
  show "since a (trades (db u))"
  proof (cases "open_trade symbol (db w)")
    case None
    with since run show ?thesis
      by (auto simp: mark_trade_closed_def bindM_def gets_def try_except_def execute_update_apply ret_def split: if_splits)
  next
    case (Some row)
    let ?f = "closed_trade p (clock w)"
    have "row \<in> set (rows (trades (db w)))" "t_status row \<in> {''open'', ''filled''}"
      using open_trade_in [OF Some] by auto
    moreover have "table_ok t_id (trades (db w))" using since by (simp add: since_def)
    ultimately have "lookup_row t_id (t_id row) (trades (db w)) = Some row" by (simp add: trade_tab.lookup_iff_member)
    then have "since a (update_row t_id (t_id row) ?f (trades (db w)))"
      using since \<open>t_status row \<in> {''open'', ''filled''}\<close>
      by (intro since_update) (auto simp: closed_trade_def trade_step_def trade_edges_def order_of_def)
    with since run Some show ?thesis
      by (auto simp: mark_trade_closed_def bindM_def gets_def try_except_def execute_update_apply ret_def split: if_splits)
  qed
qed

context order_broker
begin

lemma leads_close_position: "leads (since a) (close_position env B pos) (\<lambda>_. since a)"
proof -
  have place: "leads P (try_except (bindM (b_place B s side n ''MKT'' None) (\<lambda>i. ret (Inr i))) any_exception (\<lambda>e. ret (Inl e))) (\<lambda>_. P)"
    for P s side n
    by (rule leads_frame, rule book_frames(1)) (intro frame_rules place_book)
  have alert: "leads P (try_except (notify env ev payload) any_exception (\<lambda>_. ret ())) (\<lambda>_. P)" for P ev payload
    by (rule leads_frame) (intro frame_rules state_frames(1) [OF frame_state_notify])
  have "leads (since a) (await_close env B s side n i) (\<lambda>_. since a)" for s side n i
    unfolding await_close_def
    by (intro leads_bindM [OF leads_wait] leads_thenM [OF mark_closed_since])
       (auto split: option.split intro!: leads_ret leads_thenM [OF alert leads_ret])
  then show ?thesis
    unfolding close_position_def Let_def
    by (auto intro!: leads_ret leads_bindM [OF place] leads_bindM split: sum.split)
qed

lemma leads_close_each: "leads (since a) (close_each env B ps) (\<lambda>_. since a)"
  by (induction ps) (auto intro!: leads_ret leads_bindM [OF leads_close_position] leads_bindM)

lemma leads_close_all: "leads (since a) (close_all_positions env (Some B) mode) (\<lambda>_. since a)"
proof -
  have "leads P (try_except (b_positions B) any_exception (\<lambda>_. ret [])) (\<lambda>_. P)" for P
    by (rule leads_frame, rule book_frames(1)) (intro frame_rules positions_book)
  then show ?thesis
    unfolding close_all_positions_def by (auto intro!: leads_ret leads_bindM leads_close_each)
qed

end

lemma leads_close_none: "leads (since a) (close_all_positions env None mode) (\<lambda>_. since a)"
proof -
  have "leads P (try_except (notify env ev payload) any_exception (\<lambda>_. ret ())) (\<lambda>_. P)" for P ev payload
    by (rule leads_frame) (intro frame_rules state_frames(1) [OF frame_state_notify])
  then show ?thesis unfolding close_all_positions_def by (auto intro!: leads_ret leads_thenM)
qed

section \<open>Runs\<close>

text \<open>Executions and closes over one connection, in any order, and in between whatever leaves the trades alone.\<close>

inductive order_run :: "'ib ib_api \<Rightarrow> 'ib world \<Rightarrow> 'ib world \<Rightarrow> bool" for api w0 where
  start: "order_run api w0 w0"
| execution: "order_run api w0 w \<Longrightarrow> execute env sig dec mode (map_option (ibkr_broker api) c) w = (r, u) \<Longrightarrow> order_run api w0 u"
| closing: "order_run api w0 w \<Longrightarrow> close_all_positions env (map_option (ibkr_broker api) c) mode w = (r, u) \<Longrightarrow> order_run api w0 u"
| other: "order_run api w0 w \<Longrightarrow> trades (db u) = trades (db w) \<Longrightarrow> order_run api w0 u"

lemma leadsD: "leads P m Q \<Longrightarrow> never_raises m \<Longrightarrow> m w = (r, u) \<Longrightarrow> P (trades (db w)) \<Longrightarrow> \<exists>x. Q x (trades (db u))"
  unfolding leads_def never_raises_def by (metis Pair_inject)

lemma order_run_since: "order_run api w0 w \<Longrightarrow> table_ok t_id (trades (db w0)) \<Longrightarrow> since (trades (db w0)) (trades (db w))"
proof (induction rule: order_run.induct)
  case start
  then show ?case by (simp add: since_def)
next
  case (execution w env sig dec mode c r u)
  have "leads (since (trades (db w0))) (execute env sig dec mode (map_option (ibkr_broker api) c)) (\<lambda>_. since (trades (db w0)))"
    by (cases c) (simp_all add: leads_execute_none ibkr.leads_execute)
  from leadsD [OF this execute_returns execution.hyps(2)] execution show ?case by blast
next
  case (closing w env c mode r u)
  have "leads (since (trades (db w0))) (close_all_positions env (map_option (ibkr_broker api) c) mode) (\<lambda>_. since (trades (db w0)))"
    by (cases c) (simp_all add: leads_close_none ibkr.leads_close_all)
  from leadsD [OF this close_all_returns closing.hyps(2)] closing show ?case by blast
next
  case (other w u)
  then show ?case by simp
qed

lemma reached_status: "trade_step\<^sup>*\<^sup>* r s \<Longrightarrow> unborn r \<Longrightarrow>
    t_status s \<in> {''pending'', ''open'', ''filled'', ''closed'', ''error'', ''dryrun''}"
  by (induction rule: rtranclp_induct) (auto simp: unborn_def trade_step_def trade_edges_def)

text \<open>A result is only ever written together with the status \<open>closed\<close>.\<close>

lemma reached_pnl: "trade_step\<^sup>*\<^sup>* r s \<Longrightarrow> unborn r \<Longrightarrow> t_pnl s \<noteq> None \<Longrightarrow> t_status s = ''closed''"
  by (induction rule: rtranclp_induct) (auto simp: unborn_def trade_step_def trade_edges_def)

text \<open>C2: The trade table follows its state machine.  In any run of executions and end-of-day closes, whatever IBKR answers
  and whichever accesses to the database fail, no row is lost, what a row says about its order never
  changes, its status moves only along pending, open, filled, closed or to error or dryrun, a closed,
  failed or simulated trade is never touched again, a new row starts pending, and a profit or loss is
  only ever stored in a closed trade.\<close>

theorem trades_follow_lifecycle:
  assumes "order_run api w u" and "table_ok t_id (trades (db w))"
  shows "table_ok t_id (trades (db u))
    \<and> (\<forall>i r. lookup_row t_id i (trades (db w)) = Some r \<longrightarrow> (\<exists>s. lookup_row t_id i (trades (db u)) = Some s
          \<and> trade_step\<^sup>*\<^sup>* r s \<and> (terminal r \<longrightarrow> s = r)))
    \<and> (\<forall>i s. lookup_row t_id i (trades (db w)) = None \<and> lookup_row t_id i (trades (db u)) = Some s \<longrightarrow>
          (\<exists>r. unborn r \<and> trade_step\<^sup>*\<^sup>* r s)
          \<and> t_status s \<in> {''pending'', ''open'', ''filled'', ''closed'', ''error'', ''dryrun''}
          \<and> (t_pnl s \<noteq> None \<longrightarrow> t_status s = ''closed''))"
proof -
  have since: "since (trades (db w)) (trades (db u))" using order_run_since assms by blast
  have grown: "grown (lookup_row t_id i (trades (db w))) s" if "lookup_row t_id i (trades (db u)) = Some s" for i s
    using since that by (simp add: since_def evolves_def)
  have "\<exists>s. lookup_row t_id i (trades (db u)) = Some s \<and> trade_step\<^sup>*\<^sup>* r s \<and> (terminal r \<longrightarrow> s = r)"
    if r: "lookup_row t_id i (trades (db w)) = Some r" for i r
  proof (cases "lookup_row t_id i (trades (db u))")
    case None
    with since r show ?thesis by (simp add: since_def evolves_def)
  next
    case (Some s)
    with grown [OF Some] r have "trade_step\<^sup>*\<^sup>* r s" by (simp add: grown_def)
    with Some trade_life.final_forever show ?thesis by blast
  qed
  moreover have "\<exists>r. unborn r \<and> trade_step\<^sup>*\<^sup>* r s"
    if "lookup_row t_id i (trades (db w)) = None" "lookup_row t_id i (trades (db u)) = Some s" for i s
    using grown [OF that(2)] that(1) by (simp add: grown_def)
  ultimately show ?thesis using since reached_status reached_pnl unfolding since_def by blast
qed

lemma trades_follow_lifecycle_witness:
  "\<exists>r w q u. execute plain_env demo_signal demo_decision ''paper'' (Some (ibkr_broker paper_api paper_conn)) (boot_world 0) = (r, w)
     \<and> close_all_positions plain_env (Some (ibkr_broker paper_api paper_conn)) ''paper'' w = (q, u)
     \<and> table_ok t_id (trades (db u)) \<and> (\<forall>i s. lookup_row t_id i (trades (db u)) = Some s \<longrightarrow> (\<exists>r. unborn r \<and> trade_step\<^sup>*\<^sup>* r s))"
proof -
  let ?b = "map_option (ibkr_broker paper_api) (Some paper_conn)"
  obtain r w where w: "execute plain_env demo_signal demo_decision ''paper'' ?b (boot_world 0) = (r, w)" by force
  obtain q u where u: "close_all_positions plain_env ?b ''paper'' w = (q, u)" by force
  have run: "order_run paper_api (boot_world 0) u"
    by (rule order_run.closing [OF order_run.execution [OF order_run.start w] u])
  have empty: "table_ok t_id (trades (db (boot_world (0 :: nat))))" "lookup_row t_id i (trades (db (boot_world (0 :: nat)))) = None" for i
    by (simp_all add: boot_world_def empty_db_def empty_table_def table_ok_def lookup_row_def)
  from trades_follow_lifecycle [OF run empty(1)] empty(2) w u show ?thesis by fastforce
qed

end
